(* ===== verification/Prelude.thy ===== *)
theory Prelude
  imports Main "HOL-Library.Word"
begin

text \<open>
  Shared vocabulary of the development: the machine integers of the Rust code
  (\<open>u8\<close>, \<open>u16\<close>, \<open>u32\<close>, \<open>u64\<close> as words), the standard library's
  saturating operations on them with their \<open>unat\<close> laws, and the collections of
  hints the component theories fill. A plain \<open>+\<close> or \<open>-\<close> on an unsigned
  integer is the word operation, i.e. what a release build computes (the crate has no
  profile that turns overflow checks on).
\<close>

named_theorems sat_unat "unat of saturating and checked operations"
named_theorems layout_simps "equations of the pane tree operations"
named_theorems terminal_frame "fields a terminal operation leaves alone"
named_theorems gate_defs "definitions of the sequence gates"

section \<open>Machine integers\<close>

type_synonym u8 = "8 word"
type_synonym u16 = "16 word"
type_synonym u32 = "32 word"
type_synonym u64 = "64 word"

text \<open>\<open>saturating_sub\<close>, \<open>saturating_add\<close>, \<open>saturating_mul\<close>.\<close>

definition sat_sub :: "'a::len word \<Rightarrow> 'a word \<Rightarrow> 'a word" where
  "sat_sub a b = (if b \<le> a then a - b else 0)"

definition sat_add :: "'a::len word \<Rightarrow> 'a word \<Rightarrow> 'a word" where
  "sat_add a b = (if unat a + unat b < 2 ^ LENGTH('a) then a + b else - 1)"

definition sat_mul :: "'a::len word \<Rightarrow> 'a word \<Rightarrow> 'a word" where
  "sat_mul a b = (if unat a * unat b < 2 ^ LENGTH('a) then a * b else - 1)"

definition abs_diff :: "'a::len word \<Rightarrow> 'a word \<Rightarrow> 'a word" where
  "abs_diff a b = (if a < b then b - a else a - b)"

text \<open>\<open>Ord::clamp\<close>; the library panics when \<open>lo > hi\<close>, which is \<open>None\<close>.\<close>

definition clamp_word :: "'a::len word \<Rightarrow> 'a word \<Rightarrow> 'a word \<Rightarrow> 'a word option" where
  "clamp_word x lo hi =
     (if hi < lo then None else Some (if x < lo then lo else if hi < x then hi else x))"

lemma unat_max_word: "unat (- 1 :: 'a::len word) = 2 ^ LENGTH('a) - 1"
  by (simp add: unsigned_minus_1_eq_mask mask_eq_exp_minus_1)

lemma unat_sat_sub [sat_unat]: "unat (sat_sub a b) = unat a - unat b"
  by (auto simp: sat_sub_def unat_sub word_le_nat_alt)

lemma unat_sat_add [sat_unat]:
  fixes a b :: "'a::len word"
  shows "unat (sat_add a b) = min (unat a + unat b) (2 ^ LENGTH('a) - 1)"
  by (auto simp: sat_add_def unat_word_ariths unat_max_word)

lemma unat_sat_mul [sat_unat]:
  fixes a b :: "'a::len word"
  shows "unat (sat_mul a b) = min (unat a * unat b) (2 ^ LENGTH('a) - 1)"
  by (auto simp: sat_mul_def unat_word_ariths unat_max_word)

lemma unat_add_small:
  fixes a b :: "'a::len word"
  shows "unat a + unat b < 2 ^ LENGTH('a) \<Longrightarrow> unat (a + b) = unat a + unat b"
  by (simp add: unat_word_ariths)

lemma unat_sub_le: "b \<le> a \<Longrightarrow> unat (a - b) = unat a - unat b"
  for a b :: "'a::len word"
  by (simp add: unat_sub)

lemma unat_u16_le: "unat (w :: u16) \<le> 65535"
  using unsigned_less [of w, where 'a = nat] by simp

lemma unat_u8_le: "unat (w :: u8) \<le> 255"
  using unsigned_less [of w, where 'a = nat] by simp

lemma sat_sub_zero [simp]: "sat_sub a 0 = a"
  by (simp add: sat_sub_def)

lemma clamp_word_Some:
  "lo \<le> hi \<Longrightarrow> \<exists>y. clamp_word x lo hi = Some y \<and> lo \<le> y \<and> y \<le> hi \<and> (lo \<le> x \<and> x \<le> hi \<longrightarrow> y = x)"
  for x lo hi :: "'a::len word"
  by (auto simp: clamp_word_def)

section \<open>Options\<close>

text \<open>\<open>Option::is_some_and\<close> and \<open>Option::is_none_or\<close>.\<close>

definition is_some_and :: "'a option \<Rightarrow> ('a \<Rightarrow> bool) \<Rightarrow> bool" where
  "is_some_and x p = (case x of None \<Rightarrow> False | Some y \<Rightarrow> p y)"

definition is_none_or :: "'a option \<Rightarrow> ('a \<Rightarrow> bool) \<Rightarrow> bool" where
  "is_none_or x p = (case x of None \<Rightarrow> True | Some y \<Rightarrow> p y)"

definition unwrap_or :: "'a option \<Rightarrow> 'a \<Rightarrow> 'a" where
  "unwrap_or x d = (case x of None \<Rightarrow> d | Some y \<Rightarrow> y)"

definition or_else :: "'a option \<Rightarrow> 'a option \<Rightarrow> 'a option" where
  "or_else x y = (case x of None \<Rightarrow> y | Some _ \<Rightarrow> x)"

lemma option_ops [simp]:
  "is_some_and None p = False" "is_some_and (Some a) p = p a"
  "is_none_or None p = True" "is_none_or (Some a) p = p a"
  "unwrap_or None d = d" "unwrap_or (Some a) d = a"
  "or_else None y = y" "or_else (Some a) y = Some a"
  by (simp_all add: is_some_and_def is_none_or_def unwrap_or_def or_else_def)

section \<open>Lists\<close>

text \<open>\<open>Iterator::min_by_key\<close> returns the first of the minimal elements.\<close>

fun min_by_key :: "('a \<Rightarrow> 'k::linorder) \<Rightarrow> 'a list \<Rightarrow> 'a option" where
  "min_by_key k [] = None"
| "min_by_key k (x # xs) =
     (case min_by_key k xs of None \<Rightarrow> Some x | Some y \<Rightarrow> if k y < k x then Some y else Some x)"

text \<open>\<open>Iterator::max_by_key\<close> returns the last of the maximal elements.\<close>

fun max_by_key :: "('a \<Rightarrow> 'k::linorder) \<Rightarrow> 'a list \<Rightarrow> 'a option" where
  "max_by_key k [] = None"
| "max_by_key k (x # xs) =
     (case max_by_key k xs of None \<Rightarrow> Some x | Some y \<Rightarrow> if k y < k x then Some x else Some y)"

lemma min_by_key_None [simp]: "min_by_key k xs = None \<longleftrightarrow> xs = []"
  by (cases xs) (auto split: option.splits)

lemma max_by_key_None [simp]: "max_by_key k xs = None \<longleftrightarrow> xs = []"
  by (cases xs) (auto split: option.splits)

lemma min_by_key_Some: "min_by_key k xs = Some y \<Longrightarrow> y \<in> set xs \<and> (\<forall>x \<in> set xs. k y \<le> k x)"
  by (induction xs arbitrary: y) (fastforce split: option.splits if_splits)+

lemma max_by_key_Some: "max_by_key k xs = Some y \<Longrightarrow> y \<in> set xs \<and> (\<forall>x \<in> set xs. k x \<le> k y)"
  by (induction xs arbitrary: y) (fastforce split: option.splits if_splits)+

section \<open>Time\<close>

text \<open>
  \<open>Instant\<close> and \<open>Duration\<close> in nanoseconds. An instant is a pair of \<open>i64\<close>
  seconds and nanoseconds below one second on the Unix targets; \<open>checked_add\<close> fails past
  the last one. \<open>duration_since\<close> saturates at zero.
\<close>

type_synonym instant = nat
type_synonym duration = nat

definition instant_max :: instant where
  "instant_max = (2 ^ 63 - 1) * 10 ^ 9 + (10 ^ 9 - 1)"

definition instant_checked_add :: "instant \<Rightarrow> duration \<Rightarrow> instant option" where
  "instant_checked_add t d = (if t + d \<le> instant_max then Some (t + d) else None)"

definition duration_since :: "instant \<Rightarrow> instant \<Rightarrow> duration" where
  "duration_since now earlier = now - earlier"

end
