(* ===== verification/F32.thy ===== *)
theory F32
  imports Prelude
begin

text \<open>
  The part of Rust's \<open>f32\<close> that the pane layout computes with: IEEE binary32 values,
  rounding to nearest with ties to even, comparison, \<open>clamp\<close>, negation, addition, the
  product of a \<open>u16\<close> (converted with \<open>as f32\<close>, which is exact) and a float,
  \<open>round\<close> and the saturating cast \<open>as u16\<close>. Every finite value is an integral
  multiple of \<open>2\<^sup>-\<^sup>1\<^sup>4\<^sup>9\<close>, the least subnormal, and is represented by that integer.
  The two zeros are one value here: no operation of the layout tells them apart.
\<close>

datatype f32 = NaN | Infinite bool \<comment> \<open>True: negative\<close> | Fin int

text \<open>One, in units of the least subnormal.\<close>

definition f32_one :: int where
  "f32_one = 2 ^ 149"

definition f32_limit :: int where
  "f32_limit = 2 ^ 277"  \<comment> \<open>\<open>2\<^sup>1\<^sup>2\<^sup>8\<close>, the first magnitude that overflows\<close>

fun bit_size :: "nat \<Rightarrow> nat" where
  "bit_size n = (if n = 0 then 0 else Suc (bit_size (n div 2)))"

declare bit_size.simps [simp del]

text \<open>Nearest multiple of \<open>2 ^ k\<close>, ties to the even multiple.\<close>

definition round_even :: "nat \<Rightarrow> nat \<Rightarrow> nat" where
  "round_even k n =
     (let q = n div 2 ^ k; r = n mod 2 ^ k
      in if 2 * r < 2 ^ k \<or> (2 * r = 2 ^ k \<and> even q) then q * 2 ^ k else (q + 1) * 2 ^ k)"

text \<open>Round an exact value to 24 significant bits.\<close>

definition f32_round :: "int \<Rightarrow> f32" where
  "f32_round z =
     (let n = nat \<bar>z\<bar>; L = bit_size n;
          m = (if L \<le> 24 then n else round_even (L - 24) n)
      in if f32_limit \<le> int m then Infinite (z < 0) else Fin (sgn z * int m))"

definition f32_is_finite :: "f32 \<Rightarrow> bool" where
  "f32_is_finite x = (case x of Fin _ \<Rightarrow> True | _ \<Rightarrow> False)"

text \<open>\<open>PartialOrd::lt\<close> and \<open>PartialEq::eq\<close>: every comparison with NaN is false.\<close>

fun f32_lt :: "f32 \<Rightarrow> f32 \<Rightarrow> bool" where
  "f32_lt NaN _ = False"
| "f32_lt _ NaN = False"
| "f32_lt (Fin a) (Fin b) = (a < b)"
| "f32_lt (Fin _) (Infinite neg) = (\<not> neg)"
| "f32_lt (Infinite neg) (Fin _) = neg"
| "f32_lt (Infinite a) (Infinite b) = (a \<and> \<not> b)"

fun f32_eq :: "f32 \<Rightarrow> f32 \<Rightarrow> bool" where
  "f32_eq NaN _ = False"
| "f32_eq _ NaN = False"
| "f32_eq x y = (x = y)"

definition f32_clamp :: "f32 \<Rightarrow> f32 \<Rightarrow> f32 \<Rightarrow> f32" where
  "f32_clamp x lo hi = (if f32_lt x lo then lo else if f32_lt hi x then hi else x)"

fun f32_neg :: "f32 \<Rightarrow> f32" where
  "f32_neg NaN = NaN"
| "f32_neg (Infinite neg) = Infinite (\<not> neg)"
| "f32_neg (Fin a) = Fin (- a)"

fun f32_add :: "f32 \<Rightarrow> f32 \<Rightarrow> f32" where
  "f32_add NaN _ = NaN"
| "f32_add _ NaN = NaN"
| "f32_add (Infinite a) (Infinite b) = (if a = b then Infinite a else NaN)"
| "f32_add (Infinite a) (Fin _) = Infinite a"
| "f32_add (Fin _) (Infinite b) = Infinite b"
| "f32_add (Fin a) (Fin b) = f32_round (a + b)"

text \<open>\<open>(w as f32) * x\<close> for a \<open>u16\<close>.\<close>

fun f32_scale :: "u16 \<Rightarrow> f32 \<Rightarrow> f32" where
  "f32_scale w NaN = NaN"
| "f32_scale w (Infinite neg) = (if w = 0 then NaN else Infinite neg)"
| "f32_scale w (Fin a) = f32_round (int (unat w) * a)"

text \<open>\<open>f32::round\<close>: half away from zero. The result is integral, and exact.\<close>

definition round_units :: "int \<Rightarrow> int" where
  "round_units a = sgn a * ((2 * \<bar>a\<bar> + f32_one) div (2 * f32_one))"

text \<open>\<open>x.round() as u16\<close>: saturating, NaN is 0.\<close>

fun f32_round_to_u16 :: "f32 \<Rightarrow> u16" where
  "f32_round_to_u16 NaN = 0"
| "f32_round_to_u16 (Infinite neg) = (if neg then 0 else - 1)"
| "f32_round_to_u16 (Fin a) = word_of_int (min 65535 (max 0 (round_units a)))"

text \<open>The literals of the layout code, correctly rounded.\<close>

definition f32_0_1 :: f32 where "f32_0_1 = Fin (13421773 * 2 ^ 122)"
definition f32_0_5 :: f32 where "f32_0_5 = Fin (2 ^ 148)"
definition f32_0_9 :: f32 where "f32_0_9 = Fin (15099494 * 2 ^ 125)"

definition f32_unit_interval :: "f32 \<Rightarrow> bool" where
  "f32_unit_interval x = (case x of Fin a \<Rightarrow> 0 \<le> a \<and> a \<le> f32_one | _ \<Rightarrow> False)"

definition f32_in_0_1_0_9 :: "f32 \<Rightarrow> bool" where
  "f32_in_0_1_0_9 x = (case x of Fin a \<Rightarrow> 13421773 * 2 ^ 122 \<le> a \<and> a \<le> 15099494 * 2 ^ 125 | _ \<Rightarrow> False)"

section \<open>Laws\<close>

lemma bit_size_bounds: "n < 2 ^ bit_size n \<and> (0 < n \<longrightarrow> 2 ^ (bit_size n - 1) \<le> n)"
proof (induction n rule: bit_size.induct)
  case (1 n)
  show ?case
  proof (cases "n = 0")
    case True
    then show ?thesis by (simp add: bit_size.simps)
  next
    case False
    let ?b = "bit_size (n div 2)"
    have sz: "bit_size n = Suc ?b"
      using False by (subst bit_size.simps) simp
    have IH: "n div 2 < 2 ^ ?b" "0 < n div 2 \<longrightarrow> 2 ^ (?b - 1) \<le> n div 2"
      using "1.IH" False by auto
    have up: "n < 2 * 2 ^ ?b"
      using IH(1) by linarith
    have low: "2 ^ ?b \<le> n"
    proof (cases "n div 2 = 0")
      case True
      then show ?thesis using False by (simp add: bit_size.simps)
    next
      case pos: False
      then have "?b \<noteq> 0"
        by (subst bit_size.simps) simp
      then have "(2::nat) ^ ?b = 2 * 2 ^ (?b - 1)"
        by (cases ?b) auto
      moreover have "2 ^ (?b - 1) \<le> n div 2"
        using IH(2) pos by simp
      ultimately show ?thesis by linarith
    qed
    show ?thesis using up low by (simp add: sz)
  qed
qed

lemma bit_size_le: "n < 2 ^ b \<Longrightarrow> bit_size n \<le> b"
proof (rule ccontr)
  assume n: "n < 2 ^ b" and "\<not> bit_size n \<le> b"
  then have b: "b \<le> bit_size n - 1" and "bit_size n \<noteq> 0" by auto
  then have "n \<noteq> 0" by (metis bit_size.simps)
  then have "2 ^ (bit_size n - 1) \<le> n" using bit_size_bounds [of n] by simp
  moreover have "(2::nat) ^ b \<le> 2 ^ (bit_size n - 1)" using b by (intro power_increasing) auto
  ultimately show False using n by linarith
qed

text \<open>Rounding never crosses a multiple of the rounding unit.\<close>

lemma round_even_le:
  assumes "n \<le> W" and "2 ^ k dvd W"
  shows "round_even k n \<le> W"
proof -
  obtain c where W: "W = 2 ^ k * c" using assms(2) by (auto simp: dvd_def)
  let ?q = "n div 2 ^ k" and ?r = "n mod 2 ^ k"
  have n: "n = ?q * 2 ^ k + ?r" by (simp only: div_mult_mod_eq)
  show ?thesis
  proof (cases "?q < c")
    case True
    then have "(?q + 1) * 2 ^ k \<le> c * 2 ^ k" by (intro mult_le_mono1) simp
    then have "(?q + 1) * 2 ^ k \<le> W" using W by (simp only: mult.commute)
    moreover have "round_even k n \<le> (?q + 1) * 2 ^ k" by (simp add: round_even_def Let_def)
    ultimately show ?thesis by (blast intro: order_trans)
  next
    case False
    then have "c * 2 ^ k \<le> ?q * 2 ^ k" by (intro mult_le_mono1) simp
    also have "?q * 2 ^ k \<le> n" by (rule div_times_less_eq_dividend)
    finally have "n = c * 2 ^ k" using assms(1) by (simp add: W mult.commute)
    then show ?thesis by (simp add: round_even_def W mult.commute)
  qed
qed

lemma f32_round_exact: "\<bar>z\<bar> < 2 ^ 24 \<Longrightarrow> f32_round z = Fin z"
proof -
  assume z: "\<bar>z\<bar> < 2 ^ 24"
  then have "bit_size (nat \<bar>z\<bar>) \<le> 24" by (intro bit_size_le) (simp add: nat_less_iff)
  moreover have "\<not> f32_limit \<le> \<bar>z\<bar>" using z by (simp add: f32_limit_def)
  ultimately show ?thesis by (simp add: f32_round_def Let_def sgn_mult_abs flip: abs_sgn)
qed

text \<open>The product of a width and a ratio of the unit interval stays within the width.\<close>

lemma f32_round_product_le:
  assumes w: "w < 2 ^ 16" and "0 \<le> a" and "a \<le> f32_one"
  shows "\<exists>b. f32_round (int w * a) = Fin b \<and> 0 \<le> b \<and> b \<le> int w * f32_one"
proof -
  define n where "n = w * nat a"
  have z: "int w * a = int n" using assms(2) by (simp add: n_def)
  let ?W = "w * 2 ^ 149"
  have "nat a \<le> 2 ^ 149" using assms(3) by (simp add: f32_one_def)
  then have n: "n \<le> ?W" unfolding n_def by (rule mult_le_mono2)
  have W: "?W < 2 ^ 165" using w by simp
  have sz: "bit_size n \<le> 165" using n W by (intro bit_size_le) linarith
  define m where "m = (if bit_size n \<le> 24 then n else round_even (bit_size n - 24) n)"
  have "(2::nat) ^ (bit_size n - 24) dvd 2 ^ 149"
    using sz by (intro le_imp_power_dvd) linarith
  then have "(2::nat) ^ (bit_size n - 24) dvd ?W" by (rule dvd_mult)
  then have m: "m \<le> ?W" using n round_even_le [OF n] by (simp add: m_def)
  then have lim: "int m < f32_limit" using W by (simp add: f32_limit_def)
  have "f32_round (int n) = Fin (sgn (int n) * int m)"
    using lim by (simp add: f32_round_def Let_def m_def)
  moreover have "0 \<le> sgn (int n) * int m" "sgn (int n) * int m \<le> int ?W"
    using m by (auto simp: sgn_if)
  ultimately show ?thesis by (simp add: z f32_one_def)
qed

lemma f32_scale_le:
  assumes "0 \<le> a" and "a \<le> f32_one"
  shows "\<exists>b. f32_scale w (Fin a) = Fin b \<and> 0 \<le> b \<and> b \<le> int (unat w) * f32_one"
  using f32_round_product_le [OF _ assms, of "unat w"] unsigned_less [of w] by simp

lemma int_div_less: "(x::int) < q * d \<Longrightarrow> 0 < d \<Longrightarrow> x div d < q"
  by (smt (verit) minus_mod_eq_mult_div mult.commute mult_less_cancel_left_pos pos_mod_sign)

lemma round_units_le:
  assumes "0 \<le> b" and "b \<le> int n * f32_one"
  shows "0 \<le> round_units b \<and> round_units b \<le> int n"
proof -
  have one: "0 < f32_one" by (simp add: f32_one_def)
  have "2 * b + f32_one < (int n + 1) * (2 * f32_one)"
    using assms(2) one by (simp add: algebra_simps)
  then have "(2 * b + f32_one) div (2 * f32_one) < int n + 1"
    using one by (intro int_div_less) simp_all
  moreover have "0 \<le> (2 * b + f32_one) div (2 * f32_one)"
    using assms(1) one by (simp add: pos_imp_zdiv_nonneg_iff)
  ultimately show ?thesis using assms(1) by (auto simp: round_units_def sgn_if)
qed

lemma split_length_le:
  assumes "f32_unit_interval r"
  shows "unat (f32_round_to_u16 (f32_scale w r)) \<le> unat w"
proof -
  obtain a where r: "r = Fin a" "0 \<le> a" "a \<le> f32_one"
    using assms by (auto simp: f32_unit_interval_def split: f32.splits)
  obtain b where b: "f32_scale w r = Fin b" "0 \<le> b" "b \<le> int (unat w) * f32_one"
    using f32_scale_le [OF r(2,3), of w] r(1) by auto
  have ru: "0 \<le> round_units b" "round_units b \<le> int (unat w)"
    using round_units_le [OF b(2,3)] by auto
  have w: "unat w < 65536" using unsigned_less [of w] by simp
  have mm: "min 65535 (max 0 (round_units b)) = round_units b"
    using ru w by linarith
  have lt: "round_units b < 65536" using ru w by linarith
  have "unat (f32_round_to_u16 (f32_scale w r)) = nat (round_units b)"
    using ru(1) lt by (simp add: b(1) mm unsigned_of_int take_bit_int_eq_self)
  then show ?thesis using ru by linarith
qed

lemma f32_clamp_finite:
  "x \<noteq> NaN \<Longrightarrow> f32_in_0_1_0_9 (f32_clamp x f32_0_1 f32_0_9)"
  by (cases x) (auto simp: f32_clamp_def f32_0_1_def f32_0_9_def f32_in_0_1_0_9_def)

lemma f32_lt_NaN [simp]: "\<not> f32_lt x NaN"
  by (cases x) auto

lemma f32_clamp_NaN: "f32_clamp NaN lo hi = NaN"
  by (simp add: f32_clamp_def)

lemma f32_in_0_1_0_9_unit: "f32_in_0_1_0_9 x \<Longrightarrow> f32_unit_interval x"
  by (auto simp: f32_in_0_1_0_9_def f32_unit_interval_def f32_one_def split: f32.splits)

lemma f32_in_0_1_0_9_finite: "f32_in_0_1_0_9 x \<Longrightarrow> f32_is_finite x"
  by (cases x) (auto simp: f32_in_0_1_0_9_def f32_is_finite_def)

lemma f32_in_0_1_0_9_NaN [simp]: "\<not> f32_in_0_1_0_9 NaN"
  by (simp add: f32_in_0_1_0_9_def)

lemma f32_eq_refl [simp]: "f32_eq x x \<longleftrightarrow> x \<noteq> NaN"
  by (cases x) auto

lemma f32_eq_iff: "f32_eq x y \<longleftrightarrow> x = y \<and> x \<noteq> NaN"
  by (cases x; cases y) auto

end
