(* ===== verification/Layout_Tree.thy ===== *)
theory Layout_Tree
  imports F32 "HOL-Library.Product_Lexorder" "HOL-Library.Sublist"
begin

text \<open>
  The pane layout of \<open>src/src/layout.rs\<close>: the BSP tree of splits, its focused pane and
  every operation on it. \<open>Rect\<close>, \<open>Direction\<close> and \<open>Borders\<close> are the
  terminal library's plain data; its constructor \<open>Rect::new\<close>, which may clip a
  rectangle that leaves the \<open>u16\<close> plane, is the parameter \<open>rn\<close> of the
  operations that build rectangles. The global pane counter is passed in and out.
  A panic of the code (\<open>unwrap\<close> on a missing focus) is the result \<open>None\<close>.
\<close>

section \<open>Data\<close>

type_synonym pane_id = u32

text \<open>\<open>PaneId::alloc\<close>: \<open>fetch_add(1)\<close> returns the old value and wraps.\<close>

definition pane_id_alloc :: "u32 \<Rightarrow> pane_id \<times> u32" where
  "pane_id_alloc counter = (counter, counter + 1)"

datatype direction = Horizontal | Vertical

datatype nav_direction = NavLeft | NavRight | NavUp | NavDown

record rect =
  rect_x :: u16
  rect_y :: u16
  rect_width :: u16
  rect_height :: u16

type_synonym rect_ctor = "u16 \<Rightarrow> u16 \<Rightarrow> u16 \<Rightarrow> u16 \<Rightarrow> rect"

definition mk_rect :: rect_ctor where
  "mk_rect x y w h = \<lparr>rect_x = x, rect_y = y, rect_width = w, rect_height = h\<rparr>"

record pane_info =
  pi_id :: pane_id
  pi_rect :: rect
  pi_inner_rect :: rect
  pi_scrollbar_rect :: "rect option"
  pi_borders :: u8  \<comment> \<open>bit set of drawn borders; 0 is \<open>Borders::NONE\<close>\<close>
  pi_is_focused :: bool

record split_border =
  sb_pos :: u16
  sb_direction :: direction
  sb_ratio :: f32
  sb_area :: rect
  sb_path :: "bool list"

datatype node = Pane pane_id | Split direction f32 node node

record tile_layout =
  tl_root :: node
  tl_focus :: pane_id

section \<open>Tree operations\<close>

fun count_panes :: "node \<Rightarrow> nat" where
  "count_panes (Pane _) = 1"
| "count_panes (Split _ _ first second) = count_panes first + count_panes second"

definition split_rect :: "rect_ctor \<Rightarrow> rect \<Rightarrow> direction \<Rightarrow> f32 \<Rightarrow> rect \<times> rect" where
  "split_rect rn area direction ratio =
     (case direction of
        Horizontal \<Rightarrow>
          (let first_w = f32_round_to_u16 (f32_scale (rect_width area) ratio);
               second_w = sat_sub (rect_width area) first_w
           in (rn (rect_x area) (rect_y area) first_w (rect_height area),
               rn (rect_x area + first_w) (rect_y area) second_w (rect_height area)))
      | Vertical \<Rightarrow>
          (let first_h = f32_round_to_u16 (f32_scale (rect_height area) ratio);
               second_h = sat_sub (rect_height area) first_h
           in (rn (rect_x area) (rect_y area) (rect_width area) first_h,
               rn (rect_x area) (rect_y area + first_h) (rect_width area) second_h)))"

fun collect_panes :: "rect_ctor \<Rightarrow> node \<Rightarrow> rect \<Rightarrow> pane_id \<Rightarrow> pane_info list \<Rightarrow> pane_info list" where
  "collect_panes rn (Pane i) area focus result =
     result @ [\<lparr>pi_id = i, pi_rect = area, pi_inner_rect = area, pi_scrollbar_rect = None,
                pi_borders = 0, pi_is_focused = (i = focus)\<rparr>]"
| "collect_panes rn (Split direction ratio first second) area focus result =
     (let (a, b) = split_rect rn area direction ratio
      in collect_panes rn second b focus (collect_panes rn first a focus result))"

fun collect_splits ::
  "rect_ctor \<Rightarrow> node \<Rightarrow> rect \<Rightarrow> bool list \<Rightarrow> split_border list \<Rightarrow> split_border list" where
  "collect_splits rn (Pane _) area path result = result"
| "collect_splits rn (Split direction ratio first second) area path result =
     (let (a, b) = split_rect rn area direction ratio;
          pos = (case direction of
                   Horizontal \<Rightarrow> rect_x a + rect_width a
                 | Vertical \<Rightarrow> rect_y a + rect_height a);
          result1 = result @ [\<lparr>sb_pos = pos, sb_direction = direction, sb_ratio = ratio,
                               sb_area = area, sb_path = path\<rparr>];
          result2 = collect_splits rn first a (path @ [False]) result1
      in collect_splits rn second b (path @ [True]) result2)"

fun collect_ids :: "node \<Rightarrow> pane_id list \<Rightarrow> pane_id list" where
  "collect_ids (Pane i) ids = ids @ [i]"
| "collect_ids (Split _ _ first second) ids = collect_ids second (collect_ids first ids)"

fun split_ratios_collect ::
  "node \<Rightarrow> bool list \<Rightarrow> (bool list \<times> f32) list \<Rightarrow> (bool list \<times> f32) list" where
  "split_ratios_collect (Pane _) path out = out"
| "split_ratios_collect (Split _ ratio first second) path out =
     (let out1 = out @ [(path, ratio)];
          out2 = split_ratios_collect first (path @ [False]) out1
      in split_ratios_collect second (path @ [True]) out2)"

definition split_ratios :: "node \<Rightarrow> (bool list \<times> f32) list" where
  "split_ratios node = split_ratios_collect node [] []"

text \<open>\<open>==\<close> on two such vectors: element-wise, with the float comparison.\<close>

definition split_ratios_eq :: "(bool list \<times> f32) list \<Rightarrow> (bool list \<times> f32) list \<Rightarrow> bool" where
  "split_ratios_eq xs ys =
     list_all2 (\<lambda>(p, r) (q, s). p = q \<and> f32_eq r s) xs ys"

fun swap_pane_ids :: "node \<Rightarrow> pane_id \<Rightarrow> pane_id \<Rightarrow> node" where
  "swap_pane_ids (Pane i) first second =
     (if i = first then Pane second else if i = second then Pane first else Pane i)"
| "swap_pane_ids (Split d r first_child second_child) first second =
     Split d r (swap_pane_ids first_child first second) (swap_pane_ids second_child first second)"

fun split_at :: "node \<Rightarrow> pane_id \<Rightarrow> direction \<Rightarrow> pane_id \<Rightarrow> f32 \<Rightarrow> node" where
  "split_at (Pane i) target direction new_id split_ratio =
     (if i = target then Split direction split_ratio (Pane i) (Pane new_id) else Pane i)"
| "split_at (Split d ratio first second) target direction new_id split_ratio =
     Split d ratio (split_at first target direction new_id split_ratio)
                   (split_at second target direction new_id split_ratio)"

definition valid_split_ratio :: "f32 \<Rightarrow> f32" where
  "valid_split_ratio ratio =
     (if f32_is_finite ratio then f32_clamp ratio f32_0_1 f32_0_9 else f32_0_5)"

fun remove_pane :: "node \<Rightarrow> pane_id \<Rightarrow> node option" where
  "remove_pane (Pane i) target = (if i = target then None else Some (Pane i))"
| "remove_pane (Split direction ratio first second) target =
     (case (remove_pane first target, remove_pane second target) of
        (None, Some s) \<Rightarrow> Some s
      | (Some f, None) \<Rightarrow> Some f
      | (Some f, Some s) \<Rightarrow> Some (Split direction ratio f s)
      | (None, None) \<Rightarrow> None)"

text \<open>The mutation in place is the first component, the returned flag the second.\<close>

fun set_ratio_at :: "node \<Rightarrow> bool list \<Rightarrow> f32 \<Rightarrow> node \<times> bool" where
  "set_ratio_at (Pane i) path new_ratio = (Pane i, False)"
| "set_ratio_at (Split d ratio first second) [] new_ratio = (Split d new_ratio first second, True)"
| "set_ratio_at (Split d ratio first second) (True # path) new_ratio =
     (let (second', ok) = set_ratio_at second path new_ratio in (Split d ratio first second', ok))"
| "set_ratio_at (Split d ratio first second) (False # path) new_ratio =
     (let (first', ok) = set_ratio_at first path new_ratio in (Split d ratio first' second, ok))"

fun get_ratio_at :: "node \<Rightarrow> bool list \<Rightarrow> f32 option" where
  "get_ratio_at (Pane i) path = None"
| "get_ratio_at (Split d ratio first second) [] = Some ratio"
| "get_ratio_at (Split d ratio first second) (True # path) = get_ratio_at second path"
| "get_ratio_at (Split d ratio first second) (False # path) = get_ratio_at first path"

section \<open>Ranges\<close>

definition ranges_overlap :: "u16 \<Rightarrow> u16 \<Rightarrow> u16 \<Rightarrow> u16 \<Rightarrow> bool" where
  "ranges_overlap a_start a_len b_start b_len =
     (a_start < b_start + b_len \<and> b_start < a_start + a_len)"

definition range_overlap_amount :: "u16 \<Rightarrow> u16 \<Rightarrow> u16 \<Rightarrow> u16 \<Rightarrow> u16" where
  "range_overlap_amount a_start a_len b_start b_len =
     (let a_end = sat_add a_start a_len; b_end = sat_add b_start b_len
      in sat_sub (min a_end b_end) (max a_start b_start))"

definition range_center_distance :: "u16 \<Rightarrow> u16 \<Rightarrow> u16 \<Rightarrow> u16 \<Rightarrow> u16" where
  "range_center_distance a_start a_len b_start b_len =
     (let a_center = sat_add (sat_mul a_start 2) a_len;
          b_center = sat_add (sat_mul b_start 2) b_len
      in abs_diff a_center b_center)"

section \<open>Directional navigation\<close>

text \<open>\<open>std::cmp::Reverse\<close>: the opposite order.\<close>

datatype 'a reverse = Reverse (reversed: 'a)

instantiation reverse :: (linorder) linorder
begin

definition less_eq_reverse :: "'a reverse \<Rightarrow> 'a reverse \<Rightarrow> bool" where
  "less_eq_reverse a b = (reversed b \<le> reversed a)"

definition less_reverse :: "'a reverse \<Rightarrow> 'a reverse \<Rightarrow> bool" where
  "less_reverse a b = (reversed b < reversed a)"

instance
  by standard (auto simp: less_eq_reverse_def less_reverse_def reverse.expand)

end

definition lies_in_direction :: "nav_direction \<Rightarrow> rect \<Rightarrow> rect \<Rightarrow> bool" where
  "lies_in_direction nav fr r =
     (case nav of
        NavLeft \<Rightarrow> rect_x r + rect_width r \<le> rect_x fr \<and>
          ranges_overlap (rect_y r) (rect_height r) (rect_y fr) (rect_height fr)
      | NavRight \<Rightarrow> rect_x fr + rect_width fr \<le> rect_x r \<and>
          ranges_overlap (rect_y r) (rect_height r) (rect_y fr) (rect_height fr)
      | NavUp \<Rightarrow> rect_y r + rect_height r \<le> rect_y fr \<and>
          ranges_overlap (rect_x r) (rect_width r) (rect_x fr) (rect_width fr)
      | NavDown \<Rightarrow> rect_y fr + rect_height fr \<le> rect_y r \<and>
          ranges_overlap (rect_x r) (rect_width r) (rect_x fr) (rect_width fr))"

definition nav_edge_distance :: "nav_direction \<Rightarrow> rect \<Rightarrow> rect \<Rightarrow> u16" where
  "nav_edge_distance nav fr r =
     (case nav of
        NavLeft \<Rightarrow> sat_sub (rect_x fr) (rect_x r + rect_width r)
      | NavRight \<Rightarrow> sat_sub (rect_x r) (rect_x fr + rect_width fr)
      | NavUp \<Rightarrow> sat_sub (rect_y fr) (rect_y r + rect_height r)
      | NavDown \<Rightarrow> sat_sub (rect_y r) (rect_y fr + rect_height fr))"

definition nav_across :: "nav_direction \<Rightarrow> (u16 \<Rightarrow> u16 \<Rightarrow> u16 \<Rightarrow> u16 \<Rightarrow> u16) \<Rightarrow> rect \<Rightarrow> rect \<Rightarrow> u16" where
  "nav_across nav f fr r =
     (if nav = NavLeft \<or> nav = NavRight
      then f (rect_y r) (rect_height r) (rect_y fr) (rect_height fr)
      else f (rect_x r) (rect_width r) (rect_x fr) (rect_width fr))"

definition nav_key :: "nav_direction \<Rightarrow> rect \<Rightarrow> nat \<times> pane_info \<Rightarrow> u16 \<times> u16 reverse \<times> u16 \<times> nat" where
  "nav_key nav fr ip =
     (nav_edge_distance nav fr (pi_rect (snd ip)),
      Reverse (nav_across nav range_overlap_amount fr (pi_rect (snd ip))),
      nav_across nav range_center_distance fr (pi_rect (snd ip)),
      fst ip)"

definition find_in_direction :: "pane_info \<Rightarrow> nav_direction \<Rightarrow> pane_info list \<Rightarrow> pane_id option" where
  "find_in_direction focused nav panes =
     (let fr = pi_rect focused;
          candidates = filter (\<lambda>(_, p). lies_in_direction nav fr (pi_rect p))
            (filter (\<lambda>(_, p). pi_id p \<noteq> pi_id focused) (List.enumerate 0 panes))
      in map_option (\<lambda>(_, p). pi_id p) (min_by_key (nav_key nav fr) candidates))"

section \<open>Choosing the split to resize\<close>

text \<open>The \<open>i32\<close> differences of two \<open>u16\<close> values cannot overflow.\<close>

definition split_edge_distance :: "split_border \<Rightarrow> rect \<Rightarrow> nav_direction \<Rightarrow> nat" where
  "split_edge_distance split focused nav =
     (let pos = int (unat (sb_pos split)) in
      case nav of
        NavLeft \<Rightarrow> nat \<bar>pos - int (unat (rect_x focused))\<bar>
      | NavRight \<Rightarrow> nat \<bar>pos - int (unat (rect_x focused + rect_width focused))\<bar>
      | NavUp \<Rightarrow> nat \<bar>pos - int (unat (rect_y focused))\<bar>
      | NavDown \<Rightarrow> nat \<bar>pos - int (unat (rect_y focused + rect_height focused))\<bar>)"

definition split_on_requested_edge :: "split_border \<Rightarrow> rect \<Rightarrow> nav_direction \<Rightarrow> bool" where
  "split_on_requested_edge split focused nav = (split_edge_distance split focused nav \<le> 1)"

definition split_area_overlaps_focused_pane :: "split_border \<Rightarrow> rect \<Rightarrow> nav_direction \<Rightarrow> bool" where
  "split_area_overlaps_focused_pane split focused nav =
     (if nav = NavLeft \<or> nav = NavRight
      then ranges_overlap (rect_y (sb_area split)) (rect_height (sb_area split))
             (rect_y focused) (rect_height focused)
      else ranges_overlap (rect_x (sb_area split)) (rect_width (sb_area split))
             (rect_x focused) (rect_width focused))"

definition nearest_resize_split ::
  "split_border list \<Rightarrow> direction \<Rightarrow> rect \<Rightarrow> nav_direction \<Rightarrow> split_border option" where
  "nearest_resize_split splits target_dir focused nav =
     min_by_key (\<lambda>s. split_edge_distance s focused nav)
       (filter (\<lambda>s. split_on_requested_edge s focused nav)
         (filter (\<lambda>s. split_area_overlaps_focused_pane s focused nav)
           (filter (\<lambda>s. sb_direction s = target_dir) splits)))"

definition opposite_direction :: "nav_direction \<Rightarrow> nav_direction" where
  "opposite_direction nav =
     (case nav of NavLeft \<Rightarrow> NavRight | NavRight \<Rightarrow> NavLeft | NavUp \<Rightarrow> NavDown | NavDown \<Rightarrow> NavUp)"

section \<open>The layout\<close>

definition tile_layout_new :: "u32 \<Rightarrow> (tile_layout \<times> pane_id) \<times> u32" where
  "tile_layout_new counter =
     (let (root_id, counter') = pane_id_alloc counter
      in ((\<lparr>tl_root = Pane root_id, tl_focus = root_id\<rparr>, root_id), counter'))"

definition from_saved :: "node \<Rightarrow> pane_id \<Rightarrow> tile_layout" where
  "from_saved root focus = \<lparr>tl_root = root, tl_focus = focus\<rparr>"

definition pane_count :: "tile_layout \<Rightarrow> nat" where
  "pane_count l = count_panes (tl_root l)"

definition pane_ids :: "tile_layout \<Rightarrow> pane_id list" where
  "pane_ids l = collect_ids (tl_root l) []"

definition panes :: "rect_ctor \<Rightarrow> tile_layout \<Rightarrow> rect \<Rightarrow> pane_info list" where
  "panes rn l area = collect_panes rn (tl_root l) area (tl_focus l) []"

definition splits :: "rect_ctor \<Rightarrow> tile_layout \<Rightarrow> rect \<Rightarrow> split_border list" where
  "splits rn l area = collect_splits rn (tl_root l) area [] []"

definition split_focused_with_ratio ::
  "u32 \<Rightarrow> tile_layout \<Rightarrow> direction \<Rightarrow> f32 \<Rightarrow> (tile_layout \<times> pane_id) \<times> u32" where
  "split_focused_with_ratio counter l direction ratio =
     (let (new_id, counter') = pane_id_alloc counter;
          root' = split_at (tl_root l) (tl_focus l) direction new_id (valid_split_ratio ratio)
      in ((\<lparr>tl_root = root', tl_focus = new_id\<rparr>, new_id), counter'))"

definition split_focused :: "u32 \<Rightarrow> tile_layout \<Rightarrow> direction \<Rightarrow> (tile_layout \<times> pane_id) \<times> u32" where
  "split_focused counter l direction = split_focused_with_ratio counter l direction f32_0_5"

definition insert_pane_near ::
  "tile_layout \<Rightarrow> pane_id \<Rightarrow> pane_id \<Rightarrow> direction \<Rightarrow> f32 \<Rightarrow> tile_layout \<times> bool" where
  "insert_pane_near l target moved direction ratio =
     (if target = moved then (l, False)
      else let ids = pane_ids l in
        if target \<notin> set ids \<or> moved \<in> set ids then (l, False)
        else (\<lparr>tl_root = split_at (tl_root l) target direction moved (valid_split_ratio ratio),
               tl_focus = moved\<rparr>, True))"

fun position :: "'a \<Rightarrow> 'a list \<Rightarrow> nat option" where
  "position x [] = None"
| "position x (y # ys) = (if y = x then Some 0 else map_option Suc (position x ys))"

definition close_focused :: "tile_layout \<Rightarrow> (tile_layout \<times> bool) option" where
  "close_focused l =
     (if pane_count l \<le> 1 then Some (l, False)
      else let target = tl_focus l; ids = pane_ids l in
        case position target ids of
          None \<Rightarrow> None
        | Some pos \<Rightarrow>
            let new_focus = (if pos + 1 < length ids then ids ! (pos + 1) else ids ! (pos - 1)) in
            Some (case remove_pane (tl_root l) target of
                    Some new_root \<Rightarrow> (\<lparr>tl_root = new_root, tl_focus = new_focus\<rparr>, True)
                  | None \<Rightarrow> (l\<lparr>tl_root := Pane 0\<rparr>, False)))"

definition focus_pane :: "tile_layout \<Rightarrow> pane_id \<Rightarrow> tile_layout" where
  "focus_pane l i = (if i \<in> set (pane_ids l) then l\<lparr>tl_focus := i\<rparr> else l)"

definition swap_panes :: "tile_layout \<Rightarrow> pane_id \<Rightarrow> pane_id \<Rightarrow> tile_layout \<times> bool" where
  "swap_panes l first second =
     (if first = second then (l, False)
      else let ids = pane_ids l in
        if first \<notin> set ids \<or> second \<notin> set ids then (l, False)
        else (l\<lparr>tl_root := swap_pane_ids (tl_root l) first second\<rparr>, True))"

definition layout_set_ratio_at :: "tile_layout \<Rightarrow> bool list \<Rightarrow> f32 \<Rightarrow> tile_layout \<times> bool" where
  "layout_set_ratio_at l path ratio =
     (let (root', ok) = set_ratio_at (tl_root l) path (f32_clamp ratio f32_0_1 f32_0_9)
      in (l\<lparr>tl_root := root'\<rparr>, ok))"

definition resize_focused ::
  "rect_ctor \<Rightarrow> tile_layout \<Rightarrow> nav_direction \<Rightarrow> f32 \<Rightarrow> rect \<Rightarrow> tile_layout" where
  "resize_focused rn l nav delta area =
     (case List.find pi_is_focused (panes rn l area) of
        None \<Rightarrow> l
      | Some focused \<Rightarrow>
          let focused_rect = pi_rect focused;
              ss = splits rn l area;
              target_dir = (if nav = NavLeft \<or> nav = NavRight then Horizontal else Vertical);
              grows = (nav = NavRight \<or> nav = NavDown);
              best = or_else (nearest_resize_split ss target_dir focused_rect nav)
                (nearest_resize_split ss target_dir focused_rect (opposite_direction nav))
          in case best of
               None \<Rightarrow> l
             | Some split \<Rightarrow>
                 let path = sb_path split;
                     current_ratio = unwrap_or (get_ratio_at (tl_root l) path) f32_0_5;
                     adj = (if grows then delta else f32_neg delta)
                 in fst (layout_set_ratio_at l path (f32_add current_ratio adj)))"

definition resize_pane ::
  "rect_ctor \<Rightarrow> tile_layout \<Rightarrow> pane_id \<Rightarrow> nav_direction \<Rightarrow> f32 \<Rightarrow> rect \<Rightarrow> tile_layout \<times> bool" where
  "resize_pane rn l p nav delta area =
     (if p \<notin> set (pane_ids l) then (l, False)
      else let before = split_ratios (tl_root l);
               previous_focus = tl_focus l;
               resized = resize_focused rn (l\<lparr>tl_focus := p\<rparr>) nav delta area;
               l' = resized\<lparr>tl_focus := previous_focus\<rparr>
           in (l', \<not> split_ratios_eq (split_ratios (tl_root l')) before))"

end
