(* ===== verification/Layout_Facts.thy ===== *)
theory Layout_Facts
  imports Layout_Tree
begin

text \<open>
  The pane order and the ratios of a layout under every operation of the tree: what each
  recursive operation does to the list of pane ids, that ratios stay in the range the code
  clamps them to, and the directional search.
\<close>

section \<open>Accumulators\<close>

lemma collect_ids_acc: "collect_ids n acc = acc @ collect_ids n []"
proof (induction n arbitrary: acc)
  case (Pane i)
  show ?case by simp
next
  case (Split d r a b)
  show ?case
    using Split.IH(1) [of acc] Split.IH(2) [of "acc @ collect_ids a []"] Split.IH(2) [of "collect_ids a []"]
    by simp
qed

definition node_ids :: "node \<Rightarrow> pane_id list" where
  "node_ids n = collect_ids n []"

lemma node_ids_simps [simp, layout_simps]:
  "node_ids (Pane i) = [i]"
  "node_ids (Split d r a b) = node_ids a @ node_ids b"
  by (simp_all add: node_ids_def) (subst collect_ids_acc, simp)

lemma pane_ids_node [layout_simps]: "pane_ids l = node_ids (tl_root l)"
  by (simp add: pane_ids_def node_ids_def)

lemma node_ids_nonempty [simp]: "node_ids n \<noteq> []"
  by (induction n) auto

lemma count_panes_length [layout_simps]: "count_panes n = length (node_ids n)"
  by (induction n) auto

lemma pane_count_length [layout_simps]: "pane_count l = length (node_ids (tl_root l))"
  by (simp add: pane_count_def count_panes_length)

lemma collect_panes_acc:
  "collect_panes rn n area focus acc = acc @ collect_panes rn n area focus []"
proof (induction n arbitrary: acc area)
  case (Pane i)
  show ?case by simp
next
  case (Split d r a b)
  obtain ra rb where s: "split_rect rn area d r = (ra, rb)" by fastforce
  show ?case
    by (simp add: s) (metis Split.IH append_assoc)
qed

lemma collect_panes_Split:
  "collect_panes rn (Split d r a b) area focus [] =
     collect_panes rn a (fst (split_rect rn area d r)) focus [] @
     collect_panes rn b (snd (split_rect rn area d r)) focus []"
  by (simp add: case_prod_beta) (subst collect_panes_acc, simp)

lemma panes_ids:
  "map pi_id (panes rn l area) = pane_ids l"
proof -
  have "map pi_id (collect_panes rn n area focus []) = node_ids n" for n area focus
    by (induction n arbitrary: area) (simp_all add: collect_panes_Split del: collect_panes.simps(2))
  then show ?thesis by (simp add: panes_def pane_ids_node)
qed

lemma panes_focus: "p \<in> set (panes rn l area) \<Longrightarrow> pi_is_focused p \<longleftrightarrow> pi_id p = tl_focus l"
proof -
  have "p \<in> set (collect_panes rn n area focus []) \<Longrightarrow> pi_is_focused p \<longleftrightarrow> pi_id p = focus" for n area focus
    by (induction n arbitrary: area) (auto simp: collect_panes_Split simp del: collect_panes.simps(2))
  then show "p \<in> set (panes rn l area) \<Longrightarrow> pi_is_focused p \<longleftrightarrow> pi_id p = tl_focus l"
    by (simp add: panes_def)
qed

section \<open>Pane order\<close>

definition insert_after :: "'a \<Rightarrow> 'a \<Rightarrow> 'a list \<Rightarrow> 'a list" where
  "insert_after t x xs = concat (map (\<lambda>y. if y = t then [y, x] else [y]) xs)"

lemma insert_after_simps [simp]:
  "insert_after t x [] = []"
  "insert_after t x (y # ys) = (if y = t then y # x # insert_after t x ys else y # insert_after t x ys)"
  by (simp_all add: insert_after_def)

lemma insert_after_append: "insert_after t x (xs @ ys) = insert_after t x xs @ insert_after t x ys"
  by (simp add: insert_after_def)

lemma insert_after_set: "set (insert_after t x xs) = set xs \<union> (if t \<in> set xs then {x} else {})"
  by (auto simp: insert_after_def split: if_splits)

lemma insert_after_absent [simp]: "t \<notin> set xs \<Longrightarrow> insert_after t x xs = xs"
  by (induction xs) (auto simp: insert_after_def)

lemma insert_after_split:
  "t \<notin> set xs \<Longrightarrow> t \<notin> set ys \<Longrightarrow> insert_after t x (xs @ t # ys) = xs @ t # x # ys"
  by (simp add: insert_after_append)

lemma distinct_insert_after: "distinct xs \<Longrightarrow> x \<notin> set xs \<Longrightarrow> distinct (insert_after t x xs)"
  by (induction xs) (auto simp: insert_after_def split: if_splits)

lemma filter_insert_after: "x \<notin> set xs \<Longrightarrow> x \<noteq> t \<Longrightarrow> filter (\<lambda>y. y \<noteq> x) (insert_after t x xs) = xs"
  by (induction xs) (auto simp: insert_after_def)

lemma node_ids_split_at [layout_simps]:
  "node_ids (split_at n t d x r) = insert_after t x (node_ids n)"
  by (induction n) (auto simp: insert_after_append)

lemma node_ids_remove_pane:
  "(case remove_pane n t of None \<Rightarrow> [] | Some n' \<Rightarrow> node_ids n') = filter (\<lambda>i. i \<noteq> t) (node_ids n)"
proof (induction n)
  case (Split d r a b)
  then show ?case by (cases "remove_pane a t"; cases "remove_pane b t") auto
qed simp

lemma remove_pane_Some: "remove_pane n t = Some n' \<Longrightarrow> node_ids n' = filter (\<lambda>i. i \<noteq> t) (node_ids n)"
  using node_ids_remove_pane [of n t] by simp

lemma remove_pane_None: "remove_pane n t = None \<longleftrightarrow> (\<forall>i \<in> set (node_ids n). i = t)"
proof (cases "remove_pane n t")
  case None
  then show ?thesis using node_ids_remove_pane [of n t] by (auto simp: filter_empty_conv dest: sym)
next
  case (Some n')
  then have "filter (\<lambda>i. i \<noteq> t) (node_ids n) \<noteq> []"
    using remove_pane_Some [OF Some] node_ids_nonempty [of n'] by simp
  then show ?thesis using Some by (auto simp: filter_empty_conv)
qed

lemma remove_pane_absent: "t \<notin> set (node_ids n) \<Longrightarrow> remove_pane n t = Some n"
  by (induction n) auto

lemma remove_split_at:
  "x \<notin> set (node_ids n) \<Longrightarrow> x \<noteq> t \<Longrightarrow> remove_pane (split_at n t d x r) x = Some n"
proof (induction n)
  case (Split d' r' a b)
  then have "remove_pane (split_at a t d x r) x = Some a" "remove_pane (split_at b t d x r) x = Some b"
    by auto
  then show ?case by simp
qed auto

definition swap_id :: "'a \<Rightarrow> 'a \<Rightarrow> 'a \<Rightarrow> 'a" where
  "swap_id a b i = (if i = a then b else if i = b then a else i)"

lemma swap_id_idem [simp]: "swap_id a b (swap_id a b i) = i"
  by (simp add: swap_id_def)

lemma inj_swap_id: "inj (swap_id a b)"
  by (rule injI) (metis swap_id_idem)

lemma node_ids_swap [layout_simps]:
  "node_ids (swap_pane_ids n a b) = map (swap_id a b) (node_ids n)"
  by (induction n) (auto simp: swap_id_def)

lemma swap_swap: "swap_pane_ids (swap_pane_ids n a b) a b = n"
  by (induction n) auto

lemma set_swap_ids: "a \<in> S \<Longrightarrow> b \<in> S \<Longrightarrow> swap_id a b ` S = S"
  by (auto simp: swap_id_def image_iff)

section \<open>Shape and ratios\<close>

text \<open>The tree with its ids and ratios erased.\<close>

datatype shape = Leaf_shape | Split_shape direction shape shape

fun shape_of :: "node \<Rightarrow> shape" where
  "shape_of (Pane _) = Leaf_shape"
| "shape_of (Split d _ a b) = Split_shape d (shape_of a) (shape_of b)"

fun node_ratios :: "node \<Rightarrow> f32 list" where
  "node_ratios (Pane _) = []"
| "node_ratios (Split _ r a b) = r # node_ratios a @ node_ratios b"

lemma swap_keeps_shape:
  "shape_of (swap_pane_ids n a b) = shape_of n" "node_ratios (swap_pane_ids n a b) = node_ratios n"
  by (induction n) auto

lemma set_ratio_at_frame:
  "node_ids (fst (set_ratio_at n p r)) = node_ids n" "shape_of (fst (set_ratio_at n p r)) = shape_of n"
  by (induction n p r rule: set_ratio_at.induct) (auto simp: case_prod_beta)

lemma set_ratio_at_ok: "snd (set_ratio_at n p r) \<longleftrightarrow> get_ratio_at n p \<noteq> None"
  by (induction n p r rule: set_ratio_at.induct) (auto simp: case_prod_beta)

lemma get_set_ratio_at:
  "get_ratio_at (fst (set_ratio_at n p r)) q =
     (if q = p \<and> get_ratio_at n p \<noteq> None then Some r else get_ratio_at n q)"
proof (induction n p r arbitrary: q rule: set_ratio_at.induct)
  case (2 d ratio a b r)
  show ?case by (cases q; simp; rename_tac x xs; case_tac x; simp)
next
  case (3 d ratio a b p r)
  then show ?case by (cases q; simp add: case_prod_beta; rename_tac x xs; case_tac x; simp)
next
  case (4 d ratio a b p r)
  then show ?case by (cases q; simp add: case_prod_beta; rename_tac x xs; case_tac x; simp)
qed simp

lemma set_ratio_at_ratios:
  "set (node_ratios (fst (set_ratio_at n p r))) \<subseteq> insert r (set (node_ratios n))"
  by (induction n p r rule: set_ratio_at.induct) (auto simp: case_prod_beta)

lemma split_at_ratios: "set (node_ratios (split_at n t d x r)) \<subseteq> insert r (set (node_ratios n))"
  by (induction n) auto

lemma remove_pane_ratios: "remove_pane n t = Some n' \<Longrightarrow> set (node_ratios n') \<subseteq> set (node_ratios n)"
proof (induction n arbitrary: n')
  case (Split d r a b)
  then show ?case by (cases "remove_pane a t"; cases "remove_pane b t") fastforce+
qed (auto split: if_splits)

lemma split_ratios_collect_acc:
  "split_ratios_collect n p out = out @ split_ratios_collect n p []"
proof (induction n arbitrary: p out)
  case (Split d r a b)
  show ?case by (simp add: Let_def) (metis Split.IH append_assoc append_Cons append_Nil)
qed simp

lemma split_ratios_collect_Split:
  "split_ratios_collect (Split d r a b) p [] =
   (p, r) # split_ratios_collect a (p @ [False]) [] @ split_ratios_collect b (p @ [True]) []"
  using split_ratios_collect_acc [of a "p @ [False]" "[(p, r)]"]
    split_ratios_collect_acc [of b "p @ [True]" "(p, r) # split_ratios_collect a (p @ [False]) []"]
  by simp

lemma split_ratios_collect_paths:
  "(q, x) \<in> set (split_ratios_collect n p []) \<longleftrightarrow> (\<exists>s. q = p @ s \<and> get_ratio_at n s = Some x)"
proof (induction n arbitrary: p)
  case (Split d r a b)
  have *: "set (split_ratios_collect (Split d r a b) p []) =
    {(p, r)} \<union> set (split_ratios_collect a (p @ [False]) []) \<union> set (split_ratios_collect b (p @ [True]) [])"
    by (auto simp: split_ratios_collect_Split simp del: split_ratios_collect.simps(2))
  have get: "get_ratio_at (Split d r a b) s =
    (case s of [] \<Rightarrow> Some r | True # s' \<Rightarrow> get_ratio_at b s' | False # s' \<Rightarrow> get_ratio_at a s')" for s
    by (cases s; simp; rename_tac y ys; case_tac y; simp)
  show ?case
    unfolding * get
    by (auto simp: Split.IH split: list.splits bool.splits) (metis list.exhaust)+
qed simp

lemma valid_split_ratio_range: "f32_in_0_1_0_9 (valid_split_ratio r)"
proof (cases "f32_is_finite r")
  case True
  then have "r \<noteq> NaN" by (auto simp: f32_is_finite_def)
  then show ?thesis using True by (simp add: valid_split_ratio_def f32_clamp_finite)
next
  case False
  then show ?thesis by (simp add: valid_split_ratio_def f32_in_0_1_0_9_def f32_0_5_def)
qed

lemma f32_add_not_NaN: "f32_is_finite a \<Longrightarrow> b \<noteq> NaN \<Longrightarrow> f32_add a b \<noteq> NaN"
  by (cases a; cases b) (auto simp: f32_is_finite_def f32_round_def Let_def)

section \<open>Positions\<close>

lemma position_Some: "position x xs = Some i \<Longrightarrow> i < length xs \<and> xs ! i = x \<and> x \<notin> set (take i xs)"
  by (induction xs arbitrary: i) (auto split: if_splits)

lemma position_None [simp]: "position x xs = None \<longleftrightarrow> x \<notin> set xs"
  by (induction xs) auto

section \<open>A tree is its shape, its ids and its ratios\<close>

lemma shape_lengths:
  "shape_of n = shape_of m \<Longrightarrow>
   length (node_ids n) = length (node_ids m) \<and> length (node_ratios n) = length (node_ratios m)"
proof (induction n arbitrary: m)
  case (Pane i)
  then show ?case by (cases m) auto
next
  case (Split d r a b)
  then obtain r' a' b' where m: "m = Split d r' a' b'" "shape_of a = shape_of a'" "shape_of b = shape_of b'"
    by (cases m) auto
  show ?case using Split.IH(1) [OF m(2)] Split.IH(2) [OF m(3)] by (simp add: m(1))
qed

lemma node_eqI:
  "shape_of n = shape_of m \<Longrightarrow> node_ids n = node_ids m \<Longrightarrow> node_ratios n = node_ratios m \<Longrightarrow> n = m"
proof (induction n arbitrary: m)
  case (Pane i)
  then show ?case by (cases m) auto
next
  case (Split d r a b)
  then obtain a' b' where m: "m = Split d r a' b'" "shape_of a = shape_of a'" "shape_of b = shape_of b'"
    by (cases m) auto
  then show ?case using Split shape_lengths [OF m(2)] by auto
qed

lemma split_ratios_collect_snd: "map snd (split_ratios_collect n p []) = node_ratios n"
proof (induction n arbitrary: p)
  case (Split d r a b)
  show ?case
    by (simp add: split_ratios_collect_Split Split.IH del: split_ratios_collect.simps(2))
qed simp

lemma split_ratios_eq_iff:
  "\<forall>(q, y) \<in> set ys. y \<noteq> NaN \<Longrightarrow> split_ratios_eq xs ys \<longleftrightarrow> xs = ys"
proof (induction ys arbitrary: xs)
  case Nil
  then show ?case by (simp add: split_ratios_eq_def)
next
  case (Cons y ys)
  then show ?case
    by (cases xs) (auto simp: split_ratios_eq_def f32_eq_iff split: prod.splits)
qed

lemma split_ratios_eq_tree:
  assumes "shape_of n = shape_of m" and "node_ids n = node_ids m" and "\<forall>r \<in> set (node_ratios m). r \<noteq> NaN"
  shows "split_ratios_eq (split_ratios n) (split_ratios m) \<longleftrightarrow> n = m"
proof -
  have "\<forall>(q, y) \<in> set (split_ratios m). y \<noteq> NaN"
  proof -
    have "\<forall>r \<in> snd ` set (split_ratios m). r \<noteq> NaN"
      using assms(3) arg_cong [OF split_ratios_collect_snd [of m "[]"], of set]
      by (simp add: split_ratios_def del: split_ratios_collect.simps)
    then show ?thesis by fastforce
  qed
  then have "split_ratios_eq (split_ratios n) (split_ratios m) \<longleftrightarrow> split_ratios n = split_ratios m"
    by (rule split_ratios_eq_iff)
  also have "\<dots> \<longleftrightarrow> n = m"
  proof
    assume "split_ratios n = split_ratios m"
    then have "node_ratios n = node_ratios m"
      using split_ratios_collect_snd by (metis split_ratios_def)
    then show "n = m" using assms by (intro node_eqI)
  qed simp
  finally show ?thesis .
qed

end
