(* ===== verification/Layout_Geometry.thy ===== *)
theory Layout_Geometry
  imports Layout_Facts
begin

text \<open>
  The geometry of a layout: a split cuts its area into two disjoint parts that cover it,
  hence the panes of a layout tile its area. Cells are pairs of natural numbers, so that a
  wrapped coordinate would be visible. The code relies on \<open>Rect::new\<close> keeping a
  rectangle that lies in the \<open>u16\<close> plane: that is \<open>rect_new_ok\<close>.
\<close>

definition rect_fits :: "rect \<Rightarrow> bool" where
  "rect_fits r = (unat (rect_x r) + unat (rect_width r) \<le> 65535 \<and>
                  unat (rect_y r) + unat (rect_height r) \<le> 65535)"

definition in_rect :: "rect \<Rightarrow> nat \<Rightarrow> nat \<Rightarrow> bool" where
  "in_rect r cx cy = (unat (rect_x r) \<le> cx \<and> cx < unat (rect_x r) + unat (rect_width r) \<and>
                      unat (rect_y r) \<le> cy \<and> cy < unat (rect_y r) + unat (rect_height r))"

definition rect_new_ok :: "rect_ctor \<Rightarrow> bool" where
  "rect_new_ok rn = (\<forall>x y w h. rect_fits (mk_rect x y w h) \<longrightarrow> rn x y w h = mk_rect x y w h)"

text \<open>A constructor that clips as the terminal library documents it, for witnesses.\<close>

definition clipping_rect_new :: rect_ctor where
  "clipping_rect_new x y w h =
     mk_rect x y (if unat x + unat w \<le> 65535 then w else - 1 - x)
                 (if unat y + unat h \<le> 65535 then h else - 1 - y)"

lemma rect_new_okD:
  "rect_new_ok rn \<Longrightarrow> unat x + unat w \<le> 65535 \<Longrightarrow> unat y + unat h \<le> 65535 \<Longrightarrow> rn x y w h = mk_rect x y w h"
  by (simp add: rect_new_ok_def rect_fits_def mk_rect_def)

lemma clipping_rect_new_ok: "rect_new_ok clipping_rect_new"
  by (simp add: rect_new_ok_def rect_fits_def clipping_rect_new_def mk_rect_def)

definition partition_of :: "rect \<Rightarrow> rect \<Rightarrow> rect \<Rightarrow> bool" where
  "partition_of area a b =
     (rect_fits a \<and> rect_fits b \<and>
      (\<forall>x y. in_rect area x y = (in_rect a x y \<or> in_rect b x y)) \<and>
      (\<forall>x y. \<not> (in_rect a x y \<and> in_rect b x y)))"

lemma split_rect_partition:
  assumes rn: "rect_new_ok rn" and fits: "rect_fits area" and r: "f32_unit_interval ratio"
  shows "partition_of area (fst (split_rect rn area d ratio)) (snd (split_rect rn area d ratio))"
proof (cases d)
  case Horizontal
  define f where "f = f32_round_to_u16 (f32_scale (rect_width area) ratio)"
  have f: "unat f \<le> unat (rect_width area)" unfolding f_def by (rule split_length_le [OF r])
  have s: "unat (sat_sub (rect_width area) f) = unat (rect_width area) - unat f" by (simp add: sat_unat)
  have p: "unat (rect_x area + f) = unat (rect_x area) + unat f"
    using f fits by (intro unat_add_small) (simp add: rect_fits_def)
  have "split_rect rn area d ratio =
    (mk_rect (rect_x area) (rect_y area) f (rect_height area),
     mk_rect (rect_x area + f) (rect_y area) (sat_sub (rect_width area) f) (rect_height area))"
    using f fits p s by (simp add: split_rect_def Horizontal Let_def rect_fits_def rect_new_okD [OF rn] flip: f_def)
  then show ?thesis
    using f fits p s by (auto simp: partition_of_def mk_rect_def rect_fits_def in_rect_def)
next
  case Vertical
  define f where "f = f32_round_to_u16 (f32_scale (rect_height area) ratio)"
  have f: "unat f \<le> unat (rect_height area)" unfolding f_def by (rule split_length_le [OF r])
  have s: "unat (sat_sub (rect_height area) f) = unat (rect_height area) - unat f" by (simp add: sat_unat)
  have p: "unat (rect_y area + f) = unat (rect_y area) + unat f"
    using f fits by (intro unat_add_small) (simp add: rect_fits_def)
  have "split_rect rn area d ratio =
    (mk_rect (rect_x area) (rect_y area) (rect_width area) f,
     mk_rect (rect_x area) (rect_y area + f) (rect_width area) (sat_sub (rect_height area) f))"
    using f fits p s by (simp add: split_rect_def Vertical Let_def rect_fits_def rect_new_okD [OF rn] flip: f_def)
  then show ?thesis
    using f fits p s by (auto simp: partition_of_def mk_rect_def rect_fits_def in_rect_def)
qed

lemma collect_panes_tile:
  assumes rn: "rect_new_ok rn"
  shows "rect_fits area \<Longrightarrow> \<forall>r \<in> set (node_ratios n). f32_unit_interval r \<Longrightarrow>
    length (filter (\<lambda>p. in_rect (pi_rect p) x y) (collect_panes rn n area focus [])) =
    (if in_rect area x y then 1 else 0)"
proof (induction n arbitrary: area)
  case (Split d r a b)
  let ?p = "split_rect rn area d r"
  have part: "partition_of area (fst ?p) (snd ?p)"
    using Split.prems by (intro split_rect_partition [OF rn]) auto
  then have "rect_fits (fst ?p)" "rect_fits (snd ?p)" by (simp_all add: partition_of_def)
  then show ?case
    using part Split.prems(2)
    by (auto simp: collect_panes_Split Split.IH partition_of_def simp del: collect_panes.simps(2))
qed simp

section \<open>The invariant of a layout\<close>

definition layout_wf :: "tile_layout \<Rightarrow> bool" where
  "layout_wf l = (distinct (pane_ids l) \<and> tl_focus l \<in> set (pane_ids l) \<and>
                  (\<forall>r \<in> set (node_ratios (tl_root l)). f32_in_0_1_0_9 r))"

definition ids_below :: "u32 \<Rightarrow> tile_layout \<Rightarrow> bool" where
  "ids_below counter l = (\<forall>i \<in> set (pane_ids l). i < counter)"

lemma layout_wfI:
  "distinct (node_ids n) \<Longrightarrow> f \<in> set (node_ids n) \<Longrightarrow> \<forall>r \<in> set (node_ratios n). f32_in_0_1_0_9 r \<Longrightarrow>
   layout_wf \<lparr>tl_root = n, tl_focus = f\<rparr>"
  by (simp add: layout_wf_def pane_ids_node)

lemma layout_wfD:
  assumes "layout_wf l"
  shows "distinct (node_ids (tl_root l))" "tl_focus l \<in> set (node_ids (tl_root l))"
    "r \<in> set (node_ratios (tl_root l)) \<Longrightarrow> f32_in_0_1_0_9 r"
  using assms by (simp_all add: layout_wf_def pane_ids_node)

lemma split_at_wf:
  assumes "layout_wf l" and "t \<in> set (pane_ids l)" and "x \<notin> set (pane_ids l)"
  shows "layout_wf \<lparr>tl_root = split_at (tl_root l) t d x (valid_split_ratio r), tl_focus = x\<rparr>"
  using assms layout_wfD [OF assms(1)] split_at_ratios [of "tl_root l" t d x "valid_split_ratio r"]
  by (intro layout_wfI) (auto simp: layout_simps distinct_insert_after insert_after_set valid_split_ratio_range)

lemma set_ratio_wf:
  assumes "layout_wf l" and "r \<noteq> NaN"
  shows "layout_wf (fst (layout_set_ratio_at l p r))"
proof -
  have "f32_in_0_1_0_9 (f32_clamp r f32_0_1 f32_0_9)" by (rule f32_clamp_finite [OF assms(2)])
  then show ?thesis
    using layout_wfD [OF assms(1)] set_ratio_at_ratios [of "tl_root l" p "f32_clamp r f32_0_1 f32_0_9"]
    by (auto simp: layout_wf_def layout_set_ratio_at_def pane_ids_node case_prod_beta set_ratio_at_frame)
qed

lemma get_ratio_in_tree: "get_ratio_at n p = Some r \<Longrightarrow> r \<in> set (node_ratios n)"
  by (induction n p rule: get_ratio_at.induct) auto

lemma resize_focused_shape:
  "resize_focused rn l nav delta area = l \<or>
   (\<exists>p adj. (adj = delta \<or> adj = f32_neg delta) \<and>
      resize_focused rn l nav delta area =
        fst (layout_set_ratio_at l p (f32_add (unwrap_or (get_ratio_at (tl_root l) p) f32_0_5) adj)))"
  by (auto simp: resize_focused_def Let_def split: option.splits)

lemma resize_focused_tree:
  "tl_root (resize_focused rn l nav delta area) = tl_root l \<or>
   (\<exists>path x. tl_root (resize_focused rn l nav delta area) = fst (set_ratio_at (tl_root l) path x))"
  using resize_focused_shape [of rn l nav delta area]
  by (elim disjE exE conjE) (simp_all add: layout_set_ratio_at_def case_prod_beta, blast+)

lemma resize_pane_tree:
  "tl_root (fst (resize_pane rn l p nav delta area)) = tl_root l \<or>
   (\<exists>path x. tl_root (fst (resize_pane rn l p nav delta area)) = fst (set_ratio_at (tl_root l) path x))"
  using resize_focused_tree [of rn "l\<lparr>tl_focus := p\<rparr>" nav delta area]
  by (simp add: resize_pane_def Let_def)

lemma f32_neg_NaN [simp]: "f32_neg d = NaN \<longleftrightarrow> d = NaN"
  by (cases d) auto

lemma resize_focused_wf:
  assumes "layout_wf l" and "delta \<noteq> NaN"
  shows "layout_wf (resize_focused rn l nav delta area)"
proof -
  have fin: "f32_is_finite (unwrap_or (get_ratio_at (tl_root l) p) f32_0_5)" for p
    using layout_wfD(3) [OF assms(1)]
    by (cases "get_ratio_at (tl_root l) p")
      (auto dest!: get_ratio_in_tree intro: f32_in_0_1_0_9_finite, simp add: f32_is_finite_def f32_0_5_def)
  show ?thesis
    using resize_focused_shape [of rn l nav delta area]
  proof (elim disjE exE conjE)
    fix p adj assume "adj = delta" and eq: "resize_focused rn l nav delta area =
      fst (layout_set_ratio_at l p (f32_add (unwrap_or (get_ratio_at (tl_root l) p) f32_0_5) adj))"
    then show ?thesis unfolding eq using assms fin by (intro set_ratio_wf f32_add_not_NaN) auto
  next
    fix p adj assume "adj = f32_neg delta" and eq: "resize_focused rn l nav delta area =
      fst (layout_set_ratio_at l p (f32_add (unwrap_or (get_ratio_at (tl_root l) p) f32_0_5) adj))"
    then show ?thesis unfolding eq using assms fin by (intro set_ratio_wf f32_add_not_NaN) auto
  qed (use assms in simp)
qed

lemma resize_focused_frame:
  "pane_ids (resize_focused rn l nav delta area) = pane_ids l"
  "tl_focus (resize_focused rn l nav delta area) = tl_focus l"
  using resize_focused_shape [of rn l nav delta area]
  by (auto simp: layout_set_ratio_at_def case_prod_beta pane_ids_node set_ratio_at_frame)

lemma layout_wf_focus:
  "layout_wf l \<Longrightarrow> f \<in> set (pane_ids l) \<Longrightarrow> layout_wf (l\<lparr>tl_focus := f\<rparr>)"
  by (simp add: layout_wf_def pane_ids_node)

lemma resize_pane_frame:
  "pane_ids (fst (resize_pane rn l p nav delta area)) = pane_ids l"
  "tl_focus (fst (resize_pane rn l p nav delta area)) = tl_focus l"
  using resize_focused_frame [of rn "l\<lparr>tl_focus := p\<rparr>" nav delta area]
  by (simp_all add: resize_pane_def Let_def pane_ids_node)

lemma resize_pane_wf:
  assumes "layout_wf l" and "delta \<noteq> NaN"
  shows "layout_wf (fst (resize_pane rn l p nav delta area))"
proof (cases "p \<in> set (pane_ids l)")
  case True
  have "layout_wf (resize_focused rn (l\<lparr>tl_focus := p\<rparr>) nav delta area)"
    using assms True by (intro resize_focused_wf layout_wf_focus)
  moreover have "tl_focus l \<in> set (pane_ids (resize_focused rn (l\<lparr>tl_focus := p\<rparr>) nav delta area))"
    using assms(1) by (simp add: resize_focused_frame layout_wf_def) (simp add: pane_ids_node)
  ultimately show ?thesis using True by (simp add: resize_pane_def Let_def layout_wf_focus)
qed (use assms in \<open>simp add: resize_pane_def\<close>)

lemma swap_panes_wf: "layout_wf l \<Longrightarrow> layout_wf (fst (swap_panes l a b))"
  using set_swap_ids [of a "set (pane_ids l)" b]
  by (auto simp: swap_panes_def layout_wf_def pane_ids_node node_ids_swap Let_def swap_keeps_shape
      distinct_map inj_on_subset [OF inj_swap_id])

text \<open>Closing the focused pane, in full.\<close>

lemma close_focused_wf:
  assumes wf: "layout_wf l" and many: "1 < pane_count l"
  obtains l' where "close_focused l = Some (l', True)"
    "pane_ids l' = filter (\<lambda>i. i \<noteq> tl_focus l) (pane_ids l)"
    "layout_wf l'"
    "\<exists>i < length (pane_ids l). pane_ids l ! i = tl_focus l \<and>
       tl_focus l' = (if i + 1 < length (pane_ids l) then pane_ids l ! (i + 1) else pane_ids l ! (i - 1))"
proof -
  let ?ids = "pane_ids l" and ?f = "tl_focus l"
  have d: "distinct ?ids" and f: "?f \<in> set ?ids" using wf by (simp_all add: layout_wf_def)
  have len: "1 < length ?ids" using many by (simp add: pane_count_length pane_ids_node)
  obtain i where pos: "position ?f ?ids = Some i"
    using f by (cases "position ?f ?ids") auto
  have i: "i < length ?ids" "?ids ! i = ?f" using position_Some [OF pos] by auto
  define g where "g = (if i + 1 < length ?ids then ?ids ! (i + 1) else ?ids ! (i - 1))"
  define j where "j = (if i + 1 < length ?ids then i + 1 else i - 1)"
  have j: "j < length ?ids" "j \<noteq> i" "g = ?ids ! j" using i len by (auto simp: j_def g_def)
  then have g: "g \<in> set ?ids" "g \<noteq> ?f" using i d nth_eq_iff_index_eq [OF d j(1) i(1)] by auto
  obtain n' where n': "remove_pane (tl_root l) ?f = Some n'"
    using g by (cases "remove_pane (tl_root l) ?f") (auto simp: remove_pane_None pane_ids_node)
  let ?l' = "\<lparr>tl_root = n', tl_focus = g\<rparr>"
  have ids': "pane_ids ?l' = filter (\<lambda>i. i \<noteq> ?f) ?ids"
    using remove_pane_Some [OF n'] by (simp add: pane_ids_node)
  have "layout_wf ?l'"
    using ids' d g layout_wfD(3) [OF wf] remove_pane_ratios [OF n'] by (auto simp: layout_wf_def)
  moreover have "close_focused l = Some (?l', True)"
    using many pos n' by (simp add: close_focused_def Let_def g_def)
  ultimately show thesis
    using that [of ?l'] ids' i by (auto simp: g_def)
qed

end
