(* ===== verification/Layout_Properties.thy ===== *)
theory Layout_Properties
  imports Layout_Geometry
begin

text \<open>
  The properties of the pane layout: the reachable layouts of a workspace with the global
  pane counter, the tiling of the screen area, and what closing, splitting, inserting,
  swapping, resizing and directional focus do.
\<close>

section \<open>Reachable layouts\<close>

text \<open>
  A state is a layout and the global pane counter. The rules that allocate ask that the
  counter does not wrap (fewer than \<open>2\<^sup>3\<^sup>2 - 1\<close> panes in the life of the process); a pane
  moved in from another workspace was allocated before; ratios and deltas are not NaN.
\<close>

inductive layout_step :: "rect_ctor \<Rightarrow> tile_layout \<times> u32 \<Rightarrow> tile_layout \<times> u32 \<Rightarrow> bool" for rn where
  split: "c < c + 1 \<Longrightarrow> split_focused_with_ratio c l d r = ((l', i), c') \<Longrightarrow> layout_step rn (l, c) (l', c')"
| insert: "moved < c \<Longrightarrow> insert_pane_near l target moved d r = (l', b) \<Longrightarrow> layout_step rn (l, c) (l', c)"
| close: "close_focused l = Some (l', b) \<Longrightarrow> layout_step rn (l, c) (l', c)"
| focus: "layout_step rn (l, c) (focus_pane l i, c)"
| swap: "layout_step rn (l, c) (fst (swap_panes l i j), c)"
| ratio: "r \<noteq> NaN \<Longrightarrow> layout_step rn (l, c) (fst (layout_set_ratio_at l p r), c)"
| resize: "delta \<noteq> NaN \<Longrightarrow> layout_step rn (l, c) (fst (resize_pane rn l i nav delta area), c)"
| elsewhere: "c < c + 1 \<Longrightarrow> layout_step rn (l, c) (l, c + 1)"

inductive layout_reachable :: "rect_ctor \<Rightarrow> tile_layout \<times> u32 \<Rightarrow> bool" for rn where
  start: "c < c + 1 \<Longrightarrow> tile_layout_new c = ((l, i), c') \<Longrightarrow> layout_reachable rn (l, c')"
| step: "layout_reachable rn s \<Longrightarrow> layout_step rn s t \<Longrightarrow> layout_reachable rn t"

definition layout_inv :: "tile_layout \<times> u32 \<Rightarrow> bool" where
  "layout_inv s = (layout_wf (fst s) \<and> ids_below (snd s) (fst s))"

lemma less_succ_trans: "(i::u32) < c \<Longrightarrow> c < c + 1 \<Longrightarrow> i < c + 1"
  by (rule less_trans)

lemma layout_step_split_inv:
  assumes "layout_inv (l, c)" and "c < c + 1" and "split_focused_with_ratio c l d r = ((l', i), c')"
  shows "layout_inv (l', c')"
proof -
  have wf: "layout_wf l" and below: "\<forall>i \<in> set (pane_ids l). i < c"
    using assms(1) by (simp_all add: layout_inv_def ids_below_def)
  have fresh: "c \<notin> set (pane_ids l)" using below by auto
  have l': "l' = \<lparr>tl_root = split_at (tl_root l) (tl_focus l) d c (valid_split_ratio r), tl_focus = c\<rparr>"
    and c': "c' = c + 1"
    using assms(3) by (auto simp: split_focused_with_ratio_def pane_id_alloc_def)
  have "layout_wf l'"
    unfolding l' using wf fresh by (intro split_at_wf) (auto simp: layout_wf_def)
  moreover have "ids_below c' l'"
    using below assms(2)
    by (auto simp: ids_below_def l' c' layout_simps insert_after_set split: if_splits intro: less_trans)
  ultimately show ?thesis by (simp add: layout_inv_def)
qed

lemma layout_step_inv: "layout_step rn s t \<Longrightarrow> layout_inv s \<Longrightarrow> layout_inv t"
proof (induction rule: layout_step.induct)
  case (split c l d r l' i c')
  then show ?case by (blast intro: layout_step_split_inv)
next
  case (insert moved c l target d r l' b)
  then show ?case
    using split_at_wf [of l target moved d r]
    by (auto simp: insert_pane_near_def layout_inv_def ids_below_def Let_def layout_simps
        insert_after_set split: if_splits)
next
  case (close l l' b c)
  show ?case
  proof (cases "1 < pane_count l")
    case True
    then obtain l'' where "close_focused l = Some (l'', True)" "layout_wf l''"
      "pane_ids l'' = filter (\<lambda>i. i \<noteq> tl_focus l) (pane_ids l)"
      using close.prems close_focused_wf [of l] by (metis fst_conv layout_inv_def)
    then show ?thesis using close by (auto simp: layout_inv_def ids_below_def)
  next
    case False
    then show ?thesis using close by (auto simp: close_focused_def)
  qed
next
  case (focus l c i)
  then show ?case
    by (auto simp: focus_pane_def layout_inv_def ids_below_def layout_wf_focus) (simp_all add: pane_ids_node)
next
  case (swap l c i j)
  have "set (pane_ids (fst (swap_panes l i j))) = set (pane_ids l)"
    using set_swap_ids [of i "set (pane_ids l)" j]
    by (auto simp: swap_panes_def Let_def pane_ids_node node_ids_swap)
  then show ?case using swap by (simp add: layout_inv_def ids_below_def swap_panes_wf)
next
  case (ratio r l c p)
  then show ?case
    by (auto simp: layout_inv_def ids_below_def set_ratio_wf)
      (simp add: layout_set_ratio_at_def case_prod_beta pane_ids_node set_ratio_at_frame)
next
  case (resize delta l c i nav area)
  then show ?case by (simp add: layout_inv_def ids_below_def resize_pane_wf resize_pane_frame)
next
  case (elsewhere c l)
  then show ?case by (auto simp: layout_inv_def ids_below_def intro: less_trans)
qed

lemma reachable_layout_inv: "layout_reachable rn s \<Longrightarrow> layout_inv s"
proof (induction rule: layout_reachable.induct)
  case (start c l i c')
  then show ?case
    by (auto simp: tile_layout_new_def pane_id_alloc_def layout_inv_def layout_wf_def ids_below_def
        pane_ids_node)
next
  case (step s t)
  then show ?case by (blast intro: layout_step_inv)
qed

text \<open>A reachable layout with two panes, for the witnesses.\<close>

definition demo_layout :: tile_layout where
  "demo_layout = fst (fst (split_focused_with_ratio 2 (fst (fst (tile_layout_new 1))) Horizontal f32_0_5))"

lemma demo_layout_eq:
  "demo_layout = \<lparr>tl_root = Split Horizontal f32_0_5 (Pane 1) (Pane 2), tl_focus = 2\<rparr>"
  by (simp add: demo_layout_def split_focused_with_ratio_def pane_id_alloc_def tile_layout_new_def
      valid_split_ratio_def f32_clamp_def f32_is_finite_def f32_0_1_def f32_0_5_def f32_0_9_def)

lemma demo_layout_reachable: "layout_reachable rn (demo_layout, 3)"
proof (rule layout_reachable.step)
  show "layout_reachable rn (fst (fst (tile_layout_new 1)), 2)"
    by (rule layout_reachable.start [of 1 _ 1]) (simp_all add: tile_layout_new_def pane_id_alloc_def)
  show "layout_step rn (fst (fst (tile_layout_new 1)), 2) (demo_layout, 3)"
    by (rule layout_step.split [of _ _ Horizontal f32_0_5 _ 2])
      (simp_all add: demo_layout_def split_focused_with_ratio_def pane_id_alloc_def)
qed

lemma demo_layout_wf: "layout_wf demo_layout"
  using reachable_layout_inv [OF demo_layout_reachable] by (simp add: layout_inv_def)

section \<open>Properties\<close>

text \<open>C1: In every layout a workspace can reach from \<open>TileLayout::new\<close> by splitting,
  inserting, closing, focusing, swapping and resizing panes, pane ids are distinct and were
  all allocated, the focused pane exists, and every split ratio lies between the floats 0.1
  and 0.9.\<close>

theorem layout_reachable_wf:
  assumes "layout_reachable rn (l, c)"
  shows "distinct (pane_ids l) \<and> tl_focus l \<in> set (pane_ids l) \<and> (\<forall>i \<in> set (pane_ids l). i < c) \<and>
         (\<forall>r \<in> set (node_ratios (tl_root l)). f32_in_0_1_0_9 r)"
  using reachable_layout_inv [OF assms] by (simp add: layout_inv_def layout_wf_def ids_below_def)

theorem layout_reachable_wf_witness:
  "distinct (pane_ids demo_layout) \<and> tl_focus demo_layout \<in> set (pane_ids demo_layout)"
  using layout_reachable_wf [OF demo_layout_reachable [of mk_rect]] by simp

text \<open>C2: The panes of a reachable layout tile the screen area: every cell of the area lies
  in exactly one pane rectangle, and no pane reaches outside the area. The area lies in the
  \<open>u16\<close> plane and \<open>Rect::new\<close> keeps rectangles that do.\<close>

theorem panes_tile_area:
  assumes "rect_new_ok rn" and "layout_reachable rn (l, c)" and "rect_fits area"
  shows "length (filter (\<lambda>p. in_rect (pi_rect p) x y) (panes rn l area)) =
         (if in_rect area x y then 1 else 0)"
  unfolding panes_def
  by (rule collect_panes_tile [OF assms(1,3)])
    (use reachable_layout_inv [OF assms(2)] in \<open>auto simp: layout_inv_def layout_wf_def intro: f32_in_0_1_0_9_unit\<close>)

theorem panes_tile_area_witness:
  "length (filter (\<lambda>p. in_rect (pi_rect p) 40 5) (panes clipping_rect_new demo_layout (mk_rect 0 0 80 24))) = 1"
  using panes_tile_area [OF clipping_rect_new_ok demo_layout_reachable, of "mk_rect 0 0 80 24" 40 5]
  by (simp add: rect_fits_def mk_rect_def in_rect_def)

text \<open>C28: Closing the focused pane of a well-formed layout with more than one pane
  succeeds without a panic, removes exactly that pane from the pane order, keeps the layout
  well formed, and moves the focus to the next pane in order, or to the previous one when
  the last was closed.\<close>

theorem close_focused_correct:
  assumes "layout_wf l" and "1 < pane_count l"
  shows "\<exists>l'. close_focused l = Some (l', True) \<and> layout_wf l' \<and>
    pane_ids l' = filter (\<lambda>i. i \<noteq> tl_focus l) (pane_ids l) \<and>
    (\<exists>i < length (pane_ids l). pane_ids l ! i = tl_focus l \<and>
       tl_focus l' = (if i + 1 < length (pane_ids l) then pane_ids l ! (i + 1) else pane_ids l ! (i - 1)))"
  using close_focused_wf [OF assms] by metis

theorem close_focused_correct_witness:
  "\<exists>l'. close_focused demo_layout = Some (l', True) \<and> pane_ids l' = [1]"
proof -
  have "1 < pane_count demo_layout" by (simp add: demo_layout_eq pane_count_def)
  from close_focused_correct [OF demo_layout_wf this] show ?thesis
    by (auto simp: demo_layout_eq pane_ids_node)
qed

text \<open>C29: Splitting the focused pane puts the freshly allocated pane directly after it in
  the pane order, focuses the new pane, advances the counter, keeps every other pane in
  place, and closing the new pane again gives back the old tree.\<close>

theorem split_focused_correct:
  assumes "layout_wf l" and "c \<notin> set (pane_ids l)"
  shows "\<exists>l' xs ys. split_focused_with_ratio c l d r = ((l', c), c + 1) \<and> layout_wf l' \<and> tl_focus l' = c \<and>
    pane_ids l = xs @ tl_focus l # ys \<and> pane_ids l' = xs @ tl_focus l # c # ys \<and>
    remove_pane (tl_root l') c = Some (tl_root l)"
proof -
  have d: "distinct (pane_ids l)" and f: "tl_focus l \<in> set (pane_ids l)"
    using assms(1) by (simp_all add: layout_wf_def)
  obtain xs ys where ids: "pane_ids l = xs @ tl_focus l # ys" using f by (meson split_list)
  have notin: "tl_focus l \<notin> set xs" "tl_focus l \<notin> set ys" using d ids by auto
  have cf: "c \<noteq> tl_focus l" using assms(2) f by auto
  let ?l' = "\<lparr>tl_root = split_at (tl_root l) (tl_focus l) d c (valid_split_ratio r), tl_focus = c\<rparr>"
  have "pane_ids ?l' = insert_after (tl_focus l) c (pane_ids l)" by (simp add: layout_simps)
  then have "pane_ids ?l' = xs @ tl_focus l # c # ys" using notin by (simp add: ids insert_after_split)
  moreover have "layout_wf ?l'" using assms f by (intro split_at_wf)
  moreover have "remove_pane (tl_root ?l') c = Some (tl_root l)"
    using assms(2) cf by (simp add: remove_split_at pane_ids_node)
  moreover have "split_focused_with_ratio c l d r = ((?l', c), c + 1)"
    by (simp add: split_focused_with_ratio_def pane_id_alloc_def)
  ultimately show ?thesis using ids by (metis (no_types, lifting) tile_layout.select_convs(2))
qed

theorem split_focused_correct_witness:
  "\<exists>l'. split_focused_with_ratio 3 demo_layout Vertical f32_0_5 = ((l', 3), 4) \<and> layout_wf l'"
proof -
  have "3 \<notin> set (pane_ids demo_layout)" by (simp add: demo_layout_eq pane_ids_node)
  from split_focused_correct [OF demo_layout_wf this, of Vertical f32_0_5] show ?thesis by auto
qed

text \<open>Swapping two panes of a layout exchanges their places and nothing else: the
  shape of the tree, its ratios and the focused id stay, the two ids trade positions, and
  swapping again restores the layout. The call succeeds exactly when both panes exist and
  differ, and otherwise changes nothing.\<close>

lemma swap_panes_correct:
  "(let (l', ok) = swap_panes l a b in
     (ok \<longleftrightarrow> a \<noteq> b \<and> a \<in> set (pane_ids l) \<and> b \<in> set (pane_ids l)) \<and>
     pane_ids l' = (if ok then map (swap_id a b) (pane_ids l) else pane_ids l) \<and>
     shape_of (tl_root l') = shape_of (tl_root l) \<and> node_ratios (tl_root l') = node_ratios (tl_root l) \<and>
     tl_focus l' = tl_focus l \<and> fst (swap_panes l' a b) = l)"
proof (cases "a \<noteq> b \<and> a \<in> set (pane_ids l) \<and> b \<in> set (pane_ids l)")
  case True
  let ?l' = "l\<lparr>tl_root := swap_pane_ids (tl_root l) a b\<rparr>"
  have s: "swap_panes l a b = (?l', True)" using True by (simp add: swap_panes_def)
  have ids: "pane_ids ?l' = map (swap_id a b) (pane_ids l)" by (simp add: layout_simps)
  then have "set (pane_ids ?l') = set (pane_ids l)"
    using True set_swap_ids [of a "set (pane_ids l)" b] by simp
  then have "swap_panes ?l' a b = (l, True)" using True by (simp add: swap_panes_def swap_swap)
  then show ?thesis using True s ids by (simp add: swap_keeps_shape)
next
  case False
  then have "swap_panes l a b = (l, False)" by (auto simp: swap_panes_def Let_def)
  then show ?thesis using False by simp
qed


definition plain_pane :: "pane_id \<Rightarrow> rect \<Rightarrow> pane_info" where
  "plain_pane i r = \<lparr>pi_id = i, pi_rect = r, pi_inner_rect = r, pi_scrollbar_rect = None, pi_borders = 0,
     pi_is_focused = False\<rparr>"


text \<open>C31: Resizing a pane never changes pane order, tree shape or focus; it changes the
  ratio of at most one split, and the returned flag is true exactly when the tree changed.
  The ratios stay between the floats 0.1 and 0.9.\<close>

theorem resize_pane_correct:
  assumes "layout_wf l" and "delta \<noteq> NaN"
  shows "let (l', changed) = resize_pane rn l p nav delta area in
    pane_ids l' = pane_ids l \<and> shape_of (tl_root l') = shape_of (tl_root l) \<and> tl_focus l' = tl_focus l \<and>
    layout_wf l' \<and> (changed \<longleftrightarrow> tl_root l' \<noteq> tl_root l) \<and>
    (\<exists>path. \<forall>q. q \<noteq> path \<longrightarrow> get_ratio_at (tl_root l') q = get_ratio_at (tl_root l) q)"
proof -
  obtain l' b where r: "resize_pane rn l p nav delta area = (l', b)" by fastforce
  have ids: "pane_ids l' = pane_ids l" and foc: "tl_focus l' = tl_focus l"
    using resize_pane_frame [of rn l p nav delta area] r by simp_all
  have wf: "layout_wf l'" using resize_pane_wf [OF assms, of rn p nav area] r by simp
  have one: "tl_root l' = tl_root l \<or> (\<exists>path x. tl_root l' = fst (set_ratio_at (tl_root l) path x))"
    using resize_pane_tree [of rn l p nav delta area] r by simp
  then have shape: "shape_of (tl_root l') = shape_of (tl_root l)" by (auto simp: set_ratio_at_frame)
  have path: "\<exists>path. \<forall>q. q \<noteq> path \<longrightarrow> get_ratio_at (tl_root l') q = get_ratio_at (tl_root l) q"
    using one by (auto simp: get_set_ratio_at)
  have b: "b \<longleftrightarrow> tl_root l' \<noteq> tl_root l"
  proof (cases "p \<in> set (pane_ids l)")
    case True
    then have "b \<longleftrightarrow> \<not> split_ratios_eq (split_ratios (tl_root l')) (split_ratios (tl_root l))"
      using r by (auto simp: resize_pane_def Let_def)
    moreover have "\<forall>r \<in> set (node_ratios (tl_root l)). r \<noteq> NaN"
      using layout_wfD(3) [OF assms(1)] by fastforce
    ultimately show ?thesis
      using split_ratios_eq_tree [OF shape] ids by (simp add: pane_ids_node)
  qed (use r in \<open>simp add: resize_pane_def\<close>)
  show ?thesis using r ids shape foc wf b path by simp
qed

theorem resize_pane_correct_witness:
  "pane_ids (fst (resize_pane mk_rect demo_layout 1 NavRight f32_0_1 (mk_rect 0 0 80 24))) = [1, 2]"
  using resize_pane_correct [OF demo_layout_wf, of f32_0_1 mk_rect 1 NavRight "mk_rect 0 0 80 24"]
  by (auto simp: Let_def case_prod_beta f32_0_1_def demo_layout_eq pane_ids_node)

text \<open>Moving a pane next to a target and closing it again restores the tree it was
  moved into; the move itself succeeds exactly when the target is in the layout and the
  moved pane is not, and it focuses the moved pane.\<close>

lemma insert_pane_near_round_trip:
  assumes "layout_wf l"
  shows "let (l', ok) = insert_pane_near l target moved d r in
    (ok \<longleftrightarrow> target \<in> set (pane_ids l) \<and> moved \<notin> set (pane_ids l)) \<and> layout_wf l' \<and>
    (ok \<longrightarrow> tl_focus l' = moved \<and>
       (\<exists>l''. close_focused l' = Some (l'', True) \<and> tl_root l'' = tl_root l)) \<and>
    (\<not> ok \<longrightarrow> l' = l)"
proof (cases "target \<in> set (pane_ids l) \<and> moved \<notin> set (pane_ids l)")
  case True
  let ?l' = "\<lparr>tl_root = split_at (tl_root l) target d moved (valid_split_ratio r), tl_focus = moved\<rparr>"
  have ins: "insert_pane_near l target moved d r = (?l', True)"
    using True by (auto simp: insert_pane_near_def)
  have wf: "layout_wf ?l'" using assms True by (intro split_at_wf) auto
  have "{target, moved} \<subseteq> set (pane_ids ?l')"
    using True by (auto simp: layout_simps insert_after_set)
  moreover have "card {target, moved} = 2" using True by (auto simp: card_insert_if)
  ultimately have "2 \<le> length (pane_ids ?l')"
    by (metis List.finite_set card_length card_mono le_trans)
  then have "1 < pane_count ?l'" by (simp add: layout_simps)
  then obtain l'' where "close_focused ?l' = Some (l'', True)"
    using close_focused_wf [OF wf] by blast
  moreover have "remove_pane (tl_root ?l') moved = Some (tl_root l)"
    using True by (auto simp: layout_simps intro: remove_split_at)
  ultimately have "\<exists>l''. close_focused ?l' = Some (l'', True) \<and> tl_root l'' = tl_root l"
    by (auto simp: close_focused_def Let_def split: option.splits if_splits)
  then show ?thesis using ins wf True by auto
next
  case False
  then have "insert_pane_near l target moved d r = (l, False)"
    by (auto simp: insert_pane_near_def Let_def)
  then show ?thesis using assms False by simp
qed

end
