(* ===== verification/Std_Map.thy ===== *)
theory Std_Map
  imports Prelude "HOL-Library.AList"
begin

text \<open>
  \<open>std::collections::HashMap\<close>. A map is an association list with distinct keys whose
  order is the map's iteration order; Rust leaves that order open, so nothing proved of a
  component may depend on it except where a lemma says so. The interface that the
  components rely on is the locale \<open>hash_map\<close>; the association list provides it.
\<close>

type_synonym ('k, 'v) hmap = "('k \<times> 'v) list"

definition hm_get :: "('k, 'v) hmap \<Rightarrow> 'k \<Rightarrow> 'v option" where
  "hm_get m k = map_of m k"

definition hm_insert :: "'k \<Rightarrow> 'v \<Rightarrow> ('k, 'v) hmap \<Rightarrow> ('k, 'v) hmap" where
  "hm_insert k v m = AList.update k v m"

definition hm_remove :: "'k \<Rightarrow> ('k, 'v) hmap \<Rightarrow> ('k, 'v) hmap" where
  "hm_remove k m = AList.delete k m"

definition hm_retain :: "('k \<Rightarrow> 'v \<Rightarrow> bool) \<Rightarrow> ('k, 'v) hmap \<Rightarrow> ('k, 'v) hmap" where
  "hm_retain p m = filter (\<lambda>(k, v). p k v) m"

definition hm_contains_key :: "('k, 'v) hmap \<Rightarrow> 'k \<Rightarrow> bool" where
  "hm_contains_key m k = (hm_get m k \<noteq> None)"

definition hm_values :: "('k, 'v) hmap \<Rightarrow> 'v list" where
  "hm_values m = map snd m"

definition hm_len :: "('k, 'v) hmap \<Rightarrow> nat" where
  "hm_len m = length m"

text \<open>The representation invariant: every key once.\<close>

definition hm_ok :: "('k, 'v) hmap \<Rightarrow> bool" where
  "hm_ok m = distinct (map fst m)"

locale hash_map =
  fixes ok :: "'m \<Rightarrow> bool"
    and empty :: 'm
    and get :: "'m \<Rightarrow> 'k \<Rightarrow> 'v option"
    and insert :: "'k \<Rightarrow> 'v \<Rightarrow> 'm \<Rightarrow> 'm"
    and remove :: "'k \<Rightarrow> 'm \<Rightarrow> 'm"
    and retain :: "('k \<Rightarrow> 'v \<Rightarrow> bool) \<Rightarrow> 'm \<Rightarrow> 'm"
    and size_of :: "'m \<Rightarrow> nat"
  assumes ok_empty: "ok empty"
    and ok_insert: "ok m \<Longrightarrow> ok (insert k v m)"
    and ok_remove: "ok m \<Longrightarrow> ok (remove k m)"
    and ok_retain: "ok m \<Longrightarrow> ok (retain p m)"
    and get_empty: "get empty k = None"
    and get_insert: "get (insert k v m) k' = (if k' = k then Some v else get m k')"
    and get_remove: "ok m \<Longrightarrow> get (remove k m) k' = (if k' = k then None else get m k')"
    and get_retain: "ok m \<Longrightarrow> get (retain p m) k =
      (case get m k of None \<Rightarrow> None | Some v \<Rightarrow> if p k v then Some v else None)"
    and size_of_card: "ok m \<Longrightarrow> size_of m = card (dom (get m))"
    and finite_keys: "finite (dom (get m))"
begin

lemma insert_get_same: "get m k = Some v \<Longrightarrow> get (insert k v m) = get m"
  by (auto simp: get_insert fun_eq_iff)

lemma remove_absent: "ok m \<Longrightarrow> get m k = None \<Longrightarrow> get (remove k m) = get m"
  by (auto simp: get_remove fun_eq_iff)

lemma size_insert:
  assumes "ok m"
  shows "size_of (insert k v m) = (if get m k = None then Suc (size_of m) else size_of m)"
proof -
  have "dom (get (insert k v m)) = Set.insert k (dom (get m))"
    by (auto simp: get_insert split: if_splits)
  then show ?thesis
    using assms finite_keys [of m]
    by (auto simp: size_of_card ok_insert card_insert_if)
qed

lemma size_retain_le:
  assumes "ok m"
  shows "size_of (retain p m) \<le> size_of m"
proof -
  have "dom (get (retain p m)) \<subseteq> dom (get m)"
    using assms by (auto simp: get_retain split: option.splits if_splits)
  then show ?thesis
    using assms finite_keys [of m] by (simp add: size_of_card ok_retain card_mono)
qed

lemma size_retain_eq:
  assumes "ok m"
  shows "size_of (retain p m) = size_of m \<longleftrightarrow> (\<forall>k v. get m k = Some v \<longrightarrow> p k v)"
proof
  assume eq: "size_of (retain p m) = size_of m"
  have sub: "dom (get (retain p m)) \<subseteq> dom (get m)"
    using assms by (auto simp: get_retain split: option.splits if_splits)
  have "dom (get (retain p m)) = dom (get m)"
    using eq assms by (intro card_subset_eq finite_keys sub) (simp add: size_of_card ok_retain)
  then show "\<forall>k v. get m k = Some v \<longrightarrow> p k v"
    using assms by (fastforce simp: get_retain dom_def split: option.splits if_splits)
next
  assume "\<forall>k v. get m k = Some v \<longrightarrow> p k v"
  then have "get (retain p m) = get m"
    using assms by (auto simp: get_retain fun_eq_iff split: option.splits)
  then show "size_of (retain p m) = size_of m"
    using assms by (simp add: size_of_card ok_retain)
qed

end

lemma hm_get_map_of: "hm_get m = map_of m"
  by (simp add: hm_get_def fun_eq_iff)

lemma hm_get_retain:
  "hm_ok m \<Longrightarrow> hm_get (hm_retain p m) k =
     (case hm_get m k of None \<Rightarrow> None | Some v \<Rightarrow> if p k v then Some v else None)"
proof (induction m)
  case Nil
  then show ?case by (simp add: hm_get_def hm_retain_def)
next
  case (Cons a m)
  obtain k' v' where a: "a = (k', v')" by fastforce
  have ok: "hm_ok m" and fresh: "k' \<notin> fst ` set m"
    using Cons.prems by (auto simp: hm_ok_def a)
  have none: "map_of m k' = None"
    using fresh by (simp add: map_of_eq_None_iff)
  have none': "map_of (hm_retain p m) k' = None"
    using fresh by (auto simp: map_of_eq_None_iff hm_retain_def)
  show ?case
    using Cons.IH [OF ok] none none'
    by (auto simp: hm_get_def hm_retain_def a split: option.splits)
qed

interpretation hm: hash_map hm_ok "[]" hm_get hm_insert hm_remove hm_retain hm_len
proof (unfold_locales, goal_cases)
  case (2 m k v) then show ?case by (simp add: hm_ok_def hm_insert_def distinct_update)
next
  case (3 m k) then show ?case by (simp add: hm_ok_def hm_remove_def distinct_delete)
next
  case (4 m p) then show ?case
    by (auto simp: hm_ok_def hm_retain_def distinct_map_filter)
next
  case (6 k v m k') show ?case by (simp add: hm_get_def hm_insert_def update_conv')
next
  case (7 m k k') show ?case by (simp add: hm_get_def hm_remove_def delete_conv')
next
  case (8 m p k) then show ?case by (rule hm_get_retain)
next
  case (9 m) then show ?case
    using distinct_card [of "map fst m"]
    by (simp add: hm_ok_def hm_len_def hm_get_map_of dom_map_of_conv_image_fst)
qed (simp_all add: hm_ok_def hm_get_map_of finite_dom_map_of)

lemmas hm_simps [simp] = hm.get_empty hm.get_insert

lemma hm_contains_key_Some [simp]: "hm_get m k = Some v \<Longrightarrow> hm_contains_key m k"
  by (simp add: hm_contains_key_def)

lemma hm_values_iff: "hm_ok m \<Longrightarrow> v \<in> set (hm_values m) \<longleftrightarrow> (\<exists>k. hm_get m k = Some v)"
  by (force simp: hm_values_def hm_ok_def hm_get_def)

lemma hm_ok_intros [intro, simp]: "hm_ok []" "hm_ok m \<Longrightarrow> hm_ok (hm_insert k v m)"
  "hm_ok m \<Longrightarrow> hm_ok (hm_remove k m)" "hm_ok m \<Longrightarrow> hm_ok (hm_retain p m)"
  by (rule hm.ok_empty hm.ok_insert hm.ok_remove hm.ok_retain; assumption)+

end
