(* ===== verification/Sequence_Gate.thy ===== *)
theory Sequence_Gate
  imports Std_Map
begin

text \<open>
  The contract shared by the report channels of a terminal: every source numbers its
  reports, a report is taken only when its number is larger than the last one taken from
  that source, and a report that is not taken leaves the gate as it was. The locale states
  it; the token metadata, the agent metadata and the hook reports provide it.
\<close>

text \<open>Feed a list of numbered reports through a gate; the reports it took, in order.\<close>

fun run_gate :: "('s \<Rightarrow> 'src \<Rightarrow> u64 \<Rightarrow> 's \<times> bool) \<Rightarrow> 's \<Rightarrow> ('src \<times> u64) list \<Rightarrow> 's \<times> ('src \<times> u64) list" where
  "run_gate accept s [] = (s, [])"
| "run_gate accept s ((src, seq) # ms) =
     (let (s', ok) = accept s src seq; (s'', taken) = run_gate accept s' ms
      in (s'', if ok then (src, seq) # taken else taken))"

definition seqs_of :: "'src \<Rightarrow> ('src \<times> u64) list \<Rightarrow> u64 list" where
  "seqs_of src taken = map snd (filter (\<lambda>m. fst m = src) taken)"

locale sequence_gate =
  fixes accept :: "'s \<Rightarrow> 'src \<Rightarrow> u64 \<Rightarrow> 's \<times> bool"
    and last_seq :: "'s \<Rightarrow> 'src \<Rightarrow> u64 option"
    and ok :: "'s \<Rightarrow> bool"
  assumes gate_ok: "ok s \<Longrightarrow> ok (fst (accept s src seq))"
    and taken_newer: "ok s \<Longrightarrow> snd (accept s src seq) \<Longrightarrow> last_seq s src = Some n \<Longrightarrow> n < seq"
    and taken_recorded: "ok s \<Longrightarrow> snd (accept s src seq) \<Longrightarrow>
      last_seq (fst (accept s src seq)) = (last_seq s)(src := Some seq)"
    and refused_unchanged: "ok s \<Longrightarrow> \<not> snd (accept s src seq) \<Longrightarrow> fst (accept s src seq) = s"
begin

lemma run_gate_newer:
  "ok s \<Longrightarrow> last_seq s src = Some n \<Longrightarrow> \<forall>q \<in> set (seqs_of src (snd (run_gate accept s ms))). n < q"
proof (induction ms arbitrary: s n)
  case Nil
  then show ?case by (simp add: seqs_of_def)
next
  case (Cons m ms)
  obtain src' seq where m: "m = (src', seq)" by fastforce
  obtain s' b where a: "accept s src' seq = (s', b)" by fastforce
  have ok': "ok s'" using gate_ok [OF Cons.prems(1), of src' seq] a by simp
  show ?case
  proof (cases b)
    case False
    then have "s' = s" using refused_unchanged [OF Cons.prems(1), of src' seq] a by simp
    then show ?thesis using Cons m a False by (simp add: case_prod_beta)
  next
    case True
    have l: "last_seq s' = (last_seq s)(src' := Some seq)"
      using taken_recorded [OF Cons.prems(1), of src' seq] a True by simp
    show ?thesis
    proof (cases "src' = src")
      case same: True
      have "n < seq" using taken_newer [OF Cons.prems(1), of src' seq n] a True same Cons.prems by simp
      moreover have "\<forall>q \<in> set (seqs_of src (snd (run_gate accept s' ms))). seq < q"
        using l same by (intro Cons.IH ok') simp
      ultimately show ?thesis using m a True same
        by (auto simp: case_prod_beta seqs_of_def intro: less_trans)
    next
      case False
      have "\<forall>q \<in> set (seqs_of src (snd (run_gate accept s' ms))). n < q"
        using l False Cons.prems by (intro Cons.IH ok') simp
      then show ?thesis using m a False by (auto simp: case_prod_beta seqs_of_def)
    qed
  qed
qed

lemma run_gate_increasing:
  "ok s \<Longrightarrow> sorted_wrt (<) (seqs_of src (snd (run_gate accept s ms)))"
proof (induction ms arbitrary: s)
  case Nil
  then show ?case by (simp add: seqs_of_def)
next
  case (Cons m ms)
  obtain src' seq where m: "m = (src', seq)" by fastforce
  obtain s' b where a: "accept s src' seq = (s', b)" by fastforce
  have ok': "ok s'" using gate_ok [OF Cons.prems, of src' seq] a by simp
  have tail: "sorted_wrt (<) (seqs_of src (snd (run_gate accept s' ms)))" by (rule Cons.IH [OF ok'])
  have "\<forall>q \<in> set (seqs_of src (snd (run_gate accept s' ms))). seq < q" if "b" "src' = src"
    using taken_recorded [OF Cons.prems, of src' seq] a that by (intro run_gate_newer ok') simp
  then show ?case using tail m a by (auto simp: case_prod_beta seqs_of_def)
qed

lemma run_gate_ok: "ok s \<Longrightarrow> ok (fst (run_gate accept s ms))"
proof (induction ms arbitrary: s)
  case (Cons m ms)
  then show ?case by (cases m) (simp add: case_prod_beta gate_ok)
qed simp

text \<open>A report taken once is refused ever after.\<close>

lemma run_gate_once: "ok s \<Longrightarrow> distinct (seqs_of src (snd (run_gate accept s ms)))"
  by (drule run_gate_increasing [of s src ms]) (metis strict_sorted_iff)

end

end
