(* ===== verification/Metadata_Tokens.thy ===== *)
theory Metadata_Tokens
  imports Sequence_Gate
begin

text \<open>
  \<open>src/src/metadata_tokens.rs\<close>: short-lived key/value tokens with an optional deadline,
  and the bounded table of report sequence numbers per source.
\<close>

section \<open>Data and operations\<close>

record metadata_token =
  mt_value :: string
  mt_expires_at :: "instant option"

type_synonym metadata_tokens = "(string, metadata_token) hmap"

definition MAX_SEQUENCE_SOURCES :: nat where
  "MAX_SEQUENCE_SOURCES = 32"

definition sequence_is_fresh :: "('src, u64) hmap \<Rightarrow> 'src \<Rightarrow> u64 option \<Rightarrow> bool" where
  "sequence_is_fresh sequences source seq =
     is_none_or seq (\<lambda>seq. is_none_or (hm_get sequences source) (\<lambda>last. last < seq))"

text \<open>The result: \<open>Inl ()\<close> is \<open>Err(())\<close>, the table is full.\<close>

definition accept_sequence ::
  "('src, u64) hmap \<Rightarrow> 'src \<Rightarrow> u64 option \<Rightarrow> ('src, u64) hmap \<times> (unit + bool)" where
  "accept_sequence sequences source seq =
     (case seq of
        None \<Rightarrow> (sequences, Inr True)
      | Some n \<Rightarrow>
          if \<not> sequence_is_fresh sequences source (Some n) then (sequences, Inr False)
          else if \<not> hm_contains_key sequences source \<and> MAX_SEQUENCE_SOURCES \<le> hm_len sequences
          then (sequences, Inl ())
          else (hm_insert source n sequences, Inr True))"

definition patch_entry ::
  "instant option \<Rightarrow> string \<times> string option \<Rightarrow> metadata_tokens \<times> bool \<Rightarrow> metadata_tokens \<times> bool" where
  "patch_entry expires_at kv st =
     (let (key, value) = kv; (entries, changed) = st in
      case value of
        Some v \<Rightarrow>
          (let token = \<lparr>mt_value = v, mt_expires_at = expires_at\<rparr> in
           if hm_get entries key \<noteq> Some token then (hm_insert key token entries, True)
           else (entries, changed))
      | None \<Rightarrow> (hm_remove key entries, changed \<or> hm_contains_key entries key))"

definition patch ::
  "metadata_tokens \<Rightarrow> (string, string option) hmap \<Rightarrow> duration option \<Rightarrow> instant \<Rightarrow> metadata_tokens \<times> bool" where
  "patch entries p ttl now =
     (let expires_at = Option.bind ttl (instant_checked_add now)
      in fold (patch_entry expires_at) p (entries, False))"

definition token_values :: "metadata_tokens \<Rightarrow> (string, string) hmap" where
  "token_values entries = map (\<lambda>(key, token). (key, mt_value token)) entries"

definition key_step :: "string \<times> string option \<Rightarrow> string list \<Rightarrow> string list" where
  "key_step kv keys =
     (case snd kv of Some _ \<Rightarrow> List.insert (fst kv) keys | None \<Rightarrow> removeAll (fst kv) keys)"

definition key_count_after_patch :: "metadata_tokens \<Rightarrow> (string, string option) hmap \<Rightarrow> nat" where
  "key_count_after_patch entries p =
     length (fold key_step p (map fst (token_values entries)))"

definition next_expiry :: "metadata_tokens \<Rightarrow> instant option" where
  "next_expiry entries = min_by_key (\<lambda>t. t) (List.map_filter mt_expires_at (hm_values entries))"

definition expire_at :: "metadata_tokens \<Rightarrow> instant \<Rightarrow> metadata_tokens \<times> bool" where
  "expire_at entries now =
     (let entries' = hm_retain (\<lambda>_ token. is_none_or (mt_expires_at token) (\<lambda>deadline. now < deadline)) entries
      in (entries', hm_len entries' \<noteq> hm_len entries))"

section \<open>The sequence table is a gate\<close>

definition sequences_ok :: "('src, u64) hmap \<Rightarrow> bool" where
  "sequences_ok m = (hm_ok m \<and> hm_len m \<le> MAX_SEQUENCE_SOURCES)"

definition token_gate :: "('src, u64) hmap \<Rightarrow> 'src \<Rightarrow> u64 \<Rightarrow> ('src, u64) hmap \<times> bool" where
  "token_gate m src n = (let (m', r) = accept_sequence m src (Some n) in (m', r = Inr True))"

interpretation tokens: sequence_gate token_gate hm_get sequences_ok
proof
  fix s :: "('src, u64) hmap" and src n seq
  assume ok: "sequences_ok s"
  show "sequences_ok (fst (token_gate s src seq))"
    using ok hm.size_insert [of s src seq]
    by (auto simp: token_gate_def accept_sequence_def sequences_ok_def hm_contains_key_def
        split: option.splits)
  show "snd (token_gate s src seq) \<Longrightarrow> hm_get s src = Some n \<Longrightarrow> n < seq"
    by (auto simp: token_gate_def accept_sequence_def sequence_is_fresh_def split: if_splits)
  show "snd (token_gate s src seq) \<Longrightarrow> hm_get (fst (token_gate s src seq)) = (hm_get s)(src := Some seq)"
    by (auto simp: token_gate_def accept_sequence_def fun_eq_iff split: if_splits)
  show "\<not> snd (token_gate s src seq) \<Longrightarrow> fst (token_gate s src seq) = s"
    by (auto simp: token_gate_def accept_sequence_def split: if_splits)
qed

section \<open>Lemmas\<close>

text \<open>What one patch entry asks of its key.\<close>

definition patched :: "instant option \<Rightarrow> string option \<Rightarrow> metadata_token option" where
  "patched e v = map_option (\<lambda>v. \<lparr>mt_value = v, mt_expires_at = e\<rparr>) v"

lemma patch_entry_get:
  assumes "hm_ok m"
  shows "hm_ok (fst (patch_entry e (k, v) (m, c)))"
    "hm_get (fst (patch_entry e (k, v) (m, c))) = (hm_get m)(k := patched e v)"
    "snd (patch_entry e (k, v) (m, c)) = (c \<or> hm_get m k \<noteq> patched e v)"
  using assms
  by (auto simp: patch_entry_def patched_def Let_def hm.get_remove hm_contains_key_def fun_eq_iff
      split: option.splits)

lemma patch_fold:
  "hm_ok m \<Longrightarrow> distinct (map fst p) \<Longrightarrow> fold (patch_entry e) p (m, c) = (m', c') \<Longrightarrow>
    hm_ok m' \<and>
    hm_get m' = (\<lambda>k. case map_of p k of None \<Rightarrow> hm_get m k | Some v \<Rightarrow> patched e v) \<and>
    (c' \<longleftrightarrow> c \<or> (\<exists>k v. map_of p k = Some v \<and> hm_get m k \<noteq> patched e v))"
proof (induction p arbitrary: m c)
  case (Cons kv p)
  obtain k0 v0 where kv: "kv = (k0, v0)" by fastforce
  obtain m1 c1 where s: "patch_entry e (k0, v0) (m, c) = (m1, c1)" by fastforce
  note st = patch_entry_get [where e = e and k = k0 and v = v0 and c = c, OF Cons.prems(1), unfolded s, simplified]
  have fresh: "map_of p k0 = None" and d: "distinct (map fst p)"
    using Cons.prems(2) by (auto simp: kv map_of_eq_None_iff)
  have f: "fold (patch_entry e) p (m1, c1) = (m', c')" using Cons.prems(3) by (simp add: kv s)
  note IH = Cons.IH [OF st(1) d f]
  have "(\<exists>k v. map_of p k = Some v \<and> hm_get m1 k \<noteq> patched e v) =
    (\<exists>k v. k \<noteq> k0 \<and> map_of p k = Some v \<and> hm_get m k \<noteq> patched e v)"
    unfolding st(2) fun_upd_apply using fresh by (metis option.distinct(1))
  then show ?case using IH fresh by (auto simp: kv st(2,3) fun_eq_iff split: option.splits)
qed simp

lemma next_expiry_None: "next_expiry m = None \<longleftrightarrow> (\<forall>t \<in> set (hm_values m). mt_expires_at t = None)"
  by (auto simp: next_expiry_def List.map_filter_def filter_empty_conv)

lemma next_expiry_Some:
  "next_expiry m = Some d \<Longrightarrow>
   (\<exists>t \<in> set (hm_values m). mt_expires_at t = Some d) \<and>
   (\<forall>t \<in> set (hm_values m). \<forall>e. mt_expires_at t = Some e \<longrightarrow> d \<le> e)"
  unfolding next_expiry_def
  by (drule min_by_key_Some) (force simp: List.map_filter_def)

lemma key_fold:
  "hm_ok m \<Longrightarrow> distinct ks \<Longrightarrow> set ks = dom (hm_get m) \<Longrightarrow>
   fold (patch_entry e) p (m, c) = (m', c') \<Longrightarrow>
   distinct (fold key_step p ks) \<and> set (fold key_step p ks) = dom (hm_get m')"
proof (induction p arbitrary: m c ks)
  case (Cons kv p)
  obtain k v where kv: "kv = (k, v)" by fastforce
  obtain m1 c1 where s: "patch_entry e (k, v) (m, c) = (m1, c1)" by fastforce
  let ?ks = "key_step (k, v) ks"
  note st = patch_entry_get [where e = e and k = k and v = v and c = c, OF Cons.prems(1), unfolded s, simplified]
  have d: "distinct ?ks"
    using Cons.prems(2) by (cases v) (simp_all add: key_step_def distinct_removeAll)
  have k: "set ?ks = dom (hm_get m1)"
    using Cons.prems(3) by (cases v) (auto simp: st(2) patched_def key_step_def split: if_splits)
  have "fold (patch_entry e) p (m1, c1) = (m', c')"
    using Cons.prems(4) by (simp add: kv s)
  then show ?case unfolding kv fold_simps by (rule Cons.IH [OF st(1) d k])
qed simp

section \<open>Properties\<close>

text \<open>Patching the tokens sets every key with a value to that value and the patch's
  deadline, removes every key without one, leaves all other keys alone, keeps the map's keys
  distinct, and reports a change exactly when some lookup changed.\<close>

lemma patch_correct:
  assumes "hm_ok entries" and "hm_ok p"
  shows "let (entries', changed) = patch entries p ttl now in
    hm_ok entries' \<and>
    (\<forall>k. hm_get entries' k =
       (case hm_get p k of
          None \<Rightarrow> hm_get entries k
        | Some None \<Rightarrow> None
        | Some (Some v) \<Rightarrow> Some \<lparr>mt_value = v, mt_expires_at = Option.bind ttl (instant_checked_add now)\<rparr>)) \<and>
    (changed \<longleftrightarrow> hm_get entries' \<noteq> hm_get entries)"
proof -
  let ?e = "Option.bind ttl (instant_checked_add now)"
  obtain m' c' where f: "patch entries p ttl now = (m', c')" by fastforce
  have "hm_ok m' \<and> hm_get m' = (\<lambda>k. case map_of p k of None \<Rightarrow> hm_get entries k | Some v \<Rightarrow> patched ?e v) \<and>
    (c' \<longleftrightarrow> (\<exists>k v. map_of p k = Some v \<and> hm_get entries k \<noteq> patched ?e v))"
    using patch_fold [of entries p ?e False m' c'] assms f by (simp add: patch_def Let_def hm_ok_def)
  moreover from this have "c' \<longleftrightarrow> hm_get m' \<noteq> hm_get entries"
    by (auto simp: fun_eq_iff split: option.splits)
  ultimately show ?thesis by (auto simp: f hm_get_map_of patched_def split: option.splits)
qed

text \<open>The number of keys predicted for a patch, which the server checks against its
  limit before it patches, is the number of keys the patched map has.\<close>

lemma key_count_after_patch_correct:
  assumes "hm_ok entries" and "hm_ok p"
  shows "key_count_after_patch entries p = hm_len (fst (patch entries p ttl now))"
proof -
  let ?e = "Option.bind ttl (instant_checked_add now)"
  obtain m' c' where f: "fold (patch_entry ?e) p (entries, False) = (m', c')" by fastforce
  have keys: "map fst (token_values entries) = map fst entries"
    by (simp add: token_values_def comp_def case_prod_beta)
  have "distinct (map fst entries)" using assms(1) by (simp add: hm_ok_def)
  moreover have "set (map fst entries) = dom (hm_get entries)"
    by (simp add: hm_get_map_of dom_map_of_conv_image_fst)
  ultimately have "length (fold key_step p (map fst entries)) = card (dom (hm_get m'))"
    using key_fold [OF assms(1) _ _ f] by (metis distinct_card)
  moreover have "hm_ok m'"
    using patch_fold [OF assms(1) _ f] assms(2) by (simp add: hm_ok_def)
  ultimately show ?thesis
    by (simp add: key_count_after_patch_def keys patch_def Let_def f hm.size_of_card)
qed

text \<open>C11: Expiring at a time removes exactly the tokens whose deadline has passed and reports
  whether there was one; that is the case exactly when the earliest deadline has passed, and
  every deadline left is in the future, so waking up at \<open>next_expiry\<close> is enough.\<close>

theorem expire_at_correct:
  assumes "hm_ok entries"
  shows "let (entries', changed) = expire_at entries now in
    (\<forall>k. hm_get entries' k =
       (case hm_get entries k of
          None \<Rightarrow> None
        | Some t \<Rightarrow> if is_none_or (mt_expires_at t) (\<lambda>d. now < d) then Some t else None)) \<and>
    (changed \<longleftrightarrow> (\<exists>d. next_expiry entries = Some d \<and> d \<le> now)) \<and>
    (\<forall>d. next_expiry entries' = Some d \<longrightarrow> now < d)"
proof -
  define keep where "keep = (\<lambda>(_::string) (token::metadata_token). is_none_or (mt_expires_at token) (\<lambda>d. now < d))"
  define m' where "m' = hm_retain keep entries"
  have ok': "hm_ok m'" using assms by (simp add: m'_def)
  have get: "hm_get m' k = (case hm_get entries k of None \<Rightarrow> None | Some t \<Rightarrow> if keep k t then Some t else None)" for k
    using assms by (simp add: m'_def hm.get_retain)
  have chg: "hm_len m' \<noteq> hm_len entries \<longleftrightarrow> (\<exists>k t. hm_get entries k = Some t \<and> \<not> keep k t)"
    using hm.size_retain_eq [OF assms, of keep] by (auto simp: m'_def)
  also have "\<dots> \<longleftrightarrow> (\<exists>t \<in> set (hm_values entries). \<exists>d. mt_expires_at t = Some d \<and> d \<le> now)"
    using assms by (fastforce simp: hm_values_iff keep_def is_none_or_def split: option.splits)
  also have "\<dots> \<longleftrightarrow> (\<exists>d. next_expiry entries = Some d \<and> d \<le> now)"
  proof (cases "next_expiry entries")
    case None
    then have "\<forall>t \<in> set (hm_values entries). mt_expires_at t = None" by (simp add: next_expiry_None)
    then show ?thesis using None by simp
  next
    case (Some d)
    then show ?thesis using next_expiry_Some [OF Some] by (auto intro: order_trans)
  qed
  finally have c: "hm_len m' \<noteq> hm_len entries \<longleftrightarrow> (\<exists>d. next_expiry entries = Some d \<and> d \<le> now)" .
  have "now < d" if d: "next_expiry m' = Some d" for d
  proof -
    obtain t k where "hm_get m' k = Some t" "mt_expires_at t = Some d"
      using next_expiry_Some [OF d] ok' by (auto simp: hm_values_iff)
    then show ?thesis using get [of k] by (auto simp: keep_def split: option.splits if_splits)
  qed
  then show ?thesis
    using c get unfolding keep_def m'_def by (simp add: expire_at_def Let_def)
qed

theorem expire_at_correct_witness:
  "snd (expire_at [(''k'', \<lparr>mt_value = ''v'', mt_expires_at = Some 5\<rparr>)] 7) = True"
proof -
  have "hm_ok [(''k'', \<lparr>mt_value = ''v'', mt_expires_at = Some 5\<rparr>)]" by (simp add: hm_ok_def)
  from expire_at_correct [OF this, of 7] show ?thesis
    by (simp add: Let_def case_prod_beta next_expiry_def hm_values_def List.map_filter_def)
qed

text \<open>Whatever reports arrive, the table of token report sequences takes from every
  source strictly increasing numbers, each at most once, and never follows more than 32
  sources.\<close>

lemma token_sequences_increase:
  assumes "sequences_ok m"
  shows "sorted_wrt (<) (seqs_of src (snd (run_gate token_gate m reports))) \<and>
         sequences_ok (fst (run_gate token_gate m reports))"
  using tokens.run_gate_increasing [OF assms] tokens.run_gate_ok [OF assms] by blast

end
