(* ===== verification/Std_Strings.thy ===== *)
theory Std_Strings
  imports Prelude "HOL-Library.Sublist"
begin

text \<open>
  Strings of the standard library. A Rust \<open>str\<close> is the list of its Unicode scalar
  values; \<open>string\<close> (a list of \<open>char\<close>) covers the texts over U+0000 to U+00FF, and the
  operations below are exact on those. Byte sequences are lists of \<open>u8\<close>. Decimal
  parsing works on character codes, so that it serves both.
\<close>

section \<open>Decimal numbers\<close>

definition is_digit_code :: "nat \<Rightarrow> bool" where
  "is_digit_code c = (48 \<le> c \<and> c \<le> 57)"

definition digits_value :: "nat list \<Rightarrow> nat" where
  "digits_value cs = foldl (\<lambda>n c. 10 * n + (c - 48)) 0 cs"

text \<open>\<open>str::parse\<close> for an unsigned type with the given largest value: an optional plus
  sign, at least one digit, no overflow.\<close>

definition parse_unsigned :: "nat \<Rightarrow> nat list \<Rightarrow> nat option" where
  "parse_unsigned largest cs =
     (let ds = (case cs of c # cs' \<Rightarrow> if c = 43 then cs' else cs | [] \<Rightarrow> [])
      in if ds \<noteq> [] \<and> list_all is_digit_code ds \<and> digits_value ds \<le> largest
         then Some (digits_value ds) else None)"

text \<open>\<open>format!("{n}")\<close>.\<close>

fun decimal :: "nat \<Rightarrow> nat list" where
  "decimal n = (if n < 10 then [48 + n] else decimal (n div 10) @ [48 + n mod 10])"

declare decimal.simps [simp del]

lemma digits_value_snoc [simp]: "digits_value (cs @ [c]) = 10 * digits_value cs + (c - 48)"
  by (simp add: digits_value_def)

lemma digits_value_Nil [simp]: "digits_value [] = 0"
  by (simp add: digits_value_def)

lemma decimal_digits: "list_all is_digit_code (decimal n) \<and> decimal n \<noteq> [] \<and> digits_value (decimal n) = n"
proof (induction n rule: decimal.induct)
  case (1 n)
  show ?case
  proof (cases "n < 10")
    case True
    then show ?thesis
      by (subst (1 2 3) decimal.simps) (simp add: is_digit_code_def digits_value_def)
  next
    case False
    then have IH: "list_all is_digit_code (decimal (n div 10))" "decimal (n div 10) \<noteq> []"
      "digits_value (decimal (n div 10)) = n div 10"
      using "1.IH" by auto
    have eq: "decimal n = decimal (n div 10) @ [48 + n mod 10]"
      using False by (subst decimal.simps) simp
    have "is_digit_code (48 + n mod 10)" by (simp add: is_digit_code_def)
    then show ?thesis unfolding eq using IH by simp
  qed
qed

lemma decimal_codes: "c \<in> set (decimal n) \<Longrightarrow> 48 \<le> c \<and> c \<le> 57"
  using decimal_digits [of n] by (auto simp: list_all_iff is_digit_code_def)

lemma parse_decimal: "n \<le> largest \<Longrightarrow> parse_unsigned largest (decimal n) = Some n"
proof -
  assume n: "n \<le> largest"
  obtain c cs where d: "decimal n = c # cs" using decimal_digits [of n] by (cases "decimal n") auto
  then have "c \<noteq> 43" using decimal_codes [of c n] by auto
  then show ?thesis using decimal_digits [of n] n d by (simp add: parse_unsigned_def)
qed

lemma parse_unsigned_le: "parse_unsigned largest cs = Some n \<Longrightarrow> n \<le> largest"
  by (auto simp: parse_unsigned_def Let_def split: if_splits)

section \<open>Bytes\<close>

definition bytes_of_codes :: "nat list \<Rightarrow> u8 list" where
  "bytes_of_codes cs = map of_nat cs"

definition codes_of_bytes :: "u8 list \<Rightarrow> nat list" where
  "codes_of_bytes bs = map unat bs"

lemma codes_of_bytes_of_codes: "\<forall>c \<in> set cs. c < 256 \<Longrightarrow> codes_of_bytes (bytes_of_codes cs) = cs"
  by (induction cs) (auto simp: codes_of_bytes_def bytes_of_codes_def unat_of_nat)

section \<open>Characters\<close>

text \<open>\<open>char::is_whitespace\<close>, \<open>char::is_control\<close> and \<open>char::to_lowercase\<close> up to U+00FF.\<close>

definition code :: "char \<Rightarrow> nat" where
  "code c = of_char c"

definition is_whitespace :: "char \<Rightarrow> bool" where
  "is_whitespace c = (let n = code c in (9 \<le> n \<and> n \<le> 13) \<or> n = 32 \<or> n = 133 \<or> n = 160)"

definition is_control :: "char \<Rightarrow> bool" where
  "is_control c = (let n = code c in n < 32 \<or> (127 \<le> n \<and> n < 160))"

definition lower_char :: "char \<Rightarrow> char" where
  "lower_char c = (let n = code c in
     if (65 \<le> n \<and> n \<le> 90) \<or> (192 \<le> n \<and> n \<le> 222 \<and> n \<noteq> 215) then char_of (n + 32) else c)"

definition ascii_lower_char :: "char \<Rightarrow> char" where
  "ascii_lower_char c = (let n = code c in if 65 \<le> n \<and> n \<le> 90 then char_of (n + 32) else c)"

text \<open>The length in bytes of the UTF-8 encoding, which is what \<open>str::len\<close> counts.\<close>

definition utf8_len :: "string \<Rightarrow> nat" where
  "utf8_len s = sum_list (map (\<lambda>c. if code c < 128 then 1 else 2) s)"

section \<open>String operations\<close>

definition trim_start :: "string \<Rightarrow> string" where
  "trim_start s = dropWhile is_whitespace s"

definition trim_end_matches :: "(char \<Rightarrow> bool) \<Rightarrow> string \<Rightarrow> string" where
  "trim_end_matches p s = rev (dropWhile p (rev s))"

definition trim_matches :: "(char \<Rightarrow> bool) \<Rightarrow> string \<Rightarrow> string" where
  "trim_matches p s = trim_end_matches p (dropWhile p s)"

definition trim :: "string \<Rightarrow> string" where
  "trim s = trim_matches is_whitespace s"

definition to_lowercase :: "string \<Rightarrow> string" where
  "to_lowercase s = map lower_char s"

definition to_ascii_lowercase :: "string \<Rightarrow> string" where
  "to_ascii_lowercase s = map ascii_lower_char s"

definition starts_with :: "string \<Rightarrow> string \<Rightarrow> bool" where
  "starts_with s p = (take (length p) s = p)"

definition ends_with :: "string \<Rightarrow> string \<Rightarrow> bool" where
  "ends_with s p = (drop (length s - length p) s = p)"

definition strip_prefix :: "string \<Rightarrow> string \<Rightarrow> string option" where
  "strip_prefix s p = (if starts_with s p then Some (drop (length p) s) else None)"

definition strip_suffix :: "string \<Rightarrow> string \<Rightarrow> string option" where
  "strip_suffix s p = (if ends_with s p then Some (take (length s - length p) s) else None)"

fun contains_str :: "string \<Rightarrow> string \<Rightarrow> bool" where
  "contains_str [] p = (p = [])"
| "contains_str (c # cs) p = (starts_with (c # cs) p \<or> contains_str cs p)"

text \<open>\<open>str::split\<close> on a set of characters: the parts between the separators, empty ones included.\<close>

fun split_on :: "(char \<Rightarrow> bool) \<Rightarrow> string \<Rightarrow> string list" where
  "split_on p [] = [[]]"
| "split_on p (c # cs) =
     (if p c then [] # split_on p cs
      else (case split_on p cs of [] \<Rightarrow> [[c]] | w # ws \<Rightarrow> (c # w) # ws))"

definition split_once :: "char \<Rightarrow> string \<Rightarrow> (string \<times> string) option" where
  "split_once c s =
     (case dropWhile (\<lambda>x. x \<noteq> c) s of [] \<Rightarrow> None | _ # rest \<Rightarrow> Some (takeWhile (\<lambda>x. x \<noteq> c) s, rest))"

definition split_whitespace :: "string \<Rightarrow> string list" where
  "split_whitespace s = filter (\<lambda>w. w \<noteq> []) (split_on is_whitespace s)"

definition parse_str :: "nat \<Rightarrow> string \<Rightarrow> nat option" where
  "parse_str largest s = parse_unsigned largest (map code s)"

lemma trim_ends:
  "trim s = [] \<or> (\<not> is_whitespace (hd (trim s)) \<and> \<not> is_whitespace (last (trim s)))"
proof (cases "trim s = []")
  case False
  let ?d = "dropWhile is_whitespace s"
  have t: "trim s = rev (dropWhile is_whitespace (rev ?d))"
    by (simp add: trim_def trim_matches_def trim_end_matches_def)
  have ne: "dropWhile is_whitespace (rev ?d) \<noteq> []" using False t by simp
  have l: "\<not> is_whitespace (last (trim s))"
    unfolding t using hd_dropWhile [OF ne] ne by (simp add: last_rev)
  obtain p where p: "rev ?d = p @ dropWhile is_whitespace (rev ?d)"
    by (metis takeWhile_dropWhile_id)
  then have pre: "?d = trim s @ rev p" by (metis rev_append rev_rev_ident t)
  then have "?d \<noteq> []" using False by auto
  then have "\<not> is_whitespace (hd ?d)" by (rule hd_dropWhile)
  then have "\<not> is_whitespace (hd (trim s))" using pre False by (metis hd_append2)
  then show ?thesis using l by simp
qed simp

lemma trim_idem [simp]: "trim (trim s) = trim s"
proof (cases "trim s")
  case Nil
  show ?thesis unfolding Nil by (simp add: trim_def trim_matches_def trim_end_matches_def)
next
  case (Cons c cs)
  have "\<not> is_whitespace (hd (trim s))" "\<not> is_whitespace (last (trim s))"
    using trim_ends [of s] Cons by auto
  then have a: "dropWhile is_whitespace (trim s) = trim s" and
    b: "dropWhile is_whitespace (rev (trim s)) = rev (trim s)"
    using Cons by (simp_all add: dropWhile_eq_self_iff hd_rev del: rev.simps)
  have "trim (trim s) = rev (dropWhile is_whitespace (rev (dropWhile is_whitespace (trim s))))"
    by (simp only: trim_def trim_matches_def trim_end_matches_def)
  then show ?thesis by (simp only: a b rev_rev_ident)
qed

lemma strip_prefix_append [simp]: "strip_prefix (p @ s) p = Some s"
  by (simp add: strip_prefix_def starts_with_def)

lemma strip_suffix_append [simp]: "strip_suffix (s @ p) p = Some s"
  by (simp add: strip_suffix_def ends_with_def)

end
