(* ===== verification/Byte_Trackers.thy ===== *)
theory Byte_Trackers
  imports Std_Strings
begin

text \<open>
  The two trackers that watch the byte stream of a pane's terminal:
  \<open>src/src/pane/kitty_keyboard.rs\<close> (the stack of kitty keyboard flags) and the
  \<open>DecscusrTracker\<close> of \<open>src/src/pane/cursor.rs\<close> (has the program set a cursor
  shape). The stream arrives in chunks of arbitrary size; the locale \<open>byte_tracker\<close>
  states when the cuts do not matter.
\<close>

section \<open>Chunked observation\<close>

locale byte_tracker =
  fixes observe :: "'t \<Rightarrow> u8 list \<Rightarrow> 't"
    and ok :: "'t \<Rightarrow> bool"
    and keeps :: "'t \<Rightarrow> u8 list \<Rightarrow> bool"
  assumes ok_observe: "ok t \<Longrightarrow> ok (observe t bs)"
    and observe_nothing: "ok t \<Longrightarrow> observe t [] = t"
    and observe_append: "ok t \<Longrightarrow> keeps t as \<Longrightarrow> observe (observe t as) bs = observe t (as @ bs)"
begin

text \<open>Any division of the stream into chunks whose prefixes the tracker can carry over
  leads to the same state as the stream in one piece.\<close>

lemma chunking:
  "ok t \<Longrightarrow> \<forall>n < length chunks. keeps t (concat (take n chunks)) \<Longrightarrow>
   foldl observe t chunks = observe t (concat chunks)"
proof (induction chunks rule: rev_induct)
  case Nil
  then show ?case by (simp add: observe_nothing)
next
  case (snoc c cs)
  have "foldl observe t cs = observe t (concat cs)"
  proof (rule snoc.IH [OF snoc.prems(1)], intro allI impI)
    fix n assume "n < length cs"
    then show "keeps t (concat (take n cs))" using snoc.prems(2) [rule_format, of n] by simp
  qed
  moreover have "keeps t (concat cs)" using snoc.prems(2) [rule_format, of "length cs"] by simp
  ultimately show ?case using snoc.prems(1) by (simp add: observe_append)
qed

end

section \<open>Kitty keyboard flags\<close>

record kitty_keyboard_tracker =
  kt_pending :: "u8 list"
  kt_stack :: "u16 list"  \<comment> \<open>the top is the last element\<close>
  kt_flags :: u16

definition kitty_default :: kitty_keyboard_tracker where
  "kitty_default = \<lparr>kt_pending = [], kt_stack = [], kt_flags = 0\<rparr>"

text \<open>The first parameter as a \<open>u16\<close>, 0 when it is not one. A byte sequence that is not
  UTF-8 has a byte that is no digit, so decoding first changes nothing.\<close>

definition parse_kitty_keyboard_flags :: "u8 list \<Rightarrow> u16" where
  "parse_kitty_keyboard_flags bytes =
     (let first_param = takeWhile (\<lambda>b. b \<noteq> 59) bytes
      in of_nat (unwrap_or (parse_unsigned 65535 (codes_of_bytes first_param)) 0))"

definition store_pending :: "kitty_keyboard_tracker \<Rightarrow> u8 list \<Rightarrow> kitty_keyboard_tracker" where
  "store_pending t bytes = t\<lparr>kt_pending := if length bytes \<le> 64 then bytes else []\<rparr>"

definition pop_flags :: "kitty_keyboard_tracker \<Rightarrow> kitty_keyboard_tracker" where
  "pop_flags t =
     (if kt_stack t = [] then t\<lparr>kt_flags := 0\<rparr>
      else t\<lparr>kt_stack := butlast (kt_stack t), kt_flags := last (kt_stack t)\<rparr>)"

definition observe_csi_u :: "kitty_keyboard_tracker \<Rightarrow> u8 list \<Rightarrow> kitty_keyboard_tracker" where
  "observe_csi_u t params =
     (case params of
        [] \<Rightarrow> t
      | kind # rest \<Rightarrow>
          if kind = 62 then
            t\<lparr>kt_stack := kt_stack t @ [kt_flags t], kt_flags := parse_kitty_keyboard_flags rest\<rparr>
          else if kind = 61 then t\<lparr>kt_flags := parse_kitty_keyboard_flags rest\<rparr>
          else if kind = 60 then (pop_flags ^^ unat (max (parse_kitty_keyboard_flags rest) 1)) t
          else t)"

definition is_csi_final :: "u8 \<Rightarrow> bool" where
  "is_csi_final b = (64 \<le> b \<and> b \<le> 126)"

text \<open>The loop over the bytes; the index is the position of the remaining bytes.\<close>

function kitty_scan :: "kitty_keyboard_tracker \<Rightarrow> u8 list \<Rightarrow> kitty_keyboard_tracker" where
  "kitty_scan t [] = t"
| "kitty_scan t (b # bs) =
     (if b \<noteq> 27 then kitty_scan t bs
      else (case bs of
              [] \<Rightarrow> store_pending t (b # bs)
            | c # cs \<Rightarrow>
                if c \<noteq> 91 then kitty_scan t bs
                else (case dropWhile (\<lambda>x. \<not> is_csi_final x) cs of
                        [] \<Rightarrow> store_pending t (b # bs)
                      | f # rest \<Rightarrow>
                          kitty_scan
                            (if f = 117 then observe_csi_u t (takeWhile (\<lambda>x. \<not> is_csi_final x) cs) else t)
                            rest)))"
  by pat_completeness auto
termination
proof (relation "measure (\<lambda>(t, bs). length bs)", goal_cases)
  case (4 t b bs c cs f rest)
  then have "length (f # rest) \<le> length cs" by (metis length_dropWhile_le)
  then show ?case using 4 by simp
qed auto

definition kitty_observe :: "kitty_keyboard_tracker \<Rightarrow> u8 list \<Rightarrow> kitty_keyboard_tracker" where
  "kitty_observe t bytes =
     (if kt_pending t = [] then kitty_scan t bytes
      else kitty_scan (t\<lparr>kt_pending := []\<rparr>) (kt_pending t @ bytes))"

text \<open>\<open>replay_ansi\<close>: the escape sequences that rebuild the state in a new terminal.\<close>

definition csi_u :: "u8 \<Rightarrow> u16 \<Rightarrow> u8 list" where
  "csi_u kind flags = [27, 91, kind] @ bytes_of_codes (decimal (unat flags)) @ [117]"

definition replay_ansi :: "kitty_keyboard_tracker \<Rightarrow> u8 list option" where
  "replay_ansi t =
     (case kt_stack t of
        [] \<Rightarrow> if kt_flags t \<noteq> 0 then Some (csi_u 61 (kt_flags t)) else None
      | baseline # rest \<Rightarrow>
          (let ansi = (if baseline \<noteq> 0 then csi_u 61 baseline else []) @
                      concat (map (csi_u 62) (rest @ [kt_flags t]))
           in if ansi \<noteq> [] then Some ansi else None))"

subsection \<open>Unfinished sequences\<close>

text \<open>The escape sequence a byte string ends in without completing it.\<close>

function unfinished :: "u8 list \<Rightarrow> u8 list" where
  "unfinished [] = []"
| "unfinished (b # bs) =
     (if b \<noteq> 27 then unfinished bs
      else (case bs of
              [] \<Rightarrow> b # bs
            | c # cs \<Rightarrow>
                if c \<noteq> 91 then unfinished bs
                else (case dropWhile (\<lambda>x. \<not> is_csi_final x) cs of
                        [] \<Rightarrow> b # bs
                      | f # rest \<Rightarrow> unfinished rest)))"
  by pat_completeness auto
termination
proof (relation "measure length", goal_cases)
  case (4 b bs c cs f rest)
  then have "length (f # rest) \<le> length cs" by (metis length_dropWhile_le)
  then show ?case using 4 by simp
qed auto

text \<open>The state after a chunk, its unfinished end left out.\<close>

function kitty_done :: "kitty_keyboard_tracker \<Rightarrow> u8 list \<Rightarrow> kitty_keyboard_tracker" where
  "kitty_done t [] = t"
| "kitty_done t (b # bs) =
     (if b \<noteq> 27 then kitty_done t bs
      else (case bs of
              [] \<Rightarrow> t
            | c # cs \<Rightarrow>
                if c \<noteq> 91 then kitty_done t bs
                else (case dropWhile (\<lambda>x. \<not> is_csi_final x) cs of
                        [] \<Rightarrow> t
                      | f # rest \<Rightarrow>
                          kitty_done
                            (if f = 117 then observe_csi_u t (takeWhile (\<lambda>x. \<not> is_csi_final x) cs) else t)
                            rest)))"
  by pat_completeness auto
termination
proof (relation "measure (\<lambda>(t, bs). length bs)", goal_cases)
  case (4 t b bs c cs f rest)
  then have "length (f # rest) \<le> length cs" by (metis length_dropWhile_le)
  then show ?case using 4 by simp
qed auto

declare kitty_scan.simps [simp del] unfinished.simps [simp del] kitty_done.simps [simp del]

definition csi_tail :: "u8 list \<Rightarrow> u8 list" where
  "csi_tail cs = dropWhile (\<lambda>x. \<not> is_csi_final x) cs"

definition csi_params :: "u8 list \<Rightarrow> u8 list" where
  "csi_params cs = takeWhile (\<lambda>x. \<not> is_csi_final x) cs"

definition csi_dispatch :: "kitty_keyboard_tracker \<Rightarrow> u8 \<Rightarrow> u8 list \<Rightarrow> kitty_keyboard_tracker" where
  "csi_dispatch t f cs = (if f = 117 then observe_csi_u t (csi_params cs) else t)"

lemma kitty_scan_cases:
  "kitty_scan t [] = t"
  "b \<noteq> 27 \<Longrightarrow> kitty_scan t (b # bs) = kitty_scan t bs"
  "kitty_scan t [27] = store_pending t [27]"
  "c \<noteq> 91 \<Longrightarrow> kitty_scan t (27 # c # cs) = kitty_scan t (c # cs)"
  "csi_tail cs = [] \<Longrightarrow> kitty_scan t (27 # 91 # cs) = store_pending t (27 # 91 # cs)"
  "csi_tail cs = f # rest \<Longrightarrow> kitty_scan t (27 # 91 # cs) = kitty_scan (csi_dispatch t f cs) rest"
  by (simp_all add: kitty_scan.simps csi_tail_def csi_dispatch_def csi_params_def del: dropWhile_eq_Nil_conv)

lemma unfinished_cases:
  "unfinished [] = []"
  "b \<noteq> 27 \<Longrightarrow> unfinished (b # bs) = unfinished bs"
  "unfinished [27] = [27]"
  "c \<noteq> 91 \<Longrightarrow> unfinished (27 # c # cs) = unfinished (c # cs)"
  "csi_tail cs = [] \<Longrightarrow> unfinished (27 # 91 # cs) = 27 # 91 # cs"
  "csi_tail cs = f # rest \<Longrightarrow> unfinished (27 # 91 # cs) = unfinished rest"
  by (simp_all add: unfinished.simps csi_tail_def del: dropWhile_eq_Nil_conv)

lemma kitty_done_cases:
  "kitty_done t [] = t"
  "b \<noteq> 27 \<Longrightarrow> kitty_done t (b # bs) = kitty_done t bs"
  "kitty_done t [27] = t"
  "c \<noteq> 91 \<Longrightarrow> kitty_done t (27 # c # cs) = kitty_done t (c # cs)"
  "csi_tail cs = [] \<Longrightarrow> kitty_done t (27 # 91 # cs) = t"
  "csi_tail cs = f # rest \<Longrightarrow> kitty_done t (27 # 91 # cs) = kitty_done (csi_dispatch t f cs) rest"
  by (simp_all add: kitty_done.simps csi_tail_def csi_dispatch_def csi_params_def del: dropWhile_eq_Nil_conv)

lemmas scan_cases = kitty_scan_cases unfinished_cases kitty_done_cases

text \<open>Every byte string is of one of the six forms the loop distinguishes.\<close>

lemma scan_induct [case_names Nil skip esc other partial complete]:
  assumes "P []"
    and "\<And>b bs. b \<noteq> 27 \<Longrightarrow> P bs \<Longrightarrow> P (b # bs)"
    and "P [27]"
    and "\<And>c cs. c \<noteq> 91 \<Longrightarrow> P (c # cs) \<Longrightarrow> P (27 # c # cs)"
    and "\<And>cs. csi_tail cs = [] \<Longrightarrow> P (27 # 91 # cs)"
    and "\<And>cs f rest. csi_tail cs = f # rest \<Longrightarrow> P rest \<Longrightarrow> P (27 # 91 # cs)"
  shows "P bs"
proof (induction bs rule: unfinished.induct)
  case (2 b bs)
  consider "b \<noteq> 27" | "b = 27" "bs = []" | c cs where "b = 27" "bs = c # cs" "c \<noteq> 91"
    | cs where "b = 27" "bs = 91 # cs" "csi_tail cs = []"
    | cs f rest where "b = 27" "bs = 91 # cs" "csi_tail cs = f # rest"
    by (cases bs) (auto, metis list.exhaust)
  then show ?case
  proof cases
    case 1 then show ?thesis using 2(1) assms(2) by blast
  next
    case 2 then show ?thesis using assms(3) by simp
  next
    case (3 c cs) then show ?thesis using 2(2) assms(4) by blast
  next
    case (4 cs) then show ?thesis using assms(5) by blast
  next
    case (5 cs f rest)
    then have "P rest" using 2(3) [of 91 cs f rest] by (simp add: csi_tail_def)
    then show ?thesis using 5 assms(6) by blast
  qed
qed (rule assms(1))

lemma kitty_scan_done:
  "kitty_scan t bs = (if unfinished bs = [] then kitty_done t bs else store_pending (kitty_done t bs) (unfinished bs))"
  by (induction bs arbitrary: t rule: scan_induct) (simp_all add: scan_cases)

lemma csi_tail_extend:
  "csi_tail xs = y # ys \<Longrightarrow> csi_tail (xs @ zs) = y # ys @ zs"
  "csi_tail xs = y # ys \<Longrightarrow> csi_dispatch t f (xs @ zs) = csi_dispatch t f xs"
proof -
  have "csi_tail xs = y # ys \<Longrightarrow> csi_tail (xs @ zs) = y # ys @ zs \<and> csi_params (xs @ zs) = csi_params xs"
    unfolding csi_tail_def csi_params_def by (induction xs) (auto split: if_splits)
  then show "csi_tail xs = y # ys \<Longrightarrow> csi_tail (xs @ zs) = y # ys @ zs"
    "csi_tail xs = y # ys \<Longrightarrow> csi_dispatch t f (xs @ zs) = csi_dispatch t f xs"
    by (simp_all add: csi_dispatch_def)
qed

lemma kitty_scan_append: "kitty_scan t (as @ bs) = kitty_scan (kitty_done t as) (unfinished as @ bs)"
  by (induction as arbitrary: t rule: scan_induct) (simp_all add: scan_cases csi_tail_extend)

lemma unfinished_append: "unfinished (as @ bs) = unfinished (unfinished as @ bs)"
  by (induction as rule: scan_induct) (simp_all add: scan_cases csi_tail_extend)

lemma unfinished_idem [simp]: "unfinished (unfinished as) = unfinished as"
  using unfinished_append [of as "[]"] by simp

lemma kitty_done_unfinished [simp]: "kitty_done t (unfinished as) = t"
  by (induction as rule: scan_induct) (simp_all add: scan_cases)

lemma observe_csi_u_pending [simp]: "kt_pending (observe_csi_u t ps) = kt_pending t"
proof -
  have "kt_pending ((pop_flags ^^ n) t) = kt_pending t" for n t
    by (induction n) (auto simp: pop_flags_def)
  then show ?thesis by (auto simp: observe_csi_u_def split: list.splits)
qed

lemma kitty_done_pending [simp]: "kt_pending (kitty_done t bs) = kt_pending t"
  by (induction bs arbitrary: t rule: scan_induct) (simp_all add: scan_cases csi_dispatch_def)

text \<open>What a tracker holds between chunks is an unfinished sequence of at most 64 bytes.\<close>

definition kitty_ok :: "kitty_keyboard_tracker \<Rightarrow> bool" where
  "kitty_ok t = (unfinished (kt_pending t) = kt_pending t \<and> length (kt_pending t) \<le> 64)"

definition kitty_keeps :: "kitty_keyboard_tracker \<Rightarrow> u8 list \<Rightarrow> bool" where
  "kitty_keeps t bs = (length (unfinished (kt_pending t @ bs)) \<le> 64)"

lemma no_pending [simp]: "kt_pending t = [] \<Longrightarrow> t\<lparr>kt_pending := []\<rparr> = t"
  by (cases t) simp

lemma kitty_observe_scan: "kitty_observe t bs = kitty_scan (t\<lparr>kt_pending := []\<rparr>) (kt_pending t @ bs)"
  by (simp add: kitty_observe_def)

lemma kitty_observe_done:
  "kitty_observe t bs =
     (let u = unfinished (kt_pending t @ bs); d = kitty_done (t\<lparr>kt_pending := []\<rparr>) (kt_pending t @ bs)
      in if u = [] then d else store_pending d u)"
  by (simp add: kitty_observe_scan kitty_scan_done Let_def)

lemma kitty_observe_state:
  assumes "kitty_keeps t bs"
  shows "kitty_observe t bs =
    (kitty_done (t\<lparr>kt_pending := []\<rparr>) (kt_pending t @ bs))\<lparr>kt_pending := unfinished (kt_pending t @ bs)\<rparr>"
  using assms by (simp add: kitty_observe_done Let_def store_pending_def kitty_keeps_def)

lemma kitty_observe_ok: "kitty_ok (kitty_observe t bs)"
  by (simp add: kitty_observe_done Let_def kitty_ok_def store_pending_def unfinished_cases)

lemma kitty_observe_nil: "kitty_ok t \<Longrightarrow> kitty_observe t [] = t"
proof -
  assume ok: "kitty_ok t"
  then have u: "unfinished (kt_pending t) = kt_pending t" by (simp add: kitty_ok_def)
  have k: "kitty_keeps t []" using ok by (simp add: kitty_keeps_def kitty_ok_def)
  have "kitty_done (t\<lparr>kt_pending := []\<rparr>) (kt_pending t) = t\<lparr>kt_pending := []\<rparr>"
    by (subst u [symmetric]) (rule kitty_done_unfinished)
  then show ?thesis by (simp add: kitty_observe_state [OF k] u)
qed

lemma kitty_observe_append:
  assumes "kitty_keeps t as"
  shows "kitty_observe (kitty_observe t as) bs = kitty_observe t (as @ bs)"
proof -
  let ?t0 = "t\<lparr>kt_pending := []\<rparr>" and ?xs = "kt_pending t @ as"
  note o = kitty_observe_scan
  have p: "(kitty_done ?t0 ?xs)\<lparr>kt_pending := []\<rparr> = kitty_done ?t0 ?xs"
    using kitty_done_pending [of ?t0 ?xs] by (cases "kitty_done ?t0 ?xs") simp
  have "kitty_observe (kitty_observe t as) bs =
      kitty_observe ((kitty_done ?t0 ?xs)\<lparr>kt_pending := unfinished ?xs\<rparr>) bs"
    by (simp only: kitty_observe_state [OF assms])
  also have "\<dots> = kitty_scan (kitty_done ?t0 ?xs) (unfinished ?xs @ bs)"
    unfolding o by (simp add: p)
  also have "\<dots> = kitty_scan ?t0 (?xs @ bs)" by (rule kitty_scan_append [symmetric])
  finally show ?thesis by (simp add: o)
qed

interpretation kitty: byte_tracker kitty_observe kitty_ok kitty_keeps
  by unfold_locales (simp_all add: kitty_observe_ok kitty_observe_nil kitty_observe_append)

subsection \<open>Properties\<close>

lemma digit_byte: "48 \<le> c \<Longrightarrow> c \<le> 57 \<Longrightarrow> \<not> is_csi_final (of_nat c) \<and> (of_nat c :: u8) \<noteq> 59"
proof -
  assume "48 \<le> c" "c \<le> 57"
  then have "c = 48 \<or> c = 49 \<or> c = 50 \<or> c = 51 \<or> c = 52 \<or> c = 53 \<or> c = 54 \<or> c = 55 \<or> c = 56 \<or> c = 57"
    by arith
  then show ?thesis by (auto simp: is_csi_final_def)
qed

lemma digit_bytes:
  "b \<in> set (bytes_of_codes (decimal n)) \<Longrightarrow> \<not> is_csi_final b \<and> b \<noteq> 59"
  by (auto simp: bytes_of_codes_def dest!: decimal_codes dest: digit_byte)

lemma parse_flags_decimal: "parse_kitty_keyboard_flags (bytes_of_codes (decimal (unat f))) = f"
proof -
  have tw: "takeWhile (\<lambda>b. b \<noteq> 59) (bytes_of_codes (decimal (unat f))) = bytes_of_codes (decimal (unat f))"
    by (simp add: takeWhile_eq_all_conv digit_bytes)
  have cd: "codes_of_bytes (bytes_of_codes (decimal (unat f))) = decimal (unat f)"
    by (rule codes_of_bytes_of_codes) (auto dest!: decimal_codes)
  have le: "unat f \<le> 65535" by (rule unat_u16_le)
  show ?thesis
    by (simp only: parse_kitty_keyboard_flags_def Let_def tw cd parse_decimal [OF le]) simp
qed

lemma scan_csi_u:
  assumes "kind = 61 \<or> kind = 62"
  shows "kitty_scan t (csi_u kind f @ rest) =
    kitty_scan (observe_csi_u t (kind # bytes_of_codes (decimal (unat f)))) rest"
proof -
  let ?ps = "kind # bytes_of_codes (decimal (unat f))"
  have nf: "\<forall>b \<in> set ?ps. \<not> is_csi_final b"
    using assms by (auto dest: digit_bytes simp: is_csi_final_def)
  have f: "is_csi_final 117" by (simp add: is_csi_final_def)
  have tail: "csi_tail (?ps @ 117 # rest) = 117 # rest" and "csi_params (?ps @ 117 # rest) = ?ps"
    using nf f by (simp_all only: csi_tail_def csi_params_def, simp_all add: dropWhile_append2 takeWhile_append2)
  then have "kitty_scan t (27 # 91 # (?ps @ 117 # rest)) = kitty_scan (observe_csi_u t ?ps) rest"
    by (simp only: scan_cases csi_dispatch_def) simp
  then show ?thesis by (simp add: csi_u_def)
qed

lemma scan_pushes:
  "kitty_scan t (concat (map (csi_u 62) fs)) =
   (if fs = [] then t
    else t\<lparr>kt_stack := kt_stack t @ kt_flags t # butlast fs, kt_flags := last fs\<rparr>)"
proof (induction fs arbitrary: t)
  case (Cons f fs)
  have "kitty_scan t (concat (map (csi_u 62) (f # fs))) =
      kitty_scan (t\<lparr>kt_stack := kt_stack t @ [kt_flags t], kt_flags := f\<rparr>) (concat (map (csi_u 62) fs))"
    by (simp add: scan_csi_u observe_csi_u_def parse_flags_decimal)
  then show ?case unfolding Cons.IH by (cases fs) simp_all
qed (simp add: scan_cases)



text \<open>C34: Replaying the recorded keyboard flags into a fresh tracker rebuilds exactly the
  flags and the whole stack; when nothing is replayed the tracker was in its initial state.\<close>

theorem kitty_replay_round_trip:
  assumes "kt_pending t = []"
  shows "(case replay_ansi t of None \<Rightarrow> kitty_default | Some bytes \<Rightarrow> kitty_observe kitty_default bytes) = t"
proof (cases "kt_stack t")
  case Nil
  have "kitty_scan kitty_default (csi_u 61 (kt_flags t)) = kitty_default\<lparr>kt_flags := kt_flags t\<rparr>"
    using scan_csi_u [of 61 kitty_default "kt_flags t" "[]"]
    by (simp add: observe_csi_u_def parse_flags_decimal scan_cases)
  then show ?thesis using Nil assms
    by (cases t) (auto simp: replay_ansi_def kitty_observe_def kitty_default_def)
next
  case (Cons s0 rest)
  let ?pushes = "concat (map (csi_u 62) (rest @ [kt_flags t]))"
  have base: "kitty_scan kitty_default ((if s0 \<noteq> 0 then csi_u 61 s0 else []) @ bs) =
      kitty_scan (kitty_default\<lparr>kt_flags := s0\<rparr>) bs" for bs
    using scan_csi_u [of 61 kitty_default s0 bs]
    by (auto simp: observe_csi_u_def parse_flags_decimal kitty_default_def)
  have ne: "?pushes \<noteq> []" by (simp add: csi_u_def)
  have "replay_ansi t = Some ((if s0 \<noteq> 0 then csi_u 61 s0 else []) @ ?pushes)"
    using ne by (simp add: replay_ansi_def Cons)
  moreover have "kitty_scan kitty_default ((if s0 \<noteq> 0 then csi_u 61 s0 else []) @ ?pushes) = t"
    unfolding base scan_pushes using Cons assms by (cases t) (simp add: kitty_default_def)
  ultimately show ?thesis by (simp add: kitty_observe_def) (simp add: kitty_default_def)
qed

theorem kitty_replay_round_trip_witness:
  "(case replay_ansi \<lparr>kt_pending = [], kt_stack = [0, 5], kt_flags = 31\<rparr> of
      None \<Rightarrow> kitty_default | Some bytes \<Rightarrow> kitty_observe kitty_default bytes) =
   \<lparr>kt_pending = [], kt_stack = [0, 5], kt_flags = 31\<rparr>"
  by (rule kitty_replay_round_trip) simp

end
