(* ===== verification/Cursor_Trackers.thy ===== *)
theory Cursor_Trackers
  imports Byte_Trackers
begin

text \<open>
  \<open>src/src/pane/cursor.rs\<close>: the DECSCUSR tracker (a byte-wise state machine that notes
  whether the program has set a cursor shape) and the filter that holds back short cursor
  jumps so that the reported cursor does not flicker.
\<close>

section \<open>DECSCUSR\<close>

datatype decscusr_parse_state =
    Ground
  | Escape
  | Csi (first_param: "u16 option") (collecting_first_param: bool) (has_space_intermediate: bool)

record decscusr_tracker =
  dt_state :: decscusr_parse_state
  dt_cursor_shape_overridden :: bool

definition decscusr_default :: decscusr_tracker where
  "decscusr_default = \<lparr>dt_state = Ground, dt_cursor_shape_overridden = False\<rparr>"

definition is_ascii_digit_byte :: "u8 \<Rightarrow> bool" where
  "is_ascii_digit_byte b = (48 \<le> b \<and> b \<le> 57)"

definition observe_byte :: "decscusr_tracker \<Rightarrow> u8 \<Rightarrow> decscusr_tracker" where
  "observe_byte t byte =
     (case dt_state t of
        Ground \<Rightarrow> if byte = 27 then t\<lparr>dt_state := Escape\<rparr> else t
      | Escape \<Rightarrow>
          t\<lparr>dt_state := if byte = 91 then Csi None True False else if byte = 27 then Escape else Ground\<rparr>
      | Csi param collecting space \<Rightarrow>
          if byte = 27 then t\<lparr>dt_state := Escape\<rparr>
          else if is_ascii_digit_byte byte \<and> collecting then
            (let digit = ucast (byte - 48) :: u16
             in t\<lparr>dt_state := Csi (Some (sat_mul (unwrap_or param 0) 10 + digit)) collecting space\<rparr>)
          else if byte = 59 \<or> byte = 58 then t\<lparr>dt_state := Csi param False space\<rparr>
          else if byte = 32 then t\<lparr>dt_state := Csi param False True\<rparr>
          else if 64 \<le> byte \<and> byte \<le> 126 then
            (let t' = (if byte = 113 \<and> space \<and> unwrap_or param 0 \<le> 6
                       then t\<lparr>dt_cursor_shape_overridden := unwrap_or param 0 \<noteq> 0\<rparr> else t)
             in t'\<lparr>dt_state := Ground\<rparr>)
          else if \<not> (32 \<le> byte \<and> byte \<le> 63) then t\<lparr>dt_state := Ground\<rparr>
          else t)"

definition decscusr_observe :: "decscusr_tracker \<Rightarrow> u8 list \<Rightarrow> decscusr_tracker" where
  "decscusr_observe t bytes = foldl observe_byte t bytes"

interpretation decscusr: byte_tracker decscusr_observe "\<lambda>_. True" "\<lambda>_ _. True"
  by unfold_locales (simp_all add: decscusr_observe_def)

definition decscusr_sequence :: "nat list \<Rightarrow> u8 list" where
  "decscusr_sequence digits = [27, 91] @ bytes_of_codes digits @ [32, 113]"

lemma digit_code_byte:
  assumes "is_digit_code c"
  shows "is_ascii_digit_byte (of_nat c)" "(of_nat c :: u8) \<noteq> 27" "unat (ucast ((of_nat c :: u8) - 48) :: u16) = c - 48"
proof -
  have "48 \<le> c" "c \<le> 57" using assms by (simp_all add: is_digit_code_def)
  then have "c = 48 \<or> c = 49 \<or> c = 50 \<or> c = 51 \<or> c = 52 \<or> c = 53 \<or> c = 54 \<or> c = 55 \<or> c = 56 \<or> c = 57"
    by arith
  then show "is_ascii_digit_byte (of_nat c)" "(of_nat c :: u8) \<noteq> 27"
    "unat (ucast ((of_nat c :: u8) - 48) :: u16) = c - 48"
    by (auto simp: is_ascii_digit_byte_def)
qed

lemma observe_digit:
  "is_digit_code c \<Longrightarrow> observe_byte (t\<lparr>dt_state := Csi p True space\<rparr>) (of_nat c) =
   t\<lparr>dt_state := Csi (Some (sat_mul (unwrap_or p 0) 10 + ucast ((of_nat c :: u8) - 48))) True space\<rparr>"
  using digit_code_byte [of c] by (simp add: observe_byte_def Let_def)

lemma collect_digits:
  "list_all is_digit_code cs \<Longrightarrow> cs \<noteq> [] \<Longrightarrow> digits_value cs \<le> 65535 \<Longrightarrow>
   foldl observe_byte (t\<lparr>dt_state := Csi None True False\<rparr>) (bytes_of_codes cs) =
   t\<lparr>dt_state := Csi (Some (of_nat (digits_value cs))) True False\<rparr>"
proof (induction cs rule: rev_induct)
  case (snoc c cs)
  have c: "is_digit_code c" and cs: "list_all is_digit_code cs" using snoc.prems by auto
  note d = digit_code_byte [OF c]
  have le: "10 * digits_value cs + (c - 48) \<le> 65535" using snoc.prems(3) by simp
  define p :: "u16 option" where "p = (if cs = [] then None else Some (of_nat (digits_value cs)))"
  have fold: "foldl observe_byte (t\<lparr>dt_state := Csi None True False\<rparr>) (bytes_of_codes cs) =
      t\<lparr>dt_state := Csi p True False\<rparr>"
    using snoc.IH [OF cs] le by (cases "cs = []") (simp_all add: p_def bytes_of_codes_def)
  have pv: "unat (unwrap_or p 0) = digits_value cs"
    using le by (auto simp: p_def unat_of_nat)
  have "unat (sat_mul (unwrap_or p 0) 10 + ucast ((of_nat c :: u8) - 48) :: u16) = 10 * digits_value cs + (c - 48)"
    using le d(3) by (subst unat_add_small) (simp_all add: sat_unat pv mult.commute)
  then have "sat_mul (unwrap_or p 0) 10 + ucast ((of_nat c :: u8) - 48) = (of_nat (digits_value (cs @ [c])) :: u16)"
    by (metis digits_value_snoc of_nat_unat ucast_id)
  then show ?case
    unfolding bytes_of_codes_def map_append foldl_append fold [unfolded bytes_of_codes_def]
    by (simp only: list.map foldl.simps observe_digit [OF c])
qed simp

section \<open>Settling the cursor position\<close>

record terminal_cursor_state =
  tc_x :: u16
  tc_y :: u16
  tc_visible :: bool
  tc_shape :: u8

record cursor_position_settle_state =
  cs_settled :: "terminal_cursor_state option"
  cs_candidate :: "terminal_cursor_state option"
  cs_pending_since :: "instant option"

definition settle_default :: cursor_position_settle_state where
  "settle_default = \<lparr>cs_settled = None, cs_candidate = None, cs_pending_since = None\<rparr>"

definition CURSOR_POSITION_SETTLE :: duration where
  "CURSOR_POSITION_SETTLE = 20 * 10 ^ 6"

definition CURSOR_POSITION_MAX_HOLD :: duration where
  "CURSOR_POSITION_MAX_HOLD = 100 * 10 ^ 6"

definition same_cursor_position :: "terminal_cursor_state \<Rightarrow> terminal_cursor_state \<Rightarrow> bool" where
  "same_cursor_position left right = (tc_x left = tc_x right \<and> tc_y left = tc_y right)"

definition settle_on :: "terminal_cursor_state option \<Rightarrow> cursor_position_settle_state" where
  "settle_on c = \<lparr>cs_settled = c, cs_candidate = None, cs_pending_since = None\<rparr>"

definition settle_observe ::
  "cursor_position_settle_state \<Rightarrow> terminal_cursor_state option \<Rightarrow> instant \<Rightarrow> cursor_position_settle_state" where
  "settle_observe s current now =
     (case current of
        None \<Rightarrow> settle_on None
      | Some current \<Rightarrow>
          if \<not> tc_visible current then settle_on (Some current)
          else (case cs_settled s of
            None \<Rightarrow> settle_on (Some current)
          | Some settled \<Rightarrow>
              if same_cursor_position settled current \<and> tc_visible settled then settle_on (Some current)
              else (case cs_candidate s of
                None \<Rightarrow> s\<lparr>cs_candidate := Some current, cs_pending_since := Some now\<rparr>
              | Some candidate \<Rightarrow>
                  let pending_since = unwrap_or (cs_pending_since s) now in
                  if CURSOR_POSITION_MAX_HOLD \<le> duration_since now pending_since
                  then settle_on (Some current)
                  else if same_cursor_position candidate current then
                    (if CURSOR_POSITION_SETTLE \<le> duration_since now pending_since
                     then settle_on (Some current)
                     else s\<lparr>cs_candidate := Some current\<rparr>)
                  else s\<lparr>cs_candidate := Some current\<rparr>)))"

definition reported_cursor ::
  "cursor_position_settle_state \<Rightarrow> terminal_cursor_state option \<Rightarrow> instant \<Rightarrow> terminal_cursor_state option" where
  "reported_cursor s current now =
     (case current of
        None \<Rightarrow> None
      | Some current \<Rightarrow>
          (case cs_candidate s of
            None \<Rightarrow> Some current
          | Some candidate \<Rightarrow>
              let pending_since = unwrap_or (cs_pending_since s) now in
              if CURSOR_POSITION_SETTLE \<le> duration_since now pending_since
              then Some (candidate\<lparr>tc_visible := tc_visible current \<and> tc_visible candidate, tc_shape := tc_shape current\<rparr>)
              else or_else
                (map_option (\<lambda>settled. settled\<lparr>tc_visible := tc_visible current \<and> tc_visible settled,
                                              tc_shape := tc_shape current\<rparr>) (cs_settled s))
                (Some (candidate\<lparr>tc_visible := False, tc_shape := tc_shape current\<rparr>))))"

definition settle_pending :: "cursor_position_settle_state \<Rightarrow> bool" where
  "settle_pending s = (cs_candidate s \<noteq> None)"

text \<open>What holds after every observation: a candidate is visible, has a start time not
  100 ms ago, and a settled position to fall back on.\<close>

definition settle_inv :: "instant \<Rightarrow> cursor_position_settle_state \<Rightarrow> bool" where
  "settle_inv now s =
     (case cs_candidate s of
        None \<Rightarrow> cs_pending_since s = None
      | Some c \<Rightarrow> tc_visible c \<and> cs_settled s \<noteq> None \<and>
          (\<exists>p. cs_pending_since s = Some p \<and> p \<le> now \<and> now < p + CURSOR_POSITION_MAX_HOLD))"

lemma settle_on_inv: "settle_inv now (settle_on c)"
  by (simp add: settle_inv_def settle_on_def)

lemma settle_observe_inv:
  "settle_inv t s \<Longrightarrow> t \<le> now \<Longrightarrow> settle_inv now (settle_observe s current now)"
proof -
  assume s: "settle_inv t s" and t: "t \<le> now"
  show ?thesis
  proof (cases "settle_observe s current now \<in> range settle_on")
    case True
    then show ?thesis by (auto simp: settle_on_inv)
  next
    case False
    then obtain c where c: "current = Some c" and vis: "tc_visible c" and settled: "cs_settled s \<noteq> None"
      by (auto simp: settle_observe_def split: option.splits if_splits)
    show ?thesis
    proof (cases "cs_candidate s")
      case None
      then have "settle_observe s current now = s\<lparr>cs_candidate := Some c, cs_pending_since := Some now\<rparr>"
        using False c vis settled by (auto simp: settle_observe_def split: if_splits)
      then show ?thesis using vis settled by (simp add: settle_inv_def CURSOR_POSITION_MAX_HOLD_def)
    next
      case (Some d)
      then obtain p where p: "cs_pending_since s = Some p" "p \<le> t"
        using s by (auto simp: settle_inv_def)
      have "settle_observe s current now = s\<lparr>cs_candidate := Some c\<rparr>"
           "\<not> CURSOR_POSITION_MAX_HOLD \<le> duration_since now p"
        using False c vis settled Some p
        by (auto simp: settle_observe_def Let_def split: if_splits)
      then show ?thesis using vis settled p t
        by (auto simp: settle_inv_def duration_since_def)
    qed
  qed
qed

fun settle_run ::
  "cursor_position_settle_state \<Rightarrow> (terminal_cursor_state option \<times> instant) list \<Rightarrow> cursor_position_settle_state" where
  "settle_run s [] = s"
| "settle_run s ((c, now) # obs) = settle_run (settle_observe s c now) obs"

lemma settle_run_inv:
  "settle_inv t s \<Longrightarrow> sorted (t # map snd obs) \<Longrightarrow> settle_inv (last (t # map snd obs)) (settle_run s obs)"
proof (induction obs arbitrary: s t)
  case (Cons ob obs)
  obtain c now where o: "ob = (c, now)" by fastforce
  have "settle_inv now (settle_observe s c now)"
    using Cons.prems by (intro settle_observe_inv [of t]) (simp_all add: o)
  then show ?case using Cons.IH [of now "settle_observe s c now"] Cons.prems(2) by (simp add: o)
qed simp

lemma of_nat_u16:
  assumes "n \<le> 65535"
  shows "unat (of_nat n :: u16) = n" "(of_nat n :: u16) \<le> 6 \<longleftrightarrow> n \<le> 6" "(of_nat n :: u16) = 0 \<longleftrightarrow> n = 0"
proof -
  show n: "unat (of_nat n :: u16) = n" using assms by (simp add: unat_of_nat)
  show "(of_nat n :: u16) \<le> 6 \<longleftrightarrow> n \<le> 6" by (simp only: word_le_nat_alt n) simp
  show "(of_nat n :: u16) = 0 \<longleftrightarrow> n = 0"
  proof
    assume "(of_nat n :: u16) = 0"
    then have "unat (of_nat n :: u16) = unat (0 :: u16)" by (rule arg_cong)
    then show "n = 0" by (simp only: n unat_0)
  qed simp
qed

lemma enter_csi:
  "dt_state t = Ground \<Longrightarrow> foldl observe_byte t [27, 91] = t\<lparr>dt_state := Csi None True False\<rparr>"
  by (simp add: observe_byte_def)

lemma finish_shape:
  "dt_state t = Ground \<Longrightarrow>
   foldl observe_byte (t\<lparr>dt_state := Csi (Some p) True False\<rparr>) [32, 113] =
   t\<lparr>dt_cursor_shape_overridden := if p \<le> 6 then p \<noteq> 0 else dt_cursor_shape_overridden t\<rparr>"
  by (cases t) (auto simp: observe_byte_def is_ascii_digit_byte_def Let_def)

lemma decscusr_run:
  assumes "dt_state t = Ground"
    and "foldl observe_byte (t\<lparr>dt_state := Csi None True False\<rparr>) (bytes_of_codes ds) =
      t\<lparr>dt_state := Csi (Some p) True False\<rparr>"
  shows "decscusr_observe t (decscusr_sequence ds) =
    t\<lparr>dt_cursor_shape_overridden := if p \<le> 6 then p \<noteq> 0 else dt_cursor_shape_overridden t\<rparr>"
  unfolding decscusr_observe_def decscusr_sequence_def foldl_append enter_csi [OF assms(1)] assms(2)
    finish_shape [OF assms(1)] by (rule refl)

section \<open>Properties\<close>

text \<open>From the ground state, the sequence that sets the cursor shape with a decimal
  parameter that fits a \<open>u16\<close> leaves the tracker in the ground state and marks the shape as
  overridden exactly for the parameters 1 to 6, as reset for 0, and unchanged for larger
  ones.\<close>

lemma decscusr_parameter:
  assumes "dt_state t = Ground" and "n \<le> 65535"
  shows "decscusr_observe t (decscusr_sequence (decimal n)) =
    t\<lparr>dt_cursor_shape_overridden := if n \<le> 6 then n \<noteq> 0 else dt_cursor_shape_overridden t\<rparr>"
proof -
  have "foldl observe_byte (t\<lparr>dt_state := Csi None True False\<rparr>) (bytes_of_codes (decimal n)) =
      t\<lparr>dt_state := Csi (Some (of_nat n)) True False\<rparr>"
    using collect_digits [of "decimal n" t] decimal_digits [of n] assms(2) by simp
  from decscusr_run [OF assms(1) this] show ?thesis by (simp only: of_nat_u16 [OF assms(2)])
qed

text \<open>A parameter that does not fit a \<open>u16\<close> is not saturated: the digit is added after
  the saturating product and wraps around, so that the parameters 65541 or 65536 count as 0
  and mark the shape as reset although no such shape exists (with overflow checks on, the
  addition panics).\<close>

lemma decscusr_overflow:
  assumes "dt_state t = Ground" and "65536 \<le> n" and "n \<le> 655359"
    and "p = (if n < 65540 then n - 65536 else if n mod 10 = 0 then 65535 else n mod 10 - 1)"
  shows "decscusr_observe t (decscusr_sequence (decimal n)) =
    t\<lparr>dt_cursor_shape_overridden := if p \<le> 6 then p \<noteq> 0 else dt_cursor_shape_overridden t\<rparr>"
proof -
  let ?q = "n div 10" and ?c = "48 + n mod 10"
  have dec: "decimal n = decimal ?q @ [?c]" using assms(2) by (subst decimal.simps) simp
  have q: "?q \<le> 65535" "6553 \<le> ?q" using assms(2, 3) by simp_all
  have c: "is_digit_code ?c" by (simp add: is_digit_code_def)
  have d: "foldl observe_byte (t\<lparr>dt_state := Csi None True False\<rparr>) (bytes_of_codes (decimal ?q)) =
      t\<lparr>dt_state := Csi (Some (of_nat ?q)) True False\<rparr>"
    using collect_digits [of "decimal ?q" t] decimal_digits [of ?q] q by simp
  let ?w = "sat_mul (of_nat ?q) 10 + ucast ((of_nat ?c :: u8) - 48) :: u16"
  have p: "p \<le> 65535" by (simp add: assms(4)) (use assms in auto)
  obtain r where r: "n mod 10 = r" "r < 10" by simp
  have n: "n = 10 * ?q + r" using r(1) by presburger
  have "unat ?w = (min (10 * ?q) 65535 + n mod 10) mod 65536"
    by (simp only: unat_word_ariths digit_code_byte [OF c])
      (simp add: sat_unat of_nat_u16 [OF q(1)] mult.commute)
  also have "\<dots> = p"
  proof (cases "n < 65540")
    case True
    then have "?q = 6553" using assms(2) by simp
    moreover have "6 \<le> r" using n calculation assms(2) by simp
    ultimately have "min (10 * ?q) 65535 + r = 65536 + (r - 6)" and "n - 65536 = r - 6"
      using n by simp_all
    then show ?thesis using True assms(4) r by simp
  next
    case False
    then have m: "min (10 * ?q) 65535 = 65535" by simp
    show ?thesis
    proof (cases r)
      case 0
      then show ?thesis using False assms(4) r(1) m by simp
    next
      case (Suc k)
      then have "min (10 * ?q) 65535 + r = 65536 + k" using m by simp
      then show ?thesis using False assms(4) r Suc by simp
    qed
  qed
  finally have w: "?w = of_nat p" by (metis of_nat_unat ucast_id)
  have "foldl observe_byte (t\<lparr>dt_state := Csi None True False\<rparr>) (bytes_of_codes (decimal n)) =
      t\<lparr>dt_state := Csi (Some (of_nat p)) True False\<rparr>"
    unfolding dec bytes_of_codes_def map_append foldl_append d [unfolded bytes_of_codes_def]
    by (simp only: list.map foldl.simps observe_digit [OF c] option_ops w)
  from decscusr_run [OF assms(1) this] show ?thesis by (simp only: of_nat_u16 [OF p])
qed



text \<open>A jump of a visible settled cursor to another position is not reported before
  20 ms have passed (the old position is reported, in the new shape); a cursor that is back
  by then leaves no trace, and one that still is at the new position is settled there.\<close>

lemma settle_short_jump:
  fixes a b b' :: terminal_cursor_state
  assumes "tc_visible a" and "tc_visible b" and "\<not> same_cursor_position a b"
    and "settle_observe (settle_on (Some a)) (Some b) t = s" and "t \<le> now"
  shows "(now < t + CURSOR_POSITION_SETTLE \<longrightarrow> reported_cursor s (Some b) now = Some
      (a\<lparr>tc_shape := tc_shape b\<rparr>)) \<and>
    settle_observe s (Some a) now = settle_on (Some a) \<and>
    (t + CURSOR_POSITION_SETTLE \<le> now \<longrightarrow> same_cursor_position b b'
      \<longrightarrow> tc_visible b' \<longrightarrow> settle_observe s (Some b') now = settle_on
      (Some b'))"
proof (intro conjI impI)
  have s: "s = \<lparr>cs_settled = Some a, cs_candidate = Some b, cs_pending_since = Some t\<rparr>"
    using assms(1-4) by (simp add: settle_observe_def settle_on_def)
  show "reported_cursor s (Some b) now = Some (a\<lparr>tc_shape := tc_shape b\<rparr>)"
    if "now < t + CURSOR_POSITION_SETTLE"
    using that assms by (simp add: s reported_cursor_def duration_since_def CURSOR_POSITION_SETTLE_def Let_def)
  show "settle_observe s (Some a) now = settle_on (Some a)"
    using assms(1) by (simp add: s settle_observe_def same_cursor_position_def)
  show "settle_observe s (Some b') now = settle_on (Some b')"
    if "t + CURSOR_POSITION_SETTLE \<le> now" "same_cursor_position b b'" "tc_visible b'"
    using that by (simp add: s settle_observe_def duration_since_def Let_def le_diff_conv2)
qed

end
