(* ===== verification/Detect.thy ===== *)
theory Detect
  imports Std_Strings
begin

text \<open>
  \<open>src/src/detect/mod.rs\<close>: the agents herdr knows, their labels, and how the agent that
  runs in a pane is identified from the processes of its foreground job. The screen
  manifests (\<open>detect/manifest.rs\<close>) and the platform calls that list the processes are
  outside the model; \<open>std::fs::canonicalize\<close> is the parameter \<open>resolve\<close>: the name of the
  file a path resolves to, when it exists and has a name that is valid UTF-8.
\<close>

section \<open>Agents and their labels\<close>

datatype agent_state = Idle | Working | Blocked | Unknown

datatype agent =
    Pi | Claude | Codex | Gemini | Cursor | Devin | Antigravity | Cline | Omp | Mastracode
  | OpenCode | GithubCopilot | Kimi | Kiro | Droid | Amp | Grok | Hermes | Kilo | Qodercli | Maki

fun agent_label :: "agent \<Rightarrow> string" where
  "agent_label Pi = ''pi''"
| "agent_label Claude = ''claude''"
| "agent_label Codex = ''codex''"
| "agent_label Gemini = ''gemini''"
| "agent_label Cursor = ''cursor''"
| "agent_label Devin = ''devin''"
| "agent_label Antigravity = ''agy''"
| "agent_label Cline = ''cline''"
| "agent_label Omp = ''omp''"
| "agent_label Mastracode = ''mastracode''"
| "agent_label OpenCode = ''opencode''"
| "agent_label GithubCopilot = ''copilot''"
| "agent_label Kimi = ''kimi''"
| "agent_label Kiro = ''kiro''"
| "agent_label Droid = ''droid''"
| "agent_label Amp = ''amp''"
| "agent_label Grok = ''grok''"
| "agent_label Hermes = ''hermes''"
| "agent_label Kilo = ''kilo''"
| "agent_label Qodercli = ''qodercli''"
| "agent_label Maki = ''maki''"

definition is_ascii_digit :: "char \<Rightarrow> bool" where
  "is_ascii_digit c = is_digit_code (code c)"

definition is_versioned_grok_binary :: "string \<Rightarrow> bool" where
  "is_versioned_grok_binary name =
     (case strip_prefix name ''grok-'' of
        None \<Rightarrow> False
      | Some rest \<Rightarrow>
          (case split_once CHR ''-'' rest of
             None \<Rightarrow> False
           | Some (version, platform) \<Rightarrow>
               let parts = split_on (\<lambda>c. c = CHR ''.'') version in
               length parts = 3
               \<and> list_all (\<lambda>part. part \<noteq> [] \<and> list_all is_ascii_digit part) parts
               \<and> platform \<in> {''macos-aarch64'', ''macos-x86_64'', ''linux-aarch64'', ''linux-x86_64''}))"

definition agent_names :: "(string \<times> agent) list" where
  "agent_names =
    [(''pi'', Pi),
     (''claude'', Claude), (''claude-code'', Claude),
     (''codex'', Codex),
     (''gemini'', Gemini),
     (''cursor'', Cursor), (''cursor-agent'', Cursor),
     (''devin'', Devin), (''devin-cli'', Devin), (''devin cli'', Devin),
     (''agy'', Antigravity), (''antigravity'', Antigravity), (''antigravity-cli'', Antigravity),
     (''cline'', Cline),
     (''omp'', Omp),
     (''mastracode'', Mastracode), (''mastra-code'', Mastracode), (''mastra code'', Mastracode),
     (''opencode'', OpenCode), (''open-code'', OpenCode),
     (''copilot'', GithubCopilot), (''github-copilot'', GithubCopilot), (''ghcs'', GithubCopilot),
     (''kimi'', Kimi), (''kimi-code'', Kimi), (''kimi code'', Kimi),
     (''kiro'', Kiro), (''kiro-cli'', Kiro),
     (''droid'', Droid),
     (''amp'', Amp), (''amp-local'', Amp),
     (''grok'', Grok), (''grok-build'', Grok),
     (''hermes'', Hermes), (''hermes-agent'', Hermes),
     (''kilo'', Kilo), (''kilo-code'', Kilo), (''kilo code'', Kilo),
     (''qodercli'', Qodercli), (''qoderclicn'', Qodercli), (''qoder'', Qodercli), (''qodercn'', Qodercli),
     (''maki'', Maki)]"

definition lookup_agent :: "string \<Rightarrow> agent option" where
  "lookup_agent name =
     (case map_of agent_names name of
        Some agent \<Rightarrow> Some agent
      | None \<Rightarrow> if is_versioned_grok_binary name then Some Grok else None)"

definition parse_canonical_agent_label :: "string \<Rightarrow> agent option" where
  "parse_canonical_agent_label label =
     (case lookup_agent label of
        None \<Rightarrow> None
      | Some agent \<Rightarrow> if agent_label agent = label then Some agent else None)"

fun truncate_first_suffix :: "string list \<Rightarrow> string \<Rightarrow> string" where
  "truncate_first_suffix [] name = name"
| "truncate_first_suffix (sfx # sfxs) name =
     (if ends_with name sfx then take (length name - length sfx) name
      else truncate_first_suffix sfxs name)"

definition command_suffixes :: "string list" where
  "command_suffixes = [''.exe'', ''.cmd'', ''.bat'', ''.ps1'', ''.js'']"

definition normalized_agent_lookup_name :: "string \<Rightarrow> string" where
  "normalized_agent_lookup_name name = truncate_first_suffix command_suffixes (to_lowercase (trim name))"

definition parse_agent_label :: "string \<Rightarrow> agent option" where
  "parse_agent_label agent =
     (let name = normalized_agent_lookup_name agent
      in or_else (parse_canonical_agent_label name) (lookup_agent name))"

definition identify_agent :: "string \<Rightarrow> agent option" where
  "identify_agent process_name = parse_agent_label process_name"

definition full_lifecycle_hook_authority :: "string \<Rightarrow> string \<Rightarrow> bool" where
  "full_lifecycle_hook_authority source agent =
     ((source, agent) \<in> set [(''herdr:pi'', ''pi''), (''herdr:omp'', ''omp''),
        (''herdr:mastracode'', ''mastracode''), (''herdr:hermes'', ''hermes''),
        (''herdr:opencode'', ''opencode''), (''herdr:kilo'', ''kilo''), (''herdr:kimi'', ''kimi'')])"

section \<open>Paths\<close>

definition is_path_separator :: "char \<Rightarrow> bool" where
  "is_path_separator c = (c = CHR ''/'' \<or> c = CHR 0x5C)"

definition path_basename :: "string \<Rightarrow> string" where
  "path_basename path =
     unwrap_or (find (\<lambda>component. component \<noteq> []) (rev (split_on is_path_separator path))) path"

text \<open>\<open>Path::components\<close> on Unix: the root, a leading dot, and the other parts that are
  neither empty nor a dot.\<close>

definition path_parts :: "string \<Rightarrow> string list" where
  "path_parts path = filter (\<lambda>w. w \<noteq> [] \<and> w \<noteq> ''.'') (split_on (\<lambda>c. c = CHR ''/'') path)"

definition path_components :: "string \<Rightarrow> string list" where
  "path_components path =
     (if starts_with path ''/'' then [''/'']
      else if hd (split_on (\<lambda>c. c = CHR ''/'') path) = ''.'' then [''.''] else []) @ path_parts path"

definition windows :: "nat \<Rightarrow> 'a list \<Rightarrow> 'a list list" where
  "windows n xs = map (\<lambda>i. take n (drop i xs)) [0..<length xs + 1 - n]"

definition agent_name_from_basename :: "string \<Rightarrow> string option" where
  "agent_name_from_basename basename = map_option agent_label (parse_agent_label basename)"

definition agent_name_from_known_package_path :: "string \<Rightarrow> string option" where
  "agent_name_from_known_package_path path =
     (let components = map normalized_agent_lookup_name
            (filter (\<lambda>component. component \<noteq> []) (split_on is_path_separator path))
      in if list_ex (\<lambda>window. window =
              [''node_modules'', ''@earendil-works'', ''pi-coding-agent'', ''dist'', ''cli''])
            (windows 5 components)
         then Some (agent_label Pi) else None)"

type_synonym file_resolver = "string \<Rightarrow> string option"

definition resolved_agent_name_from_path_token :: "file_resolver \<Rightarrow> string \<Rightarrow> string option" where
  "resolved_agent_name_from_path_token resolve token =
     (if length (path_components token) < 2 then None
      else (case resolve token of None \<Rightarrow> None | Some basename \<Rightarrow> agent_name_from_basename basename))"

definition is_quote :: "char \<Rightarrow> bool" where
  "is_quote c = (c = CHR 0x22 \<or> c = CHR 0x27)"

definition agent_name_from_path_token :: "file_resolver \<Rightarrow> string \<Rightarrow> string option" where
  "agent_name_from_path_token resolve token =
     (let trimmed = trim_matches is_quote token
      in if trimmed = [] \<or> starts_with trimmed ''-'' then None
         else or_else (agent_name_from_basename (path_basename trimmed))
           (or_else (agent_name_from_known_package_path trimmed)
             (resolved_agent_name_from_path_token resolve trimmed)))"

section \<open>Command lines\<close>

definition short_flag_payload :: "string \<Rightarrow> string \<Rightarrow> bool" where
  "short_flag_payload arg flag =
     (starts_with flag ''-'' \<and> \<not> starts_with flag ''--'' \<and> starts_with arg flag \<and> length flag < length arg)"

definition long_flag_value :: "string \<Rightarrow> string \<Rightarrow> bool" where
  "long_flag_value arg flag =
     (starts_with flag ''--'' \<and> is_some_and (strip_prefix arg flag) (\<lambda>rest. starts_with rest ''=''))"

definition flag_matches :: "string \<Rightarrow> string list \<Rightarrow> bool" where
  "flag_matches arg flags =
     list_ex (\<lambda>flag. arg = flag \<or> short_flag_payload arg flag \<or> long_flag_value arg flag) flags"

definition option_takes_value :: "string \<Rightarrow> bool" where
  "option_takes_value arg =
     (arg \<in> set [''-r'', ''--require'', ''--loader'', ''--import'', ''--experimental-loader'',
        ''--inspect-port'', ''-W'', ''-X'', ''-S'', ''-L'', ''-o''])"

fun script_args ::
  "file_resolver \<Rightarrow> string list \<Rightarrow> string list \<Rightarrow> string list \<Rightarrow> string option" where
  "script_args resolve eval_flags module_flags [] = None"
| "script_args resolve eval_flags module_flags (arg # args) =
     (if arg = ''--'' then
        (case args of [] \<Rightarrow> None | token # _ \<Rightarrow> agent_name_from_path_token resolve token)
      else if flag_matches arg eval_flags \<or> flag_matches arg module_flags then None
      else if starts_with arg ''-'' then
        (if option_takes_value arg
         then (case args of [] \<Rightarrow> None | _ # rest \<Rightarrow> script_args resolve eval_flags module_flags rest)
         else script_args resolve eval_flags module_flags args)
      else agent_name_from_path_token resolve arg)"

definition script_arg_agent_name ::
  "file_resolver \<Rightarrow> string list \<Rightarrow> string list \<Rightarrow> string list \<Rightarrow> string option" where
  "script_arg_agent_name resolve argv eval_flags module_flags =
     script_args resolve eval_flags module_flags (drop 1 argv)"

definition command_text_token :: "string \<Rightarrow> (string \<times> string) option" where
  "command_text_token input =
     (case trim_start input of
        [] \<Rightarrow> None
      | first # rest \<Rightarrow>
          if first = CHR 0x22 \<or> first = CHR 0x27 then
            (case dropWhile (\<lambda>c. c \<noteq> first) rest of
               [] \<Rightarrow> Some (rest, [])
             | _ # after \<Rightarrow> Some (takeWhile (\<lambda>c. c \<noteq> first) rest, after))
          else
            Some (takeWhile (\<lambda>c. \<not> is_whitespace c) (first # rest),
                  dropWhile (\<lambda>c. \<not> is_whitespace c) (first # rest)))"

lemma length_dropWhile_bound: "dropWhile p xs = ys \<Longrightarrow> length ys \<le> length xs"
  using length_dropWhile_le [of p xs] by simp

lemma command_text_token_shorter:
  "command_text_token input = Some (token, next) \<Longrightarrow> length next < length input"
proof -
  assume t: "command_text_token input = Some (token, next)"
  then obtain first rest where f: "trim_start input = first # rest"
    by (cases "trim_start input") (simp_all add: command_text_token_def)
  then have le: "length (first # rest) \<le> length input"
    unfolding trim_start_def by (rule length_dropWhile_bound)
  have w: "\<not> is_whitespace first"
    using f unfolding trim_start_def by (metis hd_dropWhile list.distinct(1) list.sel(1))
  have "length next \<le> length rest"
  proof (cases "first = CHR 0x22 \<or> first = CHR 0x27")
    case True
    then show ?thesis using t f
      by (cases "dropWhile (\<lambda>c. c \<noteq> first) rest")
        (auto simp: command_text_token_def dest: length_dropWhile_bound)
  next
    case False
    then have "next = dropWhile (\<lambda>c. \<not> is_whitespace c) rest"
      using t f w by (simp add: command_text_token_def)
    then show ?thesis by (simp add: length_dropWhile_le)
  qed
  then show ?thesis using le by simp
qed

text \<open>\<open>str::eq_ignore_ascii_case\<close>.\<close>

definition eq_ignore_ascii_case :: "string \<Rightarrow> string \<Rightarrow> bool" where
  "eq_ignore_ascii_case a b = (to_ascii_lowercase a = to_ascii_lowercase b)"

function command_text_agent_name :: "file_resolver \<Rightarrow> string \<Rightarrow> string option" where
  "command_text_agent_name resolve rest =
     (case command_text_token rest of
        None \<Rightarrow> None
      | Some (raw, next) \<Rightarrow>
          let token = trim raw in
          if eq_ignore_ascii_case token ''&'' \<or> eq_ignore_ascii_case token ''.''
             \<or> eq_ignore_ascii_case token ''call''
          then command_text_agent_name resolve next
          else agent_name_from_path_token resolve token)"
  by pat_completeness auto
termination
  by (relation "measure (\<lambda>(resolve, rest). length rest)") (auto dest: command_text_token_shorter)

declare command_text_agent_name.simps [simp del]

definition arg_flag :: "string \<Rightarrow> string" where
  "arg_flag arg = to_lowercase (trim_matches (\<lambda>c. c = CHR 0x22) arg)"

fun windows_cmd_args :: "file_resolver \<Rightarrow> string list \<Rightarrow> string option" where
  "windows_cmd_args resolve [] = None"
| "windows_cmd_args resolve (arg # args) =
     (if arg_flag arg \<in> {''/c'', ''/k''} then
        (case args of [] \<Rightarrow> None | command # _ \<Rightarrow> command_text_agent_name resolve command)
      else windows_cmd_args resolve args)"

definition windows_cmd_arg_agent_name :: "file_resolver \<Rightarrow> string list \<Rightarrow> string option" where
  "windows_cmd_arg_agent_name resolve argv = windows_cmd_args resolve (drop 1 argv)"

fun powershell_args :: "file_resolver \<Rightarrow> string list \<Rightarrow> string option" where
  "powershell_args resolve [] = None"
| "powershell_args resolve (arg # args) =
     (let flag = arg_flag arg in
      if flag \<in> {''-file'', ''-f'', ''/file''} then
        (case args of [] \<Rightarrow> None | path # _ \<Rightarrow> agent_name_from_path_token resolve path)
      else if flag \<in> {''-command'', ''-c'', ''/command'', ''/c''} then
        (case args of [] \<Rightarrow> None | command # _ \<Rightarrow> command_text_agent_name resolve command)
      else if flag \<in> {''-encodedcommand'', ''-enc'', ''/encodedcommand'', ''/enc''} then None
      else if flag \<in> {''-configurationname'', ''-executionpolicy'', ''-outputformat'',
          ''-psconsolefile'', ''-version'', ''-windowstyle'', ''-workingdirectory''} then
        (case args of [] \<Rightarrow> None | _ # rest \<Rightarrow> powershell_args resolve rest)
      else if starts_with flag ''-'' \<or> starts_with flag ''/'' then powershell_args resolve args
      else agent_name_from_path_token resolve arg)"

definition powershell_arg_agent_name :: "file_resolver \<Rightarrow> string list \<Rightarrow> string option" where
  "powershell_arg_agent_name resolve argv = powershell_args resolve (drop 1 argv)"

definition wrapped_agent_name_from_runtime_argv ::
  "file_resolver \<Rightarrow> string \<Rightarrow> string list option \<Rightarrow> string option" where
  "wrapped_agent_name_from_runtime_argv resolve runtime argv =
     (case argv of
        None \<Rightarrow> None
      | Some argv \<Rightarrow>
          let runtime = normalized_agent_lookup_name (path_basename runtime) in
          if runtime \<in> {''node'', ''bun''}
            then script_arg_agent_name resolve argv [''-e'', ''--eval'', ''-p'', ''--print''] []
          else if runtime \<in> {''python'', ''python3''} then script_arg_agent_name resolve argv [''-c''] [''-m'']
          else if runtime \<in> {''sh'', ''bash'', ''zsh'', ''fish''} then script_arg_agent_name resolve argv [''-c''] []
          else if runtime = ''cmd'' then windows_cmd_arg_agent_name resolve argv
          else if runtime \<in> {''powershell'', ''pwsh''} then powershell_arg_agent_name resolve argv
          else None)"

section \<open>Processes\<close>

record foreground_process =
  pid :: u32
  proc_name :: string
  argv0 :: "string option"
  proc_argv :: "string list option"
  cmdline :: "string option"

record foreground_job =
  process_group_id :: u32
  processes :: "foreground_process list"

definition is_generic_runtime_or_shell :: "string \<Rightarrow> bool" where
  "is_generic_runtime_or_shell name =
     (normalized_agent_lookup_name (path_basename name) \<in> set [''sh'', ''bash'', ''zsh'', ''fish'', ''tmux'',
        ''node'', ''bun'', ''python'', ''python3'', ''cmd'', ''powershell'', ''pwsh''])"

definition argv0_agent_name :: "file_resolver \<Rightarrow> string list option \<Rightarrow> string option" where
  "argv0_agent_name resolve argv =
     (case argv of Some (token # _) \<Rightarrow> agent_name_from_path_token resolve token | _ \<Rightarrow> None)"

definition cmdline_argv0_agent_name :: "file_resolver \<Rightarrow> string \<Rightarrow> string option" where
  "cmdline_argv0_agent_name resolve line =
     (case split_whitespace line of [] \<Rightarrow> None | token # _ \<Rightarrow> agent_name_from_path_token resolve token)"

definition normalized_process_name :: "file_resolver \<Rightarrow> foreground_process \<Rightarrow> string" where
  "normalized_process_name resolve process =
     (let effective = unwrap_or (argv0 process) (proc_name process);
          lower_effective = to_lowercase effective;
          wrapped = (if is_generic_runtime_or_shell lower_effective
            then wrapped_agent_name_from_runtime_argv resolve lower_effective (proc_argv process) else None)
      in case wrapped of
           Some wrapped_agent \<Rightarrow> wrapped_agent
         | None \<Rightarrow>
             if identify_agent effective \<noteq> None then effective
             else unwrap_or
               (or_else (argv0_agent_name resolve (proc_argv process))
                        (cmdline_argv0_agent_name resolve (unwrap_or (cmdline process) [])))
               effective)"

definition process_priority :: "foreground_process \<Rightarrow> string \<Rightarrow> u8" where
  "process_priority process normalized_name =
     (let lower_name = to_lowercase normalized_name in
      if lower_name \<noteq> to_lowercase (proc_name process) then 3
      else if \<not> is_generic_runtime_or_shell lower_name then 2 else 1)"

definition better_candidate ::
  "file_resolver \<Rightarrow> (u8 \<times> agent \<times> string) option \<Rightarrow> foreground_process \<Rightarrow> (u8 \<times> agent \<times> string) option" where
  "better_candidate resolve best process =
     (let candidate = normalized_process_name resolve process in
      case identify_agent candidate of
        None \<Rightarrow> best
      | Some agent \<Rightarrow>
          let score = process_priority process candidate in
          (case best of
             Some (best_score, _) \<Rightarrow> if score \<le> best_score then best else Some (score, agent, candidate)
           | None \<Rightarrow> Some (score, agent, candidate)))"

definition identify_agent_in_job :: "file_resolver \<Rightarrow> foreground_job \<Rightarrow> (agent \<times> string) option" where
  "identify_agent_in_job resolve job =
     (let leader = find (\<lambda>process. pid process = process_group_id job) (processes job);
          leading = (case leader of
              None \<Rightarrow> None
            | Some process \<Rightarrow>
                let candidate = normalized_process_name resolve process
                in map_option (\<lambda>agent. (agent, candidate)) (identify_agent candidate))
      in case leading of
           Some found \<Rightarrow> Some found
         | None \<Rightarrow> map_option snd (foldl (better_candidate resolve) None (processes job)))"

section \<open>Facts\<close>

lemma lookup_label [simp]: "lookup_agent (agent_label a) = Some a"
  by (cases a) (simp_all add: lookup_agent_def agent_names_def)

lemma parse_agent_label_eq: "parse_agent_label name = lookup_agent (normalized_agent_lookup_name name)"
  by (auto simp: parse_agent_label_def Let_def parse_canonical_agent_label_def split: option.splits)

lemma parse_agent_label_bare: "parse_agent_label [] = None"
  by (simp add: parse_agent_label_eq normalized_agent_lookup_name_def trim_def trim_matches_def
      trim_end_matches_def to_lowercase_def command_suffixes_def ends_with_def lookup_agent_def
      agent_names_def is_versioned_grok_binary_def strip_prefix_def starts_with_def)

lemma lower_whitespace: "is_whitespace c \<Longrightarrow> lower_char c = c"
  by (auto simp: is_whitespace_def lower_char_def Let_def)

lemma trim_padded:
  assumes "list_all is_whitespace w1" "list_all is_whitespace w2"
    and "s \<noteq> []" "\<not> is_whitespace (hd s)" "\<not> is_whitespace (last s)"
  shows "trim (w1 @ s @ w2) = s"
proof -
  have d: "dropWhile p (v @ u) = u" if "list_all p v" "u \<noteq> []" "\<not> p (hd u)" for p :: "char \<Rightarrow> bool" and u v
    using that by (induction v) (auto simp: neq_Nil_conv)
  have a: "dropWhile is_whitespace (w1 @ s @ w2) = s @ w2" using assms by (intro d) auto
  have b: "dropWhile is_whitespace (rev w2 @ rev s) = rev s"
    using assms by (intro d) (auto simp: list_all_iff hd_rev)
  show ?thesis by (simp add: trim_def trim_matches_def trim_end_matches_def a b)
qed

lemma label_ends:
  assumes "ext \<in> set ([] # command_suffixes)"
  shows "agent_label a @ ext \<noteq> []" "\<not> is_whitespace (hd (agent_label a @ ext))"
    "\<not> is_whitespace (last (agent_label a @ ext))"
  using assms by (cases a; auto simp: command_suffixes_def is_whitespace_def code_def)+

lemma truncate_label:
  assumes "ext \<in> set ([] # command_suffixes)"
  shows "truncate_first_suffix command_suffixes (agent_label a @ ext) = agent_label a"
  using assms by (cases a; auto simp: command_suffixes_def ends_with_def)+

lemma split_on_nonempty [simp]: "split_on p s \<noteq> []"
  by (induction s) (auto split: list.splits)

lemma split_on_sep: "p c \<Longrightarrow> split_on p (xs @ c # ys) = split_on p xs @ split_on p ys"
proof (induction xs)
  case (Cons x xs)
  obtain w ws where "split_on p xs = w # ws" using split_on_nonempty [of p xs] by (cases "split_on p xs") auto
  then show ?case using Cons by auto
qed simp

lemma split_on_none: "\<forall>c \<in> set s. \<not> p c \<Longrightarrow> split_on p s = [s]"
  by (induction s) auto

lemma path_basename_file:
  assumes "s \<noteq> []" "\<forall>c \<in> set s. \<not> is_path_separator c"
  shows "path_basename (dir @ ''/'' @ s) = s"
proof -
  have "split_on is_path_separator (dir @ CHR ''/'' # s) = split_on is_path_separator dir @ [s]"
    using assms(2) by (simp add: split_on_sep split_on_none is_path_separator_def)
  then show ?thesis using assms(1) by (simp add: path_basename_def)
qed

lemma trim_matches_none:
  "s \<noteq> [] \<Longrightarrow> \<not> p (hd s) \<Longrightarrow> \<not> p (last s) \<Longrightarrow> trim_matches p s = s"
proof -
  assume s: "s \<noteq> []" "\<not> p (hd s)" "\<not> p (last s)"
  then have "dropWhile p s = s" "dropWhile p (rev s) = rev s"
    by (simp_all add: dropWhile_eq_self_iff hd_rev)
  then show ?thesis by (simp add: trim_matches_def trim_end_matches_def)
qed

lemma agent_name_from_file:
  assumes "parse_agent_label s = Some a" "\<forall>c \<in> set s. \<not> is_path_separator c" "\<not> is_quote (last s)"
    and "dir \<noteq> []" "\<not> is_quote (hd dir)" "hd dir \<noteq> CHR ''-''"
  shows "agent_name_from_path_token resolve (dir @ ''/'' @ s) = Some (agent_label a)"
proof -
  have ne: "s \<noteq> []" using assms(1) parse_agent_label_bare by auto
  obtain d ds where d: "dir = d # ds" using assms(4) by (cases dir) auto
  have "trim_matches is_quote (dir @ ''/'' @ s) = dir @ ''/'' @ s"
    by (rule trim_matches_none) (use assms ne d in auto)
  moreover have "\<not> starts_with (dir @ ''/'' @ s) ''-''" using assms(6) d by (simp add: starts_with_def)
  ultimately show ?thesis
    using assms ne d path_basename_file [OF ne assms(2), of dir]
    by (simp add: agent_name_from_path_token_def agent_name_from_basename_def)
qed

lemma script_args_skip:
  assumes "\<forall>opt \<in> set opts. starts_with opt ''-'' \<and> opt \<noteq> ''--'' \<and> \<not> option_takes_value opt
      \<and> \<not> flag_matches opt eval_flags \<and> \<not> flag_matches opt module_flags"
  shows "script_args resolve eval_flags module_flags (opts @ args) =
    script_args resolve eval_flags module_flags args"
  using assms by (induction opts) auto

subsection \<open>The best candidate\<close>

definition process_score :: "file_resolver \<Rightarrow> foreground_process \<Rightarrow> u8" where
  "process_score resolve p = process_priority p (normalized_process_name resolve p)"

definition process_agent :: "file_resolver \<Rightarrow> foreground_process \<Rightarrow> agent option" where
  "process_agent resolve p = identify_agent (normalized_process_name resolve p)"

lemma better_candidate_eq:
  "better_candidate resolve best p =
    (case process_agent resolve p of
       None \<Rightarrow> best
     | Some a \<Rightarrow>
         if is_some_and best (\<lambda>b. process_score resolve p \<le> fst b) then best
         else Some (process_score resolve p, a, normalized_process_name resolve p))"
  by (auto simp: better_candidate_def process_agent_def process_score_def Let_def split: option.splits)

lemma fold_candidates_none:
  "foldl (better_candidate resolve) best ps = None \<longleftrightarrow>
   best = None \<and> (\<forall>p \<in> set ps. process_agent resolve p = None)"
proof (induction ps arbitrary: best)
  case (Cons p ps)
  show ?case using Cons [of "better_candidate resolve best p"]
    by (cases best) (auto simp: better_candidate_eq split: option.splits)
qed simp

lemma fold_candidates_some:
  "foldl (better_candidate resolve) best ps = Some (sc, a, n) \<Longrightarrow>
   (best = Some (sc, a, n) \<or>
    (\<exists>p \<in> set ps. process_agent resolve p = Some a \<and> n = normalized_process_name resolve p \<and>
       sc = process_score resolve p)) \<and>
   is_none_or best (\<lambda>b. fst b \<le> sc) \<and>
   (\<forall>q \<in> set ps. process_agent resolve q \<noteq> None \<longrightarrow> process_score resolve q \<le> sc)"
proof (induction ps arbitrary: best)
  case Nil
  then show ?case by simp
next
  case (Cons p ps)
  note IH = Cons.IH [of "better_candidate resolve best p"]
  show ?case
  proof (cases "process_agent resolve p")
    case None
    then show ?thesis using IH Cons.prems by (auto simp: better_candidate_eq)
  next
    case (Some b)
    show ?thesis
    proof (cases "is_some_and best (\<lambda>b. process_score resolve p \<le> fst b)")
      case True
      then obtain sb rest where "best = Some (sb, rest)" "process_score resolve p \<le> sb"
        by (cases best) auto
      then show ?thesis using IH Cons.prems Some by (auto simp: better_candidate_eq)
    next
      case False
      then have "is_none_or best (\<lambda>b. fst b \<le> process_score resolve p)" by (cases best) auto
      moreover have "better_candidate resolve best p =
          Some (process_score resolve p, b, normalized_process_name resolve p)"
        using Some False by (simp add: better_candidate_eq)
      ultimately show ?thesis using IH Cons.prems Some
        by (cases best) (auto intro: order_trans)
    qed
  qed
qed

section \<open>Properties\<close>

text \<open>C38: Every agent is found under its label, whatever the case of the letters, with white
  space around it and with one of the command suffixes; as a canonical label only the exact
  label of the agent is accepted.\<close>

theorem label_round_trip:
  assumes "to_lowercase s = agent_label a @ ext" "ext \<in> set ([] # command_suffixes)"
    and "list_all is_whitespace w1" "list_all is_whitespace w2"
  shows "parse_agent_label (w1 @ s @ w2) = Some a \<and>
    (parse_canonical_agent_label label = Some b \<longleftrightarrow> label = agent_label b)"
proof (intro conjI impI)
  note ends = label_ends [OF assms(2), of a, folded assms(1)]
  have ne: "s \<noteq> []" using ends(1) by (auto simp: to_lowercase_def)
  have "\<not> is_whitespace (hd s)" "\<not> is_whitespace (last s)"
    using ends(2, 3) ne lower_whitespace by (auto simp: to_lowercase_def hd_map last_map)
  then have "trim (w1 @ s @ w2) = s" using assms(3, 4) ne by (intro trim_padded)
  then show "parse_agent_label (w1 @ s @ w2) = Some a"
    by (simp add: parse_agent_label_eq normalized_agent_lookup_name_def assms(1) truncate_label [OF assms(2)])
  show "parse_canonical_agent_label label = Some b \<longleftrightarrow> label = agent_label b"
    by (auto simp: parse_canonical_agent_label_def split: option.splits if_splits)
qed

theorem label_round_trip_witness:
  "parse_agent_label '' CoDeX.exe '' = Some Codex"
  using label_round_trip [THEN conjunct1, of "''CoDeX.exe''" Codex "''.exe''" "'' ''" "'' ''"]
  by (simp add: to_lowercase_def lower_char_def code_def command_suffixes_def is_whitespace_def char_of_def bit_0)

text \<open>A process that runs an agent's script under node is named after the agent: leading
  options that take no value and do not carry code are skipped, and the script's path
  decides by its file name.\<close>

lemma node_script_agent:
  assumes "unwrap_or (argv0 p) (proc_name p) = ''node''"
    and "proc_argv p = Some (exe # opts @ (dir @ ''/'' @ script) # args)"
    and "\<forall>opt \<in> set opts. starts_with opt ''-'' \<and> opt \<noteq> ''--'' \<and> \<not> option_takes_value opt
      \<and> \<not> flag_matches opt [''-e'', ''--eval'', ''-p'', ''--print'']"
    and "parse_agent_label script = Some a" "\<forall>c \<in> set script. \<not> is_path_separator c"
      "\<not> is_quote (last script)" "dir \<noteq> []" "\<not> is_quote (hd dir)" "hd dir \<noteq> CHR ''-''"
  shows "normalized_process_name resolve p = agent_label a \<and>
    identify_agent (normalized_process_name resolve p) = Some a"
proof (intro conjI impI)
  let ?flags = "[''-e'', ''--eval'', ''-p'', ''--print'']"
  have none: "flag_matches x [] = False" for x by (simp add: flag_matches_def)
  have lower: "to_lowercase ''node'' = ''node''"
    by (simp add: to_lowercase_def lower_char_def code_def)
  have norm: "normalized_agent_lookup_name (path_basename ''node'') = ''node''"
    by (simp add: path_basename_def is_path_separator_def normalized_agent_lookup_name_def trim_def
        trim_matches_def trim_end_matches_def to_lowercase_def lower_char_def code_def command_suffixes_def
        ends_with_def is_whitespace_def)
  obtain d ds where d: "dir = d # ds" using assms(7) by (cases dir) auto
  have notflag: "flag_matches (dir @ ''/'' @ script) ?flags = False" and
    notdash: "starts_with (dir @ ''/'' @ script) ''-'' = False"
    using assms(9) d
    by (simp_all add: flag_matches_def short_flag_payload_def long_flag_value_def starts_with_def
        strip_prefix_def)
  have "script_args resolve ?flags [] (opts @ (dir @ ''/'' @ script) # args) =
      script_args resolve ?flags [] ((dir @ ''/'' @ script) # args)"
    using assms(3) by (intro script_args_skip) (simp add: none)
  also have "\<dots> = Some (agent_label a)"
    using agent_name_from_file [OF assms(4-9)] notflag notdash d assms(9) none
    by (auto simp: starts_with_def)
  finally have "wrapped_agent_name_from_runtime_argv resolve ''node'' (proc_argv p) = Some (agent_label a)"
    by (simp add: wrapped_agent_name_from_runtime_argv_def norm assms(2) script_arg_agent_name_def)
  then show n: "normalized_process_name resolve p = agent_label a"
    by (simp add: normalized_process_name_def Let_def assms(1) lower is_generic_runtime_or_shell_def norm)
  have "parse_agent_label (agent_label a) = Some a"
    using trim_padded [of "[]" "[]" "agent_label a"] label_ends [of "[]" a] truncate_label [of "[]" a]
    by (cases a) (simp_all add: parse_agent_label_eq normalized_agent_lookup_name_def to_lowercase_def
        lower_char_def code_def command_suffixes_def ends_with_def lookup_agent_def agent_names_def)
  then show "identify_agent (normalized_process_name resolve p) = Some a"
    by (simp add: n identify_agent_def)
qed

definition codex_under_node :: foreground_process where
  "codex_under_node = \<lparr>pid = 7, proc_name = ''node'', argv0 = None,
     proc_argv = Some [''node'', ''--no-warnings'', ''/usr/bin/codex''], cmdline = None\<rparr>"

text \<open>C39: The group leader of the foreground job decides when it is an agent. Otherwise the
  answer is an agent of the job whose priority no other agent of the job exceeds, and there
  is no answer only when no process of the job is an agent.\<close>

theorem identify_agent_in_job_correct:
  shows "(identify_agent_in_job resolve job = None \<longleftrightarrow> (\<forall>p \<in> set (processes
      job). process_agent resolve p = None)) \<and>
    (find (\<lambda>p. pid p = process_group_id job) (processes job) = Some leader \<longrightarrow>
      process_agent resolve leader = Some a \<longrightarrow> identify_agent_in_job resolve job =
      Some (a, normalized_process_name resolve leader)) \<and>
    (identify_agent_in_job resolve job = Some (a, n) \<longrightarrow> is_none_or (find (\<lambda>p.
      pid p = process_group_id job) (processes job)) (\<lambda>p. process_agent resolve p = None)
      \<longrightarrow> (\<exists>p \<in> set (processes job). process_agent resolve p = Some a
      \<and> n = normalized_process_name resolve p \<and> (\<forall>q \<in> set (processes job).
      process_agent resolve q \<noteq> None \<longrightarrow> process_score resolve q \<le>
      process_score resolve p)))"
proof (intro conjI impI)
  let ?leader = "find (\<lambda>p. pid p = process_group_id job) (processes job)"
  let ?best = "foldl (better_candidate resolve) None (processes job)"
  have eq: "identify_agent_in_job resolve job =
      (case ?leader of
         None \<Rightarrow> map_option snd ?best
       | Some p \<Rightarrow> (case process_agent resolve p of
            None \<Rightarrow> map_option snd ?best
          | Some a \<Rightarrow> Some (a, normalized_process_name resolve p)))"
    by (auto simp: identify_agent_in_job_def process_agent_def Let_def split: option.splits)
  have member: "?leader = Some p \<Longrightarrow> p \<in> set (processes job)" for p
    by (auto simp: find_Some_iff)
  show "identify_agent_in_job resolve job = None \<longleftrightarrow>
      (\<forall>p \<in> set (processes job). process_agent resolve p = None)"
    using member fold_candidates_none [of resolve None "processes job"]
    by (auto simp: eq split: option.splits)
  show "identify_agent_in_job resolve job = Some (a, normalized_process_name resolve leader)"
    if "?leader = Some leader" "process_agent resolve leader = Some a"
    using that by (simp add: eq)
  show "\<exists>p \<in> set (processes job). process_agent resolve p = Some a \<and> n = normalized_process_name resolve p \<and>
        (\<forall>q \<in> set (processes job). process_agent resolve q \<noteq> None \<longrightarrow>
           process_score resolve q \<le> process_score resolve p)"
    if "identify_agent_in_job resolve job = Some (a, n)" "is_none_or ?leader (\<lambda>p. process_agent resolve p = None)"
  proof -
    from that have "map_option snd ?best = Some (a, n)" by (auto simp: eq split: option.splits)
    then obtain sc where "?best = Some (sc, a, n)" by auto
    from fold_candidates_some [OF this] show ?thesis by auto
  qed
qed

theorem identify_agent_in_job_correct_witness:
  "identify_agent_in_job (\<lambda>_. None) \<lparr>process_group_id = 7, processes = [codex_under_node]\<rparr> =
   Some (Codex, ''codex'')"
proof -
  let ?job = "\<lparr>process_group_id = 7, processes = [codex_under_node]\<rparr>"
  have node: "normalized_process_name (\<lambda>_. None) codex_under_node = ''codex''"
    by code_simp
  have agent: "process_agent (\<lambda>_. None) codex_under_node = Some Codex"
    by code_simp
  have "find (\<lambda>p. pid p = process_group_id ?job) (processes ?job) = Some codex_under_node"
    by (simp add: codex_under_node_def)
  from identify_agent_in_job_correct [THEN conjunct2, THEN conjunct1, rule_format, OF this agent] node show ?thesis by simp
qed

end
