(* ===== verification/Agent_Resume.thy ===== *)
theory Agent_Resume
  imports Detect
begin

text \<open>
  \<open>src/src/agent_resume.rs\<close>: references to the native session of an agent, where they may
  come from, and the command line that resumes one. Paths are those of Unix.
\<close>

section \<open>Session references\<close>

datatype session_ref_kind = Id | Path

record agent_session_ref =
  sref_kind :: session_ref_kind
  sref_value :: string

record agent_resume_plan =
  rplan_agent :: string
  rplan_argv :: "string list"
  rplan_dedupe_key :: string

record persisted_agent_session =
  ps_source :: string
  ps_agent :: string
  ps_session_ref :: agent_session_ref

definition MAX_SESSION_ID_LEN :: nat where "MAX_SESSION_ID_LEN = 512"
definition MAX_SESSION_PATH_LEN :: nat where "MAX_SESSION_PATH_LEN = 4096"

definition valid_session_id :: "string \<Rightarrow> bool" where
  "valid_session_id value =
     (value \<noteq> [] \<and> utf8_len value \<le> MAX_SESSION_ID_LEN \<and> \<not> list_ex is_control value)"

definition path_is_absolute :: "string \<Rightarrow> bool" where
  "path_is_absolute value = starts_with value ''/''"

definition valid_session_path :: "string \<Rightarrow> bool" where
  "valid_session_path value =
     (value \<noteq> [] \<and> utf8_len value \<le> MAX_SESSION_PATH_LEN \<and> \<not> list_ex is_control value
      \<and> path_is_absolute value)"

definition session_ref_id :: "string \<Rightarrow> agent_session_ref option" where
  "session_ref_id value =
     (if valid_session_id value then Some \<lparr>sref_kind = Id, sref_value = value\<rparr> else None)"

definition session_ref_path :: "string \<Rightarrow> agent_session_ref option" where
  "session_ref_path value =
     (if valid_session_path value then Some \<lparr>sref_kind = Path, sref_value = value\<rparr> else None)"

definition official_sources :: "(string \<times> string) list" where
  "official_sources =
    [(''herdr:claude'', ''claude''), (''herdr:codex'', ''codex''), (''herdr:copilot'', ''copilot''),
     (''herdr:devin'', ''devin''), (''herdr:droid'', ''droid''), (''herdr:kimi'', ''kimi''),
     (''herdr:omp'', ''omp''), (''herdr:mastracode'', ''mastracode''), (''herdr:pi'', ''pi''),
     (''herdr:hermes'', ''hermes''), (''herdr:opencode'', ''opencode''),
     (''herdr:qodercli'', ''qodercli''), (''herdr:kilo'', ''kilo''), (''herdr:cursor'', ''cursor''),
     (''herdr:grok'', ''grok'')]"

definition is_official_agent_source :: "string \<Rightarrow> string \<Rightarrow> bool" where
  "is_official_agent_source source agent = ((source, agent) \<in> set official_sources)"

definition session_ref_from_report ::
  "string \<Rightarrow> string \<Rightarrow> string option \<Rightarrow> string option \<Rightarrow> agent_session_ref option" where
  "session_ref_from_report source agent agent_session_id agent_session_path =
     (if \<not> is_official_agent_source source agent then None
      else if agent = ''pi'' \<or> agent = ''omp'' then
        or_else (Option.bind agent_session_path session_ref_path) (Option.bind agent_session_id session_ref_id)
      else Option.bind agent_session_id session_ref_id)"

definition normalize_session_start_source :: "string option \<Rightarrow> string option" where
  "normalize_session_start_source value =
     (case map_option trim value of
        Some source \<Rightarrow>
          if source \<in> set [''startup'', ''resume'', ''clear'', ''compact'', ''new'', ''fork'']
          then Some source else None
      | None \<Rightarrow> None)"

definition is_reserved_native_state_source :: "string \<Rightarrow> string \<Rightarrow> bool" where
  "is_reserved_native_state_source source agent =
     ((source, agent) \<in> set
       [(''herdr:claude'', ''claude''), (''herdr:codex'', ''codex''), (''herdr:copilot'', ''copilot''),
        (''herdr:devin'', ''devin''), (''herdr:droid'', ''droid''), (''herdr:qodercli'', ''qodercli''),
        (''herdr:cursor'', ''cursor'')])"

definition session_ref_from_snapshot ::
  "string \<Rightarrow> string \<Rightarrow> session_ref_kind \<Rightarrow> string \<Rightarrow> persisted_agent_session option" where
  "session_ref_from_snapshot source agent kind value =
     (if \<not> is_official_agent_source source agent then None
      else map_option (\<lambda>r. \<lparr>ps_source = source, ps_agent = agent, ps_session_ref = r\<rparr>)
        (case kind of
           Path \<Rightarrow> if agent = ''pi'' \<or> agent = ''omp'' then session_ref_path value else None
         | Id \<Rightarrow> session_ref_id value))"

section \<open>Resume plans\<close>

definition kind_name :: "session_ref_kind \<Rightarrow> string" where
  "kind_name kind = (case kind of Id \<Rightarrow> ''Id'' | Path \<Rightarrow> ''Path'')"

definition NUL :: char where "NUL = CHR 0x00"

definition dedupe_key :: "string \<Rightarrow> string \<Rightarrow> agent_session_ref \<Rightarrow> string" where
  "dedupe_key source agent r =
     source @ [NUL] @ agent @ [NUL] @ kind_name (sref_kind r) @ [NUL] @ sref_value r"

text \<open>\<open>Path::file_name\<close>: the last component, when it is an ordinary one.\<close>

definition path_file_name :: "string \<Rightarrow> string option" where
  "path_file_name path =
     (if path_parts path = [] \<or> last (path_parts path) = ''..'' then None else Some (last (path_parts path)))"

definition plan_argv :: "string \<Rightarrow> string \<Rightarrow> agent_session_ref \<Rightarrow> string list option" where
  "plan_argv source agent r =
     (let value = sref_value r; key = (source, agent) in
      case sref_kind r of
        Id \<Rightarrow>
          if key = (''herdr:claude'', ''claude'') then Some [''claude'', ''--resume'', value]
          else if key = (''herdr:codex'', ''codex'') then Some [''codex'', ''resume'', value]
          else if key = (''herdr:copilot'', ''copilot'') then Some [''copilot'', ''--resume='' @ value]
          else if key = (''herdr:devin'', ''devin'') then Some [''devin'', ''--resume'', value]
          else if key = (''herdr:droid'', ''droid'') then Some [''droid'', ''--resume'', value]
          else if key = (''herdr:kimi'', ''kimi'') then Some [''kimi'', ''--session'', value]
          else if key = (''herdr:mastracode'', ''mastracode'') then Some [''mastracode'', ''--thread'', value]
          else if key = (''herdr:pi'', ''pi'') then Some [''pi'', ''--session'', value]
          else if key = (''herdr:omp'', ''omp'') then Some [''omp'', ''--resume='' @ value]
          else if key = (''herdr:hermes'', ''hermes'') then Some [''hermes'', ''--resume'', value]
          else if key = (''herdr:opencode'', ''opencode'') then Some [''opencode'', ''--session'', value]
          else if key = (''herdr:qodercli'', ''qodercli'') then Some [''qodercli'', ''--resume'', value]
          else if key = (''herdr:kilo'', ''kilo'') then Some [''kilo'', ''--session'', value]
          else if key = (''herdr:cursor'', ''cursor'') then Some [''cursor-agent'', ''--resume'', value]
          else if key = (''herdr:grok'', ''grok'') then Some [''grok'', ''--resume'', value]
          else None
      | Path \<Rightarrow>
          if key = (''herdr:pi'', ''pi'') then Some [''pi'', ''--session'', value]
          else if key = (''herdr:omp'', ''omp'') then Some [''omp'', ''--resume='' @ value]
          else if key = (''herdr:grok'', ''grok'') then
            Some [''grok'', ''--resume'', unwrap_or (path_file_name value) value]
          else None)"

definition plan :: "string \<Rightarrow> string \<Rightarrow> agent_session_ref \<Rightarrow> agent_resume_plan option" where
  "plan source agent session_ref =
     (if \<not> is_official_agent_source source agent then None
      else map_option (\<lambda>argv. \<lparr>rplan_agent = agent, rplan_argv = argv,
             rplan_dedupe_key = dedupe_key source agent session_ref\<rparr>)
        (plan_argv source agent session_ref))"

section \<open>Facts\<close>

lemma official_sourceD:
  "is_official_agent_source source agent \<Longrightarrow> source = ''herdr:'' @ agent"
  by (auto simp: is_official_agent_source_def official_sources_def)

lemma official_no_NUL:
  "is_official_agent_source source agent \<Longrightarrow> NUL \<notin> set source \<and> NUL \<notin> set agent"
  by (auto simp: is_official_agent_source_def official_sources_def NUL_def)

lemma append_sep_inject:
  "c \<notin> set xs \<Longrightarrow> c \<notin> set xs' \<Longrightarrow> xs @ c # ys = xs' @ c # ys' \<longleftrightarrow> xs = xs' \<and> ys = ys'"
  by (auto simp: append_eq_append_conv2 Cons_eq_append_conv append_eq_Cons_conv)

lemma kind_name_inject [simp]: "kind_name k = kind_name k' \<longleftrightarrow> k = k'"
  by (cases k; cases k') (simp_all add: kind_name_def)

lemma kind_name_no_NUL: "NUL \<notin> set (kind_name k)"
  by (cases k) (simp_all add: kind_name_def NUL_def)

lemma dedupe_key_inject:
  assumes "NUL \<notin> set s" "NUL \<notin> set a" "NUL \<notin> set s'" "NUL \<notin> set a'"
  shows "dedupe_key s a r = dedupe_key s' a' r' \<longleftrightarrow> s = s' \<and> a = a' \<and> r = r'"
  using assms kind_name_no_NUL
  by (auto simp: dedupe_key_def append_sep_inject)

lemma plan_SomeD:
  "plan source agent r = Some p \<Longrightarrow>
   is_official_agent_source source agent \<and> rplan_agent p = agent \<and>
   rplan_dedupe_key p = dedupe_key source agent r \<and> plan_argv source agent r = Some (rplan_argv p)"
  by (auto simp: plan_def split: if_splits)

definition resumable :: "string \<Rightarrow> session_ref_kind \<Rightarrow> bool" where
  "resumable agent kind = (kind = Id \<or> agent \<in> set [''pi'', ''omp'', ''grok''])"

lemma plan_argv_resumable:
  "is_official_agent_source source agent \<Longrightarrow>
   (plan_argv source agent r \<noteq> None) = resumable agent (sref_kind r)"
  by (cases "sref_kind r"; auto simp: is_official_agent_source_def official_sources_def plan_argv_def
      resumable_def Let_def)

lemma plan_argv_id:
  "is_official_agent_source source agent \<Longrightarrow> sref_kind r = Id \<Longrightarrow> plan_argv source agent r = Some argv \<Longrightarrow>
   last argv = sref_value r \<or> last argv = ''--resume='' @ sref_value r"
  by (auto simp: is_official_agent_source_def official_sources_def plan_argv_def Let_def)

lemma from_snapshot_iff:
  "session_ref_from_snapshot source agent kind value = Some s \<longleftrightarrow>
   is_official_agent_source source agent \<and>
   s = \<lparr>ps_source = source, ps_agent = agent, ps_session_ref = \<lparr>sref_kind = kind, sref_value = value\<rparr>\<rparr> \<and>
   (case kind of Id \<Rightarrow> valid_session_id value
    | Path \<Rightarrow> valid_session_path value \<and> (agent = ''pi'' \<or> agent = ''omp''))"
  by (cases kind) (auto simp: session_ref_from_snapshot_def session_ref_id_def session_ref_path_def)

section \<open>Properties\<close>

text \<open>C22: There is a resume plan exactly for the official sources and the kinds of reference
  their agents resume, and for every session restored from a snapshot; resuming by id runs
  a command whose last argument is the id, alone or after \<open>--resume=\<close>.\<close>

theorem plan_correct:
  shows "(plan source agent r \<noteq> None \<longleftrightarrow> is_official_agent_source source agent
      \<and> resumable agent (sref_kind r)) \<and>
    (session_ref_from_snapshot source agent kind value = Some s \<longrightarrow> (\<exists>p. plan
      (ps_source s) (ps_agent s) (ps_session_ref s) = Some p \<and> rplan_agent p = agent)) \<and>
    (plan source agent r = Some p \<longrightarrow> sref_kind r = Id \<longrightarrow> last
      (rplan_argv p) = sref_value r \<or> last (rplan_argv p) = ''--resume='' @ sref_value r)"
proof (intro conjI impI)
  have iff: "plan source agent r \<noteq> None \<longleftrightarrow>
      is_official_agent_source source agent \<and> resumable agent (sref_kind r)" for r
    using plan_argv_resumable [of source agent r] by (auto simp: plan_def)
  then show "plan source agent r \<noteq> None \<longleftrightarrow>
      is_official_agent_source source agent \<and> resumable agent (sref_kind r)" .
  show "\<exists>p. plan (ps_source s) (ps_agent s) (ps_session_ref s) = Some p \<and> rplan_agent p = agent"
    if snap: "session_ref_from_snapshot source agent kind value = Some s"
  proof -
    let ?r = "\<lparr>sref_kind = kind, sref_value = value\<rparr>"
    have "is_official_agent_source source agent" and s: "ps_source s = source" "ps_agent s = agent"
      "ps_session_ref s = ?r" and "resumable agent kind"
      using snap by (auto simp: from_snapshot_iff resumable_def split: session_ref_kind.splits)
    then have "plan source agent ?r \<noteq> None" by (subst iff) simp
    then obtain p where p: "plan source agent ?r = Some p" by blast
    then show ?thesis using s plan_SomeD [OF p] by simp
  qed
  show "last (rplan_argv p) = sref_value r \<or> last (rplan_argv p) = ''--resume='' @ sref_value r"
    if "plan source agent r = Some p" "sref_kind r = Id"
    using plan_SomeD [OF that(1)] plan_argv_id [OF _ that(2)] by blast
qed

theorem plan_correct_witness:
  "\<exists>p. plan ''herdr:omp'' ''omp'' \<lparr>sref_kind = Path, sref_value = ''/s''\<rparr> = Some p \<and> rplan_agent p = ''omp''"
  using plan_correct [of "''herdr:omp''" "''omp''" _ Path "''/s''"
      "\<lparr>ps_source = ''herdr:omp'', ps_agent = ''omp'', ps_session_ref = \<lparr>sref_kind = Path, sref_value = ''/s''\<rparr>\<rparr>",
      THEN conjunct2, THEN conjunct1]
  by (simp add: from_snapshot_iff is_official_agent_source_def official_sources_def valid_session_path_def
      utf8_len_def code_def is_control_def path_is_absolute_def starts_with_def MAX_SESSION_PATH_LEN_def)

text \<open>A reference accepted from a report is bounded, free of control characters (and
  absolute when it is a path), and is accepted again, unchanged, when it is restored from
  the snapshot it was saved to.\<close>

lemma report_snapshot_round_trip:
  assumes "session_ref_from_report source agent sid path = Some r"
  shows "session_ref_from_snapshot source agent (sref_kind r) (sref_value r) = Some \<lparr>ps_source =
      source, ps_agent = agent, ps_session_ref = r\<rparr> \<and>
    sref_value r \<noteq> [] \<and>
    utf8_len (sref_value r) \<le> 4096 \<and>
    (\<forall>c \<in> set (sref_value r). \<not> is_control c) \<and>
    (sref_kind r = Path \<longrightarrow> path_is_absolute (sref_value r))"
proof (intro conjI impI)
  have r: "is_official_agent_source source agent \<and>
      (valid_session_id (sref_value r) \<and> sref_kind r = Id \<or>
       valid_session_path (sref_value r) \<and> sref_kind r = Path \<and> (agent = ''pi'' \<or> agent = ''omp''))"
    using assms
    by (auto simp: session_ref_from_report_def session_ref_id_def session_ref_path_def or_else_def
        bind_eq_Some_conv split: if_splits option.splits)
  show "session_ref_from_snapshot source agent (sref_kind r) (sref_value r) =
      Some \<lparr>ps_source = source, ps_agent = agent, ps_session_ref = r\<rparr>"
    using r by (auto simp: from_snapshot_iff)
  show "sref_value r \<noteq> []" "utf8_len (sref_value r) \<le> 4096" "\<forall>c \<in> set (sref_value r). \<not> is_control c"
    "sref_kind r = Path \<Longrightarrow> path_is_absolute (sref_value r)"
    using r by (auto simp: valid_session_id_def valid_session_path_def MAX_SESSION_ID_LEN_def
        MAX_SESSION_PATH_LEN_def list_ex_iff)
qed

text \<open>Two resume plans have the same deduplication key only when they resume the same
  session: same source, same agent, same kind of reference, same value.\<close>

lemma dedupe_key_injective:
  assumes "plan source agent r = Some p" "plan source' agent' r' = Some p'"
    and "rplan_dedupe_key p = rplan_dedupe_key p'"
  shows "(source = source' \<and> agent = agent' \<and> r = r') \<and>
    p = p'"
proof -
  have "dedupe_key source agent r = dedupe_key source' agent' r'"
    using plan_SomeD [OF assms(1)] plan_SomeD [OF assms(2)] assms(3) by simp
  then have eq: "source = source' \<and> agent = agent' \<and> r = r'"
    using plan_SomeD [OF assms(1)] plan_SomeD [OF assms(2)] official_no_NUL dedupe_key_inject by metis
  then have "p = p'" using assms(1, 2) by simp
  with eq show ?thesis by blast
qed

end
