(* ===== verification/Terminal_Model.thy ===== *)
theory Terminal_Model
  imports Agent_Resume Metadata_Tokens "HOL-Library.Option_ord"
begin

text \<open>
  The data of \<open>src/src/terminal/state.rs\<close> and \<open>metadata.rs\<close>, the title filter of
  \<open>title.rs\<close>, and the queries that compute what a terminal presents: its effective agent,
  title, display name and state labels. Terminal titles keep their Unicode scalar values.
\<close>

section \<open>Titles\<close>

type_synonym scalars = "nat list"

text \<open>\<open>char::is_whitespace\<close>: the Unicode property White\_Space.\<close>

definition scalar_is_whitespace :: "nat \<Rightarrow> bool" where
  "scalar_is_whitespace c =
     ((9 \<le> c \<and> c \<le> 13) \<or> (0x2000 \<le> c \<and> c \<le> 0x200A) \<or>
      c \<in> set [32, 0x85, 0xA0, 0x1680, 0x2028, 0x2029, 0x202F, 0x205F, 0x3000])"

definition scalars_trim :: "scalars \<Rightarrow> scalars" where
  "scalars_trim s = rev (dropWhile scalar_is_whitespace (rev (dropWhile scalar_is_whitespace s)))"

definition CLAUDE_ACTIVITY_GLYPHS :: scalars where
  "CLAUDE_ACTIVITY_GLYPHS =
    [0xB7, 0x2722, 0x2733, 0x2736, 0x273B, 0x273D, 0x25D0, 0x25D1, 0x25D2, 0x25D3]"

definition stripped_terminal_title :: "scalars \<Rightarrow> scalars option" where
  "stripped_terminal_title title =
     (case scalars_trim title of
        [] \<Rightarrow> None
      | first # after_first \<Rightarrow>
          let recognized = (0x2800 \<le> first \<and> first \<le> 0x28FF) \<or> first \<in> set CLAUDE_ACTIVITY_GLYPHS;
              stripped = (if recognized \<and> (after_first = [] \<or> scalar_is_whitespace (hd after_first))
                          then scalars_trim after_first else first # after_first)
          in if stripped \<noteq> [] then Some stripped else None)"

section \<open>Data\<close>

record hook_authority =
  ha_source :: string
  ha_agent_label :: string
  ha_state :: agent_state
  ha_message :: "string option"
  ha_reported_at :: instant
  ha_session_ref :: "agent_session_ref option"

datatype suppression_reason = HookClear | ProcessExit

record suppressed_report =
  sup_agent_label :: string
  sup_session_ref :: "agent_session_ref option"
  sup_observed_at :: instant
  sup_reason :: suppression_reason

record stale_session =
  stale_agent_label :: string
  stale_session_ref :: agent_session_ref

record agent_metadata =
  md_source :: string
  md_agent_label :: "string option"
  md_applies_to_source :: "string option"
  md_title :: "string option"
  md_display_agent :: "string option"
  md_state_labels :: "(string, string) hmap"
  md_reported_at :: instant
  md_title_reported_at :: "instant option"
  md_display_agent_reported_at :: "instant option"
  md_state_label_reported_at :: "(string, instant) hmap"
  md_ttl :: "duration option"
  md_expiry_event_pending :: bool

record agent_metadata_report =
  rep_source :: string
  rep_agent_label :: "string option"
  rep_applies_to_source :: "string option"
  rep_title :: "string option"
  rep_display_agent :: "string option"
  rep_state_labels :: "(string, string) hmap"
  rep_clear_title :: bool
  rep_clear_display_agent :: bool
  rep_clear_state_labels :: bool
  rep_ttl :: "duration option"
  rep_seq :: "u64 option"

record presentation =
  pr_title :: "string option"
  pr_display_agent :: "string option"
  pr_state_labels :: "(string, string) hmap"

record effective_state_change =
  ch_previous_agent_label :: "string option"
  ch_previous_known_agent :: "agent option"
  ch_previous_state :: agent_state
  ch_previous_presentation :: presentation
  ch_agent_label :: "string option"
  ch_known_agent :: "agent option"
  ch_state :: agent_state
  ch_presentation :: presentation

record terminal_title_change =
  raw_changed :: bool
  stripped_changed :: bool

record mutation =
  mu_change :: "effective_state_change option"
  mu_session_ref_changed :: bool

record terminal =
  t_id :: string
  t_cwd :: string
  t_detected_agent :: "agent option"
  t_fallback_state :: agent_state
  t_fallback_visible_blocker :: bool
  t_fallback_observed_at :: "instant option"
  t_hook_authority :: "hook_authority option"
  t_agent_metadata :: "(string, agent_metadata) hmap"
  t_metadata_tokens :: metadata_tokens
  t_persisted_agent_session :: "persisted_agent_session option"
  t_terminal_title :: "scalars option"
  t_manual_label :: "string option"
  t_agent_name :: "string option"
  t_hook_report_sequences :: "(string, u64) hmap"
  t_suppressed :: "(string, suppressed_report) hmap"
  t_stale_sessions :: "(string, stale_session list) hmap"
  t_metadata_report_sequences :: "(string, u64) hmap"
  t_metadata_token_sequence_sources :: "string list"  \<comment> \<open>a set: distinct\<close>
  t_state :: agent_state
  t_agent_inactive :: bool
  t_last_agent_state_change_seq :: "u64 option"
  t_revision :: u64
  t_launch_argv :: "string list option"
  t_respawn_shell_on_exit :: bool
  t_recent_agent_process_exit_at :: "instant option"
  t_pending_agent_resume_plan :: "agent_resume_plan option"

definition terminal_new :: "string \<Rightarrow> string \<Rightarrow> terminal" where
  "terminal_new tid cwd = \<lparr>
     t_id = tid, t_cwd = cwd, t_detected_agent = None, t_fallback_state = Unknown,
     t_fallback_visible_blocker = False, t_fallback_observed_at = None, t_hook_authority = None,
     t_agent_metadata = [], t_metadata_tokens = [], t_persisted_agent_session = None,
     t_terminal_title = None, t_manual_label = None, t_agent_name = None,
     t_hook_report_sequences = [], t_suppressed = [], t_stale_sessions = [],
     t_metadata_report_sequences = [], t_metadata_token_sequence_sources = [],
     t_state = Unknown, t_agent_inactive = False, t_last_agent_state_change_seq = None,
     t_revision = 0, t_launch_argv = None, t_respawn_shell_on_exit = False,
     t_recent_agent_process_exit_at = None, t_pending_agent_resume_plan = None\<rparr>"

section \<open>The effective agent\<close>

definition effective_agent_label :: "terminal \<Rightarrow> string option" where
  "effective_agent_label t =
     or_else (map_option ha_agent_label (t_hook_authority t)) (map_option agent_label (t_detected_agent t))"

definition effective_known_agent :: "terminal \<Rightarrow> agent option" where
  "effective_known_agent t =
     (case t_hook_authority t of
        Some authority \<Rightarrow> parse_agent_label (ha_agent_label authority)
      | None \<Rightarrow> t_detected_agent t)"

section \<open>The effective presentation\<close>

definition metadata_guards_match :: "terminal \<Rightarrow> string option \<Rightarrow> string option \<Rightarrow> bool" where
  "metadata_guards_match t label applies_to_source =
     (if is_some_and label (\<lambda>agent. effective_agent_label t \<noteq> Some agent) then False
      else \<not> is_some_and applies_to_source (\<lambda>source.
               is_none_or (t_hook_authority t) (\<lambda>authority. ha_source authority \<noteq> source)))"

definition agent_metadata_matches_guards :: "terminal \<Rightarrow> agent_metadata \<Rightarrow> bool" where
  "agent_metadata_matches_guards t md = metadata_guards_match t (md_agent_label md) (md_applies_to_source md)"

definition agent_metadata_expiry :: "agent_metadata \<Rightarrow> instant option" where
  "agent_metadata_expiry md =
     map_option (\<lambda>ttl. unwrap_or (instant_checked_add (md_reported_at md) ttl) (md_reported_at md)) (md_ttl md)"

definition agent_metadata_is_expired :: "agent_metadata \<Rightarrow> instant \<Rightarrow> bool" where
  "agent_metadata_is_expired md now = is_some_and (agent_metadata_expiry md) (\<lambda>deadline. deadline \<le> now)"

definition metadata_has_content :: "agent_metadata \<Rightarrow> bool" where
  "metadata_has_content md = (md_title md \<noteq> None \<or> md_display_agent md \<noteq> None \<or> md_state_labels md \<noteq> [])"

definition agent_metadata_is_valid :: "terminal \<Rightarrow> agent_metadata \<Rightarrow> instant \<Rightarrow> bool \<Rightarrow> bool" where
  "agent_metadata_is_valid t md now enforce_ttl =
     (if \<not> metadata_has_content md then False
      else if enforce_ttl \<and> agent_metadata_is_expired md now then False
      else agent_metadata_matches_guards t md)"

definition agent_metadata_is_visible_ignoring_ttl :: "terminal \<Rightarrow> agent_metadata \<Rightarrow> bool" where
  "agent_metadata_is_visible_ignoring_ttl t md =
     (metadata_has_content md \<and> agent_metadata_matches_guards t md)"

definition valid_agent_metadata :: "terminal \<Rightarrow> instant \<Rightarrow> bool \<Rightarrow> agent_metadata list" where
  "valid_agent_metadata t now enforce_ttl =
     filter (\<lambda>md. agent_metadata_is_valid t md now enforce_ttl) (hm_values (t_agent_metadata t))"

definition newest_metadata_title :: "terminal \<Rightarrow> instant \<Rightarrow> bool \<Rightarrow> string option" where
  "newest_metadata_title t now enforce_ttl =
     Option.bind (max_by_key md_title_reported_at
       (filter (\<lambda>md. md_title md \<noteq> None) (valid_agent_metadata t now enforce_ttl))) md_title"

definition newest_metadata_display_agent :: "terminal \<Rightarrow> instant \<Rightarrow> bool \<Rightarrow> string option" where
  "newest_metadata_display_agent t now enforce_ttl =
     Option.bind (max_by_key md_display_agent_reported_at
       (filter (\<lambda>md. md_display_agent md \<noteq> None) (valid_agent_metadata t now enforce_ttl))) md_display_agent"

definition dated_labels :: "agent_metadata \<Rightarrow> (instant \<times> string \<times> string) list" where
  "dated_labels md = List.map_filter
     (\<lambda>(st, label). map_option (\<lambda>at. (at, st, label)) (hm_get (md_state_label_reported_at md) st))
     (md_state_labels md)"

definition effective_metadata_state_labels :: "terminal \<Rightarrow> instant \<Rightarrow> bool \<Rightarrow> (string, string) hmap" where
  "effective_metadata_state_labels t now enforce_ttl =
     (let labels = sort_key fst (concat (map dated_labels (valid_agent_metadata t now enforce_ttl)))
      in fold (\<lambda>(_, st, label) m. hm_insert st label m) labels [])"

definition effective_presentation_with_ttl :: "terminal \<Rightarrow> agent_state \<Rightarrow> instant \<Rightarrow> bool \<Rightarrow> presentation" where
  "effective_presentation_with_ttl t _ now enforce_ttl =
     \<lparr>pr_title = newest_metadata_title t now enforce_ttl,
      pr_display_agent = newest_metadata_display_agent t now enforce_ttl,
      pr_state_labels = effective_metadata_state_labels t now enforce_ttl\<rparr>"

definition effective_presentation :: "terminal \<Rightarrow> agent_state \<Rightarrow> instant \<Rightarrow> presentation" where
  "effective_presentation t st now = effective_presentation_with_ttl t st now True"

definition effective_presentation_ignoring_ttl :: "terminal \<Rightarrow> agent_state \<Rightarrow> instant \<Rightarrow> presentation" where
  "effective_presentation_ignoring_ttl t st now = effective_presentation_with_ttl t st now False"

text \<open>Equality of \<open>HashMap\<close>s does not depend on the iteration order.\<close>

definition hm_eq :: "('k, 'v) hmap \<Rightarrow> ('k, 'v) hmap \<Rightarrow> bool" where
  "hm_eq m m' = (hm_len m = hm_len m' \<and> list_all (\<lambda>(k, v). hm_get m' k = Some v) m)"

definition presentation_eq :: "presentation \<Rightarrow> presentation \<Rightarrow> bool" where
  "presentation_eq p q =
     (pr_title p = pr_title q \<and> pr_display_agent p = pr_display_agent q
      \<and> hm_eq (pr_state_labels p) (pr_state_labels q))"

definition next_agent_metadata_expiry :: "terminal \<Rightarrow> instant \<Rightarrow> instant option" where
  "next_agent_metadata_expiry t now =
     (let deadlines = List.map_filter agent_metadata_expiry
            (filter (agent_metadata_matches_guards t) (hm_values (t_agent_metadata t)))
      in min_by_key (\<lambda>d. d) (filter (\<lambda>deadline. now < deadline \<or>
           list_ex (\<lambda>md. md_expiry_event_pending md \<and> agent_metadata_matches_guards t md
               \<and> agent_metadata_expiry md = Some deadline) (hm_values (t_agent_metadata t))) deadlines))"

end
