(* ===== verification/Terminal_State.thy ===== *)
theory Terminal_State
  imports Terminal_Model
begin

text \<open>
  The operations of \<open>src/src/terminal/state.rs\<close>: arbitration between the state that the
  screen shows and the state an agent's hooks report, the sequence numbers of the reports,
  the suppression of reports after a release or a process exit, and the native session the
  terminal remembers. An operation that may refuse returns \<open>None\<close> beside the state it
  leaves. Readings of the clock are arguments; where one operation reads it twice, the
  second reading (of the suppression entry) is called \<open>clock\<close>.
\<close>

section \<open>Simple fields\<close>

definition set_agent_inactive :: "bool \<Rightarrow> terminal \<Rightarrow> terminal \<times> bool" where
  "set_agent_inactive inactive t =
     (if t_agent_inactive t = inactive then (t, False)
      else (t\<lparr>t_agent_inactive := inactive, t_revision := t_revision t + 1\<rparr>, True))"

definition terminal_title_stripped :: "terminal \<Rightarrow> scalars option" where
  "terminal_title_stripped t = Option.bind (t_terminal_title t) stripped_terminal_title"

definition set_terminal_title :: "scalars option \<Rightarrow> terminal \<Rightarrow> terminal \<times> terminal_title_change" where
  "set_terminal_title title t =
     (if t_terminal_title t = title then (t, \<lparr>raw_changed = False, stripped_changed = False\<rparr>)
      else
        (let previous_stripped = terminal_title_stripped t;
             t' = t\<lparr>t_terminal_title := title\<rparr>;
             stripped_changed = (previous_stripped \<noteq> terminal_title_stripped t');
             t'' = (if stripped_changed then t'\<lparr>t_revision := t_revision t' + 1\<rparr> else t')
         in (t'', \<lparr>raw_changed = True, stripped_changed = stripped_changed\<rparr>)))"

definition with_launch_argv :: "string list \<Rightarrow> terminal \<Rightarrow> terminal" where
  "with_launch_argv argv t = t\<lparr>t_launch_argv := Some argv\<rparr>"

definition with_respawn_shell_on_exit :: "terminal \<Rightarrow> terminal" where
  "with_respawn_shell_on_exit t = t\<lparr>t_respawn_shell_on_exit := True\<rparr>"

definition agent_process_exited_within :: "terminal \<Rightarrow> instant \<Rightarrow> duration \<Rightarrow> bool" where
  "agent_process_exited_within t now max_age =
     is_some_and (t_recent_agent_process_exit_at t) (\<lambda>exited_at. duration_since now exited_at \<le> max_age)"

definition with_pending_agent_resume_plan :: "agent_resume_plan \<Rightarrow> terminal \<Rightarrow> terminal" where
  "with_pending_agent_resume_plan p t = t\<lparr>t_pending_agent_resume_plan := Some p\<rparr>"

definition set_persisted_agent_session :: "persisted_agent_session \<Rightarrow> terminal \<Rightarrow> terminal" where
  "set_persisted_agent_session session t = t\<lparr>t_persisted_agent_session := Some session\<rparr>"

definition set_manual_label :: "string \<Rightarrow> terminal \<Rightarrow> terminal" where
  "set_manual_label label t = t\<lparr>t_manual_label := (if trim label \<noteq> [] then Some (trim label) else None)\<rparr>"

definition clear_manual_label :: "terminal \<Rightarrow> terminal" where
  "clear_manual_label t = t\<lparr>t_manual_label := None\<rparr>"

definition set_agent_name :: "string \<Rightarrow> terminal \<Rightarrow> terminal" where
  "set_agent_name name t = t\<lparr>t_agent_name := (if trim name \<noteq> [] then Some (trim name) else None)\<rparr>"

definition clear_agent_name :: "terminal \<Rightarrow> terminal" where
  "clear_agent_name t = t\<lparr>t_agent_name := None\<rparr>"

section \<open>Queries\<close>

definition hook_agent :: "hook_authority \<Rightarrow> agent option" where
  "hook_agent authority = parse_agent_label (ha_agent_label authority)"

definition hook_authority_not_newer_than :: "terminal \<Rightarrow> instant \<Rightarrow> bool" where
  "hook_authority_not_newer_than t observed_at =
     is_none_or (t_hook_authority t) (\<lambda>authority. ha_reported_at authority \<le> observed_at)"

definition fallback_not_older_than_hook :: "terminal \<Rightarrow> bool" where
  "fallback_not_older_than_hook t =
     is_none_or (t_hook_authority t) (\<lambda>authority.
       is_some_and (t_fallback_observed_at t) (\<lambda>observed_at. ha_reported_at authority \<le> observed_at))"

definition hook_authority_conflicts_with_detected_agent :: "terminal \<Rightarrow> agent option \<Rightarrow> bool" where
  "hook_authority_conflicts_with_detected_agent t detected_agent =
     (case detected_agent of
        None \<Rightarrow> False
      | Some detected \<Rightarrow>
          is_some_and (t_hook_authority t) (\<lambda>authority.
            is_some_and (hook_agent authority) (\<lambda>hook_agent. hook_agent \<noteq> detected)))"

definition live_full_lifecycle_hook_authority :: "terminal \<Rightarrow> bool" where
  "live_full_lifecycle_hook_authority t =
     is_some_and (t_hook_authority t) (\<lambda>authority.
       full_lifecycle_hook_authority (ha_source authority) (ha_agent_label authority))"

definition should_ignore_detected_state_under_full_lifecycle_hook :: "terminal \<Rightarrow> agent option \<Rightarrow> bool \<Rightarrow> bool" where
  "should_ignore_detected_state_under_full_lifecycle_hook t detected_agent process_exited =
     (live_full_lifecycle_hook_authority t \<and> \<not> process_exited
      \<and> \<not> hook_authority_conflicts_with_detected_agent t detected_agent)"

definition persisted_agent_session_matches :: "terminal \<Rightarrow> string \<Rightarrow> string \<Rightarrow> bool" where
  "persisted_agent_session_matches t source agent =
     is_some_and (t_persisted_agent_session t) (\<lambda>session. ps_source session = source \<and> ps_agent session = agent)"

definition visible_blocker_overrides_hook :: "terminal \<Rightarrow> bool" where
  "visible_blocker_overrides_hook t =
     (if live_full_lifecycle_hook_authority t then False
      else t_fallback_visible_blocker t \<and> fallback_not_older_than_hook t
        \<and> is_some_and (t_hook_authority t) (\<lambda>authority.
            ha_state authority \<noteq> Blocked \<and> hook_agent authority = t_detected_agent t))"

definition is_agent_terminal :: "terminal \<Rightarrow> bool" where
  "is_agent_terminal t =
     (t_agent_name t \<noteq> None \<or> effective_agent_label t \<noteq> None \<or> t_launch_argv t \<noteq> None)"

definition border_label :: "terminal \<Rightarrow> bool \<Rightarrow> instant \<Rightarrow> string option" where
  "border_label t show_agent_labels now =
     or_else (pr_title (effective_presentation t (t_state t) now))
       (or_else (t_manual_label t)
         (if show_agent_labels
          then or_else (pr_display_agent (effective_presentation t (t_state t) now)) (effective_agent_label t)
          else None))"

section \<open>Recomputing the effective state\<close>

definition hide_expiry :: "terminal \<Rightarrow> agent_metadata \<Rightarrow> agent_metadata" where
  "hide_expiry t md =
     (if md_expiry_event_pending md \<and> \<not> agent_metadata_is_visible_ignoring_ttl t md
      then md\<lparr>md_expiry_event_pending := False\<rparr> else md)"

definition clear_expiry_pending_for_hidden_metadata :: "terminal \<Rightarrow> terminal" where
  "clear_expiry_pending_for_hidden_metadata t =
     t\<lparr>t_agent_metadata := map (\<lambda>(source, md). (source, hide_expiry t md)) (t_agent_metadata t)\<rparr>"

text \<open>What every operation notes of the state before it changes anything.\<close>

record before =
  bf_agent_label :: "string option"
  bf_known_agent :: "agent option"
  bf_state :: agent_state
  bf_presentation :: presentation

definition observe_before :: "terminal \<Rightarrow> instant \<Rightarrow> before" where
  "observe_before t now =
     \<lparr>bf_agent_label = effective_agent_label t, bf_known_agent = effective_known_agent t,
      bf_state = t_state t, bf_presentation = effective_presentation t (t_state t) now\<rparr>"

definition derived_state :: "terminal \<Rightarrow> agent_state" where
  "derived_state t =
     (if visible_blocker_overrides_hook t then Blocked
      else unwrap_or (map_option ha_state (t_hook_authority t)) (t_fallback_state t))"

definition recompute_effective_state ::
  "before \<Rightarrow> instant \<Rightarrow> terminal \<Rightarrow> terminal \<times> effective_state_change option" where
  "recompute_effective_state previous now t =
     (let state = derived_state t;
          label = effective_agent_label t;
          known_agent = effective_known_agent t;
          presentation = effective_presentation t state now;
          t' = clear_expiry_pending_for_hidden_metadata t
      in if bf_agent_label previous = label \<and> bf_state previous = state
            \<and> presentation_eq (bf_presentation previous) presentation
         then (t', None)
         else (t'\<lparr>t_state := state\<rparr>,
               Some \<lparr>ch_previous_agent_label = bf_agent_label previous,
                     ch_previous_known_agent = bf_known_agent previous,
                     ch_previous_state = bf_state previous,
                     ch_previous_presentation = bf_presentation previous,
                     ch_agent_label = label, ch_known_agent = known_agent,
                     ch_state = state, ch_presentation = presentation\<rparr>))"

section \<open>The session the terminal remembers\<close>

definition current_session_identity_for_persistence ::
  "terminal \<Rightarrow> (string \<times> string \<times> session_ref_kind \<times> string) option" where
  "current_session_identity_for_persistence t =
     (let persisted = map_option (\<lambda>session. (ps_source session, ps_agent session,
            sref_kind (ps_session_ref session), sref_value (ps_session_ref session))) (t_persisted_agent_session t)
      in case t_hook_authority t of
           None \<Rightarrow> persisted
         | Some authority \<Rightarrow>
             (case ha_session_ref authority of
                None \<Rightarrow> persisted
              | Some session_ref \<Rightarrow>
                  Some (ha_source authority, ha_agent_label authority, sref_kind session_ref, sref_value session_ref)))"

definition finish ::
  "before \<Rightarrow> (string \<times> string \<times> session_ref_kind \<times> string) option \<Rightarrow> instant \<Rightarrow> terminal \<Rightarrow> terminal \<times> mutation" where
  "finish previous previous_session now t =
     (let (t', change) = recompute_effective_state previous now t
      in (t', \<lparr>mu_change = change,
               mu_session_ref_changed = (previous_session \<noteq> current_session_identity_for_persistence t)\<rparr>))"

definition current_session_owner_conflicts :: "terminal \<Rightarrow> string \<Rightarrow> string \<Rightarrow> bool" where
  "current_session_owner_conflicts t source label =
     is_some_and (current_session_identity_for_persistence t)
       (\<lambda>(current_source, current_agent, _, _). current_source \<noteq> source \<or> current_agent \<noteq> label)"

definition session_replacement_starts :: "(string \<times> string \<times> string) list" where
  "session_replacement_starts =
    [(''herdr:claude'', ''claude'', ''clear''), (''herdr:claude'', ''claude'', ''resume''),
     (''herdr:claude'', ''claude'', ''compact''),
     (''herdr:codex'', ''codex'', ''startup''), (''herdr:codex'', ''codex'', ''clear''),
     (''herdr:codex'', ''codex'', ''resume''), (''herdr:codex'', ''codex'', ''compact''),
     (''herdr:opencode'', ''opencode'', ''new''),
     (''herdr:pi'', ''pi'', ''new''), (''herdr:pi'', ''pi'', ''resume''), (''herdr:pi'', ''pi'', ''fork''),
     (''herdr:omp'', ''omp'', ''startup''), (''herdr:omp'', ''omp'', ''new''),
     (''herdr:omp'', ''omp'', ''resume''), (''herdr:omp'', ''omp'', ''fork'')]"

definition session_start_source_allows_session_replacement :: "string \<Rightarrow> string \<Rightarrow> string option \<Rightarrow> bool" where
  "session_start_source_allows_session_replacement source label session_start_source =
     is_some_and session_start_source (\<lambda>start. (source, label, start) \<in> set session_replacement_starts)"

definition session_start_source_is_recognized :: "string option \<Rightarrow> bool" where
  "session_start_source_is_recognized session_start_source =
     is_some_and session_start_source (\<lambda>start.
       start \<in> set [''startup'', ''clear'', ''resume'', ''compact'', ''new'', ''fork''])"

definition conflicting_same_owner_session_ref ::
  "terminal \<Rightarrow> string \<Rightarrow> string \<Rightarrow> agent_session_ref \<Rightarrow> string option \<Rightarrow> agent_session_ref option" where
  "conflicting_same_owner_session_ref t source label session_ref session_start_source =
     (case current_session_identity_for_persistence t of
        None \<Rightarrow> None
      | Some (current_source, current_agent, current_kind, current_value) \<Rightarrow>
          if current_source = source \<and> current_agent = label \<and> current_kind = Id
             \<and> sref_kind session_ref = Id \<and> current_value \<noteq> sref_value session_ref
             \<and> \<not> session_start_source_allows_session_replacement source label session_start_source
          then Some \<lparr>sref_kind = current_kind, sref_value = current_value\<rparr> else None)"

definition lifecycle_hook_report_replaces_persisted_session ::
  "terminal \<Rightarrow> string \<Rightarrow> string \<Rightarrow> agent_session_ref \<Rightarrow> bool" where
  "lifecycle_hook_report_replaces_persisted_session t source label session_ref =
     (t_hook_authority t = None \<and> (source, label) = (''herdr:mastracode'', ''mastracode'')
      \<and> is_some_and (t_persisted_agent_session t) (\<lambda>session.
          ps_source session = source \<and> ps_agent session = label
          \<and> sref_kind (ps_session_ref session) = Id \<and> sref_kind session_ref = Id
          \<and> sref_value (ps_session_ref session) \<noteq> sref_value session_ref))"

definition foreground_agent_confirms_session_owner ::
  "terminal \<Rightarrow> string \<Rightarrow> string \<Rightarrow> agent_session_ref \<Rightarrow> bool" where
  "foreground_agent_confirms_session_owner t source label session_ref =
     (case t_detected_agent t of
        None \<Rightarrow> False
      | Some detected \<Rightarrow> parse_agent_label label = Some detected \<and> plan source label session_ref \<noteq> None)"

definition foreground_agent_confirms_different_owner_takeover ::
  "terminal \<Rightarrow> string \<Rightarrow> string \<Rightarrow> agent_session_ref \<Rightarrow> string option \<Rightarrow> bool" where
  "foreground_agent_confirms_different_owner_takeover t source label session_ref session_start_source =
     (session_start_source_is_recognized session_start_source
      \<and> foreground_agent_confirms_session_owner t source label session_ref)"

definition foreground_agent_confirms_hook_authority_takeover ::
  "terminal \<Rightarrow> string \<Rightarrow> string \<Rightarrow> agent_session_ref option \<Rightarrow> bool" where
  "foreground_agent_confirms_hook_authority_takeover t source label session_ref =
     is_some_and session_ref (foreground_agent_confirms_session_owner t source label)"

definition known_agent_label_conflicts_with_detected_agent :: "terminal \<Rightarrow> string \<Rightarrow> bool" where
  "known_agent_label_conflicts_with_detected_agent t label =
     (case t_detected_agent t of
        None \<Rightarrow> False
      | Some detected \<Rightarrow> is_some_and (parse_agent_label label) (\<lambda>hook_agent. hook_agent \<noteq> detected))"

end
