(* ===== verification/Terminal_Reports.thy ===== *)
theory Terminal_Reports
  imports Terminal_State
begin

text \<open>
  The operations of \<open>src/src/terminal/state.rs\<close> that change the detected agent, the hook
  authority or the remembered session, with the tables of suppressed reports and stale
  sessions they consult. \<open>clock\<close> is the clock reading stored in a suppression entry.
\<close>

section \<open>Suppressed reports\<close>

definition suppress_with_session_ref ::
  "instant \<Rightarrow> string \<Rightarrow> string \<Rightarrow> agent_session_ref option \<Rightarrow> suppression_reason \<Rightarrow> terminal \<Rightarrow> terminal" where
  "suppress_with_session_ref clock source label session_ref reason t =
     t\<lparr>t_suppressed := hm_insert source
        \<lparr>sup_agent_label = label, sup_session_ref = session_ref, sup_observed_at = clock, sup_reason = reason\<rparr>
        (t_suppressed t)\<rparr>"

definition suppress_current_full_lifecycle_hook_authority ::
  "instant \<Rightarrow> suppression_reason \<Rightarrow> terminal \<Rightarrow> terminal" where
  "suppress_current_full_lifecycle_hook_authority clock reason t =
     (case t_hook_authority t of
        None \<Rightarrow> t
      | Some authority \<Rightarrow>
          if full_lifecycle_hook_authority (ha_source authority) (ha_agent_label authority)
          then suppress_with_session_ref clock (ha_source authority) (ha_agent_label authority)
                 (ha_session_ref authority) reason t
          else t)"

definition suppress_full_lifecycle_hook_report ::
  "instant \<Rightarrow> string \<Rightarrow> string \<Rightarrow> suppression_reason \<Rightarrow> terminal \<Rightarrow> terminal" where
  "suppress_full_lifecycle_hook_report clock source label reason t =
     (if full_lifecycle_hook_authority source label
      then suppress_with_session_ref clock source label
             (Option.bind (t_hook_authority t) ha_session_ref) reason t
      else t)"

definition report_is_suppressed :: "terminal \<Rightarrow> string \<Rightarrow> string \<Rightarrow> agent_session_ref option \<Rightarrow> bool" where
  "report_is_suppressed t source label session_ref =
     (if \<not> full_lifecycle_hook_authority source label then False
      else is_some_and (hm_get (t_suppressed t) source) (\<lambda>suppressed.
        if sup_agent_label suppressed \<noteq> label then False
        else if sup_reason suppressed = ProcessExit then True
        else (case (sup_session_ref suppressed, session_ref) of
                (Some suppressed_ref, Some incoming_ref) \<Rightarrow> incoming_ref = suppressed_ref
              | (Some _, None) \<Rightarrow> True
              | (None, Some _) \<Rightarrow> False
              | (None, None) \<Rightarrow> True)))"

definition report_has_fresh_session_after_suppression ::
  "terminal \<Rightarrow> string \<Rightarrow> string \<Rightarrow> agent_session_ref option \<Rightarrow> bool" where
  "report_has_fresh_session_after_suppression t source label session_ref =
     (if \<not> full_lifecycle_hook_authority source label then False
      else is_some_and (hm_get (t_suppressed t) source) (\<lambda>suppressed.
        sup_agent_label suppressed = label \<and> sup_reason suppressed \<noteq> ProcessExit
        \<and> (case (sup_session_ref suppressed, session_ref) of
             (Some suppressed_ref, Some incoming_ref) \<Rightarrow> incoming_ref \<noteq> suppressed_ref
           | _ \<Rightarrow> False)))"

section \<open>Stale sessions\<close>

definition report_matches_stale_session ::
  "terminal \<Rightarrow> string \<Rightarrow> string \<Rightarrow> agent_session_ref option \<Rightarrow> bool" where
  "report_matches_stale_session t source label session_ref =
     (if \<not> full_lifecycle_hook_authority source label then False
      else is_some_and (hm_get (t_stale_sessions t) source) (\<lambda>stale_sessions.
        is_some_and session_ref (\<lambda>incoming_ref.
          list_ex (\<lambda>stale. stale_agent_label stale = label \<and> incoming_ref = stale_session_ref stale)
            stale_sessions)))"

definition report_has_fresh_session_after_stale_session ::
  "terminal \<Rightarrow> string \<Rightarrow> string \<Rightarrow> agent_session_ref option \<Rightarrow> bool" where
  "report_has_fresh_session_after_stale_session t source label session_ref =
     (if \<not> full_lifecycle_hook_authority source label then False
      else is_some_and (hm_get (t_stale_sessions t) source) (\<lambda>stale_sessions.
        list_ex (\<lambda>stale. stale_agent_label stale = label) stale_sessions
        \<and> is_some_and session_ref (\<lambda>incoming_ref.
            list_all (\<lambda>stale. stale_agent_label stale \<noteq> label \<or> incoming_ref \<noteq> stale_session_ref stale)
              stale_sessions)))"

definition remember_stale_session :: "string \<Rightarrow> string \<Rightarrow> agent_session_ref \<Rightarrow> terminal \<Rightarrow> terminal" where
  "remember_stale_session source label session_ref t =
     (let stale = \<lparr>stale_agent_label = label, stale_session_ref = session_ref\<rparr>;
          sessions = unwrap_or (hm_get (t_stale_sessions t) source) [];
          sessions' = (if list_ex (\<lambda>existing. existing = stale) sessions then sessions else sessions @ [stale])
      in t\<lparr>t_stale_sessions := hm_insert source sessions' (t_stale_sessions t)\<rparr>)"

definition forget_stale_session :: "string \<Rightarrow> string \<Rightarrow> agent_session_ref \<Rightarrow> terminal \<Rightarrow> terminal" where
  "forget_stale_session source label session_ref t =
     (case hm_get (t_stale_sessions t) source of
        None \<Rightarrow> t
      | Some sessions \<Rightarrow>
          let kept = filter (\<lambda>stale. stale_agent_label stale \<noteq> label \<or> stale_session_ref stale \<noteq> session_ref)
                sessions
          in t\<lparr>t_stale_sessions :=
                (if kept = [] then hm_remove source (hm_insert source kept (t_stale_sessions t))
                 else hm_insert source kept (t_stale_sessions t))\<rparr>)"

definition live_authority_conflicts_with_session ::
  "terminal \<Rightarrow> string \<Rightarrow> string \<Rightarrow> agent_session_ref option \<Rightarrow> bool" where
  "live_authority_conflicts_with_session t source label session_ref =
     (case t_hook_authority t of
        None \<Rightarrow> False
      | Some authority \<Rightarrow>
          if \<not> full_lifecycle_hook_authority (ha_source authority) (ha_agent_label authority) then False
          else if ha_source authority \<noteq> source \<or> ha_agent_label authority \<noteq> label then False
          else (case (ha_session_ref authority, session_ref) of
                  (Some current, Some incoming) \<Rightarrow> current \<noteq> incoming
                | _ \<Rightarrow> False))"

definition same_owner_authority_session_ref ::
  "terminal \<Rightarrow> string \<Rightarrow> string \<Rightarrow> agent_session_ref \<Rightarrow> agent_session_ref option" where
  "same_owner_authority_session_ref t source label session_ref =
     (case t_hook_authority t of
        None \<Rightarrow> None
      | Some authority \<Rightarrow>
          if \<not> full_lifecycle_hook_authority (ha_source authority) (ha_agent_label authority)
             \<or> ha_source authority \<noteq> source \<or> ha_agent_label authority \<noteq> label then None
          else (case ha_session_ref authority of
                  Some current \<Rightarrow> if current \<noteq> session_ref then Some current else None
                | None \<Rightarrow> None))"

definition stale_of_suppressed :: "agent \<Rightarrow> string \<times> suppressed_report \<Rightarrow> (string \<times> string \<times> agent_session_ref) option" where
  "stale_of_suppressed detected entry =
     (let (source, suppressed) = entry in
      if parse_agent_label (sup_agent_label suppressed) = Some detected
      then map_option (\<lambda>session_ref. (source, sup_agent_label suppressed, session_ref)) (sup_session_ref suppressed)
      else None)"

definition clear_suppression_for_detected_agent :: "agent option \<Rightarrow> agent option \<Rightarrow> terminal \<Rightarrow> terminal" where
  "clear_suppression_for_detected_agent previous_detected_agent detected_agent t =
     (case detected_agent of
        None \<Rightarrow> t
      | Some detected \<Rightarrow>
          if previous_detected_agent = Some detected then t
          else
            (let stale = List.map_filter (stale_of_suppressed detected) (t_suppressed t);
                 t1 = t\<lparr>t_suppressed := hm_retain (\<lambda>_ suppressed.
                     parse_agent_label (sup_agent_label suppressed) \<noteq> Some detected) (t_suppressed t)\<rparr>;
                 t2 = fold (\<lambda>(source, label, session_ref). remember_stale_session source label session_ref) stale t1
             in t2\<lparr>t_hook_report_sequences := hm_retain (\<lambda>source _.
                   \<not> full_lifecycle_hook_authority source (agent_label detected)) (t_hook_report_sequences t2)\<rparr>))"

definition detected_state_observed_before_release_suppression :: "terminal \<Rightarrow> agent option \<Rightarrow> instant \<Rightarrow> bool" where
  "detected_state_observed_before_release_suppression t detected_agent observed_at =
     (case detected_agent of
        None \<Rightarrow> False
      | Some detected \<Rightarrow>
          list_ex (\<lambda>suppressed. parse_agent_label (sup_agent_label suppressed) = Some detected
              \<and> observed_at \<le> sup_observed_at suppressed) (hm_values (t_suppressed t)))"

section \<open>Report sequences\<close>

definition accept_hook_report :: "terminal \<Rightarrow> string \<Rightarrow> u64 option \<Rightarrow> terminal \<times> bool" where
  "accept_hook_report t source seq =
     (case seq of
        None \<Rightarrow> (t, \<not> hm_contains_key (t_hook_report_sequences t) source)
      | Some n \<Rightarrow>
          if is_some_and (hm_get (t_hook_report_sequences t) source) (\<lambda>last_seq. n \<le> last_seq) then (t, False)
          else (t\<lparr>t_hook_report_sequences := hm_insert source n (t_hook_report_sequences t)\<rparr>, True))"

section \<open>What the screen shows\<close>

text \<open>The parts of \<open>set_detected_state_with_screen_signals_at\<close> after its two early returns,
  in their order.\<close>

definition note_fallback :: "agent option \<Rightarrow> agent_state \<Rightarrow> bool \<Rightarrow> bool \<Rightarrow> instant \<Rightarrow> terminal \<Rightarrow> terminal" where
  "note_fallback agent fallback_state visible_blocker process_exited now t =
     (let t1 = t\<lparr>t_detected_agent := agent\<rparr>;
          t2 = (if \<not> process_exited then clear_suppression_for_detected_agent (t_detected_agent t) agent t1 else t1);
          t3 = t2\<lparr>t_fallback_state := fallback_state,
                   t_fallback_visible_blocker := (visible_blocker \<and> fallback_state = Blocked),
                   t_fallback_observed_at := Some now\<rparr>
      in if process_exited \<and> agent \<noteq> None then t3\<lparr>t_recent_agent_process_exit_at := Some now\<rparr>
         else if agent \<noteq> None then t3\<lparr>t_recent_agent_process_exit_at := None\<rparr> else t3)"

definition drop_exited_authority :: "agent option \<Rightarrow> bool \<Rightarrow> instant \<Rightarrow> instant \<Rightarrow> terminal \<Rightarrow> terminal" where
  "drop_exited_authority agent process_exited now clock t =
     (if process_exited \<and> hook_authority_not_newer_than t now
         \<and> is_some_and (t_hook_authority t) (\<lambda>authority. hook_agent authority = agent) then
        (let cleared_source = map_option ha_source (t_hook_authority t);
             t1 = suppress_current_full_lifecycle_hook_authority clock ProcessExit t;
             t2 = (case cleared_source of
                     None \<Rightarrow> t1
                   | Some source \<Rightarrow>
                       t1\<lparr>t_hook_report_sequences := hm_remove source (t_hook_report_sequences t1)\<rparr>)
         in t2\<lparr>t_hook_authority := None\<rparr>)
      else t)"

definition drop_exited_session :: "agent option \<Rightarrow> bool \<Rightarrow> terminal \<Rightarrow> terminal" where
  "drop_exited_session agent process_exited t =
     (if process_exited \<and> is_some_and (t_persisted_agent_session t)
           (\<lambda>session. parse_agent_label (ps_agent session) = agent)
      then t\<lparr>t_persisted_agent_session := None\<rparr> else t)"

definition durable_session :: "hook_authority \<Rightarrow> persisted_agent_session option" where
  "durable_session authority =
     map_option (\<lambda>session_ref. \<lparr>ps_source = ha_source authority, ps_agent = ha_agent_label authority,
         ps_session_ref = session_ref\<rparr>) (ha_session_ref authority)"

definition drop_displaced_authority :: "agent option \<Rightarrow> agent option \<Rightarrow> instant \<Rightarrow> instant \<Rightarrow> terminal \<Rightarrow> terminal" where
  "drop_displaced_authority previous_detected_agent agent now clock t =
     (if hook_authority_not_newer_than t now
         \<and> (hook_authority_conflicts_with_detected_agent t agent
            \<or> (previous_detected_agent \<noteq> None \<and> agent \<noteq> previous_detected_agent
               \<and> is_some_and (t_hook_authority t) (\<lambda>authority. hook_agent authority = previous_detected_agent))) then
        (suppress_current_full_lifecycle_hook_authority clock HookClear t)
          \<lparr>t_hook_authority := None,
           t_persisted_agent_session := Option.bind (t_hook_authority t) durable_session\<rparr>
      else t)"

definition set_detected_state_with_screen_signals_at ::
  "agent option \<Rightarrow> agent_state \<Rightarrow> bool \<Rightarrow> bool \<Rightarrow> instant \<Rightarrow> instant \<Rightarrow> terminal \<Rightarrow> terminal \<times> mutation" where
  "set_detected_state_with_screen_signals_at agent fallback_state visible_blocker process_exited now clock t =
     (let previous = observe_before t now;
          previous_detected_agent = t_detected_agent t;
          previous_session = current_session_identity_for_persistence t
      in if should_ignore_detected_state_under_full_lifecycle_hook t agent process_exited then
           finish previous previous_session now
             (if Option.bind (t_hook_authority t) hook_agent = agent then t\<lparr>t_detected_agent := agent\<rparr> else t)
         else if \<not> process_exited \<and> detected_state_observed_before_release_suppression t agent now then
           finish previous previous_session now t
         else
           finish previous previous_session now
             (drop_displaced_authority previous_detected_agent agent now clock
               (drop_exited_session agent process_exited
                 (drop_exited_authority agent process_exited now clock
                   (note_fallback agent fallback_state visible_blocker process_exited now t)))))"

section \<open>What the hooks report\<close>

definition effective_report_session_ref ::
  "terminal \<Rightarrow> string \<Rightarrow> string \<Rightarrow> agent_session_ref option \<Rightarrow> agent_session_ref option" where
  "effective_report_session_ref t source label session_ref =
     map_option (\<lambda>session_ref.
       if lifecycle_hook_report_replaces_persisted_session t source label session_ref then session_ref
       else unwrap_or (conflicting_same_owner_session_ref t source label session_ref None) session_ref) session_ref"

definition forget_suppressed_session :: "string \<Rightarrow> terminal \<Rightarrow> terminal" where
  "forget_suppressed_session source t =
     (case hm_get (t_suppressed t) source of
        None \<Rightarrow> t
      | Some suppressed \<Rightarrow>
          let t1 = t\<lparr>t_suppressed := hm_remove source (t_suppressed t)\<rparr> in
          (case sup_session_ref suppressed of
             None \<Rightarrow> t1
           | Some suppressed_ref \<Rightarrow> remember_stale_session source (sup_agent_label suppressed) suppressed_ref t1))"

definition install_hook_authority ::
  "hook_authority \<Rightarrow> bool \<Rightarrow> instant \<Rightarrow> instant \<Rightarrow> terminal \<Rightarrow> terminal \<times> mutation" where
  "install_hook_authority authority foreground_takeover_allowed now clock t =
     (let previous = observe_before t now;
          previous_session = current_session_identity_for_persistence t;
          t1 = (if foreground_takeover_allowed
                then suppress_current_full_lifecycle_hook_authority clock HookClear t else t);
          t2 = (if ha_session_ref authority \<noteq> None then forget_suppressed_session (ha_source authority) t1 else t1)
      in finish previous previous_session now
           (t2\<lparr>t_persisted_agent_session := None, t_hook_authority := Some authority\<rparr>))"

definition set_hook_authority_at ::
  "string \<Rightarrow> string \<Rightarrow> agent_state \<Rightarrow> string option \<Rightarrow> agent_session_ref option \<Rightarrow> u64 option \<Rightarrow>
   instant \<Rightarrow> instant \<Rightarrow> terminal \<Rightarrow> terminal \<times> mutation option" where
  "set_hook_authority_at source label state message session_ref seq now clock t =
     (if report_is_suppressed t source label session_ref then (t, None)
      else if report_matches_stale_session t source label session_ref then (t, None)
      else
        (let reanchor_sequence = (report_has_fresh_session_after_suppression t source label session_ref
               \<or> report_has_fresh_session_after_stale_session t source label session_ref)
         in if known_agent_label_conflicts_with_detected_agent t label then (t, None)
         else
           (let owner_conflicts = current_session_owner_conflicts t source label;
                foreground_takeover_allowed = (owner_conflicts
                  \<and> foreground_agent_confirms_hook_authority_takeover t source label session_ref)
            in if owner_conflicts \<and> \<not> foreground_takeover_allowed then (t, None)
            else
              (let session_ref' = effective_report_session_ref t source label session_ref
               in if live_authority_conflicts_with_session t source label session_ref' then (t, None)
               else
                 (let t1 = (if reanchor_sequence
                            then t\<lparr>t_hook_report_sequences := hm_remove source (t_hook_report_sequences t)\<rparr> else t);
                      (t2, accepted) = accept_hook_report t1 source seq
                  in if \<not> accepted then (t2, None)
                  else map_prod id Some
                    (install_hook_authority
                      \<lparr>ha_source = source, ha_agent_label = label, ha_state = state, ha_message = message,
                       ha_reported_at = now, ha_session_ref = session_ref'\<rparr>
                      foreground_takeover_allowed now clock t2))))))"

definition set_hook_authority_with_session_ref ::
  "string \<Rightarrow> string \<Rightarrow> agent_state \<Rightarrow> string option \<Rightarrow> agent_session_ref option \<Rightarrow> u64 option \<Rightarrow>
   instant \<Rightarrow> instant \<Rightarrow> terminal \<Rightarrow> terminal \<times> mutation option" where
  "set_hook_authority_with_session_ref source label state message session_ref seq now clock t =
     set_hook_authority_at source label state message session_ref seq now clock t"

text \<open>Replacing the remembered session, after the guards of
  \<open>set_agent_session_ref_for_session_start\<close>.\<close>

definition replace_session ::
  "string \<Rightarrow> string \<Rightarrow> agent_session_ref \<Rightarrow> bool \<Rightarrow> bool \<Rightarrow> agent_session_ref option \<Rightarrow> instant \<Rightarrow> terminal \<Rightarrow> terminal" where
  "replace_session source label session_ref session_replacement_allowed foreground_takeover_allowed
     replaced_hook_session clock t =
     (let t1 = (if session_replacement_allowed \<or> foreground_takeover_allowed
                then forget_stale_session source label session_ref t else t);
          t2 = (case replaced_hook_session of
                  Some replaced \<Rightarrow> (remember_stale_session source label replaced t1)\<lparr>t_hook_authority := None\<rparr>
                | None \<Rightarrow>
                    if foreground_takeover_allowed
                    then (suppress_current_full_lifecycle_hook_authority clock HookClear t1)\<lparr>t_hook_authority := None\<rparr>
                    else t1)
      in t2\<lparr>t_persisted_agent_session :=
             Some \<lparr>ps_source = source, ps_agent = label, ps_session_ref = session_ref\<rparr>\<rparr>)"

definition set_agent_session_ref_for_session_start ::
  "string \<Rightarrow> string \<Rightarrow> agent_session_ref option \<Rightarrow> u64 option \<Rightarrow> string option \<Rightarrow> instant \<Rightarrow> instant \<Rightarrow>
   terminal \<Rightarrow> terminal \<times> mutation option" where
  "set_agent_session_ref_for_session_start source label session_ref seq session_start_source now clock t0 =
     (case session_ref of
        None \<Rightarrow> (t0, None)
      | Some session_ref \<Rightarrow>
          (let (t, accepted) = accept_hook_report t0 source seq
           in if \<not> accepted then (t, None)
           else if known_agent_label_conflicts_with_detected_agent t label then (t, None)
           else
             (let session_replacement_allowed =
                    session_start_source_allows_session_replacement source label session_start_source;
                  owner_conflicts = current_session_owner_conflicts t source label;
                  foreground_takeover_allowed = (owner_conflicts
                    \<and> foreground_agent_confirms_different_owner_takeover t source label session_ref session_start_source)
              in if owner_conflicts \<and> \<not> foreground_takeover_allowed then (t, None)
              else if conflicting_same_owner_session_ref t source label session_ref session_start_source \<noteq> None
              then (t, None)
              else
                (let replaced_hook_session = same_owner_authority_session_ref t source label session_ref
                 in if replaced_hook_session \<noteq> None \<and> \<not> session_replacement_allowed then (t, None)
                 else map_prod id Some
                   (finish (observe_before t now) (current_session_identity_for_persistence t) now
                     (replace_session source label session_ref session_replacement_allowed
                        foreground_takeover_allowed replaced_hook_session clock t))))))"

definition set_agent_session_ref ::
  "string \<Rightarrow> string \<Rightarrow> agent_session_ref option \<Rightarrow> u64 option \<Rightarrow> instant \<Rightarrow> instant \<Rightarrow>
   terminal \<Rightarrow> terminal \<times> mutation option" where
  "set_agent_session_ref source label session_ref seq now clock t =
     set_agent_session_ref_for_session_start source label session_ref seq None now clock t"

definition clear_hook_authority_with_mutation ::
  "string option \<Rightarrow> u64 option \<Rightarrow> instant \<Rightarrow> instant \<Rightarrow> terminal \<Rightarrow> terminal \<times> mutation option" where
  "clear_hook_authority_with_mutation source seq now clock t0 =
     (let sequence_source = or_else source (map_option ha_source (t_hook_authority t0));
          (t, accepted) = (case sequence_source of
              None \<Rightarrow> (t0, True)
            | Some source \<Rightarrow> accept_hook_report t0 source seq)
      in if \<not> accepted then (t, None)
      else
        (let previous = observe_before t now;
             previous_session = current_session_identity_for_persistence t;
             should_clear = is_some_and (t_hook_authority t) (\<lambda>authority.
               is_none_or source (\<lambda>source. ha_source authority = source))
         in if \<not> should_clear then (t, None)
         else
           (let t' = (suppress_current_full_lifecycle_hook_authority clock HookClear t)
                   \<lparr>t_hook_authority := None, t_persisted_agent_session := None\<rparr>;
                (t'', change) = recompute_effective_state previous now t'
            in (t'', Some \<lparr>mu_change = change, mu_session_ref_changed = (previous_session \<noteq> None)\<rparr>))))"

definition release_agent_with_mutation ::
  "string \<Rightarrow> string \<Rightarrow> u64 option \<Rightarrow> instant \<Rightarrow> instant \<Rightarrow> terminal \<Rightarrow> terminal \<times> mutation option" where
  "release_agent_with_mutation source label seq now clock t0 =
     (let (t, accepted) = accept_hook_report t0 source seq
      in if \<not> accepted then (t, None)
      else if is_some_and (t_hook_authority t) (\<lambda>authority.
          ha_agent_label authority \<noteq> label \<or> ha_source authority \<noteq> source) then (t, None)
      else
        (let matches_current_agent = (effective_agent_label t = Some label);
             matches_persisted_session = persisted_agent_session_matches t source label
         in if \<not> matches_current_agent \<and> \<not> matches_persisted_session then (t, None)
         else
           (let preserve_foreign_persisted_session = is_some_and (t_persisted_agent_session t)
                  (\<lambda>session. ps_source session \<noteq> source \<or> ps_agent session \<noteq> label);
                t1 = (suppress_full_lifecycle_hook_report clock source label HookClear t)
                  \<lparr>t_detected_agent := None, t_fallback_state := Unknown, t_fallback_visible_blocker := False,
                   t_fallback_observed_at := None, t_hook_authority := None\<rparr>;
                t2 = (if \<not> preserve_foreign_persisted_session then t1\<lparr>t_persisted_agent_session := None\<rparr> else t1)
            in map_prod id Some
                 (finish (observe_before t now) (current_session_identity_for_persistence t) now t2))))"

definition clear_agent_runtime_identity_after_respawn :: "terminal \<Rightarrow> terminal" where
  "clear_agent_runtime_identity_after_respawn t =
     (let t1 = t\<lparr>t_detected_agent := None, t_fallback_state := Unknown, t_fallback_visible_blocker := False,
            t_fallback_observed_at := None, t_hook_authority := None, t_persisted_agent_session := None,
            t_agent_metadata := [], t_suppressed := [], t_stale_sessions := [], t_state := Unknown\<rparr>;
          t2 = fst (set_agent_inactive False t1)
      in clear_agent_name (t2\<lparr>t_last_agent_state_change_seq := None, t_launch_argv := None,
            t_respawn_shell_on_exit := False, t_recent_agent_process_exit_at := None,
            t_pending_agent_resume_plan := None\<rparr>))"

end
