(* ===== verification/Terminal_Metadata.thy ===== *)
theory Terminal_Metadata
  imports Terminal_Reports
begin

text \<open>
  The operations of \<open>src/src/terminal/metadata.rs\<close>: what an agent's integrations report for
  display, kept per source, guarded by the effective agent, and dropped at a deadline.
\<close>

definition metadata_report_sequence_is_fresh :: "terminal \<Rightarrow> string \<Rightarrow> u64 option \<Rightarrow> bool" where
  "metadata_report_sequence_is_fresh t source seq = sequence_is_fresh (t_metadata_report_sequences t) source seq"

definition accept_metadata_report ::
  "terminal \<Rightarrow> string \<Rightarrow> u64 option \<Rightarrow> bool \<Rightarrow> terminal \<times> (unit + bool)" where
  "accept_metadata_report t source seq includes_tokens =
     (case seq of
        None \<Rightarrow> (t, Inr True)
      | Some n \<Rightarrow>
          if \<not> metadata_report_sequence_is_fresh t source (Some n) then (t, Inr False)
          else if includes_tokens \<and> source \<notin> set (t_metadata_token_sequence_sources t)
               \<and> MAX_SEQUENCE_SOURCES \<le> length (t_metadata_token_sequence_sources t)
          then (t, Inl ())
          else
            (let t' = t\<lparr>t_metadata_report_sequences := hm_insert source n (t_metadata_report_sequences t)\<rparr>
             in (if includes_tokens
                 then t'\<lparr>t_metadata_token_sequence_sources :=
                        List.insert source (t_metadata_token_sequence_sources t')\<rparr>
                 else t', Inr True)))"

section \<open>Reports\<close>

definition report_has_set_fields :: "agent_metadata_report \<Rightarrow> bool" where
  "report_has_set_fields report =
     (rep_title report \<noteq> None \<or> rep_display_agent report \<noteq> None \<or> rep_state_labels report \<noteq> [])"

definition fresh_metadata :: "agent_metadata_report \<Rightarrow> instant \<Rightarrow> agent_metadata" where
  "fresh_metadata report now =
     \<lparr>md_source = rep_source report, md_agent_label = rep_agent_label report,
      md_applies_to_source = rep_applies_to_source report, md_title = None, md_display_agent = None,
      md_state_labels = [], md_reported_at = now, md_title_reported_at = None,
      md_display_agent_reported_at = None, md_state_label_reported_at = [], md_ttl = rep_ttl report,
      md_expiry_event_pending = False\<rparr>"

definition clear_fields :: "agent_metadata_report \<Rightarrow> agent_metadata \<Rightarrow> agent_metadata" where
  "clear_fields report md =
     (let md1 = (if rep_clear_title report then md\<lparr>md_title := None, md_title_reported_at := None\<rparr> else md);
          md2 = (if rep_clear_display_agent report
                 then md1\<lparr>md_display_agent := None, md_display_agent_reported_at := None\<rparr> else md1)
      in if rep_clear_state_labels report
         then md2\<lparr>md_state_labels := [], md_state_label_reported_at := []\<rparr> else md2)"

definition set_label :: "instant \<Rightarrow> string \<times> string \<Rightarrow> agent_metadata \<Rightarrow> agent_metadata" where
  "set_label now entry md =
     md\<lparr>md_state_labels := hm_insert (fst entry) (snd entry) (md_state_labels md),
        md_state_label_reported_at := hm_insert (fst entry) now (md_state_label_reported_at md)\<rparr>"

definition set_fields :: "agent_metadata_report \<Rightarrow> instant \<Rightarrow> agent_metadata \<Rightarrow> agent_metadata" where
  "set_fields report now md =
     (let md1 = (case rep_agent_label report of Some l \<Rightarrow> md\<lparr>md_agent_label := Some l\<rparr> | None \<Rightarrow> md);
          md2 = (case rep_applies_to_source report of
                   Some s \<Rightarrow> md1\<lparr>md_applies_to_source := Some s\<rparr> | None \<Rightarrow> md1);
          md3 = (case rep_title report of
                   Some title \<Rightarrow> md2\<lparr>md_title := Some title, md_title_reported_at := Some now\<rparr> | None \<Rightarrow> md2);
          md4 = (case rep_display_agent report of
                   Some d \<Rightarrow> md3\<lparr>md_display_agent := Some d, md_display_agent_reported_at := Some now\<rparr>
                 | None \<Rightarrow> md3);
          md5 = fold (set_label now) (rep_state_labels report) md4
      in if report_has_set_fields report \<or> rep_ttl report \<noteq> None
         then md5\<lparr>md_reported_at := now, md_ttl := rep_ttl report, md_expiry_event_pending := False\<rparr>
         else md5)"

definition replacement_metadata :: "agent_metadata_report \<Rightarrow> instant \<Rightarrow> agent_metadata" where
  "replacement_metadata report now =
     \<lparr>md_source = rep_source report, md_agent_label = rep_agent_label report,
      md_applies_to_source = rep_applies_to_source report, md_title = rep_title report,
      md_display_agent = rep_display_agent report, md_state_labels = rep_state_labels report,
      md_reported_at = now, md_title_reported_at = map_option (\<lambda>_. now) (rep_title report),
      md_display_agent_reported_at = map_option (\<lambda>_. now) (rep_display_agent report),
      md_state_label_reported_at = map (\<lambda>(st, _). (st, now)) (rep_state_labels report),
      md_ttl = rep_ttl report, md_expiry_event_pending = False\<rparr>"

definition updated_metadata :: "agent_metadata_report \<Rightarrow> instant \<Rightarrow> agent_metadata option \<Rightarrow> agent_metadata" where
  "updated_metadata report now existing =
     (if rep_clear_title report \<or> rep_clear_display_agent report \<or> rep_clear_state_labels report
      then set_fields report now (clear_fields report (unwrap_or existing (fresh_metadata report now)))
      else replacement_metadata report now)"

definition put_metadata :: "string \<Rightarrow> agent_metadata \<Rightarrow> terminal \<Rightarrow> terminal" where
  "put_metadata source md t = t\<lparr>t_agent_metadata := hm_insert source md (t_agent_metadata t)\<rparr>"

definition remove_metadata :: "string \<Rightarrow> terminal \<Rightarrow> terminal" where
  "remove_metadata source t = t\<lparr>t_agent_metadata := hm_remove source (t_agent_metadata t)\<rparr>"

definition drop_expired_entry :: "string \<Rightarrow> instant \<Rightarrow> terminal \<Rightarrow> terminal" where
  "drop_expired_entry source now t =
     (if is_some_and (hm_get (t_agent_metadata t) source) (\<lambda>md. agent_metadata_is_expired md now)
      then remove_metadata source t else t)"

definition store_metadata :: "agent_metadata_report \<Rightarrow> agent_metadata \<Rightarrow> terminal \<Rightarrow> terminal" where
  "store_metadata report md t =
     (let t' = put_metadata (rep_source report) md t
      in if rep_ttl report \<noteq> None \<and> agent_metadata_is_visible_ignoring_ttl t' md
         then put_metadata (rep_source report) (md\<lparr>md_expiry_event_pending := True\<rparr>) t' else t')"

definition set_agent_metadata ::
  "agent_metadata_report \<Rightarrow> instant \<Rightarrow> terminal \<Rightarrow> terminal \<times> mutation option" where
  "set_agent_metadata report now t0 =
     (let (t, accepted) = accept_metadata_report t0 (rep_source report) (rep_seq report) False
      in if accepted \<noteq> Inr True then (t, None)
      else
        (let t1 = drop_expired_entry (rep_source report) now t;
             previous = observe_before t1 now;
             md = updated_metadata report now (hm_get (t_agent_metadata t1) (rep_source report));
             (t2, change) = recompute_effective_state previous now (store_metadata report md t1);
             t3 = (if change \<noteq> None then clear_expiry_pending_for_hidden_metadata t2 else t2)
         in (t3, Some \<lparr>mu_change = change, mu_session_ref_changed = False\<rparr>)))"

section \<open>Expiry\<close>

definition due_source :: "instant \<Rightarrow> string \<times> agent_metadata \<Rightarrow> (string \<times> instant) option" where
  "due_source now entry =
     Option.bind (agent_metadata_expiry (snd entry))
       (\<lambda>deadline. if deadline \<le> now then Some (fst entry, deadline) else None)"

definition expire_agent_metadata_at :: "instant \<Rightarrow> instant \<Rightarrow> terminal \<Rightarrow> terminal \<times> mutation option" where
  "expire_agent_metadata_at scheduled_deadline now t =
     (let due = List.map_filter (due_source now) (t_agent_metadata t);
          (expired, stale) = partition (\<lambda>(_, deadline). scheduled_deadline \<le> deadline) due;
          t1 = fold remove_metadata (map fst stale) t
      in if expired = [] then (t1, None)
      else
        (let previous = \<lparr>bf_agent_label = effective_agent_label t1, bf_known_agent = effective_known_agent t1,
                bf_state = t_state t1,
                bf_presentation = effective_presentation_ignoring_ttl t1 (t_state t1) now\<rparr>;
             t2 = fold remove_metadata (map fst expired) t1;
             (t3, change) = recompute_effective_state previous now t2
         in (t3, Some \<lparr>mu_change = change, mu_session_ref_changed = False\<rparr>)))"

end
