(* ===== verification/Terminal_Invariants.thy ===== *)
theory Terminal_Invariants
  imports Terminal_Metadata
begin

text \<open>
  The transitions of a terminal as a step relation over all its operations, and the
  invariant of every reachable terminal: the stored state is the one that the arbitration
  rules derive, the tables have every key once, and the reports of an agent that is the
  authority are not suppressed.
\<close>

section \<open>Steps\<close>

inductive terminal_step :: "terminal \<Rightarrow> terminal \<Rightarrow> bool" where
  inactive: "terminal_step t (fst (set_agent_inactive inactive t))"
| title: "terminal_step t (fst (set_terminal_title title t))"
| launch_argv: "terminal_step t (with_launch_argv argv t)"
| respawn_shell: "terminal_step t (with_respawn_shell_on_exit t)"
| resume_plan: "terminal_step t (with_pending_agent_resume_plan p t)"
| persisted_session: "terminal_step t (set_persisted_agent_session session t)"
| manual_label: "terminal_step t (set_manual_label label t)"
| no_manual_label: "terminal_step t (clear_manual_label t)"
| agent_name: "terminal_step t (set_agent_name name t)"
| no_agent_name: "terminal_step t (clear_agent_name t)"
| detected: "terminal_step t (fst (set_detected_state_with_screen_signals_at agent st blocker exited now clock t))"
| hook_report: "terminal_step t (fst (set_hook_authority_at source label st message session_ref seq now clock t))"
| session_start: "terminal_step t
    (fst (set_agent_session_ref_for_session_start source label session_ref seq start now clock t))"
| hook_clear: "terminal_step t (fst (clear_hook_authority_with_mutation source' seq now clock t))"
| release: "terminal_step t (fst (release_agent_with_mutation source label seq now clock t))"
| respawn: "terminal_step t (clear_agent_runtime_identity_after_respawn t)"
| metadata_sequence: "terminal_step t (fst (accept_metadata_report t source seq tokens))"
| metadata: "terminal_step t (fst (set_agent_metadata report now t))"
| metadata_expiry: "terminal_step t (fst (expire_agent_metadata_at deadline now t))"

inductive terminal_reachable :: "terminal \<Rightarrow> bool" where
  new: "terminal_reachable (terminal_new tid cwd)"
| step: "terminal_reachable t \<Longrightarrow> terminal_step t t' \<Longrightarrow> terminal_reachable t'"

section \<open>The invariant\<close>

definition maps_ok :: "terminal \<Rightarrow> bool" where
  "maps_ok t = (hm_ok (t_agent_metadata t) \<and> hm_ok (t_hook_report_sequences t) \<and> hm_ok (t_suppressed t)
     \<and> hm_ok (t_stale_sessions t) \<and> hm_ok (t_metadata_report_sequences t)
     \<and> distinct (t_metadata_token_sequence_sources t)
     \<and> length (t_metadata_token_sequence_sources t) \<le> MAX_SEQUENCE_SOURCES)"

definition suppressions_ok :: "terminal \<Rightarrow> bool" where
  "suppressions_ok t = (\<forall>source suppressed. hm_get (t_suppressed t) source = Some suppressed \<longrightarrow>
     full_lifecycle_hook_authority source (sup_agent_label suppressed))"

definition authority_ok :: "terminal \<Rightarrow> bool" where
  "authority_ok t = is_none_or (t_hook_authority t) (\<lambda>authority.
     full_lifecycle_hook_authority (ha_source authority) (ha_agent_label authority) \<longrightarrow>
     hm_get (t_suppressed t) (ha_source authority) = None)"

definition tables_ok :: "terminal \<Rightarrow> bool" where
  "tables_ok t = (maps_ok t \<and> suppressions_ok t \<and> authority_ok t)"

definition terminal_inv :: "terminal \<Rightarrow> bool" where
  "terminal_inv t = (tables_ok t \<and> t_state t = derived_state t)"

lemma full_lifecycle_label:
  "full_lifecycle_hook_authority source label \<Longrightarrow> full_lifecycle_hook_authority source label' \<Longrightarrow> label = label'"
  by (auto simp: full_lifecycle_hook_authority_def)

section \<open>What recomputing leaves\<close>

lemmas derived_state_defs = derived_state_def visible_blocker_overrides_hook_def
  live_full_lifecycle_hook_authority_def fallback_not_older_than_hook_def

definition settled :: "terminal \<Rightarrow> terminal" where
  "settled t = (clear_expiry_pending_for_hidden_metadata t)\<lparr>t_state := derived_state t\<rparr>"

lemma recompute_settled:
  assumes "bf_state previous = t_state t"
  shows "fst (recompute_effective_state previous now t) = settled t"
proof -
  have "(clear_expiry_pending_for_hidden_metadata t)\<lparr>t_state := t_state t\<rparr> =
      clear_expiry_pending_for_hidden_metadata t"
    by (simp add: clear_expiry_pending_for_hidden_metadata_def)
  then show ?thesis
    using assms by (auto simp: recompute_effective_state_def settled_def Let_def)
qed

lemma bf_state_observe [simp]: "bf_state (observe_before t now) = t_state t"
  by (simp add: observe_before_def)

lemma finish_settled:
  "bf_state previous = t_state t \<Longrightarrow> fst (finish previous session now t) = settled t"
  using recompute_settled [of previous t now] by (simp add: finish_def case_prod_beta)

lemma settled_fields [simp]:
  "t_hook_authority (settled t) = t_hook_authority t"
  "t_detected_agent (settled t) = t_detected_agent t"
  "t_fallback_state (settled t) = t_fallback_state t"
  "t_fallback_visible_blocker (settled t) = t_fallback_visible_blocker t"
  "t_fallback_observed_at (settled t) = t_fallback_observed_at t"
  "t_suppressed (settled t) = t_suppressed t"
  "t_stale_sessions (settled t) = t_stale_sessions t"
  "t_hook_report_sequences (settled t) = t_hook_report_sequences t"
  "t_persisted_agent_session (settled t) = t_persisted_agent_session t"
  "t_metadata_report_sequences (settled t) = t_metadata_report_sequences t"
  "t_metadata_token_sequence_sources (settled t) = t_metadata_token_sequence_sources t"
  "t_state (settled t) = derived_state t"
  "map fst (t_agent_metadata (settled t)) = map fst (t_agent_metadata t)"
  by (simp_all add: settled_def clear_expiry_pending_for_hidden_metadata_def case_prod_beta comp_def)

lemma derived_settled [simp]: "derived_state (settled t) = derived_state t"
  by (simp add: derived_state_defs)

lemma tables_settled [simp]: "tables_ok (settled t) = tables_ok t"
  by (simp add: tables_ok_def maps_ok_def suppressions_ok_def authority_ok_def hm_ok_def)

lemma settled_inv: "tables_ok t \<Longrightarrow> terminal_inv (settled t)"
  by (simp add: terminal_inv_def)

section \<open>Helpers keep the tables\<close>

text \<open>The state is written only by \<open>recompute_effective_state\<close>, \<open>new\<close> and the respawn.\<close>

lemma suppress_current_cases:
  obtains "suppress_current_full_lifecycle_hook_authority clock reason t = t"
    "\<not> live_full_lifecycle_hook_authority t"
  | authority where "t_hook_authority t = Some authority"
    "full_lifecycle_hook_authority (ha_source authority) (ha_agent_label authority)"
    "suppress_current_full_lifecycle_hook_authority clock reason t =
       suppress_with_session_ref clock (ha_source authority) (ha_agent_label authority) (ha_session_ref authority) reason t"
  by (cases "t_hook_authority t")
    (auto simp: suppress_current_full_lifecycle_hook_authority_def live_full_lifecycle_hook_authority_def)

lemma suppress_current_fields [simp]:
  "t_state (suppress_current_full_lifecycle_hook_authority clock reason t) = t_state t"
  "t_hook_authority (suppress_current_full_lifecycle_hook_authority clock reason t) = t_hook_authority t"
  "t_detected_agent (suppress_current_full_lifecycle_hook_authority clock reason t) = t_detected_agent t"
  "t_stale_sessions (suppress_current_full_lifecycle_hook_authority clock reason t) = t_stale_sessions t"
  "t_hook_report_sequences (suppress_current_full_lifecycle_hook_authority clock reason t) = t_hook_report_sequences t"
  by (simp_all add: suppress_current_full_lifecycle_hook_authority_def suppress_with_session_ref_def split: option.split)

lemma suppress_current_ok [simp]:
  assumes "maps_ok t" "suppressions_ok t"
  shows "maps_ok (suppress_current_full_lifecycle_hook_authority clock reason t)"
    "suppressions_ok (suppress_current_full_lifecycle_hook_authority clock reason t)"
  using assms
  by (auto simp: suppress_current_full_lifecycle_hook_authority_def suppress_with_session_ref_def
      maps_ok_def suppressions_ok_def split: option.split)

lemma suppress_report_ok:
  assumes "maps_ok t" "suppressions_ok t"
  shows "maps_ok (suppress_full_lifecycle_hook_report clock source label reason t)"
    "suppressions_ok (suppress_full_lifecycle_hook_report clock source label reason t)"
    "t_state (suppress_full_lifecycle_hook_report clock source label reason t) = t_state t"
  using assms
  by (auto simp: suppress_full_lifecycle_hook_report_def suppress_with_session_ref_def
      maps_ok_def suppressions_ok_def)

lemma remember_stale_fields [simp]:
  "t_state (remember_stale_session source label r t) = t_state t"
  "t_suppressed (remember_stale_session source label r t) = t_suppressed t"
  "t_hook_authority (remember_stale_session source label r t) = t_hook_authority t"
  "t_detected_agent (remember_stale_session source label r t) = t_detected_agent t"
  "t_hook_report_sequences (remember_stale_session source label r t) = t_hook_report_sequences t"
  by (simp_all add: remember_stale_session_def Let_def)

lemma remember_stale_ok [simp]:
  "maps_ok t \<Longrightarrow> maps_ok (remember_stale_session source label r t)"
  "suppressions_ok (remember_stale_session source label r t) = suppressions_ok t"
  by (simp_all add: remember_stale_session_def Let_def maps_ok_def suppressions_ok_def)

lemma forget_stale_ok:
  "maps_ok t \<Longrightarrow> maps_ok (forget_stale_session source label r t)"
  "suppressions_ok (forget_stale_session source label r t) = suppressions_ok t"
  "t_state (forget_stale_session source label r t) = t_state t"
  "t_hook_authority (forget_stale_session source label r t) = t_hook_authority t"
  "authority_ok (forget_stale_session source label r t) = authority_ok t"
  by (auto simp: forget_stale_session_def Let_def maps_ok_def suppressions_ok_def authority_ok_def
      split: option.split)

lemma forget_suppressed_ok:
  assumes "maps_ok t" "suppressions_ok t"
  shows "maps_ok (forget_suppressed_session source t)" "suppressions_ok (forget_suppressed_session source t)"
    "t_state (forget_suppressed_session source t) = t_state t"
    "t_suppressed (forget_suppressed_session source t) = hm_remove source (t_suppressed t) \<or>
     t_suppressed (forget_suppressed_session source t) = t_suppressed t \<and> hm_get (t_suppressed t) source = None"
proof -
  have ok: "hm_ok (t_suppressed t)" using assms(1) by (simp add: maps_ok_def)
  let ?t1 = "t\<lparr>t_suppressed := hm_remove source (t_suppressed t)\<rparr>"
  have t1: "maps_ok ?t1" "suppressions_ok ?t1"
    using assms ok by (auto simp: maps_ok_def suppressions_ok_def hm.get_remove split: if_splits)
  then show "maps_ok (forget_suppressed_session source t)" "suppressions_ok (forget_suppressed_session source t)"
    "t_state (forget_suppressed_session source t) = t_state t"
    "t_suppressed (forget_suppressed_session source t) = hm_remove source (t_suppressed t) \<or>
     t_suppressed (forget_suppressed_session source t) = t_suppressed t \<and> hm_get (t_suppressed t) source = None"
    using assms by (auto simp: forget_suppressed_session_def Let_def split: option.split)
qed

lemma fold_remember_ok:
  "maps_ok t \<Longrightarrow> suppressions_ok t \<Longrightarrow>
   (let t' = fold (\<lambda>(source, label, r). remember_stale_session source label r) xs t in
    maps_ok t' \<and> suppressions_ok t' \<and> t_state t' = t_state t \<and> t_suppressed t' = t_suppressed t \<and>
    t_hook_authority t' = t_hook_authority t \<and> t_hook_report_sequences t' = t_hook_report_sequences t)"
proof (induction xs arbitrary: t)
  case (Cons x xs)
  obtain source label r where x: "x = (source, label, r)" by (cases x) auto
  note IH = Cons.IH [of "remember_stale_session source label r t", unfolded Let_def]
  show ?case using IH Cons.prems by (simp only: x fold.simps comp_def case_prod_conv Let_def
        remember_stale_ok remember_stale_fields simp_thms)
qed (simp add: Let_def)

lemma clear_suppression_ok:
  assumes "maps_ok t" "suppressions_ok t"
  shows "maps_ok (clear_suppression_for_detected_agent prev agent t)"
    "suppressions_ok (clear_suppression_for_detected_agent prev agent t)"
    "t_state (clear_suppression_for_detected_agent prev agent t) = t_state t"
    "t_hook_authority (clear_suppression_for_detected_agent prev agent t) = t_hook_authority t"
    "authority_ok t \<Longrightarrow> authority_ok (clear_suppression_for_detected_agent prev agent t)"
proof -
  note ok = assms(1) [unfolded maps_ok_def]
  have "maps_ok (clear_suppression_for_detected_agent prev agent t) \<and>
    suppressions_ok (clear_suppression_for_detected_agent prev agent t) \<and>
    t_state (clear_suppression_for_detected_agent prev agent t) = t_state t \<and>
    t_hook_authority (clear_suppression_for_detected_agent prev agent t) = t_hook_authority t \<and>
    (authority_ok t \<longrightarrow> authority_ok (clear_suppression_for_detected_agent prev agent t))"
  proof (cases "agent = None \<or> prev = agent")
    case True
    then show ?thesis using assms by (auto simp: clear_suppression_for_detected_agent_def split: option.split)
  next
    case False
    then obtain a where a: "agent = Some a" "prev \<noteq> Some a" by auto
    let ?stale = "List.map_filter (stale_of_suppressed a) (t_suppressed t)"
    let ?kept = "hm_retain (\<lambda>_ sup. parse_agent_label (sup_agent_label sup) \<noteq> Some a) (t_suppressed t)"
    let ?t1 = "t\<lparr>t_suppressed := ?kept\<rparr>"
    let ?t2 = "fold (\<lambda>(source, label, r). remember_stale_session source label r) ?stale ?t1"
    have "maps_ok ?t1" "suppressions_ok ?t1"
      using assms ok by (auto simp: maps_ok_def suppressions_ok_def hm.get_retain split: option.splits if_splits)
    note t2 = fold_remember_ok [OF this, of ?stale, unfolded Let_def]
    have "authority_ok t \<longrightarrow> authority_ok ?t2"
      using t2 ok by (auto simp: authority_ok_def is_none_or_def hm.get_retain split: option.splits)
    then show ?thesis
      using a t2 by (simp add: clear_suppression_for_detected_agent_def Let_def)
        (auto simp: maps_ok_def suppressions_ok_def authority_ok_def)
  qed
  then show "maps_ok (clear_suppression_for_detected_agent prev agent t)"
    "suppressions_ok (clear_suppression_for_detected_agent prev agent t)"
    "t_state (clear_suppression_for_detected_agent prev agent t) = t_state t"
    "t_hook_authority (clear_suppression_for_detected_agent prev agent t) = t_hook_authority t"
    "authority_ok t \<Longrightarrow> authority_ok (clear_suppression_for_detected_agent prev agent t)"
    by auto
qed

end
