(* ===== verification/Terminal_Steps.thy ===== *)
theory Terminal_Steps
  imports Terminal_Invariants
begin

text \<open>Every operation of a terminal keeps the invariant; the lemmas follow the operations'
  order. The parts that precede the recomputation only need to keep the tables.\<close>

section \<open>Fields that do not take part in the arbitration\<close>

lemma simple_steps:
  assumes "terminal_inv t"
  shows "terminal_inv (fst (set_agent_inactive inactive t))"
    "terminal_inv (fst (set_terminal_title title t))"
    "terminal_inv (with_launch_argv argv t)"
    "terminal_inv (with_respawn_shell_on_exit t)"
    "terminal_inv (with_pending_agent_resume_plan p t)"
    "terminal_inv (set_persisted_agent_session session t)"
    "terminal_inv (set_manual_label label t)"
    "terminal_inv (clear_manual_label t)"
    "terminal_inv (set_agent_name name t)"
    "terminal_inv (clear_agent_name t)"
  using assms
  by (simp_all add: terminal_inv_def tables_ok_def maps_ok_def suppressions_ok_def authority_ok_def
      derived_state_defs set_agent_inactive_def set_terminal_title_def Let_def with_launch_argv_def
      with_respawn_shell_on_exit_def with_pending_agent_resume_plan_def set_persisted_agent_session_def
      set_manual_label_def clear_manual_label_def set_agent_name_def clear_agent_name_def)

lemma terminal_new_inv: "terminal_inv (terminal_new tid cwd)"
  by (simp add: terminal_inv_def tables_ok_def maps_ok_def suppressions_ok_def authority_ok_def
      derived_state_defs terminal_new_def)

lemma respawn_inv:
  assumes "terminal_inv t"
  shows "terminal_inv (clear_agent_runtime_identity_after_respawn t)"
  using assms
  by (simp add: terminal_inv_def tables_ok_def maps_ok_def suppressions_ok_def authority_ok_def
      derived_state_defs clear_agent_runtime_identity_after_respawn_def Let_def set_agent_inactive_def
      clear_agent_name_def)

section \<open>Report sequences\<close>

lemma accept_hook_cases:
  "accept_hook_report t source seq = (t', b) \<Longrightarrow>
   t' = t \<or> (\<exists>n. seq = Some n \<and> b \<and>
     t' = t\<lparr>t_hook_report_sequences := hm_insert source n (t_hook_report_sequences t)\<rparr>)"
  by (auto simp: accept_hook_report_def split: option.splits if_splits)

lemma hook_sequences_irrelevant [simp]:
  "derived_state (t\<lparr>t_hook_report_sequences := m\<rparr>) = derived_state t"
  "suppressions_ok (t\<lparr>t_hook_report_sequences := m\<rparr>) = suppressions_ok t"
  "authority_ok (t\<lparr>t_hook_report_sequences := m\<rparr>) = authority_ok t"
  "effective_agent_label (t\<lparr>t_hook_report_sequences := m\<rparr>) = effective_agent_label t"
  "current_session_identity_for_persistence (t\<lparr>t_hook_report_sequences := m\<rparr>) =
   current_session_identity_for_persistence t"
  by (simp_all add: derived_state_defs suppressions_ok_def authority_ok_def effective_agent_label_def
      current_session_identity_for_persistence_def)

lemma hook_sequences_maps:
  "maps_ok t \<Longrightarrow> hm_ok m \<Longrightarrow> maps_ok (t\<lparr>t_hook_report_sequences := m\<rparr>)"
  by (simp add: maps_ok_def)

lemma accept_hook_inv:
  assumes "terminal_inv t" "accept_hook_report t source seq = (t', b)"
  shows "terminal_inv t'"
proof -
  have "hm_ok (t_hook_report_sequences t)" using assms(1) by (simp add: terminal_inv_def tables_ok_def maps_ok_def)
  then show ?thesis
    using accept_hook_cases [OF assms(2)] assms(1)
    by (auto simp: terminal_inv_def tables_ok_def hook_sequences_maps)
qed

lemma accept_metadata_inv:
  assumes "terminal_inv t"
  shows "terminal_inv (fst (accept_metadata_report t source seq tokens))"
proof -
  let ?t = "fst (accept_metadata_report t source seq tokens)"
  have "maps_ok ?t" using assms
    by (auto simp: terminal_inv_def tables_ok_def maps_ok_def accept_metadata_report_def Let_def
        List.insert_def split: option.split)
  moreover have "suppressions_ok ?t \<and> authority_ok ?t \<and> derived_state ?t = derived_state t \<and> t_state ?t = t_state t"
    using assms
    by (auto simp: terminal_inv_def tables_ok_def suppressions_ok_def authority_ok_def
        accept_metadata_report_def Let_def derived_state_defs split: option.split)
  ultimately show ?thesis using assms by (simp add: terminal_inv_def tables_ok_def)
qed

section \<open>Detection\<close>

lemma detected_agent_irrelevant [simp]:
  "maps_ok (t\<lparr>t_detected_agent := a\<rparr>) = maps_ok t"
  "suppressions_ok (t\<lparr>t_detected_agent := a\<rparr>) = suppressions_ok t"
  "authority_ok (t\<lparr>t_detected_agent := a\<rparr>) = authority_ok t"
  by (simp_all add: maps_ok_def suppressions_ok_def authority_ok_def)

lemma note_fallback_ok:
  assumes "tables_ok t"
  shows "tables_ok (note_fallback agent st blocker exited now t)"
    "t_state (note_fallback agent st blocker exited now t) = t_state t"
    "t_hook_authority (note_fallback agent st blocker exited now t) = t_hook_authority t"
proof -
  let ?t1 = "t\<lparr>t_detected_agent := agent\<rparr>"
  let ?t2 = "if \<not> exited then clear_suppression_for_detected_agent (t_detected_agent t) agent ?t1 else ?t1"
  have ok: "maps_ok ?t1" "suppressions_ok ?t1" "authority_ok ?t1" using assms by (simp_all add: tables_ok_def)
  note c = clear_suppression_ok [OF ok(1,2), of "t_detected_agent t" agent]
  have t2: "tables_ok ?t2" "t_state ?t2 = t_state t" "t_hook_authority ?t2 = t_hook_authority t"
    using ok c by (auto simp: tables_ok_def)
  then show "tables_ok (note_fallback agent st blocker exited now t)"
    "t_state (note_fallback agent st blocker exited now t) = t_state t"
    "t_hook_authority (note_fallback agent st blocker exited now t) = t_hook_authority t"
    by (auto simp: note_fallback_def Let_def tables_ok_def maps_ok_def suppressions_ok_def authority_ok_def)
qed

lemma no_authority_tables:
  "maps_ok t \<Longrightarrow> suppressions_ok t \<Longrightarrow> tables_ok (t\<lparr>t_hook_authority := None\<rparr>)"
  "tables_ok (t\<lparr>t_persisted_agent_session := s\<rparr>) = tables_ok t"
  by (simp_all add: tables_ok_def maps_ok_def suppressions_ok_def authority_ok_def)

lemma drop_exited_authority_ok:
  assumes "tables_ok t"
  shows "tables_ok (drop_exited_authority agent exited now clock t)"
    "t_state (drop_exited_authority agent exited now clock t) = t_state t"
proof -
  let ?s = "suppress_current_full_lifecycle_hook_authority clock ProcessExit t"
  have s: "maps_ok ?s" "suppressions_ok ?s" "hm_ok (t_hook_report_sequences t)"
    using assms by (simp_all add: tables_ok_def, simp add: maps_ok_def)
  have "tables_ok (?s\<lparr>t_hook_report_sequences := hm_remove source (t_hook_report_sequences t), t_hook_authority := None\<rparr>)"
    for source
    using s by (intro no_authority_tables(1)) (simp_all add: hook_sequences_maps)
  moreover have "tables_ok (?s\<lparr>t_hook_authority := None\<rparr>)" using s by (intro no_authority_tables(1))
  ultimately show "tables_ok (drop_exited_authority agent exited now clock t)"
    "t_state (drop_exited_authority agent exited now clock t) = t_state t"
    using assms by (auto simp: drop_exited_authority_def Let_def split: option.splits)
qed

lemma drop_exited_session_ok:
  "tables_ok (drop_exited_session agent exited t) = tables_ok t"
  "t_state (drop_exited_session agent exited t) = t_state t"
  "t_hook_authority (drop_exited_session agent exited t) = t_hook_authority t"
  by (simp_all add: drop_exited_session_def no_authority_tables(2))

lemma drop_displaced_authority_ok:
  assumes "tables_ok t"
  shows "tables_ok (drop_displaced_authority prev agent now clock t)"
    "t_state (drop_displaced_authority prev agent now clock t) = t_state t"
proof -
  let ?s = "suppress_current_full_lifecycle_hook_authority clock HookClear t"
  have "tables_ok (?s\<lparr>t_hook_authority := None\<rparr>)"
    using assms by (intro no_authority_tables(1)) (simp_all add: tables_ok_def)
  then show "tables_ok (drop_displaced_authority prev agent now clock t)"
    "t_state (drop_displaced_authority prev agent now clock t) = t_state t"
    using assms by (simp_all add: drop_displaced_authority_def no_authority_tables(2))
qed

lemma detected_inv:
  assumes "terminal_inv t"
  shows "terminal_inv (fst (set_detected_state_with_screen_signals_at agent st blocker exited now clock t))"
proof -
  have ok: "tables_ok t" using assms by (simp add: terminal_inv_def)
  let ?n = "note_fallback agent st blocker exited now t"
  let ?e = "drop_exited_session agent exited (drop_exited_authority agent exited now clock ?n)"
  let ?d = "drop_displaced_authority (t_detected_agent t) agent now clock ?e"
  have n: "tables_ok ?n" "t_state ?n = t_state t" by (rule note_fallback_ok [OF ok])+
  have e: "tables_ok ?e" "t_state ?e = t_state t"
    using drop_exited_authority_ok [OF n(1)] n(2) by (simp_all add: drop_exited_session_ok)
  have d: "tables_ok ?d" "t_state ?d = t_state t" using drop_displaced_authority_ok [OF e(1)] e(2) by simp_all
  have u: "tables_ok (t\<lparr>t_detected_agent := agent\<rparr>)" using ok by (simp add: tables_ok_def)
  show ?thesis
    using ok d u by (simp add: set_detected_state_with_screen_signals_at_def Let_def finish_settled settled_inv)
qed

section \<open>Hook reports\<close>

lemma map_prod_fst [simp]: "fst (map_prod id f p) = fst p"
  by (cases p) simp

lemma suppressed_without_session:
  assumes "suppressions_ok t" "full_lifecycle_hook_authority source label"
    and "\<not> report_is_suppressed t source label None"
  shows "hm_get (t_suppressed t) source = None"
proof (cases "hm_get (t_suppressed t) source")
  case (Some suppressed)
  then have "sup_agent_label suppressed = label"
    using assms(1, 2) full_lifecycle_label [of source "sup_agent_label suppressed" label]
    by (simp add: suppressions_ok_def)
  then show ?thesis using assms(2, 3) Some
    by (auto simp: report_is_suppressed_def split: option.splits if_splits)
qed

lemma effective_report_session_ref_None [simp]:
  "effective_report_session_ref t source label r = None \<longleftrightarrow> r = None"
  by (simp add: effective_report_session_ref_def)

lemma install_hook_authority_inv:
  assumes "tables_ok t"
    and "ha_session_ref authority = None \<Longrightarrow> \<not> takeover \<and>
      (full_lifecycle_hook_authority (ha_source authority) (ha_agent_label authority) \<longrightarrow>
       hm_get (t_suppressed t) (ha_source authority) = None)"
  shows "terminal_inv (fst (install_hook_authority authority takeover now clock t))"
proof -
  let ?t1 = "if takeover then suppress_current_full_lifecycle_hook_authority clock HookClear t else t"
  let ?t2 = "if ha_session_ref authority \<noteq> None then forget_suppressed_session (ha_source authority) ?t1 else ?t1"
  let ?t3 = "?t2\<lparr>t_persisted_agent_session := None, t_hook_authority := Some authority\<rparr>"
  have t1: "maps_ok ?t1" "suppressions_ok ?t1" "t_state ?t1 = t_state t"
    using assms(1) by (auto simp: tables_ok_def)
  note f = forget_suppressed_ok [OF t1(1,2), of "ha_source authority"]
  have t2: "maps_ok ?t2" "suppressions_ok ?t2" "t_state ?t2 = t_state t"
    using t1 f by auto
  have "hm_ok (t_suppressed ?t1)" using t1(1) by (simp add: maps_ok_def)
  then have "full_lifecycle_hook_authority (ha_source authority) (ha_agent_label authority) \<longrightarrow>
      hm_get (t_suppressed ?t2) (ha_source authority) = None"
    using f(4) assms(2) by (cases "ha_session_ref authority") (auto simp: hm.get_remove)
  then have "tables_ok ?t3" using t2(1,2)
    by (auto simp: tables_ok_def maps_ok_def suppressions_ok_def authority_ok_def)
  then have "terminal_inv (settled ?t3)" by (rule settled_inv)
  moreover have "fst (install_hook_authority authority takeover now clock t) = settled ?t3"
    unfolding install_hook_authority_def Let_def using t2(3) by (intro finish_settled) simp
  ultimately show ?thesis by simp
qed

text \<open>\<open>set_hook_authority_at\<close> as guards, a reanchored sequence and the installation.\<close>

definition hook_takeover :: "terminal \<Rightarrow> string \<Rightarrow> string \<Rightarrow> agent_session_ref option \<Rightarrow> bool" where
  "hook_takeover t source label session_ref =
     (current_session_owner_conflicts t source label
      \<and> foreground_agent_confirms_hook_authority_takeover t source label session_ref)"

definition hook_report_refused :: "terminal \<Rightarrow> string \<Rightarrow> string \<Rightarrow> agent_session_ref option \<Rightarrow> bool" where
  "hook_report_refused t source label session_ref =
     (report_is_suppressed t source label session_ref
      \<or> report_matches_stale_session t source label session_ref
      \<or> known_agent_label_conflicts_with_detected_agent t label
      \<or> (current_session_owner_conflicts t source label \<and> \<not> hook_takeover t source label session_ref)
      \<or> live_authority_conflicts_with_session t source label
           (effective_report_session_ref t source label session_ref))"

definition reanchored :: "terminal \<Rightarrow> string \<Rightarrow> string \<Rightarrow> agent_session_ref option \<Rightarrow> terminal" where
  "reanchored t source label session_ref =
     (if report_has_fresh_session_after_suppression t source label session_ref
         \<or> report_has_fresh_session_after_stale_session t source label session_ref
      then t\<lparr>t_hook_report_sequences := hm_remove source (t_hook_report_sequences t)\<rparr> else t)"

lemma set_hook_authority_at_eq:
  "set_hook_authority_at source label st message session_ref seq now clock t =
   (if hook_report_refused t source label session_ref then (t, None)
    else (let (t2, accepted) = accept_hook_report (reanchored t source label session_ref) source seq in
      if \<not> accepted then (t2, None)
      else map_prod id Some (install_hook_authority
        \<lparr>ha_source = source, ha_agent_label = label, ha_state = st, ha_message = message, ha_reported_at = now,
         ha_session_ref = effective_report_session_ref t source label session_ref\<rparr>
        (hook_takeover t source label session_ref) now clock t2)))"
  unfolding set_hook_authority_at_def hook_report_refused_def hook_takeover_def reanchored_def Let_def by simp

lemma reanchored_inv:
  assumes "terminal_inv t"
  shows "terminal_inv (reanchored t source label session_ref)"
    "t_suppressed (reanchored t source label session_ref) = t_suppressed t"
proof -
  have "hm_ok (t_hook_report_sequences t)" using assms by (simp add: terminal_inv_def tables_ok_def maps_ok_def)
  then show "terminal_inv (reanchored t source label session_ref)"
    "t_suppressed (reanchored t source label session_ref) = t_suppressed t"
    using assms by (auto simp: reanchored_def terminal_inv_def tables_ok_def hook_sequences_maps)
qed

lemma hook_report_inv:
  assumes inv: "terminal_inv t"
  shows "terminal_inv (fst (set_hook_authority_at source label st message session_ref seq now clock t))"
proof (cases "hook_report_refused t source label session_ref")
  case True
  then show ?thesis using inv by (simp add: set_hook_authority_at_eq)
next
  case False
  obtain t2 b where a: "accept_hook_report (reanchored t source label session_ref) source seq = (t2, b)"
    by fastforce
  have t2: "terminal_inv t2" by (rule accept_hook_inv [OF reanchored_inv(1) [OF inv] a])
  have sup: "t_suppressed t2 = t_suppressed t"
    using accept_hook_cases [OF a] reanchored_inv(2) [OF inv, of source label session_ref] by auto
  let ?authority = "\<lparr>ha_source = source, ha_agent_label = label, ha_state = st, ha_message = message,
      ha_reported_at = now, ha_session_ref = effective_report_session_ref t source label session_ref\<rparr>"
  have ok: "suppressions_ok t" "tables_ok t2" using inv t2 by (simp_all add: terminal_inv_def tables_ok_def)
  have "terminal_inv (fst (install_hook_authority ?authority (hook_takeover t source label session_ref) now clock t2))"
  proof (rule install_hook_authority_inv [OF ok(2)])
    assume "ha_session_ref ?authority = None"
    then have none: "session_ref = None" by simp
    then have "\<not> hook_takeover t source label session_ref"
      by (simp add: hook_takeover_def foreground_agent_confirms_hook_authority_takeover_def)
    moreover have "full_lifecycle_hook_authority source label \<longrightarrow> hm_get (t_suppressed t) source = None"
      using suppressed_without_session [OF ok(1), of source label] False none
      by (auto simp: hook_report_refused_def)
    ultimately show "\<not> hook_takeover t source label session_ref \<and>
      (full_lifecycle_hook_authority (ha_source ?authority) (ha_agent_label ?authority) \<longrightarrow>
       hm_get (t_suppressed t2) (ha_source ?authority) = None)" by (simp add: sup)
  qed
  then show ?thesis using t2 False by (simp add: set_hook_authority_at_eq a)
qed

lemma replace_session_ok:
  assumes "tables_ok t"
  shows "tables_ok (replace_session source label r allowed takeover replaced clock t)"
    "t_state (replace_session source label r allowed takeover replaced clock t) = t_state t"
proof -
  define t1 where "t1 = (if allowed \<or> takeover then forget_stale_session source label r t else t)"
  define t2 where "t2 = (case replaced of
      Some x \<Rightarrow> (remember_stale_session source label x t1)\<lparr>t_hook_authority := None\<rparr>
    | None \<Rightarrow> if takeover then (suppress_current_full_lifecycle_hook_authority clock HookClear t1)
                 \<lparr>t_hook_authority := None\<rparr> else t1)"
  have t1: "maps_ok t1" "suppressions_ok t1" "authority_ok t1" "t_state t1 = t_state t"
    using assms by (auto simp: tables_ok_def forget_stale_ok t1_def)
  have "tables_ok t2 \<and> t_state t2 = t_state t"
  proof (cases replaced)
    case None
    show ?thesis
    proof (cases takeover)
      case True
      then show ?thesis using None t1 by (simp add: t2_def no_authority_tables(1))
    next
      case False
      then show ?thesis using None t1 by (simp add: t2_def tables_ok_def)
    qed
  next
    case (Some x)
    then show ?thesis using t1 by (simp add: t2_def no_authority_tables(1))
  qed
  then show "tables_ok (replace_session source label r allowed takeover replaced clock t)"
    "t_state (replace_session source label r allowed takeover replaced clock t) = t_state t"
    by (simp_all add: replace_session_def Let_def no_authority_tables(2) t1_def [symmetric] t2_def [symmetric])
qed

lemma session_start_inv:
  assumes inv: "terminal_inv t"
  shows "terminal_inv (fst (set_agent_session_ref_for_session_start source label session_ref seq start now clock t))"
proof -
  obtain t1 b where a: "accept_hook_report t source seq = (t1, b)" by fastforce
  have t1: "terminal_inv t1" by (rule accept_hook_inv [OF inv a])
  then have "tables_ok t1" by (simp add: terminal_inv_def)
  note r = replace_session_ok [OF this]
  have "terminal_inv (fst (finish (observe_before t1 now) session now
      (replace_session source label x allowed takeover replaced clock t1)))"
    for session x allowed takeover replaced
    using r by (subst finish_settled) (simp_all add: settled_inv)
  then show ?thesis using inv t1
    by (auto simp: set_agent_session_ref_for_session_start_def a Let_def split: option.split)
qed

lemma hook_clear_inv:
  assumes inv: "terminal_inv t"
  shows "terminal_inv (fst (clear_hook_authority_with_mutation source seq now clock t))"
proof -
  define s where "s = or_else source (map_option ha_source (t_hook_authority t))"
  obtain t1 b where a: "(case s of None \<Rightarrow> (t, True) | Some source \<Rightarrow> accept_hook_report t source seq) = (t1, b)"
    by fastforce
  have t1: "terminal_inv t1" using a inv by (cases s) (auto intro: accept_hook_inv)
  let ?c = "(suppress_current_full_lifecycle_hook_authority clock HookClear t1)
      \<lparr>t_hook_authority := None, t_persisted_agent_session := None\<rparr>"
  have "tables_ok ((suppress_current_full_lifecycle_hook_authority clock HookClear t1)\<lparr>t_hook_authority := None\<rparr>)"
    using t1 by (intro no_authority_tables(1)) (simp_all add: terminal_inv_def tables_ok_def)
  then have "tables_ok ?c" by (simp only: no_authority_tables(2))
  then have "terminal_inv (fst (recompute_effective_state (observe_before t1 now) now ?c))"
    by (subst recompute_settled) (simp_all add: settled_inv)
  then show ?thesis using t1
    by (simp add: clear_hook_authority_with_mutation_def s_def [symmetric] a Let_def case_prod_beta)
qed

lemma release_inv:
  assumes inv: "terminal_inv t"
  shows "terminal_inv (fst (release_agent_with_mutation source label seq now clock t))"
proof -
  obtain t1 b where a: "accept_hook_report t source seq = (t1, b)" by fastforce
  have t1: "terminal_inv t1" by (rule accept_hook_inv [OF inv a])
  let ?s = "suppress_full_lifecycle_hook_report clock source label HookClear t1"
  let ?r = "?s\<lparr>t_detected_agent := None, t_fallback_state := Unknown, t_fallback_visible_blocker := False,
      t_fallback_observed_at := None, t_hook_authority := None\<rparr>"
  have "maps_ok ?s" "suppressions_ok ?s" "t_state ?s = t_state t1"
    using t1 suppress_report_ok [of t1] by (simp_all add: terminal_inv_def tables_ok_def)
  then have r: "tables_ok ?r" "tables_ok (?r\<lparr>t_persisted_agent_session := None\<rparr>)" "t_state ?r = t_state t1"
    by (simp_all add: tables_ok_def maps_ok_def suppressions_ok_def authority_ok_def)
  show ?thesis using t1 r
    by (simp add: release_agent_with_mutation_def a Let_def finish_settled settled_inv)
qed

section \<open>Metadata\<close>

lemma put_metadata_ok [simp]:
  "tables_ok t \<Longrightarrow> tables_ok (put_metadata source md t)"
  "tables_ok t \<Longrightarrow> tables_ok (remove_metadata source t)"
  "t_state (put_metadata source md t) = t_state t"
  "t_state (remove_metadata source t) = t_state t"
  by (simp_all add: put_metadata_def remove_metadata_def tables_ok_def maps_ok_def suppressions_ok_def
      authority_ok_def)

lemma store_metadata_ok [simp]:
  "tables_ok t \<Longrightarrow> tables_ok (drop_expired_entry source now t)"
  "tables_ok t \<Longrightarrow> tables_ok (store_metadata report md t)"
  "t_state (drop_expired_entry source now t) = t_state t"
  "t_state (store_metadata report md t) = t_state t"
  by (simp_all add: drop_expired_entry_def store_metadata_def Let_def)

lemma fold_remove_metadata_ok [simp]:
  "tables_ok t \<Longrightarrow> tables_ok (fold remove_metadata sources t)"
  "t_state (fold remove_metadata sources t) = t_state t"
  by (induction sources arbitrary: t) simp_all

lemma derived_metadata [simp]:
  "derived_state (put_metadata source md t) = derived_state t"
  "derived_state (remove_metadata source t) = derived_state t"
  "derived_state (clear_expiry_pending_for_hidden_metadata t) = derived_state t"
  by (simp_all add: put_metadata_def remove_metadata_def derived_state_defs
      clear_expiry_pending_for_hidden_metadata_def)

lemma derived_fold_remove [simp]:
  "derived_state (fold remove_metadata sources t) = derived_state t"
  by (induction sources arbitrary: t) simp_all

lemma clear_expiry_inv: "terminal_inv t \<Longrightarrow> terminal_inv (clear_expiry_pending_for_hidden_metadata t)"
proof -
  assume "terminal_inv t"
  then have "settled t = clear_expiry_pending_for_hidden_metadata t" "tables_ok t"
    by (auto simp: settled_def terminal_inv_def clear_expiry_pending_for_hidden_metadata_def)
  then show ?thesis using settled_inv [of t] by simp
qed

lemma metadata_inv:
  assumes inv: "terminal_inv t"
  shows "terminal_inv (fst (set_agent_metadata report now t))"
proof -
  obtain t0 r where a: "accept_metadata_report t (rep_source report) (rep_seq report) False = (t0, r)"
    by fastforce
  have t0: "terminal_inv t0"
    using accept_metadata_inv [OF inv, of "rep_source report" "rep_seq report" False] a by simp
  then have ok: "tables_ok t0" by (simp add: terminal_inv_def)
  have step: "terminal_inv (fst (recompute_effective_state (observe_before t1 now) now t3))"
    if "tables_ok t3" "t_state t3 = t_state t1" for t1 t3
    using that by (subst recompute_settled) (simp_all add: settled_inv)
  show ?thesis
    using t0 ok step
    by (auto simp: set_agent_metadata_def a Let_def case_prod_beta intro!: clear_expiry_inv)
qed

lemma metadata_expiry_inv:
  assumes inv: "terminal_inv t"
  shows "terminal_inv (fst (expire_agent_metadata_at deadline now t))"
proof -
  have ok: "tables_ok t" "t_state t = derived_state t" using inv by (simp_all add: terminal_inv_def)
  have early: "terminal_inv (fold remove_metadata sources t)" for sources
    using ok by (simp add: terminal_inv_def)
  have step: "terminal_inv (fst (recompute_effective_state previous now t3))"
    if "tables_ok t3" "bf_state previous = t_state t3" for previous t3
    using that by (subst recompute_settled) (simp_all add: settled_inv)
  show ?thesis
    unfolding expire_agent_metadata_at_def Let_def case_prod_beta
    by (auto intro!: early step simp: ok)
qed

section \<open>Reachable terminals\<close>

lemma terminal_step_inv: "terminal_step t t' \<Longrightarrow> terminal_inv t \<Longrightarrow> terminal_inv t'"
  by (induction rule: terminal_step.induct)
    (auto intro: simple_steps detected_inv hook_report_inv session_start_inv hook_clear_inv release_inv
      respawn_inv accept_metadata_inv metadata_inv metadata_expiry_inv)

lemma reachable_terminal_inv: "terminal_reachable t \<Longrightarrow> terminal_inv t"
  by (induction rule: terminal_reachable.induct) (auto intro: terminal_new_inv terminal_step_inv)

end
