(* ===== verification/Terminal_Properties.thy ===== *)
theory Terminal_Properties
  imports Terminal_Steps
begin

text \<open>
  What the terminal promises: which report wins, what a refused report leaves, what a process
  exit, a release and a new detection do to the authority of an agent's hooks.
\<close>

section \<open>Sequence gates\<close>

definition hook_gate :: "terminal \<Rightarrow> string \<Rightarrow> u64 \<Rightarrow> terminal \<times> bool" where
  "hook_gate t source n = accept_hook_report t source (Some n)"

definition metadata_gate :: "bool \<Rightarrow> terminal \<Rightarrow> string \<Rightarrow> u64 \<Rightarrow> terminal \<times> bool" where
  "metadata_gate tokens t source n =
     (let (t', r) = accept_metadata_report t source (Some n) tokens in (t', r = Inr True))"

interpretation hook: sequence_gate hook_gate "\<lambda>t. hm_get (t_hook_report_sequences t)" "\<lambda>_. True"
proof
  fix t source n seq
  show "snd (hook_gate t source seq) \<Longrightarrow> hm_get (t_hook_report_sequences t) source = Some n \<Longrightarrow> n < seq"
    by (auto simp: hook_gate_def accept_hook_report_def split: if_splits)
  show "snd (hook_gate t source seq) \<Longrightarrow> hm_get (t_hook_report_sequences (fst (hook_gate t source seq))) =
      (hm_get (t_hook_report_sequences t))(source := Some seq)"
    by (auto simp: hook_gate_def accept_hook_report_def fun_eq_iff split: if_splits)
  show "\<not> snd (hook_gate t source seq) \<Longrightarrow> fst (hook_gate t source seq) = t"
    by (cases "is_some_and (hm_get (t_hook_report_sequences t) source) (\<lambda>last_seq. seq \<le> last_seq)")
      (simp_all add: hook_gate_def accept_hook_report_def)
qed simp

interpretation metadata: sequence_gate "metadata_gate tokens"
  "\<lambda>t. hm_get (t_metadata_report_sequences t)" "\<lambda>_. True" for tokens
proof
  fix t source n seq
  show "snd (metadata_gate tokens t source seq) \<Longrightarrow> hm_get (t_metadata_report_sequences t) source = Some n \<Longrightarrow> n < seq"
    by (auto simp: metadata_gate_def accept_metadata_report_def metadata_report_sequence_is_fresh_def
        sequence_is_fresh_def Let_def split: if_splits)
  show "snd (metadata_gate tokens t source seq) \<Longrightarrow>
      hm_get (t_metadata_report_sequences (fst (metadata_gate tokens t source seq))) =
      (hm_get (t_metadata_report_sequences t))(source := Some seq)"
    by (auto simp: metadata_gate_def accept_metadata_report_def fun_eq_iff Let_def split: if_splits)
  show "\<not> snd (metadata_gate tokens t source seq) \<Longrightarrow> fst (metadata_gate tokens t source seq) = t"
    by (cases "metadata_report_sequence_is_fresh t source (Some seq)";
        cases "tokens \<and> source \<notin> set (t_metadata_token_sequence_sources t)
          \<and> MAX_SEQUENCE_SOURCES \<le> length (t_metadata_token_sequence_sources t)")
      (simp_all add: metadata_gate_def accept_metadata_report_def Let_def)
qed simp

section \<open>Lemmas\<close>

lemma accept_reanchored:
  assumes "terminal_inv t" "accept_hook_report (reanchored t source label r) source seq = (t', False)"
  shows "t' = t"
proof (cases "reanchored t source label r = t")
  case True
  then show ?thesis using assms accept_hook_cases by fastforce
next
  case False
  then have eq: "reanchored t source label r =
      t\<lparr>t_hook_report_sequences := hm_remove source (t_hook_report_sequences t)\<rparr>"
    by (auto simp: reanchored_def split: if_splits)
  have "hm_ok (t_hook_report_sequences t)" using assms(1) by (simp add: terminal_inv_def tables_ok_def maps_ok_def)
  then have "snd (accept_hook_report (reanchored t source label r) source seq)"
    by (auto simp: eq accept_hook_report_def hm.get_remove hm_contains_key_def split: option.split)
  then show ?thesis using assms(2) by simp
qed

lemma only_sequences:
  "accept_hook_report t source seq = (t', b) \<Longrightarrow>
   t' = t\<lparr>t_hook_report_sequences := t_hook_report_sequences t'\<rparr>"
  by (auto dest!: accept_hook_cases)

lemma derived_live:
  "live_full_lifecycle_hook_authority t \<Longrightarrow> t_hook_authority t = Some h \<Longrightarrow> derived_state t = ha_state h"
  by (simp add: derived_state_def visible_blocker_overrides_hook_def)

lemma fold_labels_ok: "hm_ok m \<Longrightarrow> hm_ok (fold (\<lambda>(_, st, label) m. hm_insert st label m) xs m)"
  by (induction xs arbitrary: m) auto

lemma hm_eq_refl: "hm_ok m \<Longrightarrow> hm_eq m m"
  by (auto simp: hm_eq_def hm_ok_def hm_get_map_of list_all_iff)

lemma presentation_eq_refl: "presentation_eq (effective_presentation t st now) (effective_presentation t st now)"
  by (simp add: presentation_eq_def effective_presentation_def effective_presentation_with_ttl_def
      effective_metadata_state_labels_def Let_def hm_eq_refl fold_labels_ok)

lemma presentation_authority_only:
  "t_hook_authority t = Some h \<Longrightarrow> effective_presentation (t\<lparr>t_detected_agent := a\<rparr>) st now = effective_presentation t st now"
  by (simp add: effective_presentation_def effective_presentation_with_ttl_def newest_metadata_title_def
      newest_metadata_display_agent_def effective_metadata_state_labels_def valid_agent_metadata_def
      agent_metadata_is_valid_def agent_metadata_matches_guards_def metadata_guards_match_def
      effective_agent_label_def)

section \<open>Properties\<close>

text \<open>C1: In every reachable terminal the stored state is the one the arbitration rules derive
  from the authority, the screen and the visible blocker, and no table has a key twice.\<close>

theorem terminal_state_derived:
  assumes "terminal_reachable t"
  shows "t_state t = derived_state t \<and>
    maps_ok t"
  using reachable_terminal_inv [OF assms] by (simp_all add: terminal_inv_def tables_ok_def)

definition sample_terminal :: terminal where
  "sample_terminal = fst (set_hook_authority_at ''herdr:pi'' ''pi'' Working None
     (Some \<lparr>sref_kind = Id, sref_value = ''s1''\<rparr>) (Some 5) 10 11 (terminal_new ''term'' ''/''))"

lemma sample_reachable: "terminal_reachable sample_terminal"
  unfolding sample_terminal_def by (rule terminal_reachable.step [OF terminal_reachable.new terminal_step.hook_report])

theorem terminal_state_derived_witness: "t_state sample_terminal = derived_state sample_terminal"
  by (rule conjunct1 [OF terminal_state_derived [OF sample_reachable]])

text \<open>C2: While the hooks of a full-lifecycle agent are the authority, the reports of that
  agent are not suppressed, whatever session they name.\<close>

theorem authority_not_suppressed:
  assumes "terminal_reachable t" and "t_hook_authority t = Some h"
    and "full_lifecycle_hook_authority (ha_source h) (ha_agent_label h)"
  shows "\<not> report_is_suppressed t (ha_source h) (ha_agent_label h) session_ref"
  using reachable_terminal_inv [OF assms(1)] assms(2, 3)
  by (simp add: terminal_inv_def tables_ok_def authority_ok_def report_is_suppressed_def)

lemma sample_authority:
  "t_hook_authority sample_terminal = Some \<lparr>ha_source = ''herdr:pi'', ha_agent_label = ''pi'', ha_state = Working,
     ha_message = None, ha_reported_at = 10, ha_session_ref = Some \<lparr>sref_kind = Id, sref_value = ''s1''\<rparr>\<rparr>"
  by code_simp

theorem authority_not_suppressed_witness:
  "\<not> report_is_suppressed sample_terminal ''herdr:pi'' ''pi'' None"
  using authority_not_suppressed [OF sample_reachable sample_authority, of None]
  by (simp add: full_lifecycle_hook_authority_def)

text \<open>C7: A hook report that is refused leaves the terminal exactly as it was; a refused
  session start, clear or release at most records the report's sequence number.\<close>

theorem refused_reports:
  assumes "terminal_reachable t"
  shows "(set_hook_authority_at source label st message session_ref seq now clock t = (t', None)
      \<longrightarrow> t' = t) \<and>
    (set_agent_session_ref_for_session_start source label session_ref seq start now clock t = (t',
      None) \<longrightarrow> t' = t\<lparr>t_hook_report_sequences := t_hook_report_sequences
      t'\<rparr>) \<and>
    (clear_hook_authority_with_mutation source' seq now clock t = (t', None) \<longrightarrow> t' =
      t\<lparr>t_hook_report_sequences := t_hook_report_sequences t'\<rparr>) \<and>
    (release_agent_with_mutation source label seq now clock t = (t', None) \<longrightarrow> t' =
      t\<lparr>t_hook_report_sequences := t_hook_report_sequences t'\<rparr>)"
proof (intro conjI impI)
  have none: "map_prod id Some p = (t', None) \<longleftrightarrow> False" for p :: "terminal \<times> mutation" by (cases p) simp
  obtain t1 b where a: "accept_hook_report t source seq = (t1, b)" by fastforce
  note t1 = only_sequences [OF a]
  show "t' = t" if "set_hook_authority_at source label st message session_ref seq now clock t = (t', None)"
    using that accept_reanchored [OF reachable_terminal_inv [OF assms], of source label session_ref seq t']
    by (simp add: set_hook_authority_at_eq none split: if_splits prod.splits)
  show "t' = t\<lparr>t_hook_report_sequences := t_hook_report_sequences t'\<rparr>"
    if "set_agent_session_ref_for_session_start source label session_ref seq start now clock t = (t', None)"
    using that t1 by (auto simp: set_agent_session_ref_for_session_start_def a Let_def none
        split: option.splits if_splits)
  show "t' = t\<lparr>t_hook_report_sequences := t_hook_report_sequences t'\<rparr>"
    if c: "clear_hook_authority_with_mutation source' seq now clock t = (t', None)"
  proof -
    define s where "s = or_else source' (map_option ha_source (t_hook_authority t))"
    obtain t2 b2 where a2: "(case s of None \<Rightarrow> (t, True) | Some source \<Rightarrow> accept_hook_report t source seq) = (t2, b2)"
      by fastforce
    then have "t2 = t\<lparr>t_hook_report_sequences := t_hook_report_sequences t2\<rparr>"
      using only_sequences by (cases s) auto
    then show ?thesis using c
      by (simp add: clear_hook_authority_with_mutation_def s_def [symmetric] a2 Let_def case_prod_beta
          split: if_splits)
  qed
  show "t' = t\<lparr>t_hook_report_sequences := t_hook_report_sequences t'\<rparr>"
    if "release_agent_with_mutation source label seq now clock t = (t', None)"
    using that t1 by (auto simp: release_agent_with_mutation_def a Let_def none split: if_splits)
qed

lemma sample_refuses:
  "set_hook_authority_at ''herdr:pi'' ''pi'' Idle None (Some \<lparr>sref_kind = Id, sref_value = ''s1''\<rparr>) (Some 5) 12 13
     sample_terminal = (sample_terminal, None)"
  by code_simp

theorem refused_reports_witness:
  "fst (set_hook_authority_at ''herdr:pi'' ''pi'' Idle None (Some \<lparr>sref_kind = Id, sref_value = ''s1''\<rparr>) (Some 5) 12 13
     sample_terminal) = sample_terminal"
proof -
  obtain t' where r: "set_hook_authority_at ''herdr:pi'' ''pi'' Idle None
      (Some \<lparr>sref_kind = Id, sref_value = ''s1''\<rparr>) (Some 5) 12 13 sample_terminal = (t', None)"
    using sample_refuses by blast
  show ?thesis using refused_reports [OF sample_reachable, THEN conjunct1, rule_format, OF r] r by simp
qed


text \<open>C3: While full-lifecycle hooks are the authority, what the screen shows of the same or of
  no agent changes neither the state nor the agent nor the session, and is not announced.\<close>

theorem authority_outranks_screen:
  assumes "terminal_reachable t" and "live_full_lifecycle_hook_authority t"
    and "\<not> hook_authority_conflicts_with_detected_agent t agent"
    and "set_detected_state_with_screen_signals_at agent st blocker False now clock t = (t', m)"
  shows "t_state t' = t_state t \<and>
    t_hook_authority t' = t_hook_authority t \<and>
    effective_agent_label t' = effective_agent_label t \<and>
    t_fallback_state t' = t_fallback_state t \<and>
    t_persisted_agent_session t' = t_persisted_agent_session t \<and>
    mu_change m = None \<and>
    \<not> mu_session_ref_changed m"
proof (intro conjI impI)
  obtain h where h: "t_hook_authority t = Some h" and full: "full_lifecycle_hook_authority (ha_source h) (ha_agent_label h)"
    using assms(2) by (auto simp: live_full_lifecycle_hook_authority_def is_some_and_def split: option.splits)
  let ?u = "if Option.bind (t_hook_authority t) hook_agent = agent then t\<lparr>t_detected_agent := agent\<rparr> else t"
  have set: "set_detected_state_with_screen_signals_at agent st blocker False now clock t =
      finish (observe_before t now) (current_session_identity_for_persistence t) now ?u"
    using assms(2, 3) by (simp add: set_detected_state_with_screen_signals_at_def
        should_ignore_detected_state_under_full_lifecycle_hook_def Let_def)
  have "t_state ?u = t_state t" by simp
  then have "fst (finish (observe_before t now) (current_session_identity_for_persistence t) now ?u) = settled ?u"
    by (intro finish_settled) (simp only: bf_state_observe)
  then have t': "t' = settled ?u" using assms(4) set by simp
  have "live_full_lifecycle_hook_authority ?u" "t_hook_authority ?u = Some h"
    using full by (simp_all add: live_full_lifecycle_hook_authority_def h)
  then have "derived_state ?u = ha_state h" by (rule derived_live)
  then have derived: "derived_state ?u = t_state t"
    using reachable_terminal_inv [OF assms(1)] derived_live [OF assms(2) h] by (simp only: terminal_inv_def)
  show "t_state t' = t_state t" by (simp only: t' settled_fields derived)
  show "t_hook_authority t' = t_hook_authority t"
    "t_fallback_state t' = t_fallback_state t" "t_persisted_agent_session t' = t_persisted_agent_session t"
    "effective_agent_label t' = effective_agent_label t"
    by (simp_all add: t' effective_agent_label_def h)
  have "m = \<lparr>mu_change = snd (recompute_effective_state (observe_before t now) now ?u),
      mu_session_ref_changed = (current_session_identity_for_persistence t \<noteq> current_session_identity_for_persistence ?u)\<rparr>"
    using assms(4) set by (simp add: finish_def case_prod_beta)
  moreover have "current_session_identity_for_persistence ?u = current_session_identity_for_persistence t"
    by (simp add: current_session_identity_for_persistence_def h)
  moreover have "effective_presentation ?u (t_state t) now = effective_presentation t (t_state t) now"
    "effective_agent_label ?u = effective_agent_label t"
    using presentation_authority_only [OF h] by (simp_all add: effective_agent_label_def h)
  then have "snd (recompute_effective_state (observe_before t now) now ?u) = None"
    using presentation_eq_refl
    by (simp only: recompute_effective_state_def observe_before_def Let_def derived before.simps simp_thms
        if_True snd_conv)
  ultimately show "mu_change m = None" "\<not> mu_session_ref_changed m" by (simp_all only: mutation.simps simp_thms)
qed

theorem authority_outranks_screen_witness:
  "t_state (fst (set_detected_state_with_screen_signals_at (Some Pi) Blocked True False 20 21 sample_terminal)) =
   t_state sample_terminal"
proof -
  have live: "live_full_lifecycle_hook_authority sample_terminal"
    "\<not> hook_authority_conflicts_with_detected_agent sample_terminal (Some Pi)" by code_simp+
  show ?thesis
    using authority_outranks_screen [OF sample_reachable live, THEN conjunct1, of Blocked True 20 21] by (metis prod.collapse)
qed

end
