(* ===== verification/Terminal_Lifecycle.thy ===== *)
theory Terminal_Lifecycle
  imports Terminal_Properties
begin

text \<open>
  The life of an agent's authority in a terminal: installed by an accepted hook report, ended
  by a release, a process exit or another agent's detection, and open again after the agent
  has been detected anew.
\<close>

section \<open>Lemmas\<close>

lemma taken_result: "map_prod id Some p = (t', Some m) \<Longrightarrow> p = (t', m)"
  by (cases p) simp

lemma settled_state_no_authority: "t_hook_authority t = None \<Longrightarrow> derived_state t = t_fallback_state t"
  by (simp add: derived_state_defs)

lemma suppressed_refuses:
  "hm_get (t_suppressed t) source = Some suppressed \<Longrightarrow> sup_agent_label suppressed = label \<Longrightarrow>
   sup_reason suppressed = ProcessExit \<Longrightarrow> full_lifecycle_hook_authority source label \<Longrightarrow>
   set_hook_authority_at source label st message session_ref seq now clock t = (t, None)"
  by (simp add: set_hook_authority_at_def report_is_suppressed_def)

lemma note_fallback_exited:
  "note_fallback (Some a) st blocker True now t =
   t\<lparr>t_detected_agent := Some a, t_fallback_state := st,
     t_fallback_visible_blocker := (blocker \<and> st = Blocked), t_fallback_observed_at := Some now,
     t_recent_agent_process_exit_at := Some now\<rparr>"
  by (simp add: note_fallback_def Let_def)

lemma drop_displaced_none:
  "t_hook_authority t = None \<Longrightarrow> drop_displaced_authority prev agent now clock t = t"
  by (simp add: drop_displaced_authority_def hook_authority_conflicts_with_detected_agent_def split: option.split)

lemma set_detected_exited:
  "set_detected_state_with_screen_signals_at agent st blocker True now clock t =
   finish (observe_before t now) (current_session_identity_for_persistence t) now
     (drop_displaced_authority (t_detected_agent t) agent now clock
       (drop_exited_session agent True
         (drop_exited_authority agent True now clock (note_fallback agent st blocker True now t))))"
  by (simp add: set_detected_state_with_screen_signals_at_def Let_def
      should_ignore_detected_state_under_full_lifecycle_hook_def)

lemma suppress_install:
  "t_hook_authority t = Some h \<Longrightarrow> full_lifecycle_hook_authority (ha_source h) (ha_agent_label h) \<Longrightarrow>
   suppress_current_full_lifecycle_hook_authority clock reason t =
   suppress_with_session_ref clock (ha_source h) (ha_agent_label h) (ha_session_ref h) reason t"
  by (simp add: suppress_current_full_lifecycle_hook_authority_def)

section \<open>Properties\<close>



text \<open>C6: An accepted hook report becomes the authority: its agent is the terminal's agent, the
  remembered session is replaced, a full-lifecycle report's state is the terminal's state,
  and another report's state yields only to a blocker that the screen shows.\<close>

theorem accepted_hook_report:
  assumes "set_hook_authority_at source label st message session_ref seq now clock t = (t', Some m)"
  shows "(\<exists>r. t_hook_authority t' = Some \<lparr>ha_source = source, ha_agent_label = label,
      ha_state = st, ha_message = message, ha_reported_at = now, ha_session_ref = r\<rparr> \<and>
      (r = None \<longleftrightarrow> session_ref = None)) \<and>
    effective_agent_label t' = Some label \<and>
    t_persisted_agent_session t' = None \<and>
    (full_lifecycle_hook_authority source label \<longrightarrow> t_state t' = st) \<and>
    (t_state t' = st \<or> t_state t' = Blocked \<and> t_fallback_visible_blocker t')"
proof (intro conjI impI)
  obtain t2 b where a: "accept_hook_report (reanchored t source label session_ref) source seq = (t2, b)"
    by fastforce
  let ?r = "effective_report_session_ref t source label session_ref"
  let ?h = "\<lparr>ha_source = source, ha_agent_label = label, ha_state = st, ha_message = message,
      ha_reported_at = now, ha_session_ref = ?r\<rparr>"
  let ?takeover = "hook_takeover t source label session_ref"
  define t3 where "t3 = (if ?takeover then suppress_current_full_lifecycle_hook_authority clock HookClear t2 else t2)"
  define t4 where "t4 = (if ?r \<noteq> None then forget_suppressed_session source t3 else t3)"
  have i: "fst (install_hook_authority ?h ?takeover now clock t2) = t'"
    using assms a by (auto simp: set_hook_authority_at_eq dest!: taken_result split: if_splits)
  have "t_state t3 = t_state t2" by (simp add: t3_def)
  moreover have "t_state (forget_suppressed_session source t3) = t_state t3"
    by (simp add: forget_suppressed_session_def Let_def split: option.split)
  ultimately have st: "t_state t4 = t_state t2" by (simp add: t4_def)
  let ?u = "t4\<lparr>t_persisted_agent_session := None, t_hook_authority := Some ?h\<rparr>"
  have "t' = fst (finish (observe_before t2 now) (current_session_identity_for_persistence t2) now ?u)"
    using i [symmetric] unfolding install_hook_authority_def Let_def t3_def t4_def
    by (simp only: hook_authority.simps)
  then have t': "t' = settled ?u" using st by (simp add: finish_settled)
  show "\<exists>r. t_hook_authority t' = Some \<lparr>ha_source = source, ha_agent_label = label, ha_state = st,
        ha_message = message, ha_reported_at = now, ha_session_ref = r\<rparr> \<and> (r = None \<longleftrightarrow> session_ref = None)"
    by (simp add: t')
  show "effective_agent_label t' = Some label" "t_persisted_agent_session t' = None"
    by (simp_all add: t' effective_agent_label_def)
  show "t_state t' = st" if "full_lifecycle_hook_authority source label"
    using that by (simp add: t' derived_state_defs)
  show "t_state t' = st \<or> t_state t' = Blocked \<and> t_fallback_visible_blocker t'"
    by (simp add: t' derived_state_defs)
qed

theorem accepted_hook_report_witness: "t_state sample_terminal = Working"
proof -
  let ?s = "set_hook_authority_at ''herdr:pi'' ''pi'' Working None
     (Some \<lparr>sref_kind = Id, sref_value = ''s1''\<rparr>) (Some 5) 10 11 (terminal_new ''term'' ''/'')"
  have "snd ?s \<noteq> None" by code_simp
  then obtain t' m where s: "?s = (t', Some m)" by (cases ?s) auto
  from accepted_hook_report [OF s, THEN conjunct2, THEN conjunct2, THEN conjunct2, THEN conjunct1] show ?thesis
    by (simp add: sample_terminal_def s full_lifecycle_hook_authority_def)
qed



end
