(* ===== verification/Terminal_Redetection.thy ===== *)
theory Terminal_Redetection
  imports Terminal_Lifecycle
begin

text \<open>
  What a new detection of an agent opens again after its reports were suppressed, what it
  keeps closed, and what the respawn of a terminal's shell leaves.
\<close>

section \<open>Lemmas\<close>

definition stale_in :: "terminal \<Rightarrow> string \<Rightarrow> stale_session \<Rightarrow> bool" where
  "stale_in t source stale = (\<exists>xs. hm_get (t_stale_sessions t) source = Some xs \<and> stale \<in> set xs)"

lemma remember_stale_in:
  "stale_in (remember_stale_session source label r t) source \<lparr>stale_agent_label = label, stale_session_ref = r\<rparr>"
  "stale_in t s x \<Longrightarrow> stale_in (remember_stale_session source label r t) s x"
  by (auto simp: stale_in_def remember_stale_session_def Let_def list_ex_iff)

definition remember_all :: "(string \<times> string \<times> agent_session_ref) list \<Rightarrow> terminal \<Rightarrow> terminal" where
  "remember_all xs t = fold (\<lambda>(source, label, r). remember_stale_session source label r) xs t"

lemma remember_all_simps [simp]:
  "remember_all [] t = t"
  "remember_all ((source, label, r) # xs) t = remember_all xs (remember_stale_session source label r t)"
  by (simp_all add: remember_all_def)

lemma remember_all_keeps: "stale_in t s x \<Longrightarrow> stale_in (remember_all xs t) s x"
  by (induction xs arbitrary: t) (auto simp: remember_stale_in)

lemma remember_all_in:
  "(source, label, r) \<in> set xs \<Longrightarrow>
   stale_in (remember_all xs t) source \<lparr>stale_agent_label = label, stale_session_ref = r\<rparr>"
proof (induction xs arbitrary: t)
  case (Cons x xs)
  show ?case
  proof (cases "x = (source, label, r)")
    case True
    show ?thesis unfolding True remember_all_simps by (rule remember_all_keeps [OF remember_stale_in(1)])
  next
    case False
    then show ?thesis using Cons by (cases x) auto
  qed
qed simp

lemma remember_all_fields [simp]:
  "t_suppressed (remember_all xs t) = t_suppressed t"
  "t_hook_report_sequences (remember_all xs t) = t_hook_report_sequences t"
  "t_hook_authority (remember_all xs t) = t_hook_authority t"
  "t_detected_agent (remember_all xs t) = t_detected_agent t"
  by (induction xs arbitrary: t) auto

lemma clear_suppression_redetected:
  assumes "maps_ok t" "prev \<noteq> Some a"
  shows "hm_get (t_suppressed (clear_suppression_for_detected_agent prev (Some a) t)) source = Some susp \<Longrightarrow>
      parse_agent_label (sup_agent_label susp) \<noteq> Some a"
    and "full_lifecycle_hook_authority source (agent_label a) \<Longrightarrow>
      hm_get (t_hook_report_sequences (clear_suppression_for_detected_agent prev (Some a) t)) source = None"
    and "hm_get (t_suppressed t) source = Some susp \<Longrightarrow> parse_agent_label (sup_agent_label susp) = Some a \<Longrightarrow>
      sup_session_ref susp = Some r \<Longrightarrow>
      stale_in (clear_suppression_for_detected_agent prev (Some a) t) source
        \<lparr>stale_agent_label = sup_agent_label susp, stale_session_ref = r\<rparr>"
    and "t_hook_authority (clear_suppression_for_detected_agent prev (Some a) t) = t_hook_authority t"
proof -
  let ?stale = "List.map_filter (stale_of_suppressed a) (t_suppressed t)"
  let ?t1 = "t\<lparr>t_suppressed := hm_retain (\<lambda>_ susp. parse_agent_label (sup_agent_label susp) \<noteq> Some a) (t_suppressed t)\<rparr>"
  let ?t2 = "remember_all ?stale ?t1"
  have eq: "clear_suppression_for_detected_agent prev (Some a) t =
      ?t2\<lparr>t_hook_report_sequences := hm_retain (\<lambda>source _. \<not> full_lifecycle_hook_authority source (agent_label a))
        (t_hook_report_sequences ?t2)\<rparr>"
    using assms(2) by (simp add: clear_suppression_for_detected_agent_def remember_all_def Let_def)
  have ok: "hm_ok (t_suppressed t)" "hm_ok (t_hook_report_sequences t)" using assms(1) by (simp_all add: maps_ok_def)
  show "parse_agent_label (sup_agent_label susp) \<noteq> Some a"
    if "hm_get (t_suppressed (clear_suppression_for_detected_agent prev (Some a) t)) source = Some susp"
    using that ok by (auto simp: eq hm.get_retain split: option.splits if_splits)
  show "hm_get (t_hook_report_sequences (clear_suppression_for_detected_agent prev (Some a) t)) source = None"
    if "full_lifecycle_hook_authority source (agent_label a)"
    using that ok by (auto simp: eq hm.get_retain split: option.splits)
  show "stale_in (clear_suppression_for_detected_agent prev (Some a) t) source
        \<lparr>stale_agent_label = sup_agent_label susp, stale_session_ref = r\<rparr>"
    if s: "hm_get (t_suppressed t) source = Some susp" "parse_agent_label (sup_agent_label susp) = Some a"
      "sup_session_ref susp = Some r"
  proof -
    have "(source, susp) \<in> set (t_suppressed t)" using s(1) by (simp add: hm_get_def map_of_SomeD)
    then have "(source, sup_agent_label susp, r) \<in> set ?stale"
      using s(2, 3) by (force simp: map_filter_def stale_of_suppressed_def)
    from remember_all_in [OF this, of ?t1] show ?thesis by (simp add: eq stale_in_def)
  qed
  show "t_hook_authority (clear_suppression_for_detected_agent prev (Some a) t) = t_hook_authority t"
    by (simp add: eq)
qed

lemma stale_matches:
  "stale_in t source \<lparr>stale_agent_label = label, stale_session_ref = r\<rparr> \<Longrightarrow>
   full_lifecycle_hook_authority source label \<Longrightarrow> report_matches_stale_session t source label (Some r)"
  by (force simp: stale_in_def report_matches_stale_session_def list_ex_iff)

lemma set_detected_accepted:
  "\<not> should_ignore_detected_state_under_full_lifecycle_hook t agent False \<Longrightarrow>
   \<not> detected_state_observed_before_release_suppression t agent now \<Longrightarrow>
   set_detected_state_with_screen_signals_at agent st blocker False now clock t =
   finish (observe_before t now) (current_session_identity_for_persistence t) now
     (drop_displaced_authority (t_detected_agent t) agent now clock
       (note_fallback agent st blocker False now t))"
  by (simp add: set_detected_state_with_screen_signals_at_def Let_def drop_exited_session_def
      drop_exited_authority_def)

text \<open>What a displaced authority leaves suppressed is another agent's.\<close>

lemma drop_displaced_suppressed:
  assumes "hm_get (t_suppressed (drop_displaced_authority prev (Some a) now clock t)) source = Some susp"
    and "prev \<noteq> Some a"
  shows "hm_get (t_suppressed t) source = Some susp \<or> parse_agent_label (sup_agent_label susp) \<noteq> Some a"
  using assms
  by (auto simp: drop_displaced_authority_def suppress_current_full_lifecycle_hook_authority_def
      suppress_with_session_ref_def hook_authority_conflicts_with_detected_agent_def hook_agent_def
      is_some_and_def split: option.splits if_splits)

lemma drop_displaced_fields [simp]:
  "t_hook_report_sequences (drop_displaced_authority prev agent now clock t) = t_hook_report_sequences t"
  "t_stale_sessions (drop_displaced_authority prev agent now clock t) = t_stale_sessions t"
  "t_state (drop_displaced_authority prev agent now clock t) = t_state t"
  by (simp_all add: drop_displaced_authority_def)

section \<open>Properties\<close>

text \<open>C5: When an agent is detected that was not the detected one, its reports are no longer
  suppressed and its full-lifecycle source may start a new numbering; but a report that
  names the session it was suppressed with stays refused.\<close>

theorem redetection_reopens:
  assumes "terminal_reachable t" and "t_detected_agent t \<noteq> Some a"
    and "\<not> should_ignore_detected_state_under_full_lifecycle_hook t (Some a) False"
    and "\<not> detected_state_observed_before_release_suppression t (Some a) now"
    and "set_detected_state_with_screen_signals_at (Some a) st blocker False now clock t = (t', m)"
  shows "(parse_agent_label label = Some a \<longrightarrow> \<not> report_is_suppressed t' source label
      session_ref) \<and>
    (full_lifecycle_hook_authority source (agent_label a) \<longrightarrow> hm_get
      (t_hook_report_sequences t') source = None) \<and>
    (hm_get (t_suppressed t) source = Some susp \<longrightarrow> parse_agent_label (sup_agent_label
      susp) = Some a \<longrightarrow> sup_session_ref susp = Some r \<longrightarrow>
      set_hook_authority_at source (sup_agent_label susp) st' message (Some r) seq now' clock' t' =
      (t', None))"
proof (intro conjI impI)
  have inv: "maps_ok t" "suppressions_ok t"
    using reachable_terminal_inv [OF assms(1)] by (simp_all add: terminal_inv_def tables_ok_def)
  let ?c = "clear_suppression_for_detected_agent (t_detected_agent t) (Some a) (t\<lparr>t_detected_agent := Some a\<rparr>)"
  have "maps_ok (t\<lparr>t_detected_agent := Some a\<rparr>)" using inv by simp
  note c = clear_suppression_redetected [OF this assms(2)]
  define n where "n = note_fallback (Some a) st blocker False now t"
  have n: "t_suppressed n = t_suppressed ?c" "t_hook_report_sequences n = t_hook_report_sequences ?c"
    "t_stale_sessions n = t_stale_sessions ?c" "t_state n = t_state ?c"
    by (simp_all add: n_def note_fallback_def Let_def)
  have "t_state ?c = t_state t" using inv clear_suppression_ok(3) [of "t\<lparr>t_detected_agent := Some a\<rparr>"] by simp
  then have t': "t' = settled (drop_displaced_authority (t_detected_agent t) (Some a) now clock n)"
    using assms(5) n(4) finish_settled [of "observe_before t now"]
    unfolding set_detected_accepted [OF assms(3, 4)] n_def [symmetric]
    by (metis bf_state_observe drop_displaced_fields(3) fst_conv)
  show "\<not> report_is_suppressed t' source label session_ref" if "parse_agent_label label = Some a"
  proof (rule notI)
    assume "report_is_suppressed t' source label session_ref"
    then obtain susp where susp: "hm_get (t_suppressed t') source = Some susp" "sup_agent_label susp = label"
      by (auto simp: report_is_suppressed_def is_some_and_def split: option.splits if_splits)
    then have "hm_get (t_suppressed ?c) source = Some susp"
      using drop_displaced_suppressed [OF _ assms(2)] that by (fastforce simp: t' n)
    then show False using c(1) susp(2) that by blast
  qed
  show "hm_get (t_hook_report_sequences t') source = None"
    if "full_lifecycle_hook_authority source (agent_label a)"
    using c(2) [OF that] by (simp add: t' n)
  show "set_hook_authority_at source (sup_agent_label susp) st' message (Some r) seq now' clock' t' = (t', None)"
    if s: "hm_get (t_suppressed t) source = Some susp" "parse_agent_label (sup_agent_label susp) = Some a"
      "sup_session_ref susp = Some r"
  proof -
    have "stale_in t' source \<lparr>stale_agent_label = sup_agent_label susp, stale_session_ref = r\<rparr>"
      using c(3) [of source susp r] s by (simp add: t' n stale_in_def)
    moreover have "full_lifecycle_hook_authority source (sup_agent_label susp)"
      using inv(2) s(1) by (auto simp: suppressions_ok_def)
    ultimately have "report_matches_stale_session t' source (sup_agent_label susp) (Some r)"
      by (rule stale_matches)
    then show ?thesis by (simp add: set_hook_authority_at_def)
  qed
qed

definition released_terminal :: terminal where
  "released_terminal = fst (release_agent_with_mutation ''herdr:pi'' ''pi'' (Some 6) 20 21 sample_terminal)"

lemma released_reachable: "terminal_reachable released_terminal"
  unfolding released_terminal_def by (rule terminal_reachable.step [OF sample_reachable terminal_step.release])

theorem redetection_reopens_witness:
  "hm_get (t_hook_report_sequences
     (fst (set_detected_state_with_screen_signals_at (Some Pi) Idle False False 30 31 released_terminal)))
     ''herdr:pi'' = None"
proof -
  have c: "t_detected_agent released_terminal \<noteq> Some Pi"
    "\<not> should_ignore_detected_state_under_full_lifecycle_hook released_terminal (Some Pi) False"
    "\<not> detected_state_observed_before_release_suppression released_terminal (Some Pi) 30"
    by code_simp+
  have "full_lifecycle_hook_authority ''herdr:pi'' (agent_label Pi)"
    by (simp add: full_lifecycle_hook_authority_def)
  from redetection_reopens [OF released_reachable c, THEN conjunct2, THEN conjunct1, rule_format, OF _ this, of Idle False 31] show ?thesis
    by (metis prod.collapse)
qed

text \<open>After a respawn the terminal is a plain shell's: no agent, no authority, no session,
  no agent name, the unknown state, nothing suppressed and nothing presented; its identity,
  directory, title, manual label and report numbers are kept.\<close>

lemma respawn_forgets_agent:
  "let t' = clear_agent_runtime_identity_after_respawn t in
   \<not> is_agent_terminal t' \<and> t_state t' = Unknown \<and> derived_state t' = Unknown \<and>
   effective_known_agent t' = None \<and> current_session_identity_for_persistence t' = None \<and>
   \<not> t_agent_inactive t' \<and> \<not> report_is_suppressed t' source label session_ref \<and>
   border_label t' True now = t_manual_label t \<and>
   t_id t' = t_id t \<and> t_cwd t' = t_cwd t \<and> t_terminal_title t' = t_terminal_title t \<and>
   t_hook_report_sequences t' = t_hook_report_sequences t"
proof -
  have "or_else x None = x" for x :: "string option" by (cases x) simp_all
  then show ?thesis
    by (simp add: clear_agent_runtime_identity_after_respawn_def Let_def set_agent_inactive_def
        clear_agent_name_def is_agent_terminal_def effective_agent_label_def effective_known_agent_def
        derived_state_defs current_session_identity_for_persistence_def report_is_suppressed_def
        border_label_def effective_presentation_def effective_presentation_with_ttl_def
        newest_metadata_title_def newest_metadata_display_agent_def valid_agent_metadata_def hm_values_def)
qed

end
