(* ===== verification/Terminal_Display.thy ===== *)
theory Terminal_Display
  imports Terminal_Properties
begin

text \<open>
  What a terminal displays of its agent: titles, and the metadata that integrations report.
  The flag that an expiry is still to be announced does not show; \<open>meta_view\<close> is the
  metadata without it.
\<close>

section \<open>Metadata without its pending flag\<close>

definition unflagged :: "agent_metadata \<Rightarrow> agent_metadata" where
  "unflagged md = md\<lparr>md_expiry_event_pending := False\<rparr>"

definition meta_view :: "terminal \<Rightarrow> string \<Rightarrow> agent_metadata option" where
  "meta_view t source = map_option unflagged (hm_get (t_agent_metadata t) source)"

lemma unflagged_fields [simp]:
  "md_title (unflagged md) = md_title md" "md_title_reported_at (unflagged md) = md_title_reported_at md"
  "agent_metadata_expiry (unflagged md) = agent_metadata_expiry md"
  "agent_metadata_is_expired (unflagged md) now = agent_metadata_is_expired md now"
  "metadata_has_content (unflagged md) = metadata_has_content md"
  "agent_metadata_matches_guards t (unflagged md) = agent_metadata_matches_guards t md"
  "agent_metadata_is_valid t (unflagged md) now b = agent_metadata_is_valid t md now b"
  "unflagged (unflagged md) = unflagged md"
  "unflagged (md\<lparr>md_expiry_event_pending := x\<rparr>) = unflagged md"
  "unflagged (hide_expiry u md) = unflagged md"
  by (simp_all add: unflagged_def agent_metadata_expiry_def agent_metadata_is_expired_def
      metadata_has_content_def agent_metadata_matches_guards_def agent_metadata_is_valid_def hide_expiry_def)

lemma hm_get_map_values: "hm_get (map (\<lambda>(k, v). (k, f v)) m) k = map_option f (hm_get m k)"
  by (induction m) (auto simp: hm_get_def)

lemma meta_view_simps [simp]:
  "meta_view (settled t) = meta_view t"
  "meta_view (clear_expiry_pending_for_hidden_metadata t) = meta_view t"
  "meta_view (put_metadata source md t) = (meta_view t)(source := Some (unflagged md))"
  by (auto simp: meta_view_def settled_def clear_expiry_pending_for_hidden_metadata_def hm_get_map_values
      put_metadata_def fun_eq_iff option.map_comp comp_def)

lemma meta_view_remove:
  "hm_ok (t_agent_metadata t) \<Longrightarrow> meta_view (remove_metadata source t) = (meta_view t)(source := None)"
  by (auto simp: meta_view_def remove_metadata_def hm.get_remove fun_eq_iff)

lemma remove_metadata_fields [simp]:
  "hm_ok (t_agent_metadata t) \<Longrightarrow> hm_ok (t_agent_metadata (remove_metadata source t))"
  "t_hook_authority (remove_metadata source t) = t_hook_authority t"
  "t_detected_agent (remove_metadata source t) = t_detected_agent t"
  "t_hook_authority (put_metadata source md t) = t_hook_authority t"
  "t_detected_agent (put_metadata source md t) = t_detected_agent t"
  by (simp_all add: remove_metadata_def put_metadata_def)

lemma meta_view_fold_remove:
  "hm_ok (t_agent_metadata t) \<Longrightarrow>
   meta_view (fold remove_metadata sources t) = (\<lambda>k. if k \<in> set sources then None else meta_view t k)"
  by (induction sources arbitrary: t) (auto simp: meta_view_remove fun_eq_iff)

lemma in_map_filter: "y \<in> set (List.map_filter f xs) \<longleftrightarrow> (\<exists>x \<in> set xs. f x = Some y)"
  by (induction xs) (auto simp: map_filter_simps split: option.split)

lemma recomputed_fields [simp]:
  "t_hook_authority (clear_expiry_pending_for_hidden_metadata t) = t_hook_authority t"
  "t_detected_agent (clear_expiry_pending_for_hidden_metadata t) = t_detected_agent t"
  "hm_ok (t_agent_metadata (clear_expiry_pending_for_hidden_metadata t)) = hm_ok (t_agent_metadata t)"
  "hm_ok (t_agent_metadata (settled t)) = hm_ok (t_agent_metadata t)"
  by (simp_all add: clear_expiry_pending_for_hidden_metadata_def settled_def hm_ok_def case_prod_beta comp_def)

lemma newest_title_unique:
  assumes ok: "hm_ok (t_agent_metadata t)" and md: "meta_view t source = Some md" "md_title md = Some title"
    and valid: "agent_metadata_is_valid t md now enforce"
    and newest: "\<And>source' md'. source' \<noteq> source \<Longrightarrow> meta_view t source' = Some md' \<Longrightarrow>
      md_title_reported_at md' < md_title_reported_at md"
  shows "newest_metadata_title t now enforce = Some title"
proof -
  let ?xs = "filter (\<lambda>md. md_title md \<noteq> None) (valid_agent_metadata t now enforce)"
  obtain md0 where md0: "hm_get (t_agent_metadata t) source = Some md0" "md = unflagged md0"
    using md(1) by (auto simp: meta_view_def)
  then have in_xs: "md0 \<in> set ?xs"
    using md(2) valid ok by (auto simp: valid_agent_metadata_def hm_values_iff)
  then have "?xs \<noteq> []" by (metis empty_iff list.set(1))
  then obtain y where y: "max_by_key md_title_reported_at ?xs = Some y"
    by (cases "max_by_key md_title_reported_at ?xs") (simp_all only: max_by_key_None)
  then have y_max: "y \<in> set ?xs" "md_title_reported_at md0 \<le> md_title_reported_at y"
    using max_by_key_Some [OF y] in_xs by auto
  then obtain k where k: "hm_get (t_agent_metadata t) k = Some y"
    using ok by (auto simp: valid_agent_metadata_def hm_values_iff)
  then have "meta_view t k = Some (unflagged y)" by (simp add: meta_view_def)
  then have "k = source" using newest [of k "unflagged y"] y_max(2) md0(2) by fastforce
  then have "md_title y = Some title" using k md0 md(2) by simp
  then show ?thesis using y by (simp add: newest_metadata_title_def)
qed

lemma set_agent_metadata_view:
  assumes "hm_ok (t_agent_metadata t)" and "set_agent_metadata report now t = (t', Some m)"
    and "\<not> rep_clear_title report" "\<not> rep_clear_display_agent report" "\<not> rep_clear_state_labels report"
  shows "meta_view t' = (meta_view t)(rep_source report := Some (unflagged (replacement_metadata report now)))"
    "t_hook_authority t' = t_hook_authority t" "t_detected_agent t' = t_detected_agent t"
    "hm_ok (t_agent_metadata t')"
proof -
  let ?src = "rep_source report"
  let ?md = "replacement_metadata report now"
  obtain t0 r where a: "accept_metadata_report t ?src (rep_seq report) False = (t0, r)" by fastforce
  have t0: "t_agent_metadata t0 = t_agent_metadata t" "t_hook_authority t0 = t_hook_authority t"
    "t_detected_agent t0 = t_detected_agent t"
    using a by (auto simp: accept_metadata_report_def Let_def split: option.splits if_splits)
  note ok = assms(1)
  define t1 where "t1 = drop_expired_entry ?src now t0"
  define t3 where "t3 = store_metadata report ?md t1"
  have upd: "updated_metadata report now x = ?md" for x using assms(3-5) by (simp add: updated_metadata_def)
  have "fst (recompute_effective_state (observe_before t1 now) now t3) = settled t3"
    by (rule recompute_settled) (simp add: t3_def)
  then obtain c where rec: "recompute_effective_state (observe_before t1 now) now t3 = (settled t3, c)"
    by (metis prod.collapse)
  have t': "t' = settled t3 \<or> t' = clear_expiry_pending_for_hidden_metadata (settled t3)"
    using assms(2) unfolding set_agent_metadata_def a Let_def prod.case upd t1_def [symmetric] t3_def [symmetric] rec
    by (auto split: if_splits)
  have t1: "meta_view t1 k = meta_view t k" if "k \<noteq> ?src" for k
    using that ok t0 by (simp add: t1_def drop_expired_entry_def meta_view_remove) (simp add: meta_view_def)
  have t1': "hm_ok (t_agent_metadata t1)" "t_hook_authority t1 = t_hook_authority t"
    "t_detected_agent t1 = t_detected_agent t"
    using ok t0 by (simp_all add: t1_def drop_expired_entry_def)
  have t3: "meta_view t3 = (meta_view t1)(?src := Some (unflagged ?md))" "hm_ok (t_agent_metadata t3)"
    "t_hook_authority t3 = t_hook_authority t" "t_detected_agent t3 = t_detected_agent t"
    using t1' by (simp_all add: t3_def store_metadata_def Let_def, simp add: put_metadata_def)
  have fields: "meta_view t' = meta_view t3" "t_hook_authority t' = t_hook_authority t"
    "t_detected_agent t' = t_detected_agent t" "hm_ok (t_agent_metadata t')"
    using t' t3 by (elim disjE; simp)+
  show "meta_view t' = (meta_view t)(?src := Some (unflagged ?md))"
    using t1 by (auto simp: fields t3 fun_eq_iff)
  show "t_hook_authority t' = t_hook_authority t" "t_detected_agent t' = t_detected_agent t"
    "hm_ok (t_agent_metadata t')" by (rule fields)+
qed

section \<open>Properties\<close>


definition sample_report :: agent_metadata_report where
  "sample_report = \<lparr>rep_source = ''herdr:pi'', rep_agent_label = Some ''pi'', rep_applies_to_source = None,
     rep_title = Some ''build'', rep_display_agent = None, rep_state_labels = [], rep_clear_title = False,
     rep_clear_display_agent = False, rep_clear_state_labels = False, rep_ttl = Some 100, rep_seq = Some 1\<rparr>"


text \<open>At an expiry exactly the metadata whose deadline has come is dropped, and the rest is
  kept; the expiry is announced when a deadline not before the scheduled one has come.\<close>

lemma expiry_correct:
  assumes "terminal_reachable t" and "expire_agent_metadata_at scheduled now t = (t', r)"
  shows "(meta_view t' source = (case meta_view t source of None \<Rightarrow> None | Some md
      \<Rightarrow> if agent_metadata_is_expired md now then None else Some md)) \<and>
    (r \<noteq> None \<longleftrightarrow> (\<exists>source md deadline. hm_get (t_agent_metadata t)
      source = Some md \<and> agent_metadata_expiry md = Some deadline \<and> scheduled \<le>
      deadline \<and> deadline \<le> now))"
proof (intro conjI impI)
  have ok: "hm_ok (t_agent_metadata t)"
    using reachable_terminal_inv [OF assms(1)] by (simp add: terminal_inv_def tables_ok_def maps_ok_def)
  define due where "due = List.map_filter (due_source now) (t_agent_metadata t)"
  define expired where "expired = filter (\<lambda>(_, deadline). scheduled \<le> deadline) due"
  define stale where "stale = filter (Not \<circ> (\<lambda>(_, deadline). scheduled \<le> deadline)) due"
  have due: "(k, d) \<in> set due \<longleftrightarrow>
      (\<exists>md. hm_get (t_agent_metadata t) k = Some md \<and> agent_metadata_expiry md = Some d \<and> d \<le> now)" for k d
    using ok by (auto simp: due_def in_map_filter due_source_def hm_get_def hm_ok_def bind_eq_Some_conv
        split: if_splits) (metis fst_conv snd_conv)
  define t1 where "t1 = fold remove_metadata (map fst stale) t"
  define t2 where "t2 = fold remove_metadata (map fst expired) t1"
  define previous where "previous = \<lparr>bf_agent_label = effective_agent_label t1,
      bf_known_agent = effective_known_agent t1, bf_state = t_state t1,
      bf_presentation = effective_presentation_ignoring_ttl t1 (t_state t1) now\<rparr>"
  have "fst (recompute_effective_state previous now t2) = settled t2"
    by (rule recompute_settled) (simp add: previous_def t2_def)
  then have result: "if expired = [] then t' = t1 \<and> r = None else t' = settled t2 \<and> r \<noteq> None"
    using assms(2) unfolding expire_agent_metadata_at_def Let_def due_def [symmetric]
    by (auto simp: partition_filter_conv case_prod_beta expired_def stale_def t1_def t2_def previous_def)
  have ok1: "hm_ok (t_agent_metadata t1)"
    unfolding t1_def using ok by (induction stale arbitrary: t) auto
  have split: "set stale \<union> set expired = set due" by (auto simp: stale_def expired_def)
  have "meta_view t' = (\<lambda>k. if k \<in> fst ` set due then None else meta_view t k)"
  proof (cases "expired = []")
    case True
    then show ?thesis using result split ok by (simp add: t1_def meta_view_fold_remove)
  next
    case False
    then have "meta_view t' = meta_view t2" using result by simp
    also have "\<dots> = (\<lambda>k. if k \<in> fst ` set due then None else meta_view t k)"
      unfolding t2_def using ok ok1 split
      by (auto simp: meta_view_fold_remove t1_def fun_eq_iff)
    finally show ?thesis .
  qed
  moreover have "source \<in> fst ` set due \<longleftrightarrow>
      (\<exists>md. meta_view t source = Some md \<and> agent_metadata_is_expired md now)"
  proof -
    have "source \<in> fst ` set due \<longleftrightarrow> (\<exists>d. (source, d) \<in> set due)" by force
    also have "\<dots> \<longleftrightarrow> (\<exists>md. hm_get (t_agent_metadata t) source = Some md \<and> agent_metadata_is_expired md now)"
      by (auto simp: due agent_metadata_is_expired_def is_some_and_def split: option.splits)
    also have "\<dots> \<longleftrightarrow> (\<exists>md. meta_view t source = Some md \<and> agent_metadata_is_expired md now)"
      by (auto simp: meta_view_def)
    finally show ?thesis .
  qed
  ultimately show "meta_view t' source = (case meta_view t source of
      None \<Rightarrow> None | Some md \<Rightarrow> if agent_metadata_is_expired md now then None else Some md)"
    by (auto split: option.splits)
  have "expired \<noteq> [] \<longleftrightarrow> (\<exists>k d. (k, d) \<in> set due \<and> scheduled \<le> d)"
    by (auto simp: expired_def filter_empty_conv)
  then show "r \<noteq> None \<longleftrightarrow> (\<exists>source md deadline. hm_get (t_agent_metadata t) source = Some md \<and>
      agent_metadata_expiry md = Some deadline \<and> scheduled \<le> deadline \<and> deadline \<le> now)"
    using result by (auto simp: due split: if_splits)
qed

definition displaying_terminal :: terminal where
  "displaying_terminal = fst (set_agent_metadata sample_report 30 sample_terminal)"

text \<open>The displayed form of a title is never empty, has no white space at its ends, and
  setting a title that displays the same does not count as a change of the terminal.\<close>

lemma title_correct:
  shows "(stripped_terminal_title title = Some s \<longrightarrow> s \<noteq> [] \<and> \<not>
      scalar_is_whitespace (hd s) \<and> \<not> scalar_is_whitespace (last s)) \<and>
    (set_terminal_title new t = (t', c) \<longrightarrow> t_terminal_title t' = new \<and>
      (raw_changed c \<longleftrightarrow> t_terminal_title t \<noteq> new) \<and> (stripped_changed
      c \<longleftrightarrow> terminal_title_stripped t \<noteq> terminal_title_stripped t') \<and>
      t_revision t' = (if stripped_changed c then t_revision t + 1 else t_revision t))"
proof (rule conjI; rule impI)
  have trimmed: "scalars_trim x = [] \<or> \<not> scalar_is_whitespace (hd (scalars_trim x)) \<and>
      \<not> scalar_is_whitespace (last (scalars_trim x))" for x
  proof (cases "scalars_trim x = []")
    case False
    let ?d = "dropWhile scalar_is_whitespace x"
    have ne: "dropWhile scalar_is_whitespace (rev ?d) \<noteq> []" using False by (simp add: scalars_trim_def)
    have l: "\<not> scalar_is_whitespace (last (scalars_trim x))"
      using hd_dropWhile [OF ne] ne by (simp add: scalars_trim_def last_rev)
    obtain p where "rev ?d = p @ dropWhile scalar_is_whitespace (rev ?d)" by (metis takeWhile_dropWhile_id)
    then have pre: "?d = scalars_trim x @ rev p" by (metis rev_append rev_rev_ident scalars_trim_def)
    then have "?d \<noteq> []" using False by auto
    then have "\<not> scalar_is_whitespace (hd ?d)" by (rule hd_dropWhile)
    then show ?thesis using pre False l by (metis hd_append2)
  qed simp
  show "s \<noteq> [] \<and> \<not> scalar_is_whitespace (hd s) \<and> \<not> scalar_is_whitespace (last s)"
    if some: "stripped_terminal_title title = Some s"
  proof -
    obtain f r where fr: "scalars_trim title = f # r" and s: "s = f # r \<or> s = scalars_trim r" and ne: "s \<noteq> []"
      using some by (cases "scalars_trim title") (auto simp: stripped_terminal_title_def Let_def split: if_splits)
    show ?thesis using s ne trimmed [of title, unfolded fr] trimmed [of r] by blast
  qed
  show "t_terminal_title t' = new \<and> (raw_changed c \<longleftrightarrow> t_terminal_title t \<noteq> new) \<and>
      (stripped_changed c \<longleftrightarrow> terminal_title_stripped t \<noteq> terminal_title_stripped t') \<and>
      t_revision t' = (if stripped_changed c then t_revision t + 1 else t_revision t)"
    if "set_terminal_title new t = (t', c)"
  proof (cases "t_terminal_title t = new")
    case True
    then have "t' = t" "c = \<lparr>raw_changed = False, stripped_changed = False\<rparr>"
      using that unfolding set_terminal_title_def if_P [OF True] by (simp_all only: prod.inject)
    then show ?thesis using True by simp
  next
    case False
    define u where "u = t\<lparr>t_terminal_title := new\<rparr>"
    have u: "t_terminal_title u = new" "t_revision u = t_revision t" by (simp_all add: u_def)
    let ?ch = "terminal_title_stripped t \<noteq> terminal_title_stripped u"
    have t': "t' = (if ?ch then u\<lparr>t_revision := t_revision u + 1\<rparr> else u)"
      "c = \<lparr>raw_changed = True, stripped_changed = ?ch\<rparr>"
      using that False by (simp_all add: set_terminal_title_def u_def [symmetric] Let_def)
    then have "terminal_title_stripped t' = terminal_title_stripped u" by (simp add: terminal_title_stripped_def)
    then show ?thesis using False u t' by simp
  qed
qed

end
