(* ===== verification/Agent_Publish.thy ===== *)
theory Agent_Publish
  imports Detect
begin

text \<open>
  \<open>src/src/pane/agent_detection.rs\<close>: what the detection task of a pane publishes.
  A change from working to a plain idle screen is held back until three further ticks or
  700 ms have confirmed it; every other change is published at once, an unchanged screen is
  not published, and an idle pane whose screen has not changed is not even read. The
  screen manifests (\<open>manifest::detect_with_osc\<close>) are an argument of the operations that
  consult them.
\<close>

section \<open>Data\<close>

record agent_detection =
  ad_state :: agent_state
  ad_skip_state_update :: bool
  ad_visible_idle :: bool
  ad_visible_blocker :: bool
  ad_visible_working :: bool

record publish_state =
  ps_state :: agent_state
  ps_visible_idle :: bool
  ps_visible_blocker :: bool
  ps_visible_working :: bool

record pending_idle =
  pi_started_at :: "instant option"
  pi_confirmations :: u8

definition milliseconds :: "nat \<Rightarrow> duration" where
  "milliseconds n = n * 10 ^ 6"

definition AGENT_PENDING_IDLE_RECHECK :: duration where
  "AGENT_PENDING_IDLE_RECHECK = milliseconds 100"

definition AGENT_PENDING_IDLE_CONFIRMATIONS :: u8 where
  "AGENT_PENDING_IDLE_CONFIRMATIONS = 3"

definition AGENT_PENDING_IDLE_CAP :: duration where
  "AGENT_PENDING_IDLE_CAP = milliseconds 700"

definition STABLE_VISIBLE_SIGNAL_REFRESH :: duration where
  "STABLE_VISIBLE_SIGNAL_REFRESH = milliseconds 800"

definition AGENT_STARTUP_GRACE_WINDOW :: duration where
  "AGENT_STARTUP_GRACE_WINDOW = milliseconds 3000"

section \<open>Holding back an idle screen\<close>

definition pending_idle_default :: pending_idle where
  "pending_idle_default = \<lparr>pi_started_at = None, pi_confirmations = 0\<rparr>"

definition pending_active :: "pending_idle \<Rightarrow> bool" where
  "pending_active p = (pi_started_at p \<noteq> None)"

definition pending_clear :: "pending_idle \<Rightarrow> pending_idle" where
  "pending_clear p = p\<lparr>pi_started_at := None, pi_confirmations := 0\<rparr>"

definition working_to_plain_idle :: "publish_state \<Rightarrow> publish_state \<Rightarrow> bool \<Rightarrow> bool \<Rightarrow> bool" where
  "working_to_plain_idle previous next_publish agent_changed process_exited =
     (ps_state previous = Working \<and> ps_state next_publish = Idle
      \<and> \<not> ps_visible_idle next_publish \<and> \<not> ps_visible_blocker next_publish
      \<and> \<not> agent_changed \<and> \<not> process_exited)"

definition should_hold_working_to_idle ::
  "publish_state \<Rightarrow> publish_state \<Rightarrow> bool \<Rightarrow> bool \<Rightarrow> instant \<Rightarrow> pending_idle \<Rightarrow> pending_idle \<times> bool" where
  "should_hold_working_to_idle previous next_publish agent_changed process_exited now p =
     (if \<not> working_to_plain_idle previous next_publish agent_changed process_exited
      then (pending_clear p, False)
      else
        (case pi_started_at p of
           None \<Rightarrow> (p\<lparr>pi_started_at := Some now, pi_confirmations := 0\<rparr>, True)
         | Some started_at \<Rightarrow>
             if AGENT_PENDING_IDLE_CAP \<le> duration_since now started_at then (pending_clear p, False)
             else
               (let p' = p\<lparr>pi_confirmations := sat_add (pi_confirmations p) 1\<rparr>
                in if AGENT_PENDING_IDLE_CONFIRMATIONS \<le> pi_confirmations p'
                   then (pending_clear p', False) else (p', True))))"

section \<open>Reading the screen\<close>

record screen_read_input =
  sr_state :: agent_state
  sr_agent :: "agent option"
  sr_pending_idle_active :: bool
  sr_agent_changed :: bool
  sr_process_exited :: bool
  sr_current_seq :: "u64 option"
  sr_last_scan_seq :: "u64 option"

definition should_skip_idle_screen_scan :: "screen_read_input \<Rightarrow> bool" where
  "should_skip_idle_screen_scan input =
     (if sr_state input \<noteq> Idle \<or> sr_agent input = None \<or> sr_pending_idle_active input
         \<or> sr_agent_changed input \<or> sr_process_exited input
      then False
      else sr_current_seq input \<noteq> None \<and> sr_last_scan_seq input = sr_current_seq input)"

datatype screen_read_decision = ReadScreen | SkipScreen

definition decide_detection_screen_read :: "screen_read_input \<Rightarrow> screen_read_decision" where
  "decide_detection_screen_read input =
     (if should_skip_idle_screen_scan input then SkipScreen else ReadScreen)"

text \<open>\<open>AtomicU64::fetch_add\<close> wraps around.\<close>

definition mark_detection_content_changed :: "u64 \<Rightarrow> u64" where
  "mark_detection_content_changed content_seq = content_seq + 1"

definition observe_detection_content_change :: "u8 list \<Rightarrow> u64 \<Rightarrow> u64" where
  "observe_detection_content_change bytes content_seq = (if bytes \<noteq> [] then content_seq + 1 else content_seq)"

section \<open>Deciding what to publish\<close>

definition should_publish_detection_update ::
  "publish_state \<Rightarrow> publish_state \<Rightarrow> bool \<Rightarrow> bool \<Rightarrow> bool \<Rightarrow> bool" where
  "should_publish_detection_update previous next_publish agent_changed process_exited refresh_due =
     (ps_state next_publish \<noteq> ps_state previous
      \<or> ps_visible_idle next_publish \<noteq> ps_visible_idle previous
      \<or> ps_visible_blocker next_publish \<noteq> ps_visible_blocker previous
      \<or> ps_visible_working next_publish \<noteq> ps_visible_working previous
      \<or> agent_changed \<or> process_exited
      \<or> (refresh_due \<and> ps_visible_blocker next_publish \<and> ps_visible_blocker previous))"

definition stable_visible_signal_refresh_due ::
  "publish_state \<Rightarrow> publish_state \<Rightarrow> instant option \<Rightarrow> instant \<Rightarrow> bool" where
  "stable_visible_signal_refresh_due previous next_publish last_refresh now =
     ((ps_visible_blocker next_publish \<and> ps_visible_blocker previous)
      \<and> is_none_or last_refresh (\<lambda>last_refresh.
          STABLE_VISIBLE_SIGNAL_REFRESH \<le> duration_since now last_refresh))"

datatype transition_decision = KeepPublished | PublishNext

definition decide_detection_transition ::
  "publish_state \<Rightarrow> publish_state \<Rightarrow> bool \<Rightarrow> bool \<Rightarrow> bool \<Rightarrow> instant \<Rightarrow> pending_idle \<Rightarrow>
   pending_idle \<times> transition_decision" where
  "decide_detection_transition previous next_publish agent_changed process_exited refresh_due now p =
     (let (p', hold) = should_hold_working_to_idle previous next_publish agent_changed process_exited now p
      in if hold then (p', KeepPublished)
         else if should_publish_detection_update previous next_publish agent_changed process_exited refresh_due
         then (p', PublishNext) else (p', KeepPublished))"

text \<open>\<open>AgentDetectionPublishUpdate\<close> of \<open>pane.rs\<close> has the same fields as the variant
  \<open>Publish\<close>; they share one record.\<close>

record publish_update =
  pu_state :: agent_state
  pu_visible_idle :: bool
  pu_visible_blocker :: bool
  pu_visible_working :: bool
  pu_process_exited :: bool

datatype publish_decision = NoPublish | Publish publish_update

record screen_publish_input =
  sp_current_state :: agent_state
  sp_last_visible_idle :: bool
  sp_last_visible_blocker :: bool
  sp_last_visible_working :: bool
  sp_last_signal_refresh :: "instant option"
  sp_screen_detection :: agent_detection
  sp_process_exited :: bool
  sp_agent_changed :: bool
  sp_now :: instant

definition stabilize_agent_detection :: "agent_detection \<Rightarrow> agent_state" where
  "stabilize_agent_detection detection = ad_state detection"

definition next_publish :: "screen_publish_input \<Rightarrow> publish_state" where
  "next_publish input =
     (let detection = sp_screen_detection input; new_state = stabilize_agent_detection detection in
      \<lparr>ps_state = new_state,
       ps_visible_idle = (ad_visible_idle detection \<and> new_state = Idle),
       ps_visible_blocker = (ad_visible_blocker detection \<and> new_state = Blocked),
       ps_visible_working = (ad_visible_working detection \<and> new_state = Working)\<rparr>)"

definition previous_publish :: "screen_publish_input \<Rightarrow> publish_state" where
  "previous_publish input =
     \<lparr>ps_state = sp_current_state input, ps_visible_idle = sp_last_visible_idle input,
      ps_visible_blocker = sp_last_visible_blocker input, ps_visible_working = sp_last_visible_working input\<rparr>"

definition screen_update :: "screen_publish_input \<Rightarrow> publish_update" where
  "screen_update input =
     \<lparr>pu_state = ps_state (next_publish input), pu_visible_idle = ps_visible_idle (next_publish input),
      pu_visible_blocker = ps_visible_blocker (next_publish input),
      pu_visible_working = ps_visible_working (next_publish input), pu_process_exited = sp_process_exited input\<rparr>"

definition decide_screen_detection_publish ::
  "screen_publish_input \<Rightarrow> pending_idle \<Rightarrow> pending_idle \<times> publish_decision" where
  "decide_screen_detection_publish input p =
     (let previous = previous_publish input; next_p = next_publish input;
          refresh_due = stable_visible_signal_refresh_due previous next_p (sp_last_signal_refresh input) (sp_now input);
          (p', decision) = decide_detection_transition previous next_p (sp_agent_changed input)
             (sp_process_exited input) refresh_due (sp_now input) p
      in (p', case decision of
           KeepPublished \<Rightarrow> NoPublish
         | PublishNext \<Rightarrow> Publish (screen_update input)))"

section \<open>The detection behind a tick\<close>

text \<open>\<open>manifest::detect_with_osc\<close> as a function of the agent, the screen, the OSC title and
  the OSC progress, and \<open>manifest::should_skip_state_update\<close> of the agent and the screen.\<close>

type_synonym screen_detector = "agent \<Rightarrow> string \<Rightarrow> string \<Rightarrow> string \<Rightarrow> agent_detection"
type_synonym viewer_test = "agent \<Rightarrow> string \<Rightarrow> bool"

definition detect_agent_with_osc ::
  "screen_detector \<Rightarrow> agent option \<Rightarrow> string \<Rightarrow> string \<Rightarrow> string \<Rightarrow> agent_detection" where
  "detect_agent_with_osc detect agent content osc_title osc_progress =
     (case agent of
        None \<Rightarrow> \<lparr>ad_state = Unknown, ad_skip_state_update = False, ad_visible_idle = False,
                 ad_visible_blocker = False, ad_visible_working = False\<rparr>
      | Some a \<Rightarrow> detect a content osc_title osc_progress)"

definition detect_agent :: "screen_detector \<Rightarrow> agent option \<Rightarrow> string \<Rightarrow> agent_detection" where
  "detect_agent detect agent content = detect_agent_with_osc detect agent content '''' ''''"

definition should_skip_state_update :: "viewer_test \<Rightarrow> agent option \<Rightarrow> string \<Rightarrow> bool" where
  "should_skip_state_update viewer agent content = is_some_and agent (\<lambda>a. viewer a content)"

definition detection_update_for_publish_with_osc ::
  "screen_detector \<Rightarrow> agent option \<Rightarrow> string \<Rightarrow> string \<Rightarrow> string \<Rightarrow> bool \<Rightarrow> agent_detection option" where
  "detection_update_for_publish_with_osc detect agent content osc_title osc_progress process_exited =
     (if process_exited then
        Some \<lparr>ad_state = Idle, ad_skip_state_update = False, ad_visible_idle = True,
              ad_visible_blocker = False, ad_visible_working = False\<rparr>
      else
        (let detection = detect_agent_with_osc detect agent content osc_title osc_progress
         in if \<not> ad_skip_state_update detection then Some detection else None))"

definition detection_update_for_publish ::
  "screen_detector \<Rightarrow> agent option \<Rightarrow> string \<Rightarrow> bool \<Rightarrow> agent_detection option" where
  "detection_update_for_publish detect agent content process_exited =
     detection_update_for_publish_with_osc detect agent content '''' '''' process_exited"

section \<open>Lemmas\<close>

lemmas publish_defs = should_publish_detection_update_def stable_visible_signal_refresh_due_def
  decide_detection_transition_def decide_screen_detection_publish_def next_publish_def
  previous_publish_def stabilize_agent_detection_def working_to_plain_idle_def

lemma pending_ops [simp]:
  "pi_started_at (pending_clear p) = None" "pi_confirmations (pending_clear p) = 0"
  "\<not> pending_active (pending_clear p)" "\<not> pending_active pending_idle_default"
  by (simp_all add: pending_clear_def pending_active_def pending_idle_default_def)

text \<open>A hold has fewer than three confirmations, and none when nothing is pending.\<close>

definition pending_ok :: "pending_idle \<Rightarrow> bool" where
  "pending_ok p = (pi_confirmations p < AGENT_PENDING_IDLE_CONFIRMATIONS \<and>
     (\<not> pending_active p \<longrightarrow> pi_confirmations p = 0))"

lemma pending_ok_initial [simp]: "pending_ok pending_idle_default" "pending_ok (pending_clear p)"
  by (simp_all add: pending_ok_def AGENT_PENDING_IDLE_CONFIRMATIONS_def pending_idle_default_def)

lemma pending_ok_hold: "pending_ok p \<Longrightarrow> pending_ok (fst (should_hold_working_to_idle pv nx ac pe now p))"
  by (auto simp: should_hold_working_to_idle_def pending_ok_def Let_def pending_active_def
      AGENT_PENDING_IDLE_CONFIRMATIONS_def split: option.splits)

text \<open>Something is pending after a call exactly when the call holds the screen back.\<close>

lemma hold_iff_pending:
  "should_hold_working_to_idle pv nx ac pe now p = (p', hold) \<Longrightarrow> pending_active p' \<longleftrightarrow> hold"
  by (auto simp: should_hold_working_to_idle_def Let_def pending_active_def split: option.splits if_splits)

lemma hold_only_plain_idle:
  "should_hold_working_to_idle pv nx ac pe now p = (p', True) \<Longrightarrow> working_to_plain_idle pv nx ac pe"
  by (auto simp: should_hold_working_to_idle_def split: if_splits)

text \<open>A decision about a screen: either it is held back, and the pane is shown working, or
  nothing is pending, and what is published is the screen.\<close>

lemma decide_screen_cases:
  assumes "decide_screen_detection_publish input p = (p', decision)"
  shows "pending_ok p \<Longrightarrow> pending_ok p'"
    and "pending_active p' \<Longrightarrow> sp_current_state input = Working \<and> decision = NoPublish
      \<and> working_to_plain_idle (previous_publish input) (next_publish input)
           (sp_agent_changed input) (sp_process_exited input)"
    and "decision \<noteq> NoPublish \<Longrightarrow> decision = Publish (screen_update input) \<and> \<not> pending_active p'"
proof -
  let ?h = "should_hold_working_to_idle (previous_publish input) (next_publish input)
      (sp_agent_changed input) (sp_process_exited input) (sp_now input) p"
  obtain q hold where h: "?h = (q, hold)"
    by fastforce
  have d: "p' = q" "hold \<Longrightarrow> decision = NoPublish"
      "decision = NoPublish \<or> decision = Publish (screen_update input)"
    using assms h by (auto simp: decide_screen_detection_publish_def decide_detection_transition_def Let_def
        split: if_splits)
  show "pending_ok p \<Longrightarrow> pending_ok p'"
    using pending_ok_hold [of p "previous_publish input" "next_publish input" "sp_agent_changed input"
        "sp_process_exited input" "sp_now input"] h d(1) by simp
  show "decision \<noteq> NoPublish \<Longrightarrow> decision = Publish (screen_update input) \<and> \<not> pending_active p'"
    using d hold_iff_pending [OF h] by blast
  show "sp_current_state input = Working \<and> decision = NoPublish
      \<and> working_to_plain_idle (previous_publish input) (next_publish input)
           (sp_agent_changed input) (sp_process_exited input)" if "pending_active p'"
  proof -
    have hold using that d(1) hold_iff_pending [OF h] by simp
    then have "working_to_plain_idle (previous_publish input) (next_publish input)
           (sp_agent_changed input) (sp_process_exited input)"
      using h hold_only_plain_idle [of _ _ _ _ _ p q] by simp
    then show ?thesis
      using d(2) [OF \<open>hold\<close>] by (simp add: working_to_plain_idle_def previous_publish_def)
  qed
qed

text \<open>An exit is published whatever is pending.\<close>

lemma decide_exited:
  "sp_process_exited input \<Longrightarrow>
   decide_screen_detection_publish input p = (pending_clear p, Publish (screen_update input))"
  by (simp add: decide_screen_detection_publish_def decide_detection_transition_def
      should_hold_working_to_idle_def working_to_plain_idle_def should_publish_detection_update_def Let_def)

lemma screen_update_signals:
  "pu_visible_idle (screen_update input) \<longrightarrow> pu_state (screen_update input) = Idle"
  "pu_visible_blocker (screen_update input) \<longrightarrow> pu_state (screen_update input) = Blocked"
  "pu_visible_working (screen_update input) \<longrightarrow> pu_state (screen_update input) = Working"
  "pu_process_exited (screen_update input) = sp_process_exited input"
  by (simp_all add: screen_update_def next_publish_def Let_def)

section \<open>The length of a hold\<close>

text \<open>The decisions of consecutive iterations; a held screen leaves the shown state alone.\<close>

fun publish_run :: "screen_publish_input list \<Rightarrow> pending_idle \<Rightarrow> publish_decision list" where
  "publish_run [] p = []"
| "publish_run (input # inputs) p =
     (let (p', decision) = decide_screen_detection_publish input p in decision # publish_run inputs p')"

definition plain_idle_screen :: "screen_publish_input \<Rightarrow> bool" where
  "plain_idle_screen input = working_to_plain_idle (previous_publish input) (next_publish input)
     (sp_agent_changed input) (sp_process_exited input)"

definition held :: "screen_publish_input list \<Rightarrow> pending_idle \<Rightarrow> nat" where
  "held inputs p = length (takeWhile (\<lambda>decision. decision = NoPublish) (publish_run inputs p))"

lemma plain_idle_published:
  assumes "plain_idle_screen input"
  shows "decide_screen_detection_publish input p =
    (let (p', hold) = should_hold_working_to_idle (previous_publish input) (next_publish input)
         (sp_agent_changed input) (sp_process_exited input) (sp_now input) p
     in (p', if hold then NoPublish else Publish (screen_update input)))"
  using assms
  by (auto simp: decide_screen_detection_publish_def decide_detection_transition_def plain_idle_screen_def
      working_to_plain_idle_def should_publish_detection_update_def Let_def split: prod.splits)

lemma plain_idle_first:
  "plain_idle_screen input \<Longrightarrow> pi_started_at p = None \<Longrightarrow>
   decide_screen_detection_publish input p =
     (p\<lparr>pi_started_at := Some (sp_now input), pi_confirmations := 0\<rparr>, NoPublish)"
  by (simp add: plain_idle_published) (simp add: plain_idle_screen_def should_hold_working_to_idle_def)

lemma plain_idle_next:
  "plain_idle_screen input \<Longrightarrow> pi_started_at p = Some s \<Longrightarrow> unat (pi_confirmations p) < 3 \<Longrightarrow>
   (\<exists>p'. decide_screen_detection_publish input p = (p', NoPublish) \<and> pi_started_at p' = Some s
      \<and> unat (pi_confirmations p') = Suc (unat (pi_confirmations p)) \<and> unat (pi_confirmations p') < 3
      \<and> sp_now input < s + AGENT_PENDING_IDLE_CAP) \<or>
   (\<exists>p'. decide_screen_detection_publish input p = (p', Publish (screen_update input)))"
  by (simp add: plain_idle_published)
    (auto simp: plain_idle_screen_def should_hold_working_to_idle_def Let_def duration_since_def
      AGENT_PENDING_IDLE_CONFIRMATIONS_def word_le_nat_alt unat_sat_add)

lemma held_pending:
  assumes "list_all plain_idle_screen inputs" "pi_started_at p = Some s" "unat (pi_confirmations p) < 3"
  shows "held inputs p + unat (pi_confirmations p) \<le> 2
    \<and> (\<forall>k < held inputs p. sp_now (inputs ! k) < s + AGENT_PENDING_IDLE_CAP)
    \<and> (held inputs p < length inputs \<longrightarrow>
        publish_run inputs p ! held inputs p = Publish (screen_update (inputs ! held inputs p)))"
  using assms
proof (induction inputs arbitrary: p)
  case Nil
  then show ?case by (simp add: held_def)
next
  case (Cons input inputs)
  from plain_idle_next [of input p s] Cons.prems
  consider p' where "decide_screen_detection_publish input p = (p', NoPublish)" "pi_started_at p' = Some s"
      "unat (pi_confirmations p') = Suc (unat (pi_confirmations p))" "unat (pi_confirmations p') < 3"
      "sp_now input < s + AGENT_PENDING_IDLE_CAP"
    | p' where "decide_screen_detection_publish input p = (p', Publish (screen_update input))"
    by auto
  then show ?case
  proof cases
    case (1 p')
    then have "held (input # inputs) p = Suc (held inputs p')"
      by (simp add: held_def)
    with Cons.IH [of p'] Cons.prems 1 show ?thesis
      by (auto simp: less_Suc_eq_0_disj)
  next
    case (2 p')
    then have "held (input # inputs) p = 0"
      by (simp add: held_def)
    with 2 Cons.prems show ?thesis by simp
  qed
qed

text \<open>C14: while the screen of a working agent shows a plain idle prompt, at most three
  iterations hold it back, all of them within 700 ms of the first, and the next iteration
  publishes the idle state.\<close>

theorem idle_hold_bounded:
  assumes "list_all plain_idle_screen inputs" and "\<not> pending_active p"
  shows "held inputs p \<le> 3
    \<and> (\<forall>k < held inputs p. sp_now (inputs ! k) < sp_now (inputs ! 0) + milliseconds 700)
    \<and> (held inputs p < length inputs \<longrightarrow>
        publish_run inputs p ! held inputs p = Publish (screen_update (inputs ! held inputs p))
        \<and> pu_state (screen_update (inputs ! held inputs p)) = Idle)"
proof (cases inputs)
  case Nil
  then show ?thesis by (simp add: held_def)
next
  case (Cons input rest)
  let ?p = "p\<lparr>pi_started_at := Some (sp_now input), pi_confirmations := 0\<rparr>"
  have first: "decide_screen_detection_publish input p = (?p, NoPublish)"
    using assms Cons by (simp add: plain_idle_first pending_active_def)
  then have h: "held inputs p = Suc (held rest ?p)"
    by (simp add: held_def Cons)
  have idle: "pu_state (screen_update (inputs ! held inputs p)) = Idle" if "held inputs p < length inputs"
    using assms(1) that by (simp add: list_all_length plain_idle_screen_def working_to_plain_idle_def screen_update_def)
  have "0 < milliseconds 700"
    by (simp add: milliseconds_def)
  with held_pending [of rest ?p "sp_now input"] assms(1) h first
  have "held inputs p \<le> 3 \<and> (\<forall>k < held inputs p. sp_now (inputs ! k) < sp_now (inputs ! 0) + milliseconds 700)
    \<and> (held inputs p < length inputs \<longrightarrow>
        publish_run inputs p ! held inputs p = Publish (screen_update (inputs ! held inputs p)))"
    by (auto simp: Cons less_Suc_eq_0_disj AGENT_PENDING_IDLE_CAP_def)
  with idle show ?thesis by blast
qed

text \<open>Five idle screens, 100 ms apart: three are held back and the fourth is published.\<close>

definition demo_idle_screen :: "nat \<Rightarrow> screen_publish_input" where
  "demo_idle_screen ms = \<lparr>sp_current_state = Working, sp_last_visible_idle = False,
     sp_last_visible_blocker = False, sp_last_visible_working = True, sp_last_signal_refresh = None,
     sp_screen_detection = \<lparr>ad_state = Idle, ad_skip_state_update = False, ad_visible_idle = False,
       ad_visible_blocker = False, ad_visible_working = False\<rparr>,
     sp_process_exited = False, sp_agent_changed = False, sp_now = milliseconds ms\<rparr>"

theorem idle_hold_bounded_witness:
  "held (map demo_idle_screen [0, 100, 200, 300, 400]) pending_idle_default = 3 \<and>
   publish_run (map demo_idle_screen [0, 100, 200, 300, 400]) pending_idle_default ! 3 =
     Publish (screen_update (demo_idle_screen 300))"
proof -
  have "list_all plain_idle_screen (map demo_idle_screen [0, 100, 200, 300, 400])"
    by (simp add: plain_idle_screen_def working_to_plain_idle_def demo_idle_screen_def previous_publish_def
        next_publish_def stabilize_agent_detection_def)
  from idle_hold_bounded [OF this, of pending_idle_default]
  have *: "held (map demo_idle_screen [0, 100, 200, 300, 400]) pending_idle_default <
        length (map demo_idle_screen [0, 100, 200, 300, 400]) \<longrightarrow>
      publish_run (map demo_idle_screen [0, 100, 200, 300, 400]) pending_idle_default !
        held (map demo_idle_screen [0, 100, 200, 300, 400]) pending_idle_default =
      Publish (screen_update (map demo_idle_screen [0, 100, 200, 300, 400] !
        held (map demo_idle_screen [0, 100, 200, 300, 400]) pending_idle_default))"
    by simp
  have demo: "plain_idle_screen (demo_idle_screen ms)" "sp_now (demo_idle_screen ms) = milliseconds ms" for ms
    by (simp_all add: plain_idle_screen_def working_to_plain_idle_def demo_idle_screen_def previous_publish_def
        next_publish_def stabilize_agent_detection_def)
  have idle: "decide_screen_detection_publish (demo_idle_screen ms) p =
      (let (p', hold) = should_hold_working_to_idle (previous_publish (demo_idle_screen ms))
           (next_publish (demo_idle_screen ms)) False False (milliseconds ms) p
       in (p', if hold then NoPublish else Publish (screen_update (demo_idle_screen ms))))" for ms p
    using plain_idle_published [OF demo(1), of ms p] by (simp add: demo_idle_screen_def)
  have wi: "working_to_plain_idle (previous_publish (demo_idle_screen ms)) (next_publish (demo_idle_screen ms))
      False False" for ms
    using demo(1) [of ms] by (simp add: plain_idle_screen_def demo_idle_screen_def)
  have first: "decide_screen_detection_publish (demo_idle_screen ms) \<lparr>pi_started_at = None, pi_confirmations = 0\<rparr> =
      (\<lparr>pi_started_at = Some (milliseconds ms), pi_confirmations = 0\<rparr>, NoPublish)" for ms
    by (simp add: idle should_hold_working_to_idle_def wi)
  have later: "decide_screen_detection_publish (demo_idle_screen ms) \<lparr>pi_started_at = Some s, pi_confirmations = c\<rparr> =
      (if 700000000 \<le> milliseconds ms - s \<or> 3 \<le> sat_add c 1
       then (\<lparr>pi_started_at = None, pi_confirmations = 0\<rparr>, Publish (screen_update (demo_idle_screen ms)))
       else (\<lparr>pi_started_at = Some s, pi_confirmations = sat_add c 1\<rparr>, NoPublish))" for ms s c
    by (simp add: idle should_hold_working_to_idle_def wi duration_since_def AGENT_PENDING_IDLE_CAP_def
        AGENT_PENDING_IDLE_CONFIRMATIONS_def milliseconds_def Let_def pending_clear_def)
  have "held (map demo_idle_screen [0, 100, 200, 300, 400]) pending_idle_default = 3"
    by (simp add: held_def pending_idle_default_def first later)
      (simp add: milliseconds_def sat_add_def first later word_le_nat_alt)
  with * show ?thesis
    by simp
qed

end
