(* ===== verification/Process_Probe.thy ===== *)
theory Process_Probe
  imports Agent_Publish
begin

text \<open>
  \<open>src/src/pane.rs\<close>, lines 150 to 600 and the end of the basic task: which agent runs in the
  foreground of a pane. An identified agent survives five failed probes, an exit to the pane's
  own shell is reported before the identity is dropped, a released agent is not acquired
  again for a second, and the foreground job is probed only when something can have changed.
  What the platform layer reads from the system (the process group, the jobs, the hint in a
  process' environment) are arguments.
\<close>

section \<open>Presence of an agent\<close>

record agent_presence =
  ap_current_agent :: "agent option"
  ap_consecutive_misses :: u8

definition AGENT_MISS_CONFIRMATION_ATTEMPTS :: u8 where
  "AGENT_MISS_CONFIRMATION_ATTEMPTS = 6"

definition presence_from_agent :: "agent option \<Rightarrow> agent_presence" where
  "presence_from_agent a = \<lparr>ap_current_agent = a, ap_consecutive_misses = 0\<rparr>"

definition clear_current_agent :: "agent_presence \<Rightarrow> agent_presence \<times> bool" where
  "clear_current_agent p =
     (if ap_current_agent p = None then (p\<lparr>ap_consecutive_misses := 0\<rparr>, False)
      else (p\<lparr>ap_current_agent := None, ap_consecutive_misses := 0\<rparr>, True))"

definition observe_process_probe :: "agent option \<Rightarrow> agent_presence \<Rightarrow> agent_presence \<times> bool" where
  "observe_process_probe identified p =
     (case identified of
        Some agent \<Rightarrow>
          (let p' = p\<lparr>ap_consecutive_misses := 0\<rparr>
           in if Some agent = ap_current_agent p' then (p', False)
              else (p'\<lparr>ap_current_agent := Some agent\<rparr>, True))
      | None \<Rightarrow>
          if ap_current_agent p = None then (p\<lparr>ap_consecutive_misses := 0\<rparr>, False)
          else
            (let p' = p\<lparr>ap_consecutive_misses := sat_add (ap_consecutive_misses p) 1\<rparr>
             in if ap_consecutive_misses p' < AGENT_MISS_CONFIRMATION_ATTEMPTS then (p', False)
                else (p'\<lparr>ap_current_agent := None, ap_consecutive_misses := 0\<rparr>, True)))"

datatype shell_agent_action = ObserveProbe | ReportProcessExit | ClearAgent

definition foreground_shell_agent_action ::
  "agent option \<Rightarrow> agent option \<Rightarrow> bool \<Rightarrow> bool \<Rightarrow> shell_agent_action" where
  "foreground_shell_agent_action previous_agent new_agent foreground_is_pane_shell process_exit_reported =
     (if previous_agent = None \<or> new_agent \<noteq> None then ObserveProbe
      else if process_exit_reported then ClearAgent
      else if foreground_is_pane_shell then ReportProcessExit
      else ObserveProbe)"

section \<open>Release of an agent\<close>

record pending_agent_release =
  pr_agent :: agent
  pr_until :: instant

definition RELEASE_REACQUIRE_SUPPRESSION :: duration where
  "RELEASE_REACQUIRE_SUPPRESSION = milliseconds 1000"

text \<open>The value behind the mutex, and the agent whose release is still pending.\<close>

definition active_pending_release ::
  "instant \<Rightarrow> pending_agent_release option \<Rightarrow> pending_agent_release option \<times> agent option" where
  "active_pending_release now release =
     (case release of
        None \<Rightarrow> (None, None)
      | Some pending \<Rightarrow> if now < pr_until pending then (release, Some (pr_agent pending)) else (None, None))"

section \<open>When to probe the foreground job\<close>

definition PROCESS_RECHECK_IDENTIFIED :: duration where
  "PROCESS_RECHECK_IDENTIFIED = milliseconds 5000"

definition PROCESS_RECHECK_MISSING_FOREGROUND_GROUP :: duration where
  "PROCESS_RECHECK_MISSING_FOREGROUND_GROUP = milliseconds 30000"

definition PROCESS_ACQUISITION_WINDOW :: duration where
  "PROCESS_ACQUISITION_WINDOW = milliseconds 8000"

definition PROCESS_ACQUISITION_FAST_WINDOW :: duration where
  "PROCESS_ACQUISITION_FAST_WINDOW = milliseconds 1500"

definition PROCESS_ACQUISITION_FAST_RECHECK :: duration where
  "PROCESS_ACQUISITION_FAST_RECHECK = milliseconds 500"

definition PROCESS_ACQUISITION_SLOW_RECHECK :: duration where
  "PROCESS_ACQUISITION_SLOW_RECHECK = milliseconds 2000"

definition PROCESS_ACQUISITION_IDLE_RESET :: duration where
  "PROCESS_ACQUISITION_IDLE_RESET = milliseconds 2000"

record process_probe_input =
  pp_current_agent :: "agent option"
  pp_suppressed_agent :: "agent option"
  pp_foreground_pgid :: "u32 option"
  pp_last_foreground_pgid :: "u32 option"
  pp_has_process_probe :: bool
  pp_acquisition_age :: "duration option"
  pp_pending_foreground_shell_clear :: bool
  pp_pending_restore_probe :: bool
  pp_elapsed_since_process_check :: duration

definition foreground_group_changed :: "u32 option \<Rightarrow> u32 option \<Rightarrow> bool" where
  "foreground_group_changed foreground_pgid last_foreground_pgid =
     (foreground_pgid \<noteq> last_foreground_pgid \<and> (foreground_pgid \<noteq> None \<or> last_foreground_pgid \<noteq> None))"

definition should_skip_process_probe_for_lifecycle_authority :: "bool \<Rightarrow> process_probe_input \<Rightarrow> bool" where
  "should_skip_process_probe_for_lifecycle_authority full_lifecycle_authority_active input =
     (full_lifecycle_authority_active
      \<and> \<not> pp_pending_foreground_shell_clear input
      \<and> pp_suppressed_agent input = None
      \<and> pp_has_process_probe input
      \<and> \<not> foreground_group_changed (pp_foreground_pgid input) (pp_last_foreground_pgid input))"

definition acquisition_due :: "process_probe_input \<Rightarrow> bool" where
  "acquisition_due input =
     (case pp_acquisition_age input of
        None \<Rightarrow> False
      | Some age \<Rightarrow>
          (let interval = (if age \<le> PROCESS_ACQUISITION_FAST_WINDOW
              then PROCESS_ACQUISITION_FAST_RECHECK else PROCESS_ACQUISITION_SLOW_RECHECK)
           in age \<le> PROCESS_ACQUISITION_WINDOW \<and> interval \<le> pp_elapsed_since_process_check input))"

definition should_probe_foreground_job :: "process_probe_input \<Rightarrow> bool" where
  "should_probe_foreground_job input =
     (if pp_pending_foreground_shell_clear input \<or> pp_pending_restore_probe input then True
      else
        (let group_changed = foreground_group_changed (pp_foreground_pgid input) (pp_last_foreground_pgid input)
         in if pp_suppressed_agent input \<noteq> None then \<not> pp_has_process_probe input \<or> group_changed
         else if acquisition_due input then True
         else if pp_current_agent input = None
         then \<not> pp_has_process_probe input \<or> group_changed
            \<or> (pp_foreground_pgid input = None
               \<and> PROCESS_RECHECK_MISSING_FOREGROUND_GROUP \<le> pp_elapsed_since_process_check input)
         else group_changed \<or> PROCESS_RECHECK_IDENTIFIED \<le> pp_elapsed_since_process_check input))"

text \<open>The window in which changed content makes the task look for an agent: its start and
  the last change.\<close>

definition sync_content_change_acquisition ::
  "agent option \<Rightarrow> agent option \<Rightarrow> bool \<Rightarrow> bool \<Rightarrow> instant \<Rightarrow>
   instant option \<times> instant option \<Rightarrow> instant option \<times> instant option" where
  "sync_content_change_acquisition current_agent suppressed_agent process_group_changed content_changed now window =
     (let (started_at, last_change_at) = window in
      if current_agent \<noteq> None \<or> suppressed_agent \<noteq> None \<or> process_group_changed then window
      else if content_changed then
        (let should_start = is_none_or started_at (\<lambda>started.
             PROCESS_ACQUISITION_WINDOW < duration_since now started
             \<and> is_none_or last_change_at (\<lambda>last_change.
                 PROCESS_ACQUISITION_IDLE_RESET \<le> duration_since now last_change))
         in (if should_start then Some now else started_at, Some now))
      else
        (case (started_at, last_change_at) of
           (Some started, Some last_change) \<Rightarrow>
             if PROCESS_ACQUISITION_WINDOW < duration_since now started
                \<and> PROCESS_ACQUISITION_IDLE_RESET \<le> duration_since now last_change
             then (None, None) else window
         | _ \<Rightarrow> window))"

section \<open>Probing\<close>

record process_probe_result =
  pb_process_group_id :: "u32 option"
  pb_foreground_is_pane_shell :: bool
  pb_agent :: "agent option"
  pb_process_name :: "string option"

type_synonym agent_hint = "u32 \<Rightarrow> agent option"

definition agent_hint_for_non_leader_foreground_job_members ::
  "foreground_job \<Rightarrow> agent_hint \<Rightarrow> agent option" where
  "agent_hint_for_non_leader_foreground_job_members job read_hint =
     (case List.map_filter (\<lambda>process. read_hint (pid process))
        (filter (\<lambda>process. pid process \<noteq> process_group_id job) (processes job)) of
        [] \<Rightarrow> None
      | agent # _ \<Rightarrow> Some agent)"

definition agent_hint_for_foreground_job_members :: "foreground_job \<Rightarrow> agent_hint \<Rightarrow> agent option" where
  "agent_hint_for_foreground_job_members job read_hint =
     or_else (read_hint (process_group_id job))
       (agent_hint_for_non_leader_foreground_job_members job read_hint)"

definition identify_process_group_leader_in_job ::
  "file_resolver \<Rightarrow> foreground_job \<Rightarrow> (agent \<times> string) option" where
  "identify_process_group_leader_in_job resolve job =
     (case find (\<lambda>process. pid process = process_group_id job) (processes job) of
        None \<Rightarrow> None
      | Some leader \<Rightarrow> identify_agent_in_job resolve
          \<lparr>process_group_id = process_group_id job, processes = [leader]\<rparr>)"

definition process_probe_result_of :: "foreground_job \<Rightarrow> u32 \<Rightarrow> agent \<Rightarrow> string \<Rightarrow> process_probe_result" where
  "process_probe_result_of job shell agent process_name =
     \<lparr>pb_process_group_id = Some (process_group_id job),
      pb_foreground_is_pane_shell = list_ex (\<lambda>process. pid process = shell) (processes job),
      pb_agent = Some agent, pb_process_name = Some process_name\<rparr>"

definition hinted_process_probe_result ::
  "foreground_job \<Rightarrow> u32 \<Rightarrow> agent_hint \<Rightarrow> process_probe_result option" where
  "hinted_process_probe_result job shell read_hint =
     map_option (\<lambda>agent. process_probe_result_of job shell agent (agent_label agent))
       (agent_hint_for_foreground_job_members job read_hint)"

definition probe_leader_job ::
  "file_resolver \<Rightarrow> u32 \<Rightarrow> foreground_job \<Rightarrow> agent_hint \<Rightarrow> process_probe_result option" where
  "probe_leader_job resolve shell job read_hint =
     (case hinted_process_probe_result job shell read_hint of
        Some hinted \<Rightarrow> Some hinted
      | None \<Rightarrow> map_option (\<lambda>(agent, process_name). process_probe_result_of job shell agent process_name)
          (identify_agent_in_job resolve job))"

definition probe_whole_job ::
  "file_resolver \<Rightarrow> u32 \<Rightarrow> foreground_job \<Rightarrow> agent_hint \<Rightarrow> process_probe_result" where
  "probe_whole_job resolve shell job read_hint =
     (case read_hint (process_group_id job) of
        Some agent \<Rightarrow> process_probe_result_of job shell agent (agent_label agent)
      | None \<Rightarrow>
        (case identify_process_group_leader_in_job resolve job of
           Some (agent, process_name) \<Rightarrow> process_probe_result_of job shell agent process_name
         | None \<Rightarrow>
           (case agent_hint_for_non_leader_foreground_job_members job read_hint of
              Some agent \<Rightarrow> process_probe_result_of job shell agent (agent_label agent)
            | None \<Rightarrow>
                (let identified = identify_agent_in_job resolve job in
                 \<lparr>pb_process_group_id = Some (process_group_id job),
                  pb_foreground_is_pane_shell = list_ex (\<lambda>process. pid process = shell) (processes job),
                  pb_agent = map_option fst identified, pb_process_name = map_option snd identified\<rparr>))))"

definition probe_foreground_process_from_jobs ::
  "file_resolver \<Rightarrow> u32 \<Rightarrow> u32 option \<Rightarrow> foreground_job option \<Rightarrow> foreground_job option \<Rightarrow> agent_hint \<Rightarrow>
   process_probe_result" where
  "probe_foreground_process_from_jobs resolve shell foreground_pgid leader_job foreground_job read_hint =
     (case Option.bind leader_job (\<lambda>job. probe_leader_job resolve shell job read_hint) of
        Some result \<Rightarrow> result
      | None \<Rightarrow>
        (case foreground_job of
           Some job \<Rightarrow> probe_whole_job resolve shell job read_hint
         | None \<Rightarrow> \<lparr>pb_process_group_id = foreground_pgid, pb_foreground_is_pane_shell = False,
                     pb_agent = None, pb_process_name = None\<rparr>))"

text \<open>The platform layer behind a probe: \<open>foreground_group_leader_job\<close>,
  \<open>foreground_job\<close> and \<open>process_agent_hint\<close>.\<close>

record process_table =
  tab_resolve :: file_resolver
  tab_leader_job :: "u32 \<Rightarrow> foreground_job option"
  tab_foreground_job :: "u32 \<Rightarrow> foreground_job option"
  tab_agent_hint :: agent_hint

definition probe_foreground_process :: "process_table \<Rightarrow> u32 \<Rightarrow> u32 option \<Rightarrow> process_probe_result" where
  "probe_foreground_process tab shell foreground_pgid =
     probe_foreground_process_from_jobs (tab_resolve tab) shell foreground_pgid
       (Option.bind foreground_pgid (tab_leader_job tab)) (tab_foreground_job tab shell) (tab_agent_hint tab)"

section \<open>Lemmas\<close>

lemmas presence_defs = presence_from_agent_def clear_current_agent_def observe_process_probe_def

text \<open>The count of misses stays below six, and counts only while an agent is present.\<close>

definition presence_ok :: "agent_presence \<Rightarrow> bool" where
  "presence_ok p = (ap_consecutive_misses p < AGENT_MISS_CONFIRMATION_ATTEMPTS \<and>
     (ap_current_agent p = None \<longrightarrow> ap_consecutive_misses p = 0))"

lemma presence_ok_from_agent [simp]: "presence_ok (presence_from_agent a)"
  by (simp add: presence_ok_def presence_from_agent_def AGENT_MISS_CONFIRMATION_ATTEMPTS_def)

lemma presence_from_agent_current [simp]: "ap_current_agent (presence_from_agent a) = a"
  by (simp add: presence_from_agent_def)

lemma presence_ok_clear: "presence_ok p \<Longrightarrow> presence_ok (fst (clear_current_agent p))"
  by (auto simp: presence_ok_def clear_current_agent_def AGENT_MISS_CONFIRMATION_ATTEMPTS_def)

lemma presence_ok_observe: "presence_ok p \<Longrightarrow> presence_ok (fst (observe_process_probe a p))"
  by (auto simp: presence_ok_def observe_process_probe_def Let_def AGENT_MISS_CONFIRMATION_ATTEMPTS_def
      split: option.splits)

text \<open>A change is reported exactly when the agent differs.\<close>

lemma clear_changed: "snd (clear_current_agent p) \<longleftrightarrow> ap_current_agent (fst (clear_current_agent p)) \<noteq> ap_current_agent p"
  by (auto simp: clear_current_agent_def)

lemma observe_changed:
  "snd (observe_process_probe a p) \<longleftrightarrow> ap_current_agent (fst (observe_process_probe a p)) \<noteq> ap_current_agent p"
  by (auto simp: observe_process_probe_def Let_def split: option.splits)

end
