(* ===== verification/Detection_Task.thy ===== *)
theory Detection_Task
  imports Process_Probe
begin

text \<open>
  The detection task of a pane, \<open>src/src/pane.rs\<close>: the state its loop keeps in local
  variables, one iteration of the loop, the release of an agent and the reset of the task.
  The source has the loop twice, in \<open>spawn_basic_detection_task\<close> for a pane taken over
  from another server process and in \<open>PaneRuntime::spawn_with_initial_state\<close>; the
  argument \<open>task\<close> tells them apart where they differ. What an iteration reads from outside
  is its input; what it does to the outside is its list of effects.
\<close>

section \<open>State, input and effects\<close>

datatype detection_task = Basic | Spawned

record detector =
  dk_presence :: agent_presence
  dk_state :: agent_state
  dk_visible_idle :: bool
  dk_visible_blocker :: bool
  dk_visible_working :: bool
  dk_signal_refresh :: "instant option"
  dk_last_process_check :: instant
  dk_last_foreground_pgid :: "u32 option"
  dk_has_process_probe :: bool
  dk_acquisition_started_at :: "instant option"
  dk_last_content_change_at :: "instant option"
  dk_pending_shell_clear :: bool
  dk_exit_reported :: bool
  dk_release_was_active :: bool
  dk_pending_restore_probe :: bool  \<comment> \<open>only in the spawned task; never set in the basic one\<close>
  dk_last_text :: string
  dk_last_scan_seq :: "u64 option"
  dk_grace_until :: "instant option"
  dk_pending_idle :: pending_idle
  dk_pending_release :: "pending_agent_release option"  \<comment> \<open>behind the shared mutex\<close>

record tick_input =
  ti_now :: instant
  ti_pid :: u32
  ti_foreground_group :: "u32 option"
  ti_authority_active :: bool
  ti_processes :: process_table
  ti_content_seq :: u64
  ti_content :: string
  ti_osc_title :: string
  ti_osc_progress :: string
  ti_detect :: screen_detector
  ti_viewer :: viewer_test

text \<open>\<open>AppEvent::StateChanged\<close>, less the identifier of the pane.\<close>

record state_changed =
  sc_agent :: "agent option"
  sc_state :: agent_state
  sc_visible_blocker :: bool
  sc_visible_working :: bool
  sc_process_exited :: bool
  sc_observed_at :: instant

datatype detection_effect = ClearAgentOscState | StateChanged state_changed

section \<open>The start of a task\<close>

definition basic_detector :: "instant \<Rightarrow> pending_agent_release option \<Rightarrow> detector" where
  "basic_detector now release =
     \<lparr>dk_presence = presence_from_agent None, dk_state = Unknown,
      dk_visible_idle = False, dk_visible_blocker = False, dk_visible_working = False,
      dk_signal_refresh = None, dk_last_process_check = now, dk_last_foreground_pgid = None,
      dk_has_process_probe = False, dk_acquisition_started_at = None, dk_last_content_change_at = None,
      dk_pending_shell_clear = False, dk_exit_reported = False, dk_release_was_active = False,
      dk_pending_restore_probe = False, dk_last_text = [], dk_last_scan_seq = None,
      dk_grace_until = None, dk_pending_idle = pending_idle_default, dk_pending_release = release\<rparr>"

definition spawned_detector :: "agent option \<Rightarrow> instant \<Rightarrow> pending_agent_release option \<Rightarrow> detector" where
  "spawned_detector detected now release =
     \<lparr>dk_presence = presence_from_agent detected, dk_state = Idle,
      dk_visible_idle = (detected \<noteq> None), dk_visible_blocker = False, dk_visible_working = False,
      dk_signal_refresh = None, dk_last_process_check = now, dk_last_foreground_pgid = None,
      dk_has_process_probe = False, dk_acquisition_started_at = None, dk_last_content_change_at = None,
      dk_pending_shell_clear = False, dk_exit_reported = False, dk_release_was_active = False,
      dk_pending_restore_probe = (detected \<noteq> None), dk_last_text = [], dk_last_scan_seq = None,
      dk_grace_until = None, dk_pending_idle = pending_idle_default, dk_pending_release = release\<rparr>"

text \<open>The reset the other side asks for with \<open>detect_reset_notify\<close>.\<close>

definition reset_spawned :: "detector \<Rightarrow> detector" where
  "reset_spawned d =
     d\<lparr>dk_presence := presence_from_agent None, dk_state := Unknown, dk_visible_idle := False,
       dk_last_foreground_pgid := None, dk_has_process_probe := False,
       dk_acquisition_started_at := None, dk_last_content_change_at := None,
       dk_pending_shell_clear := False, dk_exit_reported := False, dk_release_was_active := False,
       dk_pending_restore_probe := False, dk_visible_blocker := False, dk_visible_working := False,
       dk_signal_refresh := None, dk_last_text := [], dk_last_scan_seq := None,
       dk_grace_until := None, dk_pending_idle := pending_clear (dk_pending_idle d)\<rparr>"

definition reset_basic :: "instant \<Rightarrow> detector \<Rightarrow> detector" where
  "reset_basic now d =
     d\<lparr>dk_presence := presence_from_agent None, dk_state := Unknown, dk_visible_idle := False,
       dk_visible_blocker := False, dk_visible_working := False, dk_signal_refresh := None,
       dk_last_process_check := now, dk_last_foreground_pgid := None, dk_has_process_probe := False,
       dk_acquisition_started_at := None, dk_last_content_change_at := None,
       dk_pending_shell_clear := False, dk_exit_reported := False, dk_release_was_active := False,
       dk_last_text := [], dk_last_scan_seq := None,
       dk_grace_until := None, dk_pending_idle := pending_clear (dk_pending_idle d)\<rparr>"

definition begin_graceful_release :: "agent \<Rightarrow> instant \<Rightarrow> detector \<Rightarrow> detector" where
  "begin_graceful_release agent now d =
     d\<lparr>dk_pending_release := Some \<lparr>pr_agent = agent, pr_until = now + RELEASE_REACQUIRE_SUPPRESSION\<rparr>\<rparr>"

section \<open>The sleep before an iteration\<close>

definition basic_sleep :: "detector \<Rightarrow> duration" where
  "basic_sleep d = (if pending_active (dk_pending_idle d) then AGENT_PENDING_IDLE_RECHECK else milliseconds 300)"

definition spawned_sleep :: "instant \<Rightarrow> bool \<Rightarrow> detector \<Rightarrow> detector \<times> duration" where
  "spawned_sleep now transient_color_override d =
     (let (release, active) = active_pending_release now (dk_pending_release d)
      in (d\<lparr>dk_pending_release := release\<rparr>,
          if active \<noteq> None \<or> transient_color_override then milliseconds 50
          else if pending_active (dk_pending_idle d) then AGENT_PENDING_IDLE_RECHECK
          else if ap_current_agent (dk_presence d) = None then milliseconds 500
          else milliseconds 300))"

section \<open>Publishing\<close>

definition apply_agent_detection_publish_update ::
  "agent option \<Rightarrow> publish_update \<Rightarrow> instant \<Rightarrow> detector \<Rightarrow> detector \<times> detection_effect list" where
  "apply_agent_detection_publish_update agent update observed_at d =
     (d\<lparr>dk_state := pu_state update, dk_visible_idle := pu_visible_idle update,
        dk_visible_blocker := pu_visible_blocker update, dk_visible_working := pu_visible_working update,
        dk_signal_refresh := (if pu_visible_blocker update \<or> pu_visible_working update
                              then Some observed_at else None),
        dk_exit_reported := (if pu_process_exited update then True else dk_exit_reported d)\<rparr>,
      [StateChanged \<lparr>sc_agent = agent, sc_state = pu_state update,
         sc_visible_blocker = pu_visible_blocker update, sc_visible_working = pu_visible_working update,
         sc_process_exited = pu_process_exited update, sc_observed_at = observed_at\<rparr>])"

section \<open>One iteration\<close>

text \<open>The agent whose release is pending; the end of a release opens the acquisition again.\<close>

definition release_phase :: "instant \<Rightarrow> detector \<Rightarrow> detector \<times> agent option" where
  "release_phase now d =
     (let (release, suppressed) = active_pending_release now (dk_pending_release d);
          d1 = d\<lparr>dk_pending_release := release\<rparr>;
          d2 = (if suppressed = None \<and> dk_release_was_active d1
                then d1\<lparr>dk_has_process_probe := False, dk_acquisition_started_at := None,
                        dk_last_content_change_at := None\<rparr> else d1)
      in (d2\<lparr>dk_release_was_active := (suppressed \<noteq> None)\<rparr>, suppressed))"

definition probe_input :: "agent option \<Rightarrow> u32 option \<Rightarrow> instant \<Rightarrow> detector \<Rightarrow> process_probe_input" where
  "probe_input suppressed foreground_pgid now d =
     \<lparr>pp_current_agent = ap_current_agent (dk_presence d), pp_suppressed_agent = suppressed,
      pp_foreground_pgid = foreground_pgid, pp_last_foreground_pgid = dk_last_foreground_pgid d,
      pp_has_process_probe = dk_has_process_probe d,
      pp_acquisition_age = map_option (duration_since now) (dk_acquisition_started_at d),
      pp_pending_foreground_shell_clear = dk_pending_shell_clear d,
      pp_pending_restore_probe = dk_pending_restore_probe d,
      pp_elapsed_since_process_check = duration_since now (dk_last_process_check d)\<rparr>"

definition should_check_process ::
  "agent option \<Rightarrow> u32 \<Rightarrow> u32 option \<Rightarrow> bool \<Rightarrow> instant \<Rightarrow> detector \<Rightarrow> bool" where
  "should_check_process suppressed shell foreground_pgid authority_active now d =
     (0 < shell
      \<and> \<not> should_skip_process_probe_for_lifecycle_authority authority_active
           (probe_input suppressed foreground_pgid now d)
      \<and> should_probe_foreground_job (probe_input suppressed foreground_pgid now d))"

text \<open>A probe that finds anything but the released agent ends the suppression.\<close>

definition suppress_released ::
  "agent option \<Rightarrow> agent option \<Rightarrow> detector \<Rightarrow> detector \<times> agent option" where
  "suppress_released suppressed probed d =
     (case suppressed of
        None \<Rightarrow> (d, probed)
      | Some released \<Rightarrow>
          if probed = Some released then (d, None) else (d\<lparr>dk_pending_release := None\<rparr>, probed))"

definition observe_foreground :: "agent option \<Rightarrow> bool \<Rightarrow> detector \<Rightarrow> detector \<times> bool" where
  "observe_foreground new_agent foreground_is_pane_shell d =
     (case foreground_shell_agent_action (ap_current_agent (dk_presence d)) new_agent
             foreground_is_pane_shell (dk_exit_reported d) of
        ReportProcessExit \<Rightarrow> (d\<lparr>dk_pending_shell_clear := True\<rparr>, False)
      | ClearAgent \<Rightarrow>
          (let (p, changed) = clear_current_agent (dk_presence d)
           in (d\<lparr>dk_pending_shell_clear := False, dk_exit_reported := False, dk_presence := p\<rparr>, changed))
      | ObserveProbe \<Rightarrow>
          (let (p, changed) = observe_process_probe new_agent (dk_presence d)
           in (d\<lparr>dk_pending_shell_clear := False, dk_exit_reported := False, dk_presence := p\<rparr>, changed)))"

definition note_foreground_group ::
  "detection_task \<Rightarrow> agent option \<Rightarrow> u32 option \<Rightarrow> u32 option \<Rightarrow> bool \<Rightarrow> bool \<Rightarrow> instant \<Rightarrow> detector \<Rightarrow> detector" where
  "note_foreground_group task new_agent process_group foreground_pgid had_process_probe group_changed now d =
     (if new_agent \<noteq> None then
        d\<lparr>dk_last_foreground_pgid := (case task of Basic \<Rightarrow> or_else process_group foreground_pgid
                                     | Spawned \<Rightarrow> process_group),
          dk_acquisition_started_at := None, dk_last_content_change_at := None,
          dk_pending_restore_probe := False\<rparr>
      else if ap_current_agent (dk_presence d) = None then
        d\<lparr>dk_last_foreground_pgid := or_else process_group foreground_pgid,
          dk_acquisition_started_at := (if had_process_probe \<and> group_changed then Some now
                                        else dk_acquisition_started_at d),
          dk_pending_restore_probe := False\<rparr>
      else d\<lparr>dk_last_foreground_pgid := or_else process_group foreground_pgid\<rparr>)"

definition switch_agent :: "agent option \<Rightarrow> instant \<Rightarrow> detector \<Rightarrow> detector \<times> detection_effect list" where
  "switch_agent agent now d =
     (let d1 = d\<lparr>dk_pending_idle := pending_clear (dk_pending_idle d), dk_last_scan_seq := None\<rparr>
      in if agent \<noteq> None
         then (d1\<lparr>dk_grace_until := Some (now + AGENT_STARTUP_GRACE_WINDOW), dk_state := Idle,
                  dk_visible_idle := True, dk_visible_blocker := False, dk_visible_working := False,
                  dk_signal_refresh := None\<rparr>,
               [ClearAgentOscState,
                StateChanged \<lparr>sc_agent = agent, sc_state = Idle, sc_visible_blocker = False,
                  sc_visible_working = False, sc_process_exited = False, sc_observed_at = now\<rparr>])
         else (d1\<lparr>dk_grace_until := None\<rparr>, [ClearAgentOscState]))"

text \<open>The body of \<open>if should_check_process\<close>: the new state, the agent, whether it
  changed, and the effects. The spawned task takes every reported change for a change.\<close>

definition probe_phase ::
  "detection_task \<Rightarrow> process_table \<Rightarrow> u32 \<Rightarrow> u32 option \<Rightarrow> agent option \<Rightarrow> bool \<Rightarrow> instant \<Rightarrow> detector \<Rightarrow>
   detector \<times> agent option \<times> bool \<times> detection_effect list" where
  "probe_phase task tab shell foreground_pgid suppressed group_changed now d =
     (let had_process_probe = dk_has_process_probe d;
          d1 = d\<lparr>dk_last_process_check := now, dk_has_process_probe := True\<rparr>;
          probe = probe_foreground_process tab shell foreground_pgid;
          (d2, new_agent) = suppress_released suppressed (pb_agent probe) d1;
          previous_agent = ap_current_agent (dk_presence d2);
          (d3, changed) = observe_foreground new_agent (pb_foreground_is_pane_shell probe) d2;
          d4 = note_foreground_group task new_agent (pb_process_group_id probe) foreground_pgid
                 had_process_probe group_changed now d3
      in if changed then
           (let agent = ap_current_agent (dk_presence d4);
                (d5, effects) = (if agent \<noteq> previous_agent then switch_agent agent now d4 else (d4, []))
            in (d5, agent, (case task of Basic \<Rightarrow> previous_agent \<noteq> agent | Spawned \<Rightarrow> True), effects))
         else (d4, previous_agent, False, []))"

definition process_exited :: "agent option \<Rightarrow> detector \<Rightarrow> bool" where
  "process_exited agent d = (dk_pending_shell_clear d \<and> agent \<noteq> None \<and> \<not> dk_exit_reported d)"

definition drop_pending_idle :: "detector \<Rightarrow> detector" where
  "drop_pending_idle d = d\<lparr>dk_pending_idle := pending_clear (dk_pending_idle d)\<rparr>"

text \<open>Whether the iteration goes on to the screen: not under a lifecycle authority, nor in
  the grace window of a new agent, unless the process has exited.\<close>

definition startup_gate :: "detection_task \<Rightarrow> bool \<Rightarrow> bool \<Rightarrow> instant \<Rightarrow> detector \<Rightarrow> detector \<times> bool" where
  "startup_gate task authority_active exited now d =
     (if authority_active \<and> \<not> exited then (drop_pending_idle d, False)
      else
        (case dk_grace_until d of
           None \<Rightarrow> (d, True)
         | Some until \<Rightarrow>
             if exited then
               (drop_pending_idle (case task of
                    Basic \<Rightarrow> d\<lparr>dk_grace_until := None\<rparr>
                  | Spawned \<Rightarrow> d\<lparr>dk_grace_until := None, dk_last_scan_seq := None\<rparr>), True)
             else if now < until then (drop_pending_idle d, False)
             else
               (drop_pending_idle (case task of
                    Basic \<Rightarrow> d\<lparr>dk_grace_until := None, dk_last_scan_seq := None\<rparr>
                  | Spawned \<Rightarrow> d\<lparr>dk_grace_until := None\<rparr>), False)))"

definition publish_phase ::
  "tick_input \<Rightarrow> agent option \<Rightarrow> bool \<Rightarrow> bool \<Rightarrow> detector \<Rightarrow> detector \<times> detection_effect list" where
  "publish_phase inp agent agent_changed exited d =
     (case detection_update_for_publish_with_osc (ti_detect inp) agent (ti_content inp)
             (ti_osc_title inp) (ti_osc_progress inp) exited of
        None \<Rightarrow> (drop_pending_idle d, [])
      | Some screen_detection \<Rightarrow>
          (let (p, decision) = decide_screen_detection_publish
                 \<lparr>sp_current_state = dk_state d, sp_last_visible_idle = dk_visible_idle d,
                  sp_last_visible_blocker = dk_visible_blocker d, sp_last_visible_working = dk_visible_working d,
                  sp_last_signal_refresh = dk_signal_refresh d, sp_screen_detection = screen_detection,
                  sp_process_exited = exited, sp_agent_changed = agent_changed, sp_now = ti_now inp\<rparr>
                 (dk_pending_idle d);
               d' = d\<lparr>dk_pending_idle := p\<rparr>
           in case decision of
                NoPublish \<Rightarrow> (d', [])
              | Publish update \<Rightarrow> apply_agent_detection_publish_update agent update (ti_now inp) d'))"

text \<open>The basic task does not let a viewer on the screen hold back an exit.\<close>

definition viewer_holds :: "detection_task \<Rightarrow> tick_input \<Rightarrow> agent option \<Rightarrow> bool \<Rightarrow> bool" where
  "viewer_holds task inp agent exited =
     ((case task of Basic \<Rightarrow> \<not> exited | Spawned \<Rightarrow> True)
      \<and> should_skip_state_update (ti_viewer inp) agent (ti_content inp))"

definition screen_phase ::
  "detection_task \<Rightarrow> tick_input \<Rightarrow> agent option \<Rightarrow> bool \<Rightarrow> bool \<Rightarrow> agent option \<Rightarrow> bool \<Rightarrow> detector \<Rightarrow>
   detector \<times> detection_effect list" where
  "screen_phase task inp agent agent_changed exited suppressed group_changed d =
     (let current_seq = (if agent \<noteq> None then Some (ti_content_seq inp) else None)
      in case decide_detection_screen_read
             \<lparr>sr_state = dk_state d, sr_agent = agent,
              sr_pending_idle_active = pending_active (dk_pending_idle d), sr_agent_changed = agent_changed,
              sr_process_exited = exited, sr_current_seq = current_seq, sr_last_scan_seq = dk_last_scan_seq d\<rparr> of
           SkipScreen \<Rightarrow> (d, [])
         | ReadScreen \<Rightarrow>
             (let content_changed = (ti_content inp \<noteq> dk_last_text d);
                  d1 = d\<lparr>dk_last_scan_seq := current_seq, dk_last_text := ti_content inp\<rparr>
              in if viewer_holds task inp agent exited then (drop_pending_idle d1, [])
                 else
                   (let (started_at, last_change_at) = sync_content_change_acquisition
                          (ap_current_agent (dk_presence d1)) suppressed group_changed content_changed (ti_now inp)
                          (dk_acquisition_started_at d1, dk_last_content_change_at d1)
                    in publish_phase inp agent agent_changed exited
                         (d1\<lparr>dk_acquisition_started_at := started_at, dk_last_content_change_at := last_change_at\<rparr>))))"

definition detection_tick :: "detection_task \<Rightarrow> tick_input \<Rightarrow> detector \<Rightarrow> detector \<times> detection_effect list" where
  "detection_tick task inp d0 =
     (let now = ti_now inp; shell = ti_pid inp;
          (d1, suppressed) = release_phase now d0;
          foreground_pgid = (if 0 < shell then ti_foreground_group inp else None);
          group_changed = foreground_group_changed foreground_pgid (dk_last_foreground_pgid d1);
          (d2, agent, agent_changed, effects) =
            (if should_check_process suppressed shell foreground_pgid (ti_authority_active inp) now d1
             then probe_phase task (ti_processes inp) shell foreground_pgid suppressed group_changed now d1
             else (d1, ap_current_agent (dk_presence d1), False, []));
          exited = process_exited agent d2;
          (d3, go_on) = startup_gate task (ti_authority_active inp) exited now d2
      in if go_on then
           (let (d4, effects') = screen_phase task inp agent agent_changed exited suppressed group_changed d3
            in (d4, effects @ effects'))
         else (d3, effects))"

definition basic_detection_tick :: "tick_input \<Rightarrow> detector \<Rightarrow> detector \<times> detection_effect list" where
  "basic_detection_tick inp d = detection_tick Basic inp d"

definition spawned_detection_tick :: "tick_input \<Rightarrow> detector \<Rightarrow> detector \<times> detection_effect list" where
  "spawned_detection_tick inp d = detection_tick Spawned inp d"

end
