(* ===== verification/Detection_Invariants.thy ===== *)
theory Detection_Invariants
  imports Detection_Task
begin

text \<open>
  The runs of a detection task, the invariant of its state, and what the trace of its effects
  says of an exit that has been reported.
\<close>

section \<open>Runs\<close>

definition detector_inv :: "detector \<Rightarrow> bool" where
  "detector_inv d =
     (pending_ok (dk_pending_idle d) \<and> presence_ok (dk_presence d)
      \<and> (pending_active (dk_pending_idle d) \<longrightarrow> dk_state d = Working)
      \<and> (dk_visible_idle d \<longrightarrow> dk_state d = Idle)
      \<and> (dk_visible_blocker d \<longrightarrow> dk_state d = Blocked)
      \<and> (dk_visible_working d \<longrightarrow> dk_state d = Working)
      \<and> (dk_signal_refresh d \<noteq> None \<longleftrightarrow> dk_visible_blocker d \<or> dk_visible_working d)
      \<and> (dk_pending_shell_clear d \<longrightarrow> ap_current_agent (dk_presence d) \<noteq> None)
      \<and> (dk_exit_reported d \<longrightarrow> dk_pending_shell_clear d))"

definition grace_ok :: "detector \<Rightarrow> bool" where
  "grace_ok d = (dk_grace_until d \<noteq> None \<longrightarrow> ap_current_agent (dk_presence d) \<noteq> None)"

text \<open>An exit can be pending only when the process of the pane's shell is known; its
  identifier is stored before the task starts and never changes, so it is a parameter of a
  run.\<close>

definition shell_ok :: "u32 \<Rightarrow> detector \<Rightarrow> bool" where
  "shell_ok shell d = (dk_pending_shell_clear d \<longrightarrow> 0 < shell)"

inductive detector_step ::
  "detection_task \<Rightarrow> u32 \<Rightarrow> detector \<Rightarrow> detection_effect list \<Rightarrow> detector \<Rightarrow> bool"
  for task :: detection_task and shell :: u32 where
  tick: "detection_tick task inp d = (d', effects) \<Longrightarrow> ti_pid inp = shell \<Longrightarrow>
    detector_step task shell d effects d'"
| sleep: "task = Spawned \<Longrightarrow> detector_step task shell d [] (fst (spawned_sleep now transient d))"
| reset_basic: "task = Basic \<Longrightarrow> detector_step task shell d [] (reset_basic now d)"
| reset_spawned: "task = Spawned \<Longrightarrow> detector_step task shell d [] (reset_spawned d)"
| release: "detector_step task shell d [] (begin_graceful_release agent now d)"

inductive detector_run :: "detection_task \<Rightarrow> u32 \<Rightarrow> detector \<Rightarrow> detection_effect list \<Rightarrow> bool"
  for task :: detection_task and shell :: u32 where
  start_basic: "task = Basic \<Longrightarrow> detector_run task shell (basic_detector now None) []"
| start_spawned: "task = Spawned \<Longrightarrow> detector_run task shell (spawned_detector detected now None) []"
| step: "detector_run task shell d trace \<Longrightarrow> detector_step task shell d effects d' \<Longrightarrow>
    detector_run task shell d' (trace @ effects)"

text \<open>The last published state of a trace.\<close>

fun state_event :: "detection_effect \<Rightarrow> state_changed option" where
  "state_event ClearAgentOscState = None"
| "state_event (StateChanged e) = Some e"

definition last_published :: "detection_effect list \<Rightarrow> state_changed option" where
  "last_published trace =
     (case filter (\<lambda>e. e \<noteq> None) (map state_event (rev trace)) of [] \<Rightarrow> None | e # _ \<Rightarrow> e)"

definition exit_event :: "agent option \<Rightarrow> state_changed \<Rightarrow> bool" where
  "exit_event agent e = (sc_agent e = agent \<and> sc_state e = Idle \<and> sc_process_exited e
     \<and> \<not> sc_visible_blocker e \<and> \<not> sc_visible_working e)"

text \<open>A reported exit is the last thing the task has published.\<close>

definition exit_logged :: "detector \<Rightarrow> detection_effect list \<Rightarrow> bool" where
  "exit_logged d trace = (dk_exit_reported d \<longrightarrow>
     (\<exists>e. last_published trace = Some e \<and> exit_event (ap_current_agent (dk_presence d)) e))"

lemma last_published_simps [simp]:
  "last_published [] = None"
  "last_published (trace @ [StateChanged e]) = Some e"
  "last_published (trace @ [ClearAgentOscState]) = last_published trace"
  by (simp_all add: last_published_def)

section \<open>The phases\<close>

lemma release_phase_frame [simp]:
  assumes "release_phase now d = (d', suppressed)"
  shows "dk_presence d' = dk_presence d" "dk_state d' = dk_state d"
    "dk_exit_reported d' = dk_exit_reported d" "dk_pending_shell_clear d' = dk_pending_shell_clear d"
    "dk_grace_until d' = dk_grace_until d" "dk_pending_idle d' = dk_pending_idle d"
    "dk_visible_idle d' = dk_visible_idle d" "dk_visible_blocker d' = dk_visible_blocker d"
    "dk_visible_working d' = dk_visible_working d" "dk_signal_refresh d' = dk_signal_refresh d"
    "dk_last_scan_seq d' = dk_last_scan_seq d" "dk_last_foreground_pgid d' = dk_last_foreground_pgid d"
  using assms by (auto simp: release_phase_def active_pending_release_def Let_def split: option.splits if_splits)

lemma suppress_released_frame:
  "suppress_released suppressed probed d = (d', new_agent) \<Longrightarrow>
   d' = d\<lparr>dk_pending_release := dk_pending_release d'\<rparr> \<and> (\<forall>a. suppressed = Some a \<longrightarrow> new_agent \<noteq> Some a)
   \<and> (new_agent = probed \<or> new_agent = None \<and> probed = suppressed)"
  by (auto simp: suppress_released_def split: option.splits if_splits)

lemma note_foreground_group_frame [simp]:
  "dk_presence (note_foreground_group task a g f h c now d) = dk_presence d"
  "dk_state (note_foreground_group task a g f h c now d) = dk_state d"
  "dk_exit_reported (note_foreground_group task a g f h c now d) = dk_exit_reported d"
  "dk_pending_shell_clear (note_foreground_group task a g f h c now d) = dk_pending_shell_clear d"
  "dk_grace_until (note_foreground_group task a g f h c now d) = dk_grace_until d"
  "dk_pending_idle (note_foreground_group task a g f h c now d) = dk_pending_idle d"
  "dk_visible_idle (note_foreground_group task a g f h c now d) = dk_visible_idle d"
  "dk_visible_blocker (note_foreground_group task a g f h c now d) = dk_visible_blocker d"
  "dk_visible_working (note_foreground_group task a g f h c now d) = dk_visible_working d"
  "dk_signal_refresh (note_foreground_group task a g f h c now d) = dk_signal_refresh d"
  "dk_last_scan_seq (note_foreground_group task a g f h c now d) = dk_last_scan_seq d"
  by (simp_all add: note_foreground_group_def)

lemma detector_inv_note [simp]:
  "detector_inv (note_foreground_group task a g f h c now d) = detector_inv d"
  by (simp add: detector_inv_def)

lemma detector_inv_cong:
  "dk_presence d' = dk_presence d \<Longrightarrow> dk_state d' = dk_state d \<Longrightarrow>
   dk_exit_reported d' = dk_exit_reported d \<Longrightarrow> dk_pending_shell_clear d' = dk_pending_shell_clear d \<Longrightarrow>
   dk_pending_idle d' = dk_pending_idle d \<Longrightarrow> dk_visible_idle d' = dk_visible_idle d \<Longrightarrow>
   dk_visible_blocker d' = dk_visible_blocker d \<Longrightarrow> dk_visible_working d' = dk_visible_working d \<Longrightarrow>
   dk_signal_refresh d' = dk_signal_refresh d \<Longrightarrow> detector_inv d' = detector_inv d"
  by (simp add: detector_inv_def)

lemma detector_inv_release:
  "release_phase now d = (d', suppressed) \<Longrightarrow> detector_inv d' = detector_inv d"
  by (rule detector_inv_cong) simp_all

lemma detector_inv_drop: "detector_inv d \<Longrightarrow> detector_inv (drop_pending_idle d)"
  by (simp add: detector_inv_def drop_pending_idle_def)

lemma drop_pending_idle_frame [simp]:
  "dk_presence (drop_pending_idle d) = dk_presence d" "dk_state (drop_pending_idle d) = dk_state d"
  "dk_exit_reported (drop_pending_idle d) = dk_exit_reported d"
  "dk_pending_shell_clear (drop_pending_idle d) = dk_pending_shell_clear d"
  "dk_grace_until (drop_pending_idle d) = dk_grace_until d"
  "dk_pending_idle (drop_pending_idle d) = pending_clear (dk_pending_idle d)"
  "dk_visible_idle (drop_pending_idle d) = dk_visible_idle d"
  "dk_visible_blocker (drop_pending_idle d) = dk_visible_blocker d"
  "dk_visible_working (drop_pending_idle d) = dk_visible_working d"
  "dk_pending_release (drop_pending_idle d) = dk_pending_release d"
  by (simp_all add: drop_pending_idle_def)

text \<open>A probe changes the presence exactly when it says so, and a reported exit ends with
  the next probe.\<close>

lemma observe_foreground_frame:
  assumes "observe_foreground new_agent shell d = (d', changed)"
  shows "d' = d\<lparr>dk_pending_shell_clear := dk_pending_shell_clear d', dk_exit_reported := False,
           dk_presence := dk_presence d'\<rparr>"
    and "changed \<longleftrightarrow> ap_current_agent (dk_presence d') \<noteq> ap_current_agent (dk_presence d)"
    and "dk_pending_shell_clear d' \<Longrightarrow> ap_current_agent (dk_presence d') \<noteq> None"
  using assms clear_changed [of "dk_presence d"] observe_changed [of new_agent "dk_presence d"]
  by (auto simp: observe_foreground_def foreground_shell_agent_action_def
      split: shell_agent_action.splits prod.splits if_splits)

text \<open>A probe without a change leaves the state, the grace window and the trace alone;
  with one, a new agent starts idle.\<close>

lemma switch_agent_inv:
  assumes "switch_agent agent now d = (d', effects)"
    and "presence_ok (dk_presence d)" "ap_current_agent (dk_presence d) = agent"
    and "detector_inv d"
  shows "detector_inv d'" "grace_ok d'" "dk_presence d' = dk_presence d"
    "dk_exit_reported d' = dk_exit_reported d"
  using assms
  by (cases agent; simp add: switch_agent_def Let_def detector_inv_def grace_ok_def; (elim conjE)?; hypsubst; simp)+

lemma observe_foreground_inv:
  assumes "observe_foreground new_agent shell d = (d', changed)" and "detector_inv d"
  shows "detector_inv d'" "dk_grace_until d' = dk_grace_until d"
proof -
  have p: "presence_ok (dk_presence d')"
  proof -
    have "presence_ok (dk_presence d)"
      using assms(2) by (simp add: detector_inv_def)
    then show ?thesis
      using assms(1) presence_ok_clear [of "dk_presence d"] presence_ok_observe [of "dk_presence d" new_agent]
      by (auto simp: observe_foreground_def split: shell_agent_action.splits prod.splits)
  qed
  note o = observe_foreground_frame [OF assms(1)]
  show "dk_grace_until d' = dk_grace_until d"
    by (subst o(1)) simp
  have "d' = d\<lparr>dk_pending_shell_clear := dk_pending_shell_clear d', dk_exit_reported := False,
           dk_presence := dk_presence d'\<rparr>"
    by (rule o(1))
  then obtain b p where d: "d' = d\<lparr>dk_pending_shell_clear := b, dk_exit_reported := False, dk_presence := p\<rparr>"
    by blast
  show "detector_inv d'"
    using assms(2) p o(3) by (simp add: d detector_inv_def)
qed

text \<open>A probe in its parts.\<close>

lemma probe_phase_parts:
  assumes "probe_phase task tab shell fg suppressed gc now d = (d', agent, agent_changed, effects)"
  obtains r new_agent d3 changed d4 where
    "new_agent = pb_agent (probe_foreground_process tab shell fg)
     \<or> new_agent = None \<and> pb_agent (probe_foreground_process tab shell fg) = suppressed"
    "\<And>a. suppressed = Some a \<Longrightarrow> new_agent \<noteq> Some a"
    "observe_foreground new_agent (pb_foreground_is_pane_shell (probe_foreground_process tab shell fg))
       (d\<lparr>dk_last_process_check := now, dk_has_process_probe := True, dk_pending_release := r\<rparr>) = (d3, changed)"
    "d4 = note_foreground_group task new_agent (pb_process_group_id (probe_foreground_process tab shell fg)) fg
       (dk_has_process_probe d) gc now d3"
    "changed \<Longrightarrow> agent = ap_current_agent (dk_presence d3) \<and> agent_changed \<and>
       switch_agent agent now d4 = (d', effects)"
    "\<not> changed \<Longrightarrow> d' = d4 \<and> agent = ap_current_agent (dk_presence d) \<and> \<not> agent_changed \<and> effects = []"
proof -
  define d1 where "d1 = d\<lparr>dk_last_process_check := now, dk_has_process_probe := True\<rparr>"
  define probe where "probe = probe_foreground_process tab shell fg"
  obtain d2 new_agent where s: "suppress_released suppressed (pb_agent probe) d1 = (d2, new_agent)"
    by fastforce
  obtain d3 changed where o: "observe_foreground new_agent (pb_foreground_is_pane_shell probe) d2 = (d3, changed)"
    by fastforce
  define d4 where "d4 = note_foreground_group task new_agent (pb_process_group_id probe) fg
    (dk_has_process_probe d) gc now d3"
  note f = suppress_released_frame [OF s]
  obtain r where d2: "d2 = d1\<lparr>dk_pending_release := r\<rparr>"
    using f by blast
  have pres: "dk_presence d2 = dk_presence d"
    by (simp add: d2 d1_def)
  have eq: "(d', agent, agent_changed, effects) =
    (if changed then
       (let agent = ap_current_agent (dk_presence d4);
            (d5, effects) = (if agent \<noteq> ap_current_agent (dk_presence d2)
               then switch_agent agent now d4 else (d4, []))
        in (d5, agent, (case task of Basic \<Rightarrow> ap_current_agent (dk_presence d2) \<noteq> agent
              | Spawned \<Rightarrow> True), effects))
     else (d4, ap_current_agent (dk_presence d2), False, []))"
    unfolding assms(1) [symmetric] d4_def
    by (simp only: probe_phase_def Let_def probe_def [symmetric] d1_def [symmetric] s o prod.case)
  have ne: "changed \<longleftrightarrow> ap_current_agent (dk_presence d4) \<noteq> ap_current_agent (dk_presence d2)"
    using observe_foreground_frame(2) [OF o] by (simp add: d4_def)
  have changed: "agent = ap_current_agent (dk_presence d3) \<and> agent_changed \<and>
      switch_agent agent now d4 = (d', effects)" if changed
  proof -
    obtain d5 fx where w: "switch_agent (ap_current_agent (dk_presence d4)) now d4 = (d5, fx)"
      by fastforce
    from eq that ne w show ?thesis
      by (auto simp: Let_def d4_def split: detection_task.splits)
  qed
  have unchanged: "d' = d4 \<and> agent = ap_current_agent (dk_presence d) \<and> \<not> agent_changed \<and> effects = []"
    if "\<not> changed"
    using eq that by (simp add: pres)
  show thesis
  proof (rule that [of new_agent r d3 changed d4])
    show "observe_foreground new_agent (pb_foreground_is_pane_shell (probe_foreground_process tab shell fg))
       (d\<lparr>dk_last_process_check := now, dk_has_process_probe := True, dk_pending_release := r\<rparr>) = (d3, changed)"
      using o by (simp add: d2 d1_def probe_def)
  qed (use f d4_def changed unchanged in \<open>auto simp: probe_def\<close>)
qed

lemma probe_phase_inv:
  assumes "probe_phase task tab shell fg suppressed gc now d = (d', agent, agent_changed, effects)"
    and "detector_inv d" "grace_ok d"
  shows "detector_inv d'" "grace_ok d'" "agent = ap_current_agent (dk_presence d')"
    "\<not> dk_exit_reported d'"
    "agent_changed \<longleftrightarrow> agent \<noteq> ap_current_agent (dk_presence d)"
proof -
  obtain r new_agent d3 changed d4 where
    o: "observe_foreground new_agent (pb_foreground_is_pane_shell (probe_foreground_process tab shell fg))
       (d\<lparr>dk_last_process_check := now, dk_has_process_probe := True, dk_pending_release := r\<rparr>) = (d3, changed)"
    and d4: "d4 = note_foreground_group task new_agent (pb_process_group_id (probe_foreground_process tab shell fg)) fg
       (dk_has_process_probe d) gc now d3"
    and c: "changed \<Longrightarrow> agent = ap_current_agent (dk_presence d3) \<and> agent_changed \<and>
       switch_agent agent now d4 = (d', effects)"
    and u: "\<not> changed \<Longrightarrow> d' = d4 \<and> agent = ap_current_agent (dk_presence d) \<and> \<not> agent_changed \<and> effects = []"
    by (rule probe_phase_parts [OF assms(1)]) blast
  have i2: "detector_inv (d\<lparr>dk_last_process_check := now, dk_has_process_probe := True, dk_pending_release := r\<rparr>)"
    using assms(2) by (simp add: detector_inv_def)
  note i3 = observe_foreground_inv [OF o i2] and f3 = observe_foreground_frame [OF o]
  have r3: "\<not> dk_exit_reported d3"
    by (subst f3(1)) simp
  have "detector_inv d' \<and> grace_ok d' \<and> agent = ap_current_agent (dk_presence d')
      \<and> \<not> dk_exit_reported d' \<and> agent_changed = (agent \<noteq> ap_current_agent (dk_presence d))"
  proof (cases changed)
    case True
    have "presence_ok (dk_presence d4)" "detector_inv d4"
      using i3(1) by (simp_all add: d4 detector_inv_def)
    moreover have "switch_agent agent now d4 = (d', effects)" "ap_current_agent (dk_presence d4) = agent"
      using c [OF True] by (auto simp: d4)
    ultimately show ?thesis
      using switch_agent_inv [of agent now d4 d' effects] c [OF True] f3(2) True r3 by (simp add: d4)
  next
    case False
    then show ?thesis
      using u f3(2) i3 r3 assms(3) by (simp add: d4 grace_ok_def)
  qed
  then show "detector_inv d'" "grace_ok d'" "agent = ap_current_agent (dk_presence d')"
    "\<not> dk_exit_reported d'" "agent_changed \<longleftrightarrow> agent \<noteq> ap_current_agent (dk_presence d)"
    by blast+
qed

lemma startup_gate_cases:
  assumes "startup_gate task authority_active exited now d = (d', go_on)"
  shows "d' = d \<or> (\<exists>g s. d' = drop_pending_idle (d\<lparr>dk_grace_until := g, dk_last_scan_seq := s\<rparr>)
      \<and> (g = None \<or> g = dk_grace_until d))"
    and "exited \<Longrightarrow> go_on"
proof -
  have unchanged: "d = d\<lparr>dk_grace_until := dk_grace_until d, dk_last_scan_seq := dk_last_scan_seq d\<rparr>"
    "d\<lparr>dk_grace_until := None\<rparr> = d\<lparr>dk_grace_until := None, dk_last_scan_seq := dk_last_scan_seq d\<rparr>"
    by simp_all
  show "d' = d \<or> (\<exists>g s. d' = drop_pending_idle (d\<lparr>dk_grace_until := g, dk_last_scan_seq := s\<rparr>)
      \<and> (g = None \<or> g = dk_grace_until d))"
    using assms unchanged
    by (cases "dk_grace_until d"; cases task; simp add: startup_gate_def split: if_splits; metis)
  show "exited \<Longrightarrow> go_on"
    using assms by (simp add: startup_gate_def split: option.splits)
qed

lemma startup_gate_inv:
  assumes "startup_gate task authority_active exited now d = (d', go_on)"
    and "detector_inv d" "grace_ok d"
  shows "detector_inv d'" "grace_ok d'" "dk_presence d' = dk_presence d"
    "dk_exit_reported d' = dk_exit_reported d" "dk_pending_shell_clear d' = dk_pending_shell_clear d"
    "dk_state d' = dk_state d"
proof -
  from startup_gate_cases(1) [OF assms(1)]
  consider "d' = d" | g s where "d' = drop_pending_idle (d\<lparr>dk_grace_until := g, dk_last_scan_seq := s\<rparr>)"
      "g = None \<or> g = dk_grace_until d"
    by blast
  then have "detector_inv d' \<and> grace_ok d' \<and> dk_presence d' = dk_presence d \<and>
    dk_exit_reported d' = dk_exit_reported d \<and> dk_pending_shell_clear d' = dk_pending_shell_clear d \<and>
    dk_state d' = dk_state d"
  proof cases
    case 1
    then show ?thesis using assms by simp
  next
    case (2 g s)
    have "detector_inv (d\<lparr>dk_grace_until := g, dk_last_scan_seq := s\<rparr>)"
      using assms(2) by (simp add: detector_inv_def)
    then show ?thesis
      using assms(3) 2(2) by (auto simp: 2(1) detector_inv_drop grace_ok_def)
  qed
  then show "detector_inv d'" "grace_ok d'" "dk_presence d' = dk_presence d"
    "dk_exit_reported d' = dk_exit_reported d" "dk_pending_shell_clear d' = dk_pending_shell_clear d"
    "dk_state d' = dk_state d"
    by blast+
qed

text \<open>The screen phase publishes what the screen shows, or nothing.\<close>

definition publish_effect :: "detector \<Rightarrow> agent option \<Rightarrow> bool \<Rightarrow> detector \<Rightarrow> detection_effect list \<Rightarrow> bool" where
  "publish_effect d agent exited d' effects =
     (dk_presence d' = dk_presence d \<and> dk_grace_until d' = dk_grace_until d \<and>
      dk_pending_release d' = dk_pending_release d \<and> dk_pending_shell_clear d' = dk_pending_shell_clear d \<and>
      (effects = [] \<and> dk_exit_reported d' = dk_exit_reported d \<or>
       (\<exists>e. effects = [StateChanged e] \<and> dk_exit_reported d' = (dk_exit_reported d \<or> exited)
         \<and> (exited \<longrightarrow> exit_event agent e) \<and> sc_process_exited e = exited \<and> sc_agent e = agent)))"

lemma publish_effect_none:
  "dk_presence d' = dk_presence d \<Longrightarrow> dk_grace_until d' = dk_grace_until d \<Longrightarrow>
   dk_pending_release d' = dk_pending_release d \<Longrightarrow> dk_pending_shell_clear d' = dk_pending_shell_clear d \<Longrightarrow>
   dk_exit_reported d' = dk_exit_reported d \<Longrightarrow> publish_effect d agent exited d' []"
  by (simp add: publish_effect_def)

lemma apply_publish:
  assumes "apply_agent_detection_publish_update agent u now d = (d', effects)"
    and "detector_inv d" "\<not> pending_active (dk_pending_idle d)"
    and "pu_process_exited u \<Longrightarrow> dk_pending_shell_clear d"
    and "pu_visible_idle u \<longrightarrow> pu_state u = Idle" "pu_visible_blocker u \<longrightarrow> pu_state u = Blocked"
      "pu_visible_working u \<longrightarrow> pu_state u = Working"
    and "pu_process_exited u \<Longrightarrow> pu_state u = Idle"
  shows "detector_inv d'" "publish_effect d agent (pu_process_exited u) d' effects"
proof -
  have d': "d' = fst (apply_agent_detection_publish_update agent u now d)"
    "effects = snd (apply_agent_detection_publish_update agent u now d)"
    using assms(1) by simp_all
  show "detector_inv d'"
    using assms(2-) unfolding d' apply_agent_detection_publish_update_def detector_inv_def by simp
  show "publish_effect d agent (pu_process_exited u) d' effects"
    using assms(5-) unfolding d' apply_agent_detection_publish_update_def publish_effect_def exit_event_def
    by auto
qed

lemma publish_phase_inv:
  assumes "publish_phase inp agent agent_changed exited d = (d', effects)" and "detector_inv d"
    and "exited \<Longrightarrow> dk_pending_shell_clear d"
  shows "detector_inv d'" "publish_effect d agent exited d' effects"
proof -
  let ?det = "detection_update_for_publish_with_osc (ti_detect inp) agent (ti_content inp)
      (ti_osc_title inp) (ti_osc_progress inp) exited"
  have "detector_inv d' \<and> publish_effect d agent exited d' effects"
  proof (cases ?det)
    case None
    then have "d' = drop_pending_idle d" "effects = []"
      using assms(1) by (simp_all add: publish_phase_def)
    then show ?thesis
      using assms(2) by (simp add: detector_inv_drop publish_effect_none)
  next
    case (Some det)
    define i where "i = \<lparr>sp_current_state = dk_state d, sp_last_visible_idle = dk_visible_idle d,
      sp_last_visible_blocker = dk_visible_blocker d, sp_last_visible_working = dk_visible_working d,
      sp_last_signal_refresh = dk_signal_refresh d, sp_screen_detection = det,
      sp_process_exited = exited, sp_agent_changed = agent_changed, sp_now = ti_now inp\<rparr>"
    obtain p dec where dec: "decide_screen_detection_publish i (dk_pending_idle d) = (p, dec)"
      by fastforce
    note c = decide_screen_cases [OF dec]
    have i2: "detector_inv (d\<lparr>dk_pending_idle := p\<rparr>)"
      using assms(2) c(1,2) by (auto simp: detector_inv_def i_def)
    have eq: "(d', effects) = (case dec of NoPublish \<Rightarrow> (d\<lparr>dk_pending_idle := p\<rparr>, [])
      | Publish u \<Rightarrow> apply_agent_detection_publish_update agent u (ti_now inp) (d\<lparr>dk_pending_idle := p\<rparr>))"
      unfolding assms(1) [symmetric]
      by (simp only: publish_phase_def Some option.case i_def [symmetric] dec Let_def prod.case)
    show ?thesis
    proof (cases dec)
      case NoPublish
      then show ?thesis
        using eq i2 by (simp add: publish_effect_none)
    next
      case (Publish u)
      then have u: "u = screen_update i" "\<not> pending_active p"
        using c(3) by simp_all
      have ex: "exited \<Longrightarrow> pu_state u = Idle"
        using Some by (simp add: u i_def screen_update_def next_publish_def stabilize_agent_detection_def Let_def
            detection_update_for_publish_with_osc_def split: if_splits) auto
      have "detector_inv d' \<and> publish_effect (d\<lparr>dk_pending_idle := p\<rparr>) agent (pu_process_exited u) d' effects"
        using apply_publish [of agent u "ti_now inp" "d\<lparr>dk_pending_idle := p\<rparr>" d' effects]
          eq Publish i2 u(2) assms(3) ex screen_update_signals [of i]
        by (simp add: u(1)) (simp add: i_def)
      then show ?thesis
        by (simp add: publish_effect_def u(1) screen_update_signals) (simp add: i_def)
    qed
  qed
  then show "detector_inv d'" "publish_effect d agent exited d' effects"
    by blast+
qed

lemma screen_phase_cases:
  assumes "screen_phase task inp agent agent_changed exited suppressed gc d = (d', effects)"
  obtains (skip) "d' = d" "effects = []" "\<not> exited"
    | (viewer) "d' = drop_pending_idle (d\<lparr>dk_last_scan_seq :=
          if agent \<noteq> None then Some (ti_content_seq inp) else None, dk_last_text := ti_content inp\<rparr>)"
        "effects = []" "viewer_holds task inp agent exited"
    | (publish) s l where "publish_phase inp agent agent_changed exited
        (d\<lparr>dk_last_scan_seq := if agent \<noteq> None then Some (ti_content_seq inp) else None,
           dk_last_text := ti_content inp,
           dk_acquisition_started_at := s, dk_last_content_change_at := l\<rparr>) = (d', effects)"
proof -
  let ?seq = "if agent \<noteq> None then Some (ti_content_seq inp) else None"
  let ?r = "\<lparr>sr_state = dk_state d, sr_agent = agent,
              sr_pending_idle_active = pending_active (dk_pending_idle d), sr_agent_changed = agent_changed,
              sr_process_exited = exited, sr_current_seq = ?seq, sr_last_scan_seq = dk_last_scan_seq d\<rparr>"
  let ?d1 = "d\<lparr>dk_last_scan_seq := ?seq, dk_last_text := ti_content inp\<rparr>"
  obtain s l where sync: "sync_content_change_acquisition (ap_current_agent (dk_presence ?d1)) suppressed gc
      (ti_content inp \<noteq> dk_last_text d) (ti_now inp)
      (dk_acquisition_started_at ?d1, dk_last_content_change_at ?d1) = (s, l)"
    by fastforce
  have eq: "(d', effects) = (case decide_detection_screen_read ?r of SkipScreen \<Rightarrow> (d, [])
    | ReadScreen \<Rightarrow> if viewer_holds task inp agent exited then (drop_pending_idle ?d1, [])
        else publish_phase inp agent agent_changed exited
          (?d1\<lparr>dk_acquisition_started_at := s, dk_last_content_change_at := l\<rparr>))"
    unfolding assms [symmetric] screen_phase_def Let_def sync prod.case by (rule refl)
  show thesis
  proof (cases "decide_detection_screen_read ?r")
    case SkipScreen
    then have "\<not> exited"
      by (auto simp: decide_detection_screen_read_def should_skip_idle_screen_scan_def split: if_split_asm)
    with SkipScreen eq skip show thesis by simp
  next
    case ReadScreen
    with eq viewer publish [of l s] show thesis by (cases "viewer_holds task inp agent exited") simp_all
  qed
qed

lemma screen_phase_inv:
  assumes "screen_phase task inp agent agent_changed exited suppressed gc d = (d', effects)"
    and "detector_inv d" and "exited \<Longrightarrow> dk_pending_shell_clear d"
  shows "detector_inv d'" "publish_effect d agent exited d' effects"
proof -
  let ?seq = "if agent \<noteq> None then Some (ti_content_seq inp) else None"
  let ?d1 = "d\<lparr>dk_last_scan_seq := ?seq, dk_last_text := ti_content inp\<rparr>"
  have d1: "detector_inv ?d1"
    using assms(2) by (simp add: detector_inv_def)
  from assms(1) consider "d' = d" "effects = []"
    | "d' = drop_pending_idle ?d1" "effects = []"
    | s l where "publish_phase inp agent agent_changed exited
        (?d1\<lparr>dk_acquisition_started_at := s, dk_last_content_change_at := l\<rparr>) = (d', effects)"
    by (rule screen_phase_cases)
  then have "detector_inv d' \<and> publish_effect d agent exited d' effects"
  proof cases
    case 1
    then show ?thesis using assms(2) by (simp add: publish_effect_none)
  next
    case 2
    then show ?thesis using d1 by (simp add: detector_inv_drop publish_effect_none)
  next
    case (3 s l)
    have "detector_inv (?d1\<lparr>dk_acquisition_started_at := s, dk_last_content_change_at := l\<rparr>)"
      using d1 by (simp add: detector_inv_def)
    from publish_phase_inv [OF 3 this] assms(3) show ?thesis
      by (simp add: publish_effect_def)
  qed
  then show "detector_inv d'" "publish_effect d agent exited d' effects"
    by blast+
qed

section \<open>An iteration and a run\<close>

text \<open>The parts of an iteration.\<close>

lemma detection_tick_parts:
  assumes "detection_tick task inp d = (d', effects)"
  obtains d1 suppressed d2 agent agent_changed fx d3 go_on fx' where
    "release_phase (ti_now inp) d = (d1, suppressed)"
    "(d2, agent, agent_changed, fx) =
       (if should_check_process suppressed (ti_pid inp)
            (if 0 < ti_pid inp then ti_foreground_group inp else None) (ti_authority_active inp) (ti_now inp) d1
        then probe_phase task (ti_processes inp) (ti_pid inp)
            (if 0 < ti_pid inp then ti_foreground_group inp else None) suppressed
            (foreground_group_changed (if 0 < ti_pid inp then ti_foreground_group inp else None)
               (dk_last_foreground_pgid d1)) (ti_now inp) d1
        else (d1, ap_current_agent (dk_presence d1), False, []))"
    "startup_gate task (ti_authority_active inp) (process_exited agent d2) (ti_now inp) d2 = (d3, go_on)"
    "effects = fx @ fx'"
    "(if go_on then screen_phase task inp agent agent_changed (process_exited agent d2) suppressed
            (foreground_group_changed (if 0 < ti_pid inp then ti_foreground_group inp else None)
               (dk_last_foreground_pgid d1)) d3
      else (d3, [])) = (d', fx')"
proof -
  let ?fg = "if 0 < ti_pid inp then ti_foreground_group inp else None"
  obtain d1 suppressed where r: "release_phase (ti_now inp) d = (d1, suppressed)"
    by fastforce
  let ?gc = "foreground_group_changed ?fg (dk_last_foreground_pgid d1)"
  obtain d2 agent agent_changed fx where p: "(if should_check_process suppressed (ti_pid inp) ?fg
        (ti_authority_active inp) (ti_now inp) d1
      then probe_phase task (ti_processes inp) (ti_pid inp) ?fg suppressed ?gc (ti_now inp) d1
      else (d1, ap_current_agent (dk_presence d1), False, [])) = (d2, agent, agent_changed, fx)"
    by (cases "if should_check_process suppressed (ti_pid inp) ?fg
        (ti_authority_active inp) (ti_now inp) d1
      then probe_phase task (ti_processes inp) (ti_pid inp) ?fg suppressed ?gc (ti_now inp) d1
      else (d1, ap_current_agent (dk_presence d1), False, [])") blast
  obtain d3 go_on where g: "startup_gate task (ti_authority_active inp) (process_exited agent d2) (ti_now inp) d2
      = (d3, go_on)"
    by fastforce
  obtain d4 fx' where s: "(if go_on then screen_phase task inp agent agent_changed (process_exited agent d2)
      suppressed ?gc d3 else (d3, [])) = (d4, fx')"
    by fastforce
  have "detection_tick task inp d = (d4, fx @ fx')"
    unfolding detection_tick_def Let_def r prod.case p g using s by (auto split: prod.splits if_splits)
  then show thesis
    using that [OF r p [symmetric] g] s assms by simp
qed

text \<open>A pending exit is probed at every iteration.\<close>

lemma pending_exit_probed:
  "dk_pending_shell_clear d \<Longrightarrow> 0 < shell \<Longrightarrow> should_check_process suppressed shell fg authority now d"
  by (simp add: should_check_process_def probe_input_def should_probe_foreground_job_def
      should_skip_process_probe_for_lifecycle_authority_def)

text \<open>What one iteration does to the presence, the reported exit and the trace.\<close>

lemma detection_tick_inv:
  assumes "detection_tick task inp d = (d', effects)" and "detector_inv d" "grace_ok d"
    and "shell_ok (ti_pid inp) d"
  shows "detector_inv d'" "grace_ok d'" "shell_ok (ti_pid inp) d'" "exit_logged d' (trace @ effects)"
proof -
  obtain d1 suppressed d2 agent agent_changed fx d3 go_on fx' where
    r: "release_phase (ti_now inp) d = (d1, suppressed)" and
    p: "(d2, agent, agent_changed, fx) =
       (if should_check_process suppressed (ti_pid inp)
            (if 0 < ti_pid inp then ti_foreground_group inp else None) (ti_authority_active inp) (ti_now inp) d1
        then probe_phase task (ti_processes inp) (ti_pid inp)
            (if 0 < ti_pid inp then ti_foreground_group inp else None) suppressed
            (foreground_group_changed (if 0 < ti_pid inp then ti_foreground_group inp else None)
               (dk_last_foreground_pgid d1)) (ti_now inp) d1
        else (d1, ap_current_agent (dk_presence d1), False, []))" and
    g: "startup_gate task (ti_authority_active inp) (process_exited agent d2) (ti_now inp) d2 = (d3, go_on)" and
    fx: "effects = fx @ fx'" and
    s: "(if go_on then screen_phase task inp agent agent_changed (process_exited agent d2) suppressed
            (foreground_group_changed (if 0 < ti_pid inp then ti_foreground_group inp else None)
               (dk_last_foreground_pgid d1)) d3
      else (d3, [])) = (d', fx')"
    by (rule detection_tick_parts [OF assms(1)])
  have i1: "detector_inv d1" "grace_ok d1" "dk_presence d1 = dk_presence d"
      "dk_exit_reported d1 = dk_exit_reported d" "dk_pending_shell_clear d1 = dk_pending_shell_clear d"
    using assms(2,3) r detector_inv_release [OF r] by (simp_all add: grace_ok_def)
  have i2: "detector_inv d2 \<and> grace_ok d2 \<and> agent = ap_current_agent (dk_presence d2)
      \<and> \<not> dk_exit_reported d2 \<and> shell_ok (ti_pid inp) d2"
  proof (cases "should_check_process suppressed (ti_pid inp)
            (if 0 < ti_pid inp then ti_foreground_group inp else None) (ti_authority_active inp) (ti_now inp) d1")
    case True
    note p [symmetric, simplified True if_True]
    from probe_phase_inv [OF this i1(1,2)] True show ?thesis
      by (simp add: should_check_process_def shell_ok_def)
  next
    case False
    with pending_exit_probed [of d1 "ti_pid inp"] i1 assms(4) have "\<not> dk_pending_shell_clear d1"
      by (auto simp: shell_ok_def)
    with False p i1 show ?thesis by (auto simp: shell_ok_def detector_inv_def)
  qed
  note i3 = startup_gate_inv [OF g conjunct1 [OF i2] conjunct1 [OF conjunct2 [OF i2]]]
  have pe: "process_exited agent d2 \<Longrightarrow> dk_pending_shell_clear d3"
    by (simp add: process_exited_def i3)
  have i4: "detector_inv d' \<and> publish_effect d3 agent (process_exited agent d2) d' fx'"
  proof (cases go_on)
    case True
    note s [simplified True if_True]
    from screen_phase_inv [OF this i3(1) pe] show ?thesis by simp
  next
    case False
    with s i3 show ?thesis by (auto intro: publish_effect_none)
  qed
  then show "detector_inv d'" "grace_ok d'" "shell_ok (ti_pid inp) d'"
    using i2 i3 by (auto simp: publish_effect_def grace_ok_def shell_ok_def)
  show "exit_logged d' (trace @ effects)"
    using i4 i2 i3 by (auto simp: publish_effect_def exit_logged_def fx append_assoc [symmetric]
        simp del: append_assoc)
qed

lemma reset_frame [simp]:
  "detector_inv (reset_basic now d)" "detector_inv (reset_spawned d)"
  "grace_ok (reset_basic now d)" "grace_ok (reset_spawned d)"
  "shell_ok shell (reset_basic now d)" "shell_ok shell (reset_spawned d)"
  "exit_logged (reset_basic now d) trace" "exit_logged (reset_spawned d) trace"
  by (simp_all add: reset_basic_def reset_spawned_def detector_inv_def grace_ok_def shell_ok_def exit_logged_def)

lemma start_frame [simp]:
  "detector_inv (basic_detector now r)" "detector_inv (spawned_detector a now r)"
  "grace_ok (basic_detector now r)" "grace_ok (spawned_detector a now r)"
  "shell_ok shell (basic_detector now r)" "shell_ok shell (spawned_detector a now r)"
  "exit_logged (basic_detector now r) trace" "exit_logged (spawned_detector a now r) trace"
  by (simp_all add: basic_detector_def spawned_detector_def detector_inv_def grace_ok_def shell_ok_def
      exit_logged_def)

lemma detector_step_inv:
  assumes "detector_step task shell d effects d'"
    and "detector_inv d" "grace_ok d" "shell_ok shell d" "exit_logged d trace"
  shows "detector_inv d' \<and> grace_ok d' \<and> shell_ok shell d' \<and> exit_logged d' (trace @ effects)"
  using assms
proof (cases rule: detector_step.cases)
  case (tick inp)
  from detection_tick_inv [OF tick(1) assms(2,3)] tick(2) assms(4) show ?thesis by simp
next
  case (sleep now transient)
  obtain r where "d' = d\<lparr>dk_pending_release := r\<rparr>"
    using sleep by (cases "active_pending_release now (dk_pending_release d)") (simp add: spawned_sleep_def)
  then show ?thesis
    using assms(2-) sleep by (simp add: detector_inv_def grace_ok_def shell_ok_def exit_logged_def)
next
  case (release agent now)
  then show ?thesis
    using assms(2-) by (simp add: begin_graceful_release_def detector_inv_def grace_ok_def shell_ok_def exit_logged_def)
qed simp_all

lemma detector_run_inv:
  "detector_run task shell d trace \<Longrightarrow>
   detector_inv d \<and> grace_ok d \<and> shell_ok shell d \<and> exit_logged d trace"
proof (induction rule: detector_run.induct)
  case (step d trace effects d')
  then show ?case using detector_step_inv by blast
qed simp_all

end
