(* ===== verification/Detection_Properties.thy ===== *)
theory Detection_Properties
  imports Detection_Invariants
begin

text \<open>
  What the detection task promises: the consistency of its state with what it has published,
  that an exit to the shell is published before the agent is forgotten, that it is published
  at once, that a released agent stays released, and the bound on the hold of an idle screen.
\<close>

section \<open>Lemmas\<close>

lemma sixth_miss: "m < 6 \<Longrightarrow> \<not> sat_add m 1 < (6 :: u8) \<Longrightarrow> m = 5"
  using unat_sat_add [of m 1] by (auto simp: word_less_nat_alt word_unat_eq_iff)

lemma publish_phase_exited:
  "publish_phase inp agent agent_changed True d =
   apply_agent_detection_publish_update agent
     \<lparr>pu_state = Idle, pu_visible_idle = True, pu_visible_blocker = False, pu_visible_working = False,
      pu_process_exited = True\<rparr> (ti_now inp) (drop_pending_idle d)"
  by (simp add: publish_phase_def detection_update_for_publish_with_osc_def decide_exited drop_pending_idle_def)
    (simp add: screen_update_def next_publish_def stabilize_agent_detection_def)

lemma screen_phase_exited:
  assumes "screen_phase task inp (Some a) agent_changed True suppressed gc d = (d', effects)"
    and "\<not> viewer_holds task inp (Some a) True"
  shows "dk_exit_reported d' \<and> dk_presence d' = dk_presence d
    \<and> (\<exists>e. effects = [StateChanged e] \<and> exit_event (Some a) e \<and> sc_observed_at e = ti_now inp)"
  using assms(1)
proof (cases rule: screen_phase_cases)
  case skip
  then show ?thesis by simp
next
  case viewer
  with assms(2) show ?thesis by simp
next
  case (publish s l)
  from publish [symmetric] show ?thesis
    by (simp add: publish_phase_exited apply_agent_detection_publish_update_def exit_event_def)
qed

lemma tick_presence:
  assumes "detection_tick task inp d = (d', effects)" and "detector_inv d" "grace_ok d"
  obtains (kept) "dk_presence d' = dk_presence d" "dk_pending_shell_clear d \<Longrightarrow> \<not> 0 < ti_pid inp"
    | (probed) r new_agent d3 changed where
      "new_agent = pb_agent (probe_foreground_process (ti_processes inp) (ti_pid inp) (ti_foreground_group inp))
       \<or> new_agent = None"
      "\<And>a. snd (active_pending_release (ti_now inp) (dk_pending_release d)) = Some a \<Longrightarrow> new_agent \<noteq> Some a"
      "observe_foreground new_agent
         (pb_foreground_is_pane_shell
            (probe_foreground_process (ti_processes inp) (ti_pid inp) (ti_foreground_group inp))) r = (d3, changed)"
      "dk_presence r = dk_presence d" "dk_exit_reported r = dk_exit_reported d"
      "dk_presence d' = dk_presence d3"
proof -
  let ?fg = "if 0 < ti_pid inp then ti_foreground_group inp else None"
  obtain d1 suppressed d2 agent agent_changed fx d3 go_on fx' where
    r: "release_phase (ti_now inp) d = (d1, suppressed)" and
    p: "(d2, agent, agent_changed, fx) =
       (if should_check_process suppressed (ti_pid inp) ?fg (ti_authority_active inp) (ti_now inp) d1
        then probe_phase task (ti_processes inp) (ti_pid inp) ?fg suppressed
            (foreground_group_changed ?fg (dk_last_foreground_pgid d1)) (ti_now inp) d1
        else (d1, ap_current_agent (dk_presence d1), False, []))" and
    g: "startup_gate task (ti_authority_active inp) (process_exited agent d2) (ti_now inp) d2 = (d3, go_on)" and
    s: "(if go_on then screen_phase task inp agent agent_changed (process_exited agent d2) suppressed
            (foreground_group_changed ?fg (dk_last_foreground_pgid d1)) d3
      else (d3, [])) = (d', fx')"
    by (rule detection_tick_parts [OF assms(1)])
  have i1: "detector_inv d1" "grace_ok d1" "dk_presence d1 = dk_presence d"
      "dk_exit_reported d1 = dk_exit_reported d"
    using assms(2,3) r detector_inv_release [OF r] by (simp_all add: grace_ok_def)
  have sup: "suppressed = snd (active_pending_release (ti_now inp) (dk_pending_release d))"
    using r by (cases "active_pending_release (ti_now inp) (dk_pending_release d)")
      (simp add: release_phase_def Let_def)
  have d': "dk_presence d' = dk_presence d2" if "detector_inv d2" "grace_ok d2"
  proof -
    note g' = startup_gate_inv [OF g that]
    have "process_exited agent d2 \<Longrightarrow> dk_pending_shell_clear d3"
      by (simp add: process_exited_def g')
    then have "dk_presence d' = dk_presence d3"
      using s screen_phase_inv(2) [of task inp agent agent_changed "process_exited agent d2" suppressed _ d3 d' fx'] g'(1)
      by (auto simp: publish_effect_def split: if_split_asm)
    then show ?thesis
      by (simp add: g')
  qed
  show thesis
  proof (cases "should_check_process suppressed (ti_pid inp) ?fg (ti_authority_active inp) (ti_now inp) d1")
    case False
    with pending_exit_probed [of d1 "ti_pid inp"] r have "dk_pending_shell_clear d \<Longrightarrow> \<not> 0 < ti_pid inp"
      by auto
    with False p d' i1 kept show thesis by simp
  next
    case True
    then have fg: "?fg = ti_foreground_group inp"
      by (simp add: should_check_process_def)
    note pp = p [symmetric, simplified True if_True, unfolded fg]
    note q = probe_phase_inv [OF pp i1(1,2)]
    obtain r new_agent d3' changed d4 where
      n: "new_agent = pb_agent (probe_foreground_process (ti_processes inp) (ti_pid inp) (ti_foreground_group inp))
         \<or> new_agent = None \<and> pb_agent (probe_foreground_process (ti_processes inp) (ti_pid inp)
              (ti_foreground_group inp)) = suppressed" and
      ns: "\<And>a. suppressed = Some a \<Longrightarrow> new_agent \<noteq> Some a" and
      o: "observe_foreground new_agent
           (pb_foreground_is_pane_shell (probe_foreground_process (ti_processes inp) (ti_pid inp) (ti_foreground_group inp)))
           (d1\<lparr>dk_last_process_check := ti_now inp, dk_has_process_probe := True, dk_pending_release := r\<rparr>)
           = (d3', changed)" and
      d4: "d4 = note_foreground_group task new_agent
           (pb_process_group_id (probe_foreground_process (ti_processes inp) (ti_pid inp) (ti_foreground_group inp)))
           (ti_foreground_group inp) (dk_has_process_probe d1)
           (foreground_group_changed (ti_foreground_group inp) (dk_last_foreground_pgid d1)) (ti_now inp) d3'" and
      c: "changed \<Longrightarrow> agent = ap_current_agent (dk_presence d3') \<and> agent_changed \<and>
           switch_agent agent (ti_now inp) d4 = (d2, fx)" and
      u: "\<not> changed \<Longrightarrow> d2 = d4 \<and> agent = ap_current_agent (dk_presence d1) \<and> \<not> agent_changed \<and> fx = []"
      by (rule probe_phase_parts [OF pp]) blast
    have "dk_presence d2 = dk_presence d3'"
    proof (cases changed)
      case True
      with c show ?thesis
        by (auto simp: switch_agent_def Let_def d4 split: if_split_asm)
    next
      case False
      with u show ?thesis by (simp add: d4)
    qed
    then show thesis
      using probed [OF _ _ o] n ns d' [OF q(1,2)] i1 by (auto simp: sup)
  qed
qed

text \<open>The iteration in which the foreground returns to the pane's shell.\<close>

lemma shell_probe_reports:
  assumes "probe_phase task tab shell fg suppressed gc now d = (d', agent, agent_changed, effects)"
    and "ap_current_agent (dk_presence d) = Some a" "\<not> dk_exit_reported d"
    and "pb_agent (probe_foreground_process tab shell fg) = None"
    and "pb_foreground_is_pane_shell (probe_foreground_process tab shell fg)"
  shows "agent = Some a \<and> effects = [] \<and> dk_presence d' = dk_presence d
    \<and> dk_pending_shell_clear d' \<and> \<not> dk_exit_reported d'"
proof -
  obtain r new_agent d3 changed d4 where
    n: "new_agent = pb_agent (probe_foreground_process tab shell fg)
     \<or> new_agent = None \<and> pb_agent (probe_foreground_process tab shell fg) = suppressed" and
    o: "observe_foreground new_agent (pb_foreground_is_pane_shell (probe_foreground_process tab shell fg))
       (d\<lparr>dk_last_process_check := now, dk_has_process_probe := True, dk_pending_release := r\<rparr>) = (d3, changed)"
    and d4: "d4 = note_foreground_group task new_agent (pb_process_group_id (probe_foreground_process tab shell fg)) fg
       (dk_has_process_probe d) gc now d3"
    and c: "changed \<Longrightarrow> agent = ap_current_agent (dk_presence d3) \<and> agent_changed \<and>
       switch_agent agent now d4 = (d', effects)"
    and u: "\<not> changed \<Longrightarrow> d' = d4 \<and> agent = ap_current_agent (dk_presence d) \<and> \<not> agent_changed \<and> effects = []"
    by (rule probe_phase_parts [OF assms(1)]) blast
  have "new_agent = None"
    using n assms(4) by auto
  with o assms(2,3,5) have "\<not> changed" "dk_presence d3 = dk_presence d" "dk_pending_shell_clear d3"
      "\<not> dk_exit_reported d3"
    by (auto simp: observe_foreground_def foreground_shell_agent_action_def)
  with u assms(2) show ?thesis
    by (simp add: d4)
qed

lemma foreground_change_probed:
  "0 < shell \<Longrightarrow> fg \<noteq> None \<Longrightarrow> fg \<noteq> dk_last_foreground_pgid d \<Longrightarrow>
   ap_current_agent (dk_presence d) \<noteq> None \<Longrightarrow> should_check_process suppressed shell fg authority now d"
  by (simp add: should_check_process_def probe_input_def should_probe_foreground_job_def Let_def
      should_skip_process_probe_for_lifecycle_authority_def foreground_group_changed_def)

lemma exit_tick:
  assumes "detection_tick task inp d = (d', effects)" and "detector_inv d" "grace_ok d"
    and "ap_current_agent (dk_presence d) = Some a" "\<not> dk_exit_reported d"
    and "0 < ti_pid inp" "ti_foreground_group inp \<noteq> None"
    and "ti_foreground_group inp \<noteq> dk_last_foreground_pgid d"
    and "pb_agent (probe_foreground_process (ti_processes inp) (ti_pid inp) (ti_foreground_group inp)) = None"
    and "pb_foreground_is_pane_shell
      (probe_foreground_process (ti_processes inp) (ti_pid inp) (ti_foreground_group inp))"
    and "\<not> viewer_holds task inp (Some a) True"
  shows "dk_exit_reported d' \<and> ap_current_agent (dk_presence d') = Some a \<and>
    (\<exists>e. effects = [StateChanged e] \<and> exit_event (Some a) e \<and> sc_observed_at e = ti_now inp)"
proof -
  let ?fg = "if 0 < ti_pid inp then ti_foreground_group inp else None"
  obtain d1 suppressed d2 agent agent_changed fx d3 go_on fx' where
    r: "release_phase (ti_now inp) d = (d1, suppressed)" and
    p: "(d2, agent, agent_changed, fx) =
       (if should_check_process suppressed (ti_pid inp) ?fg (ti_authority_active inp) (ti_now inp) d1
        then probe_phase task (ti_processes inp) (ti_pid inp) ?fg suppressed
            (foreground_group_changed ?fg (dk_last_foreground_pgid d1)) (ti_now inp) d1
        else (d1, ap_current_agent (dk_presence d1), False, []))" and
    g: "startup_gate task (ti_authority_active inp) (process_exited agent d2) (ti_now inp) d2 = (d3, go_on)" and
    fx: "effects = fx @ fx'" and
    s: "(if go_on then screen_phase task inp agent agent_changed (process_exited agent d2) suppressed
            (foreground_group_changed ?fg (dk_last_foreground_pgid d1)) d3
      else (d3, [])) = (d', fx')"
    by (rule detection_tick_parts [OF assms(1)])
  have d1: "dk_presence d1 = dk_presence d" "dk_exit_reported d1 = dk_exit_reported d"
      "dk_last_foreground_pgid d1 = dk_last_foreground_pgid d"
    using r by simp_all
  have i1: "detector_inv d1" "grace_ok d1"
    using assms(2,3) r detector_inv_release [OF r] by (simp_all add: grace_ok_def)
  have "should_check_process suppressed (ti_pid inp) ?fg (ti_authority_active inp) (ti_now inp) d1"
    using assms(4,6-8) d1 by (simp add: foreground_change_probed)
  note pp = p [symmetric, simplified this if_True]
  have q: "agent = Some a \<and> fx = [] \<and> dk_presence d2 = dk_presence d1
    \<and> dk_pending_shell_clear d2 \<and> \<not> dk_exit_reported d2"
    using shell_probe_reports [OF pp] assms(4-6,9,10) d1 by simp
  then have e: "process_exited agent d2"
    by (simp add: process_exited_def)
  note inv2 = probe_phase_inv [OF pp i1]
  have go_on
    using startup_gate_cases(2) [OF g e] .
  then have "screen_phase task inp (Some a) agent_changed True suppressed
            (foreground_group_changed ?fg (dk_last_foreground_pgid d1)) d3 = (d', fx')"
    using s q e by simp
  from screen_phase_exited [OF this assms(11)] show ?thesis
    using startup_gate_inv [OF g inv2(1,2)] q d1 assms(4) fx by simp
qed

text \<open>A reported exit makes the next probe without an agent forget it.\<close>

lemma reported_exit_cleared:
  assumes "detection_tick task inp d = (d', effects)" and "detector_inv d" "grace_ok d"
    and "dk_exit_reported d" "0 < ti_pid inp"
    and "pb_agent (probe_foreground_process (ti_processes inp) (ti_pid inp) (ti_foreground_group inp)) = None"
  shows "ap_current_agent (dk_presence d') = None"
  using assms(1-3)
proof (cases rule: tick_presence)
  case kept
  have "dk_pending_shell_clear d"
    using assms(2,4) by (simp add: detector_inv_def)
  with kept(2) assms(5) show ?thesis by simp
next
  case (probed r new_agent d3 changed)
  then show ?thesis
    using assms(2,4,6)
    by (auto simp: observe_foreground_def foreground_shell_agent_action_def clear_current_agent_def
        detector_inv_def observe_process_probe_def)
qed

section \<open>Properties\<close>

text \<open>C12: whatever a detection task has seen, its state is consistent: a visible signal
  belongs to the state shown, a screen is held back only while the pane is shown working and
  with fewer than three confirmations, a grace window belongs to an agent, and an exit that is
  marked as reported is the last thing the task has published, as an idle state of the
  current agent with the exit flag.\<close>

theorem detector_run_consistent:
  assumes "detector_run task shell d trace"
  shows "(dk_visible_idle d \<longrightarrow> dk_state d = Idle) \<and> (dk_visible_blocker d \<longrightarrow> dk_state d = Blocked)
    \<and> (dk_visible_working d \<longrightarrow> dk_state d = Working)
    \<and> (pending_active (dk_pending_idle d) \<longrightarrow> dk_state d = Working \<and> pi_confirmations (dk_pending_idle d) < 3)
    \<and> (dk_grace_until d \<noteq> None \<longrightarrow> ap_current_agent (dk_presence d) \<noteq> None)
    \<and> (dk_exit_reported d \<longrightarrow> (\<exists>a e. ap_current_agent (dk_presence d) = Some a
          \<and> last_published trace = Some e \<and> sc_agent e = Some a \<and> sc_state e = Idle \<and> sc_process_exited e))"
  using detector_run_inv [OF assms]
  by (auto simp: detector_inv_def grace_ok_def exit_logged_def exit_event_def pending_ok_def
      AGENT_PENDING_IDLE_CONFIRMATIONS_def)



text \<open>C13: while the release of an agent is pending no iteration takes it for the agent of the
  pane again.\<close>

theorem released_agent_stays_released:
  assumes "detector_run task shell d trace"
    and "detection_tick task inp (begin_graceful_release a since d) = (d', effects)"
    and "ti_now inp < since + RELEASE_REACQUIRE_SUPPRESSION"
    and "ap_current_agent (dk_presence d) \<noteq> Some a"
  shows "ap_current_agent (dk_presence d') \<noteq> Some a"
proof -
  let ?d = "begin_graceful_release a since d"
  have "detector_run task shell ?d (trace @ [])"
    by (rule detector_run.step [OF assms(1) detector_step.release])
  then have "detector_inv ?d" "grace_ok ?d"
    using detector_run_inv by blast+
  with assms(2) show ?thesis
  proof (cases rule: tick_presence)
    case kept
    then show ?thesis using assms(4) by (simp add: begin_graceful_release_def)
  next
    case (probed r new_agent d3 changed)
    have "new_agent \<noteq> Some a"
      using probed(2) [of a] assms(3) by (simp add: begin_graceful_release_def active_pending_release_def)
    with probed(3,4,6) assms(4) show ?thesis
      by (auto simp: observe_foreground_def clear_current_agent_def observe_process_probe_def Let_def
          begin_graceful_release_def split: shell_agent_action.splits option.splits if_split_asm prod.splits)
  qed
qed

section \<open>A run\<close>

text \<open>A restored Claude pane whose foreground turns out to be its shell, process 10.\<close>

definition demo_processes :: process_table where
  "demo_processes = \<lparr>tab_resolve = (\<lambda>_. None), tab_leader_job = (\<lambda>_. None),
     tab_foreground_job = (\<lambda>_. Some \<lparr>process_group_id = 10,
       processes = [\<lparr>pid = 10, proc_name = ''zsh'', argv0 = None, proc_argv = None, cmdline = None\<rparr>]\<rparr>),
     tab_agent_hint = (\<lambda>_. None)\<rparr>"

definition demo_tick :: "nat \<Rightarrow> tick_input" where
  "demo_tick ms = \<lparr>ti_now = milliseconds ms, ti_pid = 10, ti_foreground_group = Some 10,
     ti_authority_active = False, ti_processes = demo_processes, ti_content_seq = 1, ti_content = ''$'',
     ti_osc_title = [], ti_osc_progress = [],
     ti_detect = (\<lambda>_ _ _ _. \<lparr>ad_state = Idle, ad_skip_state_update = False, ad_visible_idle = False,
       ad_visible_blocker = False, ad_visible_working = False\<rparr>),
     ti_viewer = (\<lambda>_ _. False)\<rparr>"

definition demo_start :: detector where
  "demo_start = spawned_detector (Some Claude) 0 None"

definition demo_exit :: "nat \<Rightarrow> state_changed" where
  "demo_exit ms = \<lparr>sc_agent = Some Claude, sc_state = Idle, sc_visible_blocker = False,
     sc_visible_working = False, sc_process_exited = True, sc_observed_at = milliseconds ms\<rparr>"

lemma demo_probe: "probe_foreground_process demo_processes 10 (Some 10) =
    \<lparr>pb_process_group_id = Some 10, pb_foreground_is_pane_shell = True, pb_agent = None, pb_process_name = None\<rparr>"
  by code_simp

lemmas tick_eval = Let_def detection_tick_def foreground_group_changed_def is_some_and_def is_none_or_def or_else_def release_phase_def active_pending_release_def demo_tick_def
  should_check_process_def probe_input_def should_probe_foreground_job_def
  should_skip_process_probe_for_lifecycle_authority_def probe_phase_def demo_probe suppress_released_def
  observe_foreground_def foreground_shell_agent_action_def note_foreground_group_def switch_agent_def
  process_exited_def startup_gate_def screen_phase_def decide_detection_screen_read_def
  should_skip_idle_screen_scan_def viewer_holds_def should_skip_state_update_def
  sync_content_change_acquisition_def publish_phase_exited apply_agent_detection_publish_update_def

lemma demo_first_tick:
  "dk_exit_reported (fst (detection_tick Spawned (demo_tick 300) demo_start))"
  "dk_pending_shell_clear (fst (detection_tick Spawned (demo_tick 300) demo_start))"
  "ap_current_agent (dk_presence (fst (detection_tick Spawned (demo_tick 300) demo_start))) = Some Claude"
  "snd (detection_tick Spawned (demo_tick 300) demo_start) = [StateChanged (demo_exit 300)]"
  by (simp_all add: tick_eval demo_start_def spawned_detector_def drop_pending_idle_def demo_exit_def)

definition demo_middle :: detector where
  "demo_middle = fst (detection_tick Spawned (demo_tick 300) demo_start)"

lemma demo_middle_tick:
  "detection_tick Spawned (demo_tick 300) demo_start = (demo_middle, [StateChanged (demo_exit 300)])"
  using demo_first_tick(4) by (simp add: demo_middle_def prod_eq_iff)

lemma demo_pid [simp]: "ti_pid (demo_tick ms) = 10"
  by (simp add: demo_tick_def)

lemma demo_run: "detector_run Spawned 10 demo_start []"
  "detector_run Spawned 10 demo_middle [StateChanged (demo_exit 300)]"
proof -
  show "detector_run Spawned 10 demo_start []"
    by (simp add: demo_start_def detector_run.start_spawned)
  then show "detector_run Spawned 10 demo_middle [StateChanged (demo_exit 300)]"
    using detector_run.step [OF _ detector_step.tick [OF demo_middle_tick]] by fastforce
qed

lemma demo_tick_probe:
  "probe_foreground_process (ti_processes (demo_tick ms)) 10 (ti_foreground_group (demo_tick ms)) =
    \<lparr>pb_process_group_id = Some 10, pb_foreground_is_pane_shell = True, pb_agent = None, pb_process_name = None\<rparr>"
  by (simp add: demo_tick_def demo_probe)

lemma demo_last_tick:
  obtains d fx where "detection_tick Spawned (demo_tick 600) demo_middle = (d, fx)"
    "ap_current_agent (dk_presence d) = None"
proof -
  obtain d fx where t: "detection_tick Spawned (demo_tick 600) demo_middle = (d, fx)"
    by fastforce
  have "detector_inv demo_middle" "grace_ok demo_middle"
    using detector_run_inv [OF demo_run(2)] by simp_all
  then show thesis
    using that [OF t] reported_exit_cleared [OF t] demo_first_tick(1) by (simp add: demo_tick_probe demo_middle_def)
qed

theorem detector_run_consistent_witness:
  "ap_current_agent (dk_presence demo_middle) = Some Claude \<and>
   (\<exists>e. last_published [StateChanged (demo_exit 300)] = Some e \<and> sc_agent e = Some Claude \<and> sc_process_exited e)"
  using detector_run_consistent [OF demo_run(2)] demo_first_tick(1,3) by (auto simp: demo_middle_def)



theorem released_agent_stays_released_witness:
  "ap_current_agent (dk_presence (fst (detection_tick Spawned
     ((demo_tick 300)\<lparr>ti_processes := demo_processes\<lparr>tab_agent_hint := (\<lambda>_. Some Claude)\<rparr>\<rparr>)
     (begin_graceful_release Claude 0 (reset_spawned demo_start))))) \<noteq> Some Claude"
proof -
  have "detector_run Spawned 10 (reset_spawned demo_start) ([] @ [])"
    by (rule detector_run.step [OF demo_run(1) detector_step.reset_spawned]) simp
  from released_agent_stays_released [OF this surjective_pairing, where a = Claude and since = 0
      and inp = "(demo_tick 300)\<lparr>ti_processes := demo_processes\<lparr>tab_agent_hint := (\<lambda>_. Some Claude)\<rparr>\<rparr>"]
  show ?thesis
    by (simp add: demo_tick_def RELEASE_REACQUIRE_SUPPRESSION_def milliseconds_def reset_spawned_def)
qed

text \<open>The two tasks differ when a transcript viewer is still on the screen at the exit: the
  basic task publishes the exit, the spawned one publishes nothing.\<close>

lemma viewer_delays_spawned_exit:
  "snd (detection_tick Basic ((demo_tick 300)\<lparr>ti_viewer := (\<lambda>_ _. True)\<rparr>) demo_start) =
     [StateChanged (demo_exit 300)]"
  "snd (detection_tick Spawned ((demo_tick 300)\<lparr>ti_viewer := (\<lambda>_ _. True)\<rparr>) demo_start) = []"
  by (simp_all add: tick_eval demo_start_def spawned_detector_def drop_pending_idle_def demo_exit_def)

end
