(* ===== verification/Public_Ids.thy ===== *)
theory Public_Ids
  imports Std_Strings
begin

text \<open>
  The public identifiers of \<open>src/src/workspace.rs\<close>: numbers written in bijective base 32, the
  identifiers of workspaces, tabs and panes made of them, and the counter from which new
  workspaces are numbered. A \<open>usize\<close> is a natural number below \<open>2\<^sup>6\<^sup>4\<close>; the checked operations
  fail beyond it.
\<close>

definition PUBLIC_ID_ALPHABET :: string where
  "PUBLIC_ID_ALPHABET = ''123456789ABCDEFGHJKMNPQRSTVWXYZ0''"

definition usize_limit :: nat where
  "usize_limit = 2 ^ 64"

text \<open>The digits in the order the loop pushes them, the lowest first.\<close>

function encode_digits :: "nat \<Rightarrow> string" where
  "encode_digits n =
     (if n = 0 then []
      else (PUBLIC_ID_ALPHABET ! ((n - 1) mod 32)) # encode_digits ((n - 1) div 32))"
  by auto
termination
  by (relation "measure id") (auto simp: div_less_dividend le_less_trans [OF div_le_dividend])

declare encode_digits.simps [simp del]

definition encode_public_number :: "nat \<Rightarrow> string" where
  "encode_public_number n = (if n = 0 then ''0'' else rev (encode_digits n))"

fun alphabet_position :: "char \<Rightarrow> string \<Rightarrow> nat option" where
  "alphabet_position c [] = None"
| "alphabet_position c (d # ds) = (if d = c then Some 0 else map_option Suc (alphabet_position c ds))"

definition checked :: "nat \<Rightarrow> nat option" where
  "checked n = (if n < usize_limit then Some n else None)"

definition decode_step :: "nat option \<Rightarrow> char \<Rightarrow> nat option" where
  "decode_step decoded ch =
     Option.bind decoded (\<lambda>decoded.
       Option.bind (alphabet_position ch PUBLIC_ID_ALPHABET) (\<lambda>digit.
         Option.bind (checked (decoded * 32)) (\<lambda>shifted. checked (shifted + (digit + 1)))))"

definition decode_public_number :: "string \<Rightarrow> nat option" where
  "decode_public_number s = foldl decode_step (Some 0) s"

definition public_workspace_number :: "string \<Rightarrow> nat option" where
  "public_workspace_number wid = Option.bind (strip_prefix wid ''w'') decode_public_number"

definition public_pane_id_for_number :: "string \<Rightarrow> nat \<Rightarrow> string" where
  "public_pane_id_for_number wid n = wid @ '':p'' @ encode_public_number n"

definition public_tab_id_for_number :: "string \<Rightarrow> nat \<Rightarrow> string" where
  "public_tab_id_for_number wid n = wid @ '':t'' @ encode_public_number n"

text \<open>The identifier and the next value of the counter \<open>NEXT_WORKSPACE_ID\<close>, a \<open>u64\<close> that
  wraps around.\<close>

definition generate_workspace_id :: "nat \<Rightarrow> string \<times> nat" where
  "generate_workspace_id counter = (''w'' @ encode_public_number counter, (counter + 1) mod usize_limit)"

text \<open>The loop of \<open>reserve_workspace_ids\<close> retries until the counter is at least \<open>next\<close>; without
  interference it ends with the larger of the two.\<close>

definition reserve_workspace_ids :: "string list \<Rightarrow> nat \<Rightarrow> nat" where
  "reserve_workspace_ids wids counter =
     (case List.map_filter public_workspace_number wids of
        [] \<Rightarrow> counter
      | n # ns \<Rightarrow>
          (case checked (fold max ns n + 1) of
             None \<Rightarrow> counter
           | Some next \<Rightarrow> if counter < next then next else counter))"

section \<open>Lemmas\<close>

lemma alphabet_length: "length PUBLIC_ID_ALPHABET = 32"
  by (simp add: PUBLIC_ID_ALPHABET_def)

lemma alphabet_distinct: "distinct PUBLIC_ID_ALPHABET"
  by (simp add: PUBLIC_ID_ALPHABET_def)

lemma alphabet_position_nth: "distinct ds \<Longrightarrow> k < length ds \<Longrightarrow> alphabet_position (ds ! k) ds = Some k"
proof (induction ds arbitrary: k)
  case (Cons d ds)
  then show ?case by (cases k) auto
qed simp

lemma alphabet_position_Some: "alphabet_position c ds = Some k \<Longrightarrow> k < length ds \<and> ds ! k = c"
  by (induction ds arbitrary: k) (auto split: if_splits)

lemma decode_step_digit:
  "k < 32 \<Longrightarrow> decode_step (Some n) (PUBLIC_ID_ALPHABET ! k) =
    (if n * 32 + (k + 1) < usize_limit then Some (n * 32 + (k + 1)) else None)"
  by (simp add: decode_step_def checked_def alphabet_position_nth alphabet_distinct alphabet_length)

lemma decode_digits: "n < usize_limit \<Longrightarrow> decode_public_number (rev (encode_digits n)) = Some n"
proof (induction n rule: encode_digits.induct)
  case (1 n)
  show ?case
  proof (cases "n = 0")
    case True
    then show ?thesis by (simp add: encode_digits.simps [of 0] decode_public_number_def)
  next
    case False
    have "(n - 1) div 32 < usize_limit"
      using 1(2) by (meson div_le_dividend diff_le_self le_less_trans)
    then have IH: "foldl decode_step (Some 0) (rev (encode_digits ((n - 1) div 32))) = Some ((n - 1) div 32)"
      using 1(1) [OF False] by (simp add: decode_public_number_def)
    have "(n - 1) div 32 * 32 + ((n - 1) mod 32 + 1) = n"
      using False by simp
    then show ?thesis
      using False 1(2) IH by (simp add: encode_digits.simps [of n] decode_public_number_def decode_step_digit)
  qed
qed

lemma decode_None: "foldl decode_step None s = None"
  by (induction s) (simp_all add: decode_step_def)

lemma decode_bound: "foldl decode_step (Some 0) s = Some n \<Longrightarrow> n < usize_limit"
  by (induction s rule: rev_induct)
    (auto simp: decode_step_def checked_def usize_limit_def split: Option.bind_splits if_splits)

lemma encode_digits_step: "k < 32 \<Longrightarrow> encode_digits (n * 32 + (k + 1)) = PUBLIC_ID_ALPHABET ! k # encode_digits n"
  by (subst encode_digits.simps) simp

lemma encode_decoded: "decode_public_number s = Some n \<Longrightarrow> rev (encode_digits n) = s"
proof (induction s arbitrary: n rule: rev_induct)
  case Nil
  then show ?case by (simp add: decode_public_number_def encode_digits.simps)
next
  case (snoc c s)
  obtain m where m: "decode_public_number s = Some m"
    using snoc.prems by (cases "decode_public_number s") (auto simp: decode_public_number_def decode_step_def)
  obtain k where k: "alphabet_position c PUBLIC_ID_ALPHABET = Some k"
    using snoc.prems m by (cases "alphabet_position c PUBLIC_ID_ALPHABET")
      (auto simp: decode_public_number_def decode_step_def)
  then have c: "k < 32" "c = PUBLIC_ID_ALPHABET ! k"
    using alphabet_position_Some [of c PUBLIC_ID_ALPHABET k] by (simp_all add: alphabet_length)
  then have "n = m * 32 + (k + 1)"
    using snoc.prems m by (auto simp: decode_public_number_def decode_step_digit split: if_splits)
  then show ?case
    using snoc.IH [OF m] encode_digits_step [OF c(1), of m] c(2) by simp
qed

lemma fold_max: "(x :: nat) \<in> set (n # ns) \<Longrightarrow> x \<le> fold max ns n" "fold max ns n \<in> set (n # ns)"
  using Max_in [of "set (n # ns)"] Max_ge [of "set (n # ns)" x] by (simp_all add: Max.set_eq_fold [symmetric])

section \<open>Properties\<close>

text \<open>C1: public numbers are written and read without loss: every positive number is read
  back from its text, and every text that reads as a number is the text of that number; the
  texts beyond \<open>usize\<close> and with foreign characters read as none.\<close>

theorem public_number_round_trip:
  assumes "0 < n" and "n < usize_limit"
  shows "decode_public_number (encode_public_number n) = Some n
    \<and> (decode_public_number s = Some n \<longrightarrow> s = encode_public_number n)"
  using assms decode_digits [of n] encode_decoded [of s n] by (auto simp: encode_public_number_def)

theorem public_number_round_trip_witness:
  "decode_public_number (encode_public_number 33) = Some 33 \<and> encode_public_number 33 = ''11''"
proof -
  have "(33 :: nat) < usize_limit" by (simp add: usize_limit_def)
  from public_number_round_trip [OF _ this, THEN conjunct1] show ?thesis
    by (simp add: encode_public_number_def encode_digits.simps PUBLIC_ID_ALPHABET_def)
qed

text \<open>C25: after the identifiers of the restored workspaces have been reserved, a new workspace
  gets an identifier that none of them has, as long as the counter has not reached the end of
  its range.\<close>

theorem generated_workspace_id_fresh:
  assumes "0 < counter" and "counter < usize_limit"
    and "\<forall>wid \<in> set wids. public_workspace_number wid \<noteq> Some (usize_limit - 1)"
  shows "fst (generate_workspace_id (reserve_workspace_ids wids counter)) \<notin> set wids"
proof
  define c where "c = reserve_workspace_ids wids counter"
  assume "fst (generate_workspace_id (reserve_workspace_ids wids counter)) \<in> set wids"
  then have wid: "''w'' @ encode_public_number c \<in> set wids"
    by (simp add: generate_workspace_id_def c_def)
  have c: "counter \<le> c" "c < usize_limit"
    using assms(2) by (auto simp: c_def reserve_workspace_ids_def checked_def split: list.splits option.splits)
  have "public_workspace_number (''w'' @ encode_public_number c) = Some c"
    using c assms(1) decode_digits [of c]
    by (simp add: public_workspace_number_def strip_prefix_def starts_with_def encode_public_number_def)
  then have n: "c \<in> set (List.map_filter public_workspace_number wids)"
    using wid by (force simp: List.map_filter_def)
  then obtain m ms where ms: "List.map_filter public_workspace_number wids = m # ms"
    by (cases "List.map_filter public_workspace_number wids") auto
  have le: "c \<le> fold max ms m"
    using n fold_max(1) [of c m ms] by (simp add: ms)
  obtain wid where w: "wid \<in> set wids" "public_workspace_number wid = Some (fold max ms m)"
    using fold_max(2) [of ms m] ms [symmetric] by (auto simp: List.map_filter_def)
  have "fold max ms m < usize_limit"
    using w(2) by (auto simp: public_workspace_number_def decode_public_number_def dest!: decode_bound
        split: Option.bind_splits)
  moreover have "fold max ms m \<noteq> usize_limit - 1"
    using w assms(3) by auto
  ultimately have "checked (fold max ms m + 1) = Some (fold max ms m + 1)"
    by (simp add: checked_def)
  then have "fold max ms m + 1 \<le> c"
    by (simp add: c_def reserve_workspace_ids_def ms)
  with le show False by simp
qed

theorem generated_workspace_id_fresh_witness:
  "fst (generate_workspace_id (reserve_workspace_ids [''w3'', ''other'', ''wA''] 1)) \<notin> set [''w3'', ''other'', ''wA'']"
proof -
  have "\<forall>wid \<in> set [''w3'', ''other'', ''wA'']. public_workspace_number wid \<noteq> Some (usize_limit - 1)"
    by (simp add: public_workspace_number_def strip_prefix_def starts_with_def decode_public_number_def
        decode_step_def checked_def usize_limit_def PUBLIC_ID_ALPHABET_def)
  from generated_workspace_id_fresh [OF _ _ this, of 1] show ?thesis
    by (simp add: usize_limit_def)
qed

end
