(* ===== verification/Workspace_Tab.thy ===== *)
theory Workspace_Tab
  imports Layout_Geometry Terminal_State
begin

text \<open>
  \<open>src/src/workspace/tab.rs\<close> and \<open>pane/state.rs\<close>: a tab is a layout of panes with the state of
  each pane. Starting the process of a pane (\<open>TerminalRuntime::spawn\<close> and its variants) is
  outside the model: whether it succeeded and the identifier of the new terminal are
  arguments. The runtimes, event channels and render flags are left out. \<open>None\<close> for the
  result of an operation is a panic of the layout.
\<close>

section \<open>Data\<close>

record pane_state =
  pn_terminal :: string
  pn_seen :: bool

record tab =
  tb_custom_name :: "string option"
  tb_number :: nat
  tb_root_pane :: pane_id
  tb_layout :: tile_layout
  tb_panes :: "(pane_id, pane_state) hmap"
  tb_zoomed :: bool

record moved_pane =
  mv_pane_id :: pane_id
  mv_pane_state :: pane_state

record new_pane =
  np_pane_id :: pane_id
  np_terminal :: terminal

definition pane_state_new :: "string \<Rightarrow> pane_state" where
  "pane_state_new tid = \<lparr>pn_terminal = tid, pn_seen = True\<rparr>"

text \<open>What runs in a new pane: its working directory, the argument vector if it has one,
  the outcome of starting it, and the identifier \<open>TerminalId::alloc\<close> hands out.\<close>

record launch =
  la_cwd :: string
  la_argv :: "string list option"
  la_spawned :: bool
  la_terminal_id :: string

definition launched_terminal :: "launch \<Rightarrow> terminal" where
  "launched_terminal la =
     (case la_argv la of
        Some argv \<Rightarrow> with_launch_argv argv (terminal_new (la_terminal_id la) (la_cwd la))
      | None \<Rightarrow> terminal_new (la_terminal_id la) (la_cwd la))"

section \<open>Operations\<close>

definition tab_new_with_runtime ::
  "u32 \<Rightarrow> nat \<Rightarrow> launch \<Rightarrow> (tab \<times> terminal) option \<times> u32" where
  "tab_new_with_runtime counter number la =
     (let ((layout, root_id), counter') = tile_layout_new counter
      in (if la_spawned la then
            Some (\<lparr>tb_custom_name = None, tb_number = number, tb_root_pane = root_id, tb_layout = layout,
                   tb_panes = hm_insert root_id (pane_state_new (la_terminal_id la)) [], tb_zoomed = False\<rparr>,
                  launched_terminal la)
          else None, counter'))"

definition is_auto_named :: "tab \<Rightarrow> bool" where
  "is_auto_named t = (tb_custom_name t = None)"

definition tab_set_custom_name :: "string \<Rightarrow> tab \<Rightarrow> tab" where
  "tab_set_custom_name name t = t\<lparr>tb_custom_name := Some name\<rparr>"

text \<open>When the process cannot be started the new pane is closed again and the focus goes
  back to where it was.\<close>

definition split_focused_with_runtime ::
  "u32 \<Rightarrow> tab \<Rightarrow> direction \<Rightarrow> f32 option \<Rightarrow> launch \<Rightarrow> ((tab \<times> new_pane option) \<times> u32) option" where
  "split_focused_with_runtime counter t direction ratio la =
     (let previous_focus = tl_focus (tb_layout t);
          ((layout, new_id), counter') =
            (case ratio of
               Some ratio \<Rightarrow> split_focused_with_ratio counter (tb_layout t) direction ratio
             | None \<Rightarrow> split_focused counter (tb_layout t) direction)
      in if \<not> la_spawned la then
           map_option (\<lambda>(closed, _).
               ((t\<lparr>tb_layout := focus_pane closed previous_focus\<rparr>, None), counter'))
             (close_focused layout)
         else
           Some ((t\<lparr>tb_layout := layout,
                    tb_panes := hm_insert new_id (pane_state_new (la_terminal_id la)) (tb_panes t),
                    tb_zoomed := False\<rparr>,
                  Some \<lparr>np_pane_id = new_id, np_terminal = launched_terminal la\<rparr>), counter'))"

definition promoted_root_if_needed :: "tab \<Rightarrow> pane_id \<Rightarrow> pane_id option" where
  "promoted_root_if_needed t closing =
     (if tb_root_pane t \<noteq> closing then None
      else find (\<lambda>i. i \<noteq> closing) (pane_ids (tb_layout t)))"

text \<open>Closing one pane of the layout, with the focus kept on another pane.\<close>

definition close_in_layout :: "tile_layout \<Rightarrow> pane_id \<Rightarrow> tile_layout option" where
  "close_in_layout l i =
     (if tl_focus l = i then map_option fst (close_focused l)
      else map_option (\<lambda>(closed, _). focus_pane closed (tl_focus l)) (close_focused (focus_pane l i)))"

definition detach_pane :: "tab \<Rightarrow> pane_id \<Rightarrow> (tab \<times> (pane_id \<times> string) option) option" where
  "detach_pane t i =
     (if pane_count (tb_layout t) \<le> 1 then Some (t, None)
      else
        (let next_root = promoted_root_if_needed t i in
         map_option (\<lambda>layout.
           (case hm_get (tb_panes t) i of
              None \<Rightarrow> (t\<lparr>tb_layout := layout\<rparr>, None)
            | Some pane \<Rightarrow>
                (t\<lparr>tb_layout := layout, tb_panes := hm_remove i (tb_panes t), tb_zoomed := False,
                   tb_root_pane := (case next_root of Some r \<Rightarrow> r | None \<Rightarrow> tb_root_pane t)\<rparr>,
                 Some (i, pn_terminal pane))))
           (close_in_layout (tb_layout t) i)))"

definition tab_close_pane :: "tab \<Rightarrow> pane_id \<Rightarrow> (tab \<times> (pane_id \<times> string) option) option" where
  "tab_close_pane t i = detach_pane t i"

definition tab_remove_pane :: "tab \<Rightarrow> pane_id \<Rightarrow> (tab \<times> (pane_id \<times> string) option) option" where
  "tab_remove_pane t i = detach_pane t i"

definition tab_from_existing_pane :: "nat \<Rightarrow> string option \<Rightarrow> moved_pane \<Rightarrow> tab" where
  "tab_from_existing_pane number custom_name moved =
     \<lparr>tb_custom_name = custom_name, tb_number = number, tb_root_pane = mv_pane_id moved,
      tb_layout = from_saved (Pane (mv_pane_id moved)) (mv_pane_id moved),
      tb_panes = hm_insert (mv_pane_id moved) (mv_pane_state moved) [], tb_zoomed = False\<rparr>"

definition tab_take_pane_for_move :: "tab \<Rightarrow> pane_id \<Rightarrow> (tab \<times> moved_pane option) option" where
  "tab_take_pane_for_move t i =
     (case hm_get (tb_panes t) i of
        None \<Rightarrow> Some (t, None)
      | Some pane \<Rightarrow>
          map_option (\<lambda>t'. (t'\<lparr>tb_panes := hm_remove i (tb_panes t'), tb_zoomed := False\<rparr>,
              Some \<lparr>mv_pane_id = i, mv_pane_state = pane\<rparr>))
            (if 1 < pane_count (tb_layout t) then
               map_option (\<lambda>layout. t\<lparr>tb_layout := layout,
                   tb_root_pane := (case promoted_root_if_needed t i of Some r \<Rightarrow> r | None \<Rightarrow> tb_root_pane t)\<rparr>)
                 (close_in_layout (tb_layout t) i)
             else Some t))"

definition insert_existing_pane ::
  "tab \<Rightarrow> pane_id \<Rightarrow> moved_pane \<Rightarrow> direction \<Rightarrow> f32 \<Rightarrow> tab \<times> bool" where
  "insert_existing_pane t target moved direction ratio =
     (let (layout, ok) = insert_pane_near (tb_layout t) target (mv_pane_id moved) direction ratio
      in if \<not> ok then (t, False)
         else (t\<lparr>tb_layout := layout, tb_panes := hm_insert (mv_pane_id moved) (mv_pane_state moved) (tb_panes t),
                 tb_zoomed := False\<rparr>, True))"

definition tab_terminal_id :: "tab \<Rightarrow> pane_id \<Rightarrow> string option" where
  "tab_terminal_id t i = map_option pn_terminal (hm_get (tb_panes t) i)"

section \<open>The invariant of a tab\<close>

text \<open>The conditions that \<open>assert_invariants_for_test\<close> of \<open>workspace.rs\<close> checks of a tab,
  with the ratios of the layout.\<close>

definition tab_ok :: "tab \<Rightarrow> bool" where
  "tab_ok t =
     (layout_wf (tb_layout t) \<and> hm_ok (tb_panes t)
      \<and> set (pane_ids (tb_layout t)) = set (map fst (tb_panes t))
      \<and> tb_root_pane t \<in> set (map fst (tb_panes t)) \<and> 0 < tb_number t)"

definition tab_pane_ids :: "tab \<Rightarrow> pane_id list" where
  "tab_pane_ids t = map fst (tb_panes t)"

definition tab_terminals :: "tab \<Rightarrow> string list" where
  "tab_terminals t = map (\<lambda>(_, pane). pn_terminal pane) (tb_panes t)"

lemma hm_get_key: "hm_get m k \<noteq> None \<longleftrightarrow> k \<in> set (map fst m)"
  by (auto simp: hm_get_def map_of_eq_None_iff)

lemma hm_insert_keys [simp]: "fst ` set (hm_insert k v m) = insert k (fst ` set m)"
  using dom_update [of k v m] by (simp add: hm_insert_def)

lemma hm_remove_keys [simp]: "fst ` set (hm_remove k m) = fst ` set m - {k}"
  using arg_cong [OF delete_keys [of k m], of set] by (auto simp: hm_remove_def image_iff)

section \<open>What the operations do to a tab\<close>

lemma tab_new_ok:
  assumes "tab_new_with_runtime c number la = (Some (t, tm), c')" and "0 < number"
  shows "tab_ok t" "tab_pane_ids t = [c]" "tab_terminals t = [la_terminal_id la]" "tb_number t = number"
    "tb_root_pane t = c" "c' = c + 1"
  using assms
  by (auto simp: tab_new_with_runtime_def tile_layout_new_def pane_id_alloc_def tab_ok_def layout_wf_def
      pane_ids_node hm_insert_def hm_ok_def tab_pane_ids_def tab_terminals_def pane_state_new_def split: if_splits)

text \<open>A layout split whose new pane is closed again is the layout as it was.\<close>

lemma split_then_close:
  assumes "layout_wf l" and "c \<notin> set (pane_ids l)"
  shows "\<exists>closed b. close_focused \<lparr>tl_root = split_at (tl_root l) (tl_focus l) d c r, tl_focus = c\<rparr> = Some (closed, b)
    \<and> focus_pane closed (tl_focus l) = l"
proof -
  let ?l' = "\<lparr>tl_root = split_at (tl_root l) (tl_focus l) d c r, tl_focus = c\<rparr>"
  have f: "tl_focus l \<in> set (node_ids (tl_root l))" "distinct (node_ids (tl_root l))"
    using layout_wfD [OF assms(1)] by simp_all
  have ids: "node_ids (tl_root ?l') = insert_after (tl_focus l) c (node_ids (tl_root l))"
    by (simp add: layout_simps)
  have c: "c \<in> set (node_ids (tl_root ?l'))" "tl_focus l \<in> set (node_ids (tl_root ?l'))"
    using f ids by (simp_all add: insert_after_set)
  have cf: "c \<noteq> tl_focus l"
    using assms(2) f by (auto simp: pane_ids_node)
  have "card {c, tl_focus l} \<le> length (node_ids (tl_root ?l'))"
    using c card_mono [of "set (node_ids (tl_root ?l'))" "{c, tl_focus l}"] card_length [of "node_ids (tl_root ?l')"]
    by simp
  then have many: "\<not> pane_count ?l' \<le> 1"
    using cf by (simp add: pane_count_length)
  obtain i where "position c (pane_ids ?l') = Some i"
    using c by (cases "position c (pane_ids ?l')") (auto simp: pane_ids_node)
  moreover have "remove_pane (tl_root ?l') c = Some (tl_root l)"
    using assms(2) cf by (simp add: remove_split_at pane_ids_node)
  ultimately obtain g where "close_focused ?l' = Some (\<lparr>tl_root = tl_root l, tl_focus = g\<rparr>, True)"
    using many by (simp add: close_focused_def Let_def)
  moreover have "focus_pane \<lparr>tl_root = tl_root l, tl_focus = g\<rparr> (tl_focus l) = l"
    using f by (simp add: focus_pane_def pane_ids_node)
  ultimately show ?thesis by blast
qed

lemma split_eq:
  obtains r where "(case ratio of Some ratio \<Rightarrow> split_focused_with_ratio c l d ratio
      | None \<Rightarrow> split_focused c l d) =
    ((\<lparr>tl_root = split_at (tl_root l) (tl_focus l) d c (valid_split_ratio r), tl_focus = c\<rparr>, c), c + 1)"
  by (cases ratio) (auto simp: split_focused_def split_focused_with_ratio_def pane_id_alloc_def)

lemma split_failed:
  assumes "tab_ok t" and "c \<notin> set (tab_pane_ids t)" and "\<not> la_spawned la"
  shows "split_focused_with_runtime c t d ratio la = Some ((t, None), c + 1)"
proof -
  have wf: "layout_wf (tb_layout t)" "c \<notin> set (pane_ids (tb_layout t))"
    using assms by (simp_all add: tab_ok_def tab_pane_ids_def)
  obtain r where s: "(case ratio of Some ratio \<Rightarrow> split_focused_with_ratio c (tb_layout t) d ratio
      | None \<Rightarrow> split_focused c (tb_layout t) d) =
    ((\<lparr>tl_root = split_at (tl_root (tb_layout t)) (tl_focus (tb_layout t)) d c (valid_split_ratio r), tl_focus = c\<rparr>, c), c + 1)"
    by (rule split_eq)
  obtain closed b where "close_focused \<lparr>tl_root = split_at (tl_root (tb_layout t)) (tl_focus (tb_layout t)) d c
      (valid_split_ratio r), tl_focus = c\<rparr> = Some (closed, b)"
      "focus_pane closed (tl_focus (tb_layout t)) = tb_layout t"
    using split_then_close [OF wf] by blast
  then show ?thesis
    using assms(3) by (simp add: split_focused_with_runtime_def Let_def s)
qed

lemma split_spawned:
  assumes "tab_ok t" and "c \<notin> set (tab_pane_ids t)" and "la_spawned la"
  obtains t' where "split_focused_with_runtime c t d ratio la =
      Some ((t', Some \<lparr>np_pane_id = c, np_terminal = launched_terminal la\<rparr>), c + 1)"
    "tab_ok t'" "set (tab_pane_ids t') = insert c (set (tab_pane_ids t))"
    "tb_panes t' = hm_insert c (pane_state_new (la_terminal_id la)) (tb_panes t)"
    "tb_number t' = tb_number t" "tb_root_pane t' = tb_root_pane t" "tl_focus (tb_layout t') = c"
proof -
  have wf: "layout_wf (tb_layout t)" "c \<notin> set (pane_ids (tb_layout t))"
      "tl_focus (tb_layout t) \<in> set (pane_ids (tb_layout t))"
    using assms by (auto simp: tab_ok_def tab_pane_ids_def layout_wf_def)
  obtain r where s: "(case ratio of Some ratio \<Rightarrow> split_focused_with_ratio c (tb_layout t) d ratio
      | None \<Rightarrow> split_focused c (tb_layout t) d) =
    ((\<lparr>tl_root = split_at (tl_root (tb_layout t)) (tl_focus (tb_layout t)) d c (valid_split_ratio r), tl_focus = c\<rparr>, c), c + 1)"
    by (rule split_eq)
  let ?l = "\<lparr>tl_root = split_at (tl_root (tb_layout t)) (tl_focus (tb_layout t)) d c (valid_split_ratio r), tl_focus = c\<rparr>"
  let ?t = "t\<lparr>tb_layout := ?l, tb_panes := hm_insert c (pane_state_new (la_terminal_id la)) (tb_panes t), tb_zoomed := False\<rparr>"
  have "layout_wf ?l"
    by (rule split_at_wf [OF wf(1,3,2)])
  moreover have "set (pane_ids ?l) = insert c (set (pane_ids (tb_layout t)))"
    using wf(3) by (auto simp: layout_simps insert_after_set pane_ids_node)
  ultimately have "tab_ok ?t"
    using assms(1) by (auto simp: tab_ok_def)
  then show thesis
    using that [of ?t] assms by (simp add: split_focused_with_runtime_def Let_def s tab_pane_ids_def)
qed

text \<open>Closing a pane of a layout with more than one.\<close>

lemma close_in_layout_ok:
  assumes "layout_wf l" and "i \<in> set (pane_ids l)" and "1 < pane_count l"
  obtains l' where "close_in_layout l i = Some l'" "layout_wf l'"
    "pane_ids l' = filter (\<lambda>j. j \<noteq> i) (pane_ids l)" "tl_focus l \<noteq> i \<Longrightarrow> tl_focus l' = tl_focus l"
proof (cases "tl_focus l = i")
  case True
  obtain l' where "close_focused l = Some (l', True)" "pane_ids l' = filter (\<lambda>j. j \<noteq> tl_focus l) (pane_ids l)"
      "layout_wf l'"
    by (rule close_focused_wf [OF assms(1,3)])
  then show thesis
    using that [of l'] True by (simp add: close_in_layout_def)
next
  case False
  have f: "focus_pane l i = l\<lparr>tl_focus := i\<rparr>"
    using assms(2) by (simp add: focus_pane_def)
  have wf: "layout_wf (l\<lparr>tl_focus := i\<rparr>)" "1 < pane_count (l\<lparr>tl_focus := i\<rparr>)"
    using assms layout_wf_focus by (simp_all add: pane_count_def)
  obtain l' where l': "close_focused (l\<lparr>tl_focus := i\<rparr>) = Some (l', True)" "layout_wf l'"
      "pane_ids l' = filter (\<lambda>j. j \<noteq> i) (pane_ids (l\<lparr>tl_focus := i\<rparr>))"
    by (rule close_focused_wf [OF wf]) simp
  have ids: "pane_ids l' = filter (\<lambda>j. j \<noteq> i) (pane_ids l)"
    using l'(3) by (simp add: pane_ids_node)
  then have "tl_focus l \<in> set (pane_ids l')"
    using False assms(1) by (simp add: layout_wf_def)
  then have "focus_pane l' (tl_focus l) = l'\<lparr>tl_focus := tl_focus l\<rparr>"
      "layout_wf (l'\<lparr>tl_focus := tl_focus l\<rparr>)"
    using l'(2) layout_wf_focus by (simp_all add: focus_pane_def)
  then show thesis
    using that [of "l'\<lparr>tl_focus := tl_focus l\<rparr>"] l' ids False f by (simp add: close_in_layout_def pane_ids_node)
qed

lemma promoted_root:
  assumes "tab_ok t" and "1 < pane_count (tb_layout t)"
  shows "(case promoted_root_if_needed t i of Some r \<Rightarrow> r | None \<Rightarrow> tb_root_pane t)
    \<in> set (tab_pane_ids t) - {i}"
proof (cases "tb_root_pane t = i")
  case False
  then show ?thesis
    using assms(1) by (simp add: promoted_root_if_needed_def tab_ok_def tab_pane_ids_def)
next
  case True
  have len: "1 < length (pane_ids (tb_layout t))" and d: "distinct (pane_ids (tb_layout t))"
    using assms by (simp_all add: pane_count_length pane_ids_node tab_ok_def layout_wf_def)
  have "\<exists>j \<in> set (pane_ids (tb_layout t)). j \<noteq> i"
  proof (rule ccontr)
    assume "\<not> ?thesis"
    then have "set (pane_ids (tb_layout t)) \<subseteq> {i}" by blast
    then have "card (set (pane_ids (tb_layout t))) \<le> 1"
      using card_mono [of "{i}" "set (pane_ids (tb_layout t))"] by simp
    then show False
      using len distinct_card [OF d] by simp
  qed
  then obtain j where j: "find (\<lambda>j. j \<noteq> i) (pane_ids (tb_layout t)) = Some j"
    by (cases "find (\<lambda>j. j \<noteq> i) (pane_ids (tb_layout t))") (auto simp: find_None_iff)
  then have "j \<in> set (pane_ids (tb_layout t))" "j \<noteq> i"
    by (auto simp: find_Some_iff)
  then show ?thesis
    using True j assms(1) by (simp add: promoted_root_if_needed_def tab_ok_def tab_pane_ids_def)
qed

lemma closed_tab_ok:
  assumes "tab_ok t" and "1 < pane_count (tb_layout t)" and "hm_get (tb_panes t) i = Some pane"
  obtains layout r where "close_in_layout (tb_layout t) i = Some layout"
    "(case promoted_root_if_needed t i of Some r \<Rightarrow> r | None \<Rightarrow> tb_root_pane t) = r"
    "tab_ok (t\<lparr>tb_layout := layout, tb_panes := hm_remove i (tb_panes t), tb_zoomed := z, tb_root_pane := r\<rparr>)"
    "tl_focus (tb_layout t) \<noteq> i \<Longrightarrow> tl_focus layout = tl_focus (tb_layout t)"
proof -
  let ?r = "case promoted_root_if_needed t i of Some r \<Rightarrow> r | None \<Rightarrow> tb_root_pane t"
  have "i \<in> set (pane_ids (tb_layout t))" "layout_wf (tb_layout t)"
    using assms hm_get_key [of "tb_panes t" i] by (simp_all add: tab_ok_def)
  from close_in_layout_ok [OF this(2,1) assms(2)]
  obtain layout where l: "close_in_layout (tb_layout t) i = Some layout" "layout_wf layout"
      "pane_ids layout = filter (\<lambda>j. j \<noteq> i) (pane_ids (tb_layout t))"
      "tl_focus (tb_layout t) \<noteq> i \<Longrightarrow> tl_focus layout = tl_focus (tb_layout t)"
    by blast
  have "tab_ok (t\<lparr>tb_layout := layout, tb_panes := hm_remove i (tb_panes t), tb_zoomed := z, tb_root_pane := ?r\<rparr>)"
    using assms(1) l(2,3) promoted_root [OF assms(1,2), of i]
    by (auto simp: tab_ok_def tab_pane_ids_def)
  then show thesis
    using that [OF l(1) refl] l(4) by blast
qed

lemma detach_ok:
  assumes "tab_ok t" and "1 < pane_count (tb_layout t)" and "hm_get (tb_panes t) i = Some pane"
  obtains t' where "detach_pane t i = Some (t', Some (i, pn_terminal pane))" "tab_ok t'"
    "tb_panes t' = hm_remove i (tb_panes t)" "tb_number t' = tb_number t"
    "tl_focus (tb_layout t) \<noteq> i \<Longrightarrow> tl_focus (tb_layout t') = tl_focus (tb_layout t)"
    "tb_root_pane t \<noteq> i \<Longrightarrow> tb_root_pane t' = tb_root_pane t"
proof -
  obtain layout r where l: "close_in_layout (tb_layout t) i = Some layout"
    "(case promoted_root_if_needed t i of Some r \<Rightarrow> r | None \<Rightarrow> tb_root_pane t) = r"
    "tab_ok (t\<lparr>tb_layout := layout, tb_panes := hm_remove i (tb_panes t), tb_zoomed := False, tb_root_pane := r\<rparr>)"
    "tl_focus (tb_layout t) \<noteq> i \<Longrightarrow> tl_focus layout = tl_focus (tb_layout t)"
    by (rule closed_tab_ok [OF assms, where z = False]) blast
  then show thesis
    using that [of "t\<lparr>tb_layout := layout, tb_panes := hm_remove i (tb_panes t), tb_zoomed := False, tb_root_pane := r\<rparr>"]
      assms(2,3) l(2) by (auto simp: detach_pane_def promoted_root_if_needed_def)
qed

lemma take_ok:
  assumes "tab_ok t" and "1 < pane_count (tb_layout t)" and "hm_get (tb_panes t) i = Some pane"
  obtains t' where "tab_take_pane_for_move t i = Some (t', Some \<lparr>mv_pane_id = i, mv_pane_state = pane\<rparr>)"
    "tab_ok t'" "tb_panes t' = hm_remove i (tb_panes t)" "tb_number t' = tb_number t"
proof -
  obtain layout r where l: "close_in_layout (tb_layout t) i = Some layout"
    "(case promoted_root_if_needed t i of Some r \<Rightarrow> r | None \<Rightarrow> tb_root_pane t) = r"
    "tab_ok (t\<lparr>tb_layout := layout, tb_panes := hm_remove i (tb_panes t), tb_zoomed := False, tb_root_pane := r\<rparr>)"
    by (rule closed_tab_ok [OF assms, where z = False]) blast
  have "tab_ok (t\<lparr>tb_layout := layout, tb_root_pane := r, tb_panes := hm_remove i (tb_panes t), tb_zoomed := False\<rparr>)"
    using l(3) by (simp add: tab_ok_def)
  with l show thesis
    using that [of "t\<lparr>tb_layout := layout, tb_root_pane := r, tb_panes := hm_remove i (tb_panes t), tb_zoomed := False\<rparr>"]
      assms(2,3) by (simp add: tab_take_pane_for_move_def)
qed

lemma insert_existing_ok:
  assumes "tab_ok t" and "insert_existing_pane t target moved d r = (t', ok)"
  shows "ok \<longleftrightarrow> target \<in> set (tab_pane_ids t) \<and> mv_pane_id moved \<notin> set (tab_pane_ids t)"
    and "\<not> ok \<Longrightarrow> t' = t"
    and "ok \<Longrightarrow> tab_ok t' \<and> tb_panes t' = hm_insert (mv_pane_id moved) (mv_pane_state moved) (tb_panes t)
      \<and> tb_number t' = tb_number t \<and> tb_root_pane t' = tb_root_pane t"
proof -
  have ids: "set (pane_ids (tb_layout t)) = set (tab_pane_ids t)" "layout_wf (tb_layout t)"
    using assms(1) by (simp_all add: tab_ok_def tab_pane_ids_def)
  show ok: "ok \<longleftrightarrow> target \<in> set (tab_pane_ids t) \<and> mv_pane_id moved \<notin> set (tab_pane_ids t)"
    using assms(2) ids by (auto simp: insert_existing_pane_def insert_pane_near_def Let_def split: if_splits)
  show "\<not> ok \<Longrightarrow> t' = t"
    using assms(2) by (auto simp: insert_existing_pane_def split: if_splits prod.splits)
  show "tab_ok t' \<and> tb_panes t' = hm_insert (mv_pane_id moved) (mv_pane_state moved) (tb_panes t)
      \<and> tb_number t' = tb_number t \<and> tb_root_pane t' = tb_root_pane t" if ok
  proof -
    have *: "target \<in> set (pane_ids (tb_layout t))" "mv_pane_id moved \<notin> set (pane_ids (tb_layout t))"
      using that ok ids by simp_all
    have "layout_wf \<lparr>tl_root = split_at (tl_root (tb_layout t)) target d (mv_pane_id moved) (valid_split_ratio r),
        tl_focus = mv_pane_id moved\<rparr>"
      using split_at_wf [OF ids(2) *] .
    moreover have "set (pane_ids \<lparr>tl_root = split_at (tl_root (tb_layout t)) target d (mv_pane_id moved) (valid_split_ratio r),
        tl_focus = mv_pane_id moved\<rparr>) = insert (mv_pane_id moved) (set (pane_ids (tb_layout t)))"
      using * by (auto simp: layout_simps insert_after_set)
    moreover have "target \<noteq> mv_pane_id moved"
      using * by blast
    moreover have "t' = t\<lparr>tb_layout := \<lparr>tl_root = split_at (tl_root (tb_layout t)) target d (mv_pane_id moved)
          (valid_split_ratio r), tl_focus = mv_pane_id moved\<rparr>,
        tb_panes := hm_insert (mv_pane_id moved) (mv_pane_state moved) (tb_panes t), tb_zoomed := False\<rparr>"
      using assms(2) * calculation(3) by (simp add: insert_existing_pane_def insert_pane_near_def)
    ultimately show ?thesis
      using assms(1) by (simp add: tab_ok_def)
  qed
qed

end
