(* ===== verification/Workspace.thy ===== *)
theory Workspace
  imports Workspace_Tab
begin

text \<open>
  \<open>src/src/workspace.rs\<close>: a workspace is a list of tabs with the public numbers of its panes
  and tabs. The numbers are \<open>usize\<close> counters, modelled as natural numbers; the cached git
  state is left out. As for tabs, starting a process is outside
  the model, and an outer \<open>None\<close> is a panic.
\<close>

section \<open>Data\<close>

record worktree_space =
  wt_key :: string
  wt_label :: string
  wt_repo_root :: string
  wt_checkout_path :: string
  wt_is_linked_worktree :: bool

record workspace =
  ws_id :: string
  ws_custom_name :: "string option"
  ws_identity_cwd :: string
  ws_worktree_space :: "worktree_space option"
  ws_metadata_tokens :: metadata_tokens
  ws_metadata_token_sequences :: "(string, u64) hmap"
  ws_public_pane_numbers :: "(pane_id, nat) hmap"
  ws_next_public_pane_number :: nat
  ws_next_public_tab_number :: nat
  ws_tabs :: "tab list"
  ws_active_tab :: nat

section \<open>Queries\<close>

definition active_tab :: "workspace \<Rightarrow> tab option" where
  "active_tab ws = (if ws_active_tab ws < length (ws_tabs ws) then Some (ws_tabs ws ! ws_active_tab ws) else None)"

definition tab_at :: "workspace \<Rightarrow> nat \<Rightarrow> tab option" where
  "tab_at ws idx = (if idx < length (ws_tabs ws) then Some (ws_tabs ws ! idx) else None)"

fun index_of :: "('a \<Rightarrow> bool) \<Rightarrow> 'a list \<Rightarrow> nat option" where
  "index_of p [] = None"
| "index_of p (x # xs) = (if p x then Some 0 else map_option Suc (index_of p xs))"

definition find_tab_index_for_pane :: "workspace \<Rightarrow> pane_id \<Rightarrow> nat option" where
  "find_tab_index_for_pane ws i = index_of (\<lambda>t. hm_contains_key (tb_panes t) i) (ws_tabs ws)"

definition find_map :: "('a \<Rightarrow> 'b option) \<Rightarrow> 'a list \<Rightarrow> 'b option" where
  "find_map f xs = (case List.map_filter f xs of [] \<Rightarrow> None | y # _ \<Rightarrow> Some y)"

definition pane_state_of :: "workspace \<Rightarrow> pane_id \<Rightarrow> pane_state option" where
  "pane_state_of ws i = find_map (\<lambda>t. hm_get (tb_panes t) i) (ws_tabs ws)"

definition workspace_terminal_id :: "workspace \<Rightarrow> pane_id \<Rightarrow> string option" where
  "workspace_terminal_id ws i = find_map (\<lambda>t. tab_terminal_id t i) (ws_tabs ws)"

definition focused_pane_id :: "workspace \<Rightarrow> pane_id option" where
  "focused_pane_id ws = map_option (\<lambda>t. tl_focus (tb_layout t)) (active_tab ws)"

definition public_pane_number :: "workspace \<Rightarrow> pane_id \<Rightarrow> nat option" where
  "public_pane_number ws i = hm_get (ws_public_pane_numbers ws) i"

definition public_tab_number :: "workspace \<Rightarrow> nat \<Rightarrow> nat option" where
  "public_tab_number ws idx = map_option tb_number (tab_at ws idx)"

definition tab_display_name :: "workspace \<Rightarrow> nat \<Rightarrow> string option" where
  "tab_display_name ws idx =
     map_option (\<lambda>t. unwrap_or (tb_custom_name t) (map char_of (decimal (idx + 1)))) (tab_at ws idx)"

definition active_tab_display_name :: "workspace \<Rightarrow> string option" where
  "active_tab_display_name ws = tab_display_name ws (ws_active_tab ws)"

section \<open>Public numbers\<close>

definition register_new_pane_with_number :: "pane_id \<Rightarrow> nat \<Rightarrow> workspace \<Rightarrow> workspace" where
  "register_new_pane_with_number i number ws =
     ws\<lparr>ws_public_pane_numbers := hm_insert i number (ws_public_pane_numbers ws),
        ws_next_public_pane_number := max (ws_next_public_pane_number ws) (number + 1)\<rparr>"

definition unregister_pane :: "pane_id \<Rightarrow> workspace \<Rightarrow> workspace" where
  "unregister_pane i ws = ws\<lparr>ws_public_pane_numbers := hm_remove i (ws_public_pane_numbers ws)\<rparr>"

definition unregister_moved_pane :: "pane_id \<Rightarrow> workspace \<Rightarrow> workspace" where
  "unregister_moved_pane i ws = unregister_pane i ws"

definition register_if_missing :: "pane_id \<Rightarrow> workspace \<Rightarrow> workspace" where
  "register_if_missing i ws =
     (if \<not> hm_contains_key (ws_public_pane_numbers ws) i
      then register_new_pane_with_number i (ws_next_public_pane_number ws) ws else ws)"

section \<open>Creation\<close>

text \<open>The identifier is \<open>generate_workspace_id\<close>'s, in Public_Ids.\<close>

definition workspace_with_tab :: "string \<Rightarrow> string option \<Rightarrow> string \<Rightarrow> tab \<Rightarrow> workspace" where
  "workspace_with_tab wid label cwd t =
     \<lparr>ws_id = wid, ws_custom_name = label, ws_identity_cwd = cwd, ws_worktree_space = None, ws_metadata_tokens = [],
      ws_metadata_token_sequences = [], ws_public_pane_numbers = hm_insert (tb_root_pane t) 1 [],
      ws_next_public_pane_number = 2, ws_next_public_tab_number = 2, ws_tabs = [t], ws_active_tab = 0\<rparr>"

definition new_with_tab :: "u32 \<Rightarrow> string \<Rightarrow> launch \<Rightarrow> (workspace \<times> terminal) option \<times> u32" where
  "new_with_tab counter wid la =
     (let (result, counter') = tab_new_with_runtime counter 1 la
      in (map_option (\<lambda>(t, terminal). (workspace_with_tab wid None (la_cwd la) t, terminal)) result, counter'))"

definition workspace_from_existing_pane ::
  "string \<Rightarrow> string option \<Rightarrow> string option \<Rightarrow> string \<Rightarrow> moved_pane \<Rightarrow> workspace" where
  "workspace_from_existing_pane wid label tab_label cwd moved =
     workspace_with_tab wid label cwd (tab_from_existing_pane 1 tab_label moved)"

definition set_custom_name :: "string \<Rightarrow> workspace \<Rightarrow> workspace" where
  "set_custom_name name ws = ws\<lparr>ws_custom_name := Some name\<rparr>"

section \<open>Tabs\<close>

definition switch_tab :: "nat \<Rightarrow> workspace \<Rightarrow> workspace" where
  "switch_tab idx ws =
     (if idx < length (ws_tabs ws) then
        ws\<lparr>ws_active_tab := idx,
           ws_tabs := (ws_tabs ws)[idx := (let t = ws_tabs ws ! idx in
             t\<lparr>tb_panes := map (\<lambda>(i, pane). (i, pane\<lparr>pn_seen := True\<rparr>)) (tb_panes t)\<rparr>)]\<rparr>
      else ws)"

text \<open>The tab number is used up even when the process does not start.\<close>

definition create_tab_with_runtime ::
  "u32 \<Rightarrow> launch \<Rightarrow> workspace \<Rightarrow> (workspace \<times> (nat \<times> terminal) option) \<times> u32" where
  "create_tab_with_runtime counter la ws =
     (let number = ws_next_public_tab_number ws;
          ws1 = ws\<lparr>ws_next_public_tab_number := number + 1\<rparr>;
          pane_number = ws_next_public_pane_number ws1;
          (result, counter') = tab_new_with_runtime counter number la
      in (case result of
            None \<Rightarrow> ((ws1, None), counter')
          | Some (t, terminal) \<Rightarrow>
              (let ws2 = register_new_pane_with_number (tb_root_pane t) pane_number ws1;
                   ws3 = ws2\<lparr>ws_tabs := ws_tabs ws2 @ [t]\<rparr>
               in ((ws3, Some (length (ws_tabs ws3) - 1, terminal)), counter'))))"

text \<open>The active tab after the tab at \<open>removed\<close> has gone.\<close>

definition clamp_active_tab :: "nat \<Rightarrow> workspace \<Rightarrow> workspace" where
  "clamp_active_tab removed ws =
     (if length (ws_tabs ws) \<le> ws_active_tab ws then ws\<lparr>ws_active_tab := length (ws_tabs ws) - 1\<rparr>
      else if removed \<le> ws_active_tab ws \<and> 0 < ws_active_tab ws
      then ws\<lparr>ws_active_tab := ws_active_tab ws - 1\<rparr> else ws)"

definition adjust_active_tab_after_removal :: "nat \<Rightarrow> workspace \<Rightarrow> workspace" where
  "adjust_active_tab_after_removal removed ws =
     (if ws_tabs ws = [] then ws\<lparr>ws_active_tab := 0\<rparr> else clamp_active_tab removed ws)"

definition remove_at :: "nat \<Rightarrow> 'a list \<Rightarrow> 'a list" where
  "remove_at idx xs = take idx xs @ drop (Suc idx) xs"

definition insert_at :: "nat \<Rightarrow> 'a \<Rightarrow> 'a list \<Rightarrow> 'a list" where
  "insert_at idx x xs = take idx xs @ x # drop idx xs"

definition close_tab :: "nat \<Rightarrow> workspace \<Rightarrow> workspace \<times> bool" where
  "close_tab idx ws =
     (if length (ws_tabs ws) \<le> 1 \<or> length (ws_tabs ws) \<le> idx then (ws, False)
      else
        (let t = ws_tabs ws ! idx;
             ws1 = fold (\<lambda>i. unregister_pane i) (map fst (tb_panes t)) (ws\<lparr>ws_tabs := remove_at idx (ws_tabs ws)\<rparr>)
         in (clamp_active_tab idx ws1, True)))"

definition move_tab :: "nat \<Rightarrow> nat \<Rightarrow> workspace \<Rightarrow> workspace \<times> bool" where
  "move_tab source_idx insert_idx ws =
     (if length (ws_tabs ws) \<le> source_idx \<or> length (ws_tabs ws) < insert_idx then (ws, False)
      else
        (let target_idx = min (if source_idx < insert_idx then insert_idx - 1 else insert_idx)
                              (length (ws_tabs ws) - 1)
         in if source_idx = target_idx then (ws, False)
            else
              (let active_root_pane = map_option tb_root_pane (active_tab ws);
                   t = ws_tabs ws ! source_idx;
                   tabs = insert_at target_idx t (remove_at source_idx (ws_tabs ws))
               in (ws\<lparr>ws_tabs := tabs,
                      ws_active_tab := unwrap_or (Option.bind active_root_pane
                        (\<lambda>root. index_of (\<lambda>t. tb_root_pane t = root) tabs)) target_idx\<rparr>, True))))"

section \<open>Panes\<close>

definition split_pane_with_runtime ::
  "u32 \<Rightarrow> pane_id \<Rightarrow> direction \<Rightarrow> f32 option \<Rightarrow> launch \<Rightarrow> bool \<Rightarrow> workspace \<Rightarrow>
   ((workspace \<times> (nat \<times> new_pane option) option) \<times> u32) option" where
  "split_pane_with_runtime counter i direction ratio la focus_new_pane ws =
     (case find_tab_index_for_pane ws i of
        None \<Rightarrow> Some ((ws, None), counter)
      | Some tab_idx \<Rightarrow>
          (let pane_number = ws_next_public_pane_number ws;
               t = ws_tabs ws ! tab_idx;
               previous_focus = tl_focus (tb_layout t);
               focused = t\<lparr>tb_layout := focus_pane (tb_layout t) i\<rparr>
           in map_option (\<lambda>((t', result), counter').
                (case result of
                   None \<Rightarrow>
                     ((ws\<lparr>ws_tabs := (ws_tabs ws)[tab_idx :=
                          t'\<lparr>tb_layout := focus_pane (tb_layout t') previous_focus\<rparr>]\<rparr>,
                       Some (tab_idx, None)), counter')
                 | Some pane \<Rightarrow>
                     (let t'' = (if focus_new_pane then t'
                          else t'\<lparr>tb_layout := focus_pane (tb_layout t') previous_focus\<rparr>)
                      in ((register_new_pane_with_number (np_pane_id pane) pane_number
                             (ws\<lparr>ws_tabs := (ws_tabs ws)[tab_idx := t'']\<rparr>),
                           Some (tab_idx, Some pane)), counter'))))
                (split_focused_with_runtime counter focused direction ratio la)))"

text \<open>Splitting the focused pane of the active tab; an active tab that does not exist is a
  panic.\<close>

definition workspace_split_focused_command ::
  "u32 \<Rightarrow> direction \<Rightarrow> launch \<Rightarrow> workspace \<Rightarrow> ((workspace \<times> new_pane option) \<times> u32) option" where
  "workspace_split_focused_command counter direction la ws =
     Option.bind (active_tab ws) (\<lambda>t.
       let pane_number = ws_next_public_pane_number ws in
       map_option (\<lambda>((t', result), counter').
           let ws' = ws\<lparr>ws_tabs := (ws_tabs ws)[ws_active_tab ws := t']\<rparr> in
           (case result of
              None \<Rightarrow> ((ws', None), counter')
            | Some pane \<Rightarrow> ((register_new_pane_with_number (np_pane_id pane) pane_number ws', Some pane), counter')))
         (split_focused_with_runtime counter t direction None la))"

text \<open>\<open>remove_pane\<close> and \<open>close_pane\<close>: the flag tells that the workspace should close.\<close>

definition workspace_remove_pane :: "pane_id \<Rightarrow> workspace \<Rightarrow> (workspace \<times> bool) option" where
  "workspace_remove_pane i ws =
     (case find_tab_index_for_pane ws i of
        None \<Rightarrow> Some (ws, False)
      | Some tab_idx \<Rightarrow>
          if pane_count (tb_layout (ws_tabs ws ! tab_idx)) \<le> 1 then
            (if length (ws_tabs ws) \<le> 1 then Some (ws, True)
             else Some (clamp_active_tab tab_idx
                    (unregister_pane i (ws\<lparr>ws_tabs := remove_at tab_idx (ws_tabs ws)\<rparr>)), False))
          else
            map_option (\<lambda>(t', removed).
                let ws' = ws\<lparr>ws_tabs := (ws_tabs ws)[tab_idx := t']\<rparr> in
                (case removed of
                   None \<Rightarrow> (ws', False)
                 | Some (removed, _) \<Rightarrow> (unregister_pane removed ws', False)))
              (tab_remove_pane (ws_tabs ws ! tab_idx) i))"

definition workspace_close_pane :: "pane_id \<Rightarrow> workspace \<Rightarrow> (workspace \<times> bool) option" where
  "workspace_close_pane i ws =
     (case find_tab_index_for_pane ws i of
        None \<Rightarrow> Some (ws, False)
      | Some tab_idx \<Rightarrow>
          if pane_count (tb_layout (ws_tabs ws ! tab_idx)) \<le> 1 then
            (if length (ws_tabs ws) \<le> 1 then Some (ws, True)
             else Some (clamp_active_tab tab_idx
                    (unregister_pane i (ws\<lparr>ws_tabs := remove_at tab_idx (ws_tabs ws)\<rparr>)), False))
          else
            map_option (\<lambda>(t', removed).
                let ws' = ws\<lparr>ws_tabs := (ws_tabs ws)[tab_idx := t']\<rparr> in
                (case removed of
                   None \<Rightarrow> (ws', False)
                 | Some (removed, _) \<Rightarrow> (unregister_pane removed ws', False)))
              (tab_close_pane (ws_tabs ws ! tab_idx) i))"

record taken_pane =
  tk_moved :: moved_pane
  tk_removed_tab_idx :: "nat option"
  tk_workspace_empty :: bool

definition take_pane_for_move :: "pane_id \<Rightarrow> workspace \<Rightarrow> (workspace \<times> taken_pane option) option" where
  "take_pane_for_move i ws =
     (case find_tab_index_for_pane ws i of
        None \<Rightarrow> Some (ws, None)
      | Some tab_idx \<Rightarrow>
          if pane_count (tb_layout (ws_tabs ws ! tab_idx)) \<le> 1 then
            map_option (\<lambda>(_, moved).
                let ws1 = ws\<lparr>ws_tabs := remove_at tab_idx (ws_tabs ws)\<rparr> in
                (case moved of
                   None \<Rightarrow> (ws1, None)
                 | Some moved \<Rightarrow>
                     (let ws2 = adjust_active_tab_after_removal tab_idx ws1
                      in (ws2, Some \<lparr>tk_moved = moved, tk_removed_tab_idx = Some tab_idx,
                            tk_workspace_empty = (ws_tabs ws2 = [])\<rparr>))))
              (tab_take_pane_for_move (ws_tabs ws ! tab_idx) i)
          else
            map_option (\<lambda>(t', moved).
                (ws\<lparr>ws_tabs := (ws_tabs ws)[tab_idx := t']\<rparr>,
                 map_option (\<lambda>moved. \<lparr>tk_moved = moved, tk_removed_tab_idx = None,
                   tk_workspace_empty = False\<rparr>) moved))
              (tab_take_pane_for_move (ws_tabs ws ! tab_idx) i))"

definition insert_moved_pane_into_tab ::
  "nat \<Rightarrow> pane_id \<Rightarrow> moved_pane \<Rightarrow> direction \<Rightarrow> f32 \<Rightarrow> workspace \<Rightarrow> workspace \<times> bool" where
  "insert_moved_pane_into_tab tab_idx target moved direction ratio ws =
     (case tab_at ws tab_idx of
        None \<Rightarrow> (ws, False)
      | Some t \<Rightarrow>
          (let (t', ok) = insert_existing_pane t target moved direction ratio
           in if \<not> ok then (ws, False)
              else (register_if_missing (mv_pane_id moved) (ws\<lparr>ws_tabs := (ws_tabs ws)[tab_idx := t']\<rparr>), True)))"

definition create_tab_from_existing_pane :: "moved_pane \<Rightarrow> string option \<Rightarrow> workspace \<Rightarrow> workspace \<times> nat" where
  "create_tab_from_existing_pane moved label ws =
     (let number = ws_next_public_tab_number ws;
          ws1 = ws\<lparr>ws_next_public_tab_number := number + 1\<rparr>;
          t = tab_from_existing_pane number label moved;
          ws2 = register_if_missing (mv_pane_id moved) ws1;
          ws3 = ws2\<lparr>ws_tabs := ws_tabs ws2 @ [t]\<rparr>
      in (ws3, length (ws_tabs ws3) - 1))"

end
