(* ===== verification/Workspace_Invariants.thy ===== *)
theory Workspace_Invariants
  imports Workspace Layout_Properties
begin

text \<open>
  The invariant that \<open>assert_invariants_for_test\<close> of \<open>src/src/workspace.rs\<close> checks, and that
  every operation of a workspace keeps it. While a pane is on its way from one tab to another
  it still has its public number but no tab; the set \<open>E\<close> of such panes is a parameter.
\<close>

section \<open>The invariant\<close>

definition live_panes :: "workspace \<Rightarrow> pane_id list" where
  "live_panes ws = concat (map tab_pane_ids (ws_tabs ws))"

definition live_terminals :: "workspace \<Rightarrow> string list" where
  "live_terminals ws = concat (map tab_terminals (ws_tabs ws))"

definition tabs_ok :: "tab list \<Rightarrow> bool" where
  "tabs_ok tabs = (list_all tab_ok tabs \<and> distinct (map tb_number tabs)
     \<and> distinct (concat (map tab_pane_ids tabs)) \<and> distinct (concat (map tab_terminals tabs)))"

definition numbers_ok :: "(pane_id, nat) hmap \<Rightarrow> nat \<Rightarrow> pane_id set \<Rightarrow> bool" where
  "numbers_ok numbers bound S = (hm_ok numbers \<and> fst ` set numbers = S \<and> distinct (map snd numbers)
     \<and> (\<forall>(i, n) \<in> set numbers. 0 < n \<and> n < bound))"

definition workspace_core :: "pane_id set \<Rightarrow> workspace \<Rightarrow> bool" where
  "workspace_core E ws =
     (tabs_ok (ws_tabs ws) \<and> E \<inter> set (live_panes ws) = {}
      \<and> numbers_ok (ws_public_pane_numbers ws) (ws_next_public_pane_number ws) (set (live_panes ws) \<union> E)
      \<and> (\<forall>t \<in> set (ws_tabs ws). tb_number t < ws_next_public_tab_number ws)
      \<and> 0 < ws_next_public_tab_number ws \<and> 0 < ws_next_public_pane_number ws)"

definition workspace_ok :: "workspace \<Rightarrow> bool" where
  "workspace_ok ws = (workspace_core {} ws \<and> ws_active_tab ws < length (ws_tabs ws))"

section \<open>Lists and maps\<close>

lemma hm_insert_fresh: "k \<notin> fst ` set m \<Longrightarrow> hm_insert k v m = m @ [(k, v)]"
  unfolding hm_insert_def by (induction m) auto

lemma hm_remove_filter: "hm_remove k m = filter (\<lambda>kv. fst kv \<noteq> k) m"
  unfolding hm_remove_def AList.delete_eq by (rule filter_cong) auto

lemma index_of_split: "index_of p xs = Some k \<Longrightarrow> \<exists>A x B. xs = A @ x # B \<and> length A = k \<and> p x"
proof (induction xs arbitrary: k)
  case (Cons x xs)
  show ?case
  proof (cases "p x")
    case True
    with Cons.prems show ?thesis by (intro exI [of _ "[]"]) auto
  next
    case False
    with Cons.prems obtain j where j: "index_of p xs = Some j" "k = Suc j"
      by auto
    from Cons.IH [OF j(1)] obtain A y B where "xs = A @ y # B" "length A = j" "p y"
      by blast
    then show ?thesis using j by (intro exI [of _ "x # A"]) auto
  qed
qed simp

lemma index_of_None: "index_of p xs = None \<longleftrightarrow> (\<forall>x \<in> set xs. \<not> p x)"
  by (induction xs) auto

lemma remove_at_split [simp]: "remove_at (length A) (A @ x # B) = A @ B"
  by (simp add: remove_at_def)

lemma tab_at_split: "tab_at ws idx = Some t \<Longrightarrow> \<exists>A B. ws_tabs ws = A @ t # B \<and> length A = idx"
  using id_take_nth_drop [of idx "ws_tabs ws"] by (force simp: tab_at_def split: if_splits)

lemma tab_keys: "hm_contains_key (tb_panes t) i \<longleftrightarrow> i \<in> set (tab_pane_ids t)"
  using hm_get_key [of "tb_panes t" i] by (simp add: hm_contains_key_def tab_pane_ids_def)

lemma find_tab_split:
  assumes "find_tab_index_for_pane ws i = Some idx"
  obtains A t B where "ws_tabs ws = A @ t # B" "length A = idx" "i \<in> set (tab_pane_ids t)"
  using index_of_split [OF assms [unfolded find_tab_index_for_pane_def]] by (auto simp: tab_keys)

lemma find_tab_None: "find_tab_index_for_pane ws i = None \<longleftrightarrow> i \<notin> set (live_panes ws)"
  by (simp add: find_tab_index_for_pane_def index_of_None tab_keys live_panes_def)

lemma tab_ok_ids: "tab_ok t \<Longrightarrow> distinct (tab_pane_ids t) \<and> tab_pane_ids t \<noteq> []"
  by (auto simp: tab_ok_def hm_ok_def tab_pane_ids_def)

lemma tabs_ok_replace:
  assumes "tabs_ok (A @ t # B)" and "tab_ok t'" and "tb_number t' = tb_number t"
    and "set (tab_pane_ids t') \<inter> set (concat (map tab_pane_ids (A @ B))) = {}"
    and "distinct (tab_terminals t')"
    and "set (tab_terminals t') \<inter> set (concat (map tab_terminals (A @ B))) = {}"
  shows "tabs_ok (A @ t' # B)"
  using assms tab_ok_ids [OF assms(2)] unfolding tabs_ok_def by (simp add: Int_Un_distrib Int_commute)

lemma tabs_ok_remove: "tabs_ok (A @ t # B) \<Longrightarrow> tabs_ok (A @ B)"
  by (auto simp: tabs_ok_def)

lemma tabs_ok_snoc:
  assumes "tabs_ok tabs" and "tab_ok t" and "tb_number t \<notin> tb_number ` set tabs"
    and "set (tab_pane_ids t) \<inter> set (concat (map tab_pane_ids tabs)) = {}"
    and "distinct (tab_terminals t)" and "set (tab_terminals t) \<inter> set (concat (map tab_terminals tabs)) = {}"
  shows "tabs_ok (tabs @ [t])"
  using assms tab_ok_ids [OF assms(2)] unfolding tabs_ok_def by (simp add: Int_commute)

lemma numbers_ok_register:
  assumes "numbers_ok numbers bound S" and "i \<notin> S" and "0 < bound"
  shows "numbers_ok (hm_insert i bound numbers) (max bound (bound + 1)) (insert i S)"
  using assms unfolding numbers_ok_def
  by (auto simp: hm_insert_fresh hm_ok_def)

lemma numbers_ok_remove:
  assumes "numbers_ok numbers bound S"
  shows "numbers_ok (hm_remove i numbers) bound (S - {i})"
  using assms unfolding numbers_ok_def hm_remove_filter hm_ok_def
  by (auto simp: distinct_map_filter)

lemma numbers_ok_unique:
  assumes "numbers_ok numbers bound S" and "hm_get numbers i = Some n" and "hm_get numbers j = Some n"
  shows "i = j"
  using assms eq_key_imp_eq_value [of "map prod.swap numbers" n i j]
  by (force simp: numbers_ok_def hm_get_def comp_def dest!: map_of_SomeD)

lemma numbers_ok_bound: "numbers_ok numbers bound S \<Longrightarrow> hm_get numbers i = Some n \<Longrightarrow> n < bound"
  by (auto simp: numbers_ok_def hm_get_def dest!: map_of_SomeD)

lemma numbers_ok_pos: "numbers_ok numbers bound S \<Longrightarrow> bound \<le> bound' \<Longrightarrow> numbers_ok numbers bound' S"
  by (auto simp: numbers_ok_def)

lemma tabs_ok_insert: "tabs_ok (A @ t # B) \<longleftrightarrow> tabs_ok (t # A @ B)"
  by (auto simp: tabs_ok_def)

section \<open>Fields\<close>

lemma unregister_fields [simp]:
  "ws_tabs (unregister_pane i ws) = ws_tabs ws" "ws_active_tab (unregister_pane i ws) = ws_active_tab ws"
  "ws_public_pane_numbers (unregister_pane i ws) = hm_remove i (ws_public_pane_numbers ws)"
  "ws_next_public_pane_number (unregister_pane i ws) = ws_next_public_pane_number ws"
  "ws_next_public_tab_number (unregister_pane i ws) = ws_next_public_tab_number ws"
  "live_panes (unregister_pane i ws) = live_panes ws"
  "live_terminals (unregister_pane i ws) = live_terminals ws"
  by (simp_all add: unregister_pane_def live_panes_def live_terminals_def)

lemma clamp_fields [simp]:
  "ws_tabs (clamp_active_tab k ws) = ws_tabs ws"
  "ws_public_pane_numbers (clamp_active_tab k ws) = ws_public_pane_numbers ws"
  "ws_next_public_pane_number (clamp_active_tab k ws) = ws_next_public_pane_number ws"
  "ws_next_public_tab_number (clamp_active_tab k ws) = ws_next_public_tab_number ws"
  "live_panes (clamp_active_tab k ws) = live_panes ws"
  "live_terminals (clamp_active_tab k ws) = live_terminals ws"
  by (simp_all add: clamp_active_tab_def live_panes_def live_terminals_def)

lemma clamp_active: "ws_tabs ws \<noteq> [] \<Longrightarrow> ws_active_tab (clamp_active_tab k ws) < length (ws_tabs ws)"
  by (auto simp: clamp_active_tab_def)

lemma adjust_fields [simp]:
  "ws_tabs (adjust_active_tab_after_removal k ws) = ws_tabs ws"
  "ws_public_pane_numbers (adjust_active_tab_after_removal k ws) = ws_public_pane_numbers ws"
  "ws_next_public_pane_number (adjust_active_tab_after_removal k ws) = ws_next_public_pane_number ws"
  "ws_next_public_tab_number (adjust_active_tab_after_removal k ws) = ws_next_public_tab_number ws"
  "live_panes (adjust_active_tab_after_removal k ws) = live_panes ws"
  "live_terminals (adjust_active_tab_after_removal k ws) = live_terminals ws"
  by (simp_all add: adjust_active_tab_after_removal_def live_panes_def live_terminals_def)

lemma adjust_active:
  "ws_active_tab (adjust_active_tab_after_removal k ws) < length (ws_tabs ws) \<or>
   ws_tabs ws = [] \<and> ws_active_tab (adjust_active_tab_after_removal k ws) = 0"
  using clamp_active [of ws k] by (auto simp: adjust_active_tab_after_removal_def)

lemma workspace_core_cong:
  "ws_tabs ws' = ws_tabs ws \<Longrightarrow> ws_public_pane_numbers ws' = ws_public_pane_numbers ws \<Longrightarrow>
   ws_next_public_pane_number ws' = ws_next_public_pane_number ws \<Longrightarrow>
   ws_next_public_tab_number ws' = ws_next_public_tab_number ws \<Longrightarrow>
   workspace_core E ws' = workspace_core E ws"
  by (simp add: workspace_core_def live_panes_def)

lemma core_clamp [simp]: "workspace_core E (clamp_active_tab k ws) = workspace_core E ws"
  by (rule workspace_core_cong) simp_all

lemma core_adjust [simp]: "workspace_core E (adjust_active_tab_after_removal k ws) = workspace_core E ws"
  by (rule workspace_core_cong) simp_all

lemma core_unregister_moved:
  assumes "workspace_core E ws" and "i \<notin> set (live_panes ws)"
  shows "workspace_core (E - {i}) (unregister_pane i ws)"
proof -
  have "set (live_panes ws) \<union> (E - {i}) = (set (live_panes ws) \<union> E) - {i}"
    using assms(2) by blast
  then show ?thesis
    using assms numbers_ok_remove [of "ws_public_pane_numbers ws" _ "set (live_panes ws) \<union> E" i]
    by (auto simp: workspace_core_def)
qed

text \<open>Giving a pane that was not in a tab its place in one.\<close>

lemma core_register:
  assumes "workspace_core E ws" and "i \<notin> set (live_panes ws)"
  shows "numbers_ok (ws_public_pane_numbers (register_if_missing i ws))
      (ws_next_public_pane_number (register_if_missing i ws)) (insert i (set (live_panes ws) \<union> E))"
    and "ws_tabs (register_if_missing i ws) = ws_tabs ws" "ws_active_tab (register_if_missing i ws) = ws_active_tab ws"
    and "ws_next_public_tab_number (register_if_missing i ws) = ws_next_public_tab_number ws"
    and "ws_next_public_pane_number ws \<le> ws_next_public_pane_number (register_if_missing i ws)"
proof -
  let ?S = "set (live_panes ws) \<union> E"
  have n: "numbers_ok (ws_public_pane_numbers ws) (ws_next_public_pane_number ws) ?S"
      "0 < ws_next_public_pane_number ws"
    using assms(1) by (simp_all add: workspace_core_def)
  have keys: "hm_contains_key (ws_public_pane_numbers ws) i \<longleftrightarrow> i \<in> ?S"
    using n(1) hm_get_key [of "ws_public_pane_numbers ws" i] by (simp add: numbers_ok_def hm_contains_key_def)
  show "numbers_ok (ws_public_pane_numbers (register_if_missing i ws))
      (ws_next_public_pane_number (register_if_missing i ws)) (insert i ?S)"
    using numbers_ok_register [OF n(1) _ n(2), of i] n(1) keys
    by (auto simp: register_if_missing_def register_new_pane_with_number_def insert_absorb)
qed (simp_all add: register_if_missing_def register_new_pane_with_number_def)

text \<open>A tab is replaced by one with other panes.\<close>

lemma core_replace:
  assumes "workspace_core E ws" and "ws_tabs ws = A @ t # B" and "tab_ok t'" and "tb_number t' = tb_number t"
    and "set (tab_pane_ids t') \<inter> set (concat (map tab_pane_ids (A @ B))) = {}"
    and "distinct (tab_terminals t')"
    and "set (tab_terminals t') \<inter> set (concat (map tab_terminals (A @ B))) = {}"
    and "E' \<inter> (set (concat (map tab_pane_ids (A @ B))) \<union> set (tab_pane_ids t')) = {}"
    and "numbers_ok numbers bound (set (concat (map tab_pane_ids (A @ B))) \<union> set (tab_pane_ids t') \<union> E')" "0 < bound"
    and "ws' = ws\<lparr>ws_tabs := A @ t' # B, ws_public_pane_numbers := numbers, ws_next_public_pane_number := bound\<rparr>"
  shows "workspace_core E' ws'"
proof -
  have "tabs_ok (A @ t' # B)"
    using tabs_ok_replace [of A t B t'] assms(1-7) by (simp add: workspace_core_def)
  moreover have "set (live_panes ws') = set (concat (map tab_pane_ids (A @ B))) \<union> set (tab_pane_ids t')"
    by (auto simp: live_panes_def assms(11))
  ultimately show ?thesis
    using assms by (auto simp: workspace_core_def)
qed

section \<open>Panes that leave a tab\<close>

lemma remove_pane_lists:
  assumes "hm_ok (tb_panes t)" and "hm_get (tb_panes t) i = Some p" and "distinct (tab_terminals t)"
    and "tb_panes t' = hm_remove i (tb_panes t)"
  shows "set (tab_pane_ids t') = set (tab_pane_ids t) - {i}" "distinct (tab_terminals t')"
    "set (tab_terminals t') = set (tab_terminals t) - {pn_terminal p}"
    "pn_terminal p \<in> set (tab_terminals t)" "i \<in> set (tab_pane_ids t)"
proof -
  have "(i, p) \<in> set (tb_panes t)"
    using assms(1,2) by (simp add: hm_get_def hm_ok_def)
  then obtain X Y where p: "tb_panes t = X @ (i, p) # Y"
    by (meson split_list)
  have k: "i \<notin> fst ` set X" "i \<notin> fst ` set Y"
    using assms(1) by (auto simp: p hm_ok_def)
  have "filter (\<lambda>kv. fst kv \<noteq> i) X = X" "filter (\<lambda>kv. fst kv \<noteq> i) Y = Y"
    using k by (force intro!: filter_True)+
  then have t': "tb_panes t' = X @ Y"
    by (simp add: assms(4) p hm_remove_filter)
  show "set (tab_pane_ids t') = set (tab_pane_ids t) - {i}"
    using k by (auto simp: tab_pane_ids_def t' p)
  show "distinct (tab_terminals t')" "set (tab_terminals t') = set (tab_terminals t) - {pn_terminal p}"
      "pn_terminal p \<in> set (tab_terminals t)"
    using assms(3) by (auto simp: tab_terminals_def t' p)
  show "i \<in> set (tab_pane_ids t)"
    by (simp add: tab_pane_ids_def p)
qed

lemma distinct_singleton: "distinct xs \<Longrightarrow> set xs = {x} \<Longrightarrow> xs = [x]"
  by (cases xs; cases "tl xs") auto

lemma single_pane_tab:
  assumes "tab_ok t" and "pane_count (tb_layout t) \<le> 1" and "i \<in> set (tab_pane_ids t)"
  shows "set (tab_pane_ids t) = {i}"
proof -
  have d: "distinct (pane_ids (tb_layout t))" "set (pane_ids (tb_layout t)) = set (tab_pane_ids t)"
    using assms(1) by (simp_all add: tab_ok_def layout_wf_def tab_pane_ids_def)
  have "length (pane_ids (tb_layout t)) \<le> 1"
    using assms(2) by (simp add: pane_count_length pane_ids_node)
  then have "card (set (tab_pane_ids t)) \<le> 1"
    using distinct_card [OF d(1)] d(2) by simp
  then show ?thesis
    using assms(3) card_le_Suc0_iff_eq [of "set (tab_pane_ids t)"] by auto
qed

lemma core_live:
  assumes "workspace_core E ws" and "ws_tabs ws = A @ t # B"
  shows "tab_ok t" "distinct (tab_terminals t)" "hm_ok (tb_panes t)"
    "set (tab_pane_ids t) \<inter> set (concat (map tab_pane_ids (A @ B))) = {}"
    "set (tab_terminals t) \<inter> set (concat (map tab_terminals (A @ B))) = {}"
    "set (live_panes ws) = set (concat (map tab_pane_ids (A @ B))) \<union> set (tab_pane_ids t)"
    "set (live_terminals ws) = set (concat (map tab_terminals (A @ B))) \<union> set (tab_terminals t)"
  using assms by (auto simp: workspace_core_def tabs_ok_def live_panes_def live_terminals_def tab_ok_def)

lemma core_remove_tab:
  assumes "workspace_core {} ws" and "ws_tabs ws = A @ t # B"
  shows "workspace_core (set (tab_pane_ids t)) (ws\<lparr>ws_tabs := A @ B\<rparr>)"
proof -
  note l = core_live [OF assms]
  have "tabs_ok (A @ B)"
    using assms tabs_ok_remove [of A t B] by (simp add: workspace_core_def)
  moreover have "set (live_panes (ws\<lparr>ws_tabs := A @ B\<rparr>)) = set (concat (map tab_pane_ids (A @ B)))"
    by (simp add: live_panes_def)
  ultimately show ?thesis
    using assms l(4,6) by (auto simp: workspace_core_def)
qed

lemma find_map_skip: "\<forall>x \<in> set A. f x = None \<Longrightarrow> find_map f (A @ xs) = find_map f xs"
  by (induction A) (simp_all add: find_map_def map_filter_simps)

lemma find_map_hit: "f x = Some y \<Longrightarrow> find_map f (x # xs) = Some y"
  by (simp add: find_map_def map_filter_simps)

lemma pane_state_at:
  assumes "workspace_core E ws" and "ws_tabs ws = A @ t # B" and "hm_get (tb_panes t) i = Some p"
  shows "pane_state_of ws i = Some p"
proof -
  have i: "i \<in> set (tab_pane_ids t)"
    using assms(3) tab_keys [of t i] by simp
  have "hm_get (tb_panes x) i = None" if "x \<in> set A" for x
    using that core_live(4) [OF assms(1,2)] i tab_keys [of x i] by (auto simp: hm_contains_key_def)
  then show ?thesis
    using assms(2,3) by (simp add: pane_state_of_def find_map_skip find_map_hit)
qed

lemma take_core:
  assumes "workspace_core {} ws" and "i \<in> set (live_panes ws)"
  obtains ws' tk where "take_pane_for_move i ws = Some (ws', Some tk)" "workspace_core {i} ws'"
    "set (live_panes ws') = set (live_panes ws) - {i}" "mv_pane_id (tk_moved tk) = i"
    "set (live_terminals ws') = set (live_terminals ws) - {pn_terminal (mv_pane_state (tk_moved tk))}"
    "pn_terminal (mv_pane_state (tk_moved tk)) \<in> set (live_terminals ws)"
    "ws_public_pane_numbers ws' = ws_public_pane_numbers ws"
    "ws_next_public_pane_number ws' = ws_next_public_pane_number ws"
    "ws_active_tab ws < length (ws_tabs ws) \<Longrightarrow> ws_active_tab ws' < length (ws_tabs ws')
      \<or> ws_tabs ws' = [] \<and> ws_active_tab ws' = 0"
    "tk_workspace_empty tk \<longleftrightarrow> ws_tabs ws' = []" "pane_state_of ws i = Some (mv_pane_state (tk_moved tk))"
proof -
  obtain idx where idx: "find_tab_index_for_pane ws i = Some idx"
    using assms(2) find_tab_None [of ws i] by auto
  then obtain A t B where t: "ws_tabs ws = A @ t # B" "length A = idx" "i \<in> set (tab_pane_ids t)"
    by (rule find_tab_split)
  have nth: "ws_tabs ws ! idx = t"
    using t by (simp add: nth_append)
  note l = core_live [OF assms(1) t(1)]
  obtain p where p: "hm_get (tb_panes t) i = Some p"
    using t(3) tab_keys [of t i] by (auto simp: hm_contains_key_def)
  note state = pane_state_at [OF assms(1) t(1) p]
  show thesis
  proof (cases "pane_count (tb_layout t) \<le> 1")
    case True
    let ?ws = "adjust_active_tab_after_removal idx (ws\<lparr>ws_tabs := A @ B\<rparr>)"
    let ?tk = "\<lparr>tk_moved = \<lparr>mv_pane_id = i, mv_pane_state = p\<rparr>, tk_removed_tab_idx = Some idx,
        tk_workspace_empty = (A @ B = [])\<rparr>"
    have ids: "set (tab_pane_ids t) = {i}"
      by (rule single_pane_tab [OF l(1) True t(3)])
    have take: "take_pane_for_move i ws = Some (?ws, Some ?tk)"
      using idx True p t(1,2) by (auto simp: take_pane_for_move_def nth tab_take_pane_for_move_def)
    have core: "workspace_core {i} ?ws"
      using core_remove_tab [OF assms(1) t(1)] ids by simp
    have "map fst (tb_panes t) = [i]"
      using ids l(3) by (intro distinct_singleton) (simp_all add: tab_pane_ids_def hm_ok_def)
    then have "tab_terminals t = [pn_terminal p]"
      using p by (auto simp: tab_terminals_def hm_get_def)
    moreover have "set (live_panes ?ws) = set (concat (map tab_pane_ids (A @ B)))"
        "set (live_terminals ?ws) = set (concat (map tab_terminals (A @ B)))"
      by (simp_all add: live_panes_def live_terminals_def)
    ultimately show thesis
      using that [OF take core] adjust_active [of idx "ws\<lparr>ws_tabs := A @ B\<rparr>"] l(4-7) ids state
      by auto
  next
    case False
    then have many: "1 < pane_count (tb_layout t)" by simp
    obtain t' where t': "tab_take_pane_for_move t i = Some (t', Some \<lparr>mv_pane_id = i, mv_pane_state = p\<rparr>)"
        "tab_ok t'" "tb_panes t' = hm_remove i (tb_panes t)" "tb_number t' = tb_number t"
      by (rule take_ok [OF l(1) many p])
    let ?ws = "ws\<lparr>ws_tabs := A @ t' # B\<rparr>"
    let ?tk = "\<lparr>tk_moved = \<lparr>mv_pane_id = i, mv_pane_state = p\<rparr>, tk_removed_tab_idx = None,
        tk_workspace_empty = False\<rparr>"
    have take: "take_pane_for_move i ws = Some (?ws, Some ?tk)"
      using idx many t' t(1,2) by (auto simp: take_pane_for_move_def nth list_update_append)
    note r = remove_pane_lists [OF l(3) p l(2) t'(3)]
    have live: "set (live_panes ?ws) = set (live_panes ws) - {i}"
        "set (live_terminals ?ws) = set (live_terminals ws) - {pn_terminal p}"
      using r l(4-7) by (auto simp: live_panes_def live_terminals_def)
    have "set (concat (map tab_pane_ids (A @ B))) \<union> set (tab_pane_ids t') \<union> {i} = set (live_panes ws)"
      using r l(4,6) by auto
    then have "numbers_ok (ws_public_pane_numbers ws) (ws_next_public_pane_number ws)
        (set (concat (map tab_pane_ids (A @ B))) \<union> set (tab_pane_ids t') \<union> {i})" "0 < ws_next_public_pane_number ws"
      using assms(1) by (simp_all add: workspace_core_def)
    then have core: "workspace_core {i} ?ws"
      using r l(4,5) t'(2,4) by (intro core_replace [OF assms(1) t(1), where t' = t' and E' = "{i}"]) auto
    show thesis
      using that [OF take core] live r(4) l(7) t(1) state by auto
  qed
qed

section \<open>Panes that enter a tab\<close>

lemma insert_pane_lists:
  assumes "i \<notin> set (tab_pane_ids t)" and "tb_panes t' = hm_insert i p (tb_panes t)"
  shows "set (tab_pane_ids t') = insert i (set (tab_pane_ids t))"
    "tab_terminals t' = tab_terminals t @ [pn_terminal p]"
  using assms by (simp_all add: tab_pane_ids_def tab_terminals_def hm_insert_fresh)

text \<open>A tab of a workspace gets a pane that no tab has.\<close>

lemma core_enter:
  assumes "workspace_core E ws" and "ws_tabs ws = A @ t # B" and "E \<subseteq> {i}" and "i \<notin> set (live_panes ws)"
    and "pn_terminal p \<notin> set (live_terminals ws)"
    and "tab_ok t'" "tb_panes t' = hm_insert i p (tb_panes t)" "tb_number t' = tb_number t"
    and "numbers_ok numbers bound (insert i (set (live_panes ws) \<union> E))" "0 < bound"
    and "ws' = ws\<lparr>ws_tabs := A @ t' # B, ws_public_pane_numbers := numbers, ws_next_public_pane_number := bound\<rparr>"
  shows "workspace_core {} ws'" "set (live_panes ws') = insert i (set (live_panes ws))"
    "set (live_terminals ws') = insert (pn_terminal p) (set (live_terminals ws))"
proof -
  note l = core_live [OF assms(1,2)]
  have i: "i \<notin> set (tab_pane_ids t)" using assms(4) l(6) by auto
  note r = insert_pane_lists [OF i assms(7)]
  show live: "set (live_panes ws') = insert i (set (live_panes ws))"
    "set (live_terminals ws') = insert (pn_terminal p) (set (live_terminals ws))"
    using r l(6,7) by (auto simp: live_panes_def live_terminals_def assms(11))
  have S: "set (concat (map tab_pane_ids (A @ B))) \<union> set (tab_pane_ids t') \<union> {} = insert i (set (live_panes ws) \<union> E)"
    using r l(6) assms(3) by auto
  show "workspace_core {} ws'"
  proof (rule core_replace [OF assms(1,2,6,8)])
    show "numbers_ok numbers bound (set (concat (map tab_pane_ids (A @ B))) \<union> set (tab_pane_ids t') \<union> {})"
      using assms(9) by (simp only: S)
    show "set (tab_pane_ids t') \<inter> set (concat (map tab_pane_ids (A @ B))) = {}"
      using r l(4) assms(4) l(6) by auto
    show "distinct (tab_terminals t')"
      using r l(2,7) assms(5) by auto
    show "set (tab_terminals t') \<inter> set (concat (map tab_terminals (A @ B))) = {}"
      using r l(5,7) assms(5) by auto
  qed (use assms(10,11) in simp_all)
qed

text \<open>A new tab with one pane that no tab has.\<close>

lemma core_snoc:
  assumes "workspace_core E ws" and "E \<subseteq> {i}" and "i \<notin> set (live_panes ws)"
    and "tm \<notin> set (live_terminals ws)"
    and "tab_ok t" "tab_pane_ids t = [i]" "tab_terminals t = [tm]" "tb_number t = ws_next_public_tab_number ws"
    and "numbers_ok numbers bound (insert i (set (live_panes ws) \<union> E))" "0 < bound"
    and "ws_tabs ws' = ws_tabs ws @ [t]" "ws_public_pane_numbers ws' = numbers"
    "ws_next_public_pane_number ws' = bound" "ws_next_public_tab_number ws' = ws_next_public_tab_number ws + 1"
  shows "workspace_core {} ws'" "set (live_panes ws') = insert i (set (live_panes ws))"
    "set (live_terminals ws') = insert tm (set (live_terminals ws))"
proof -
  show live: "set (live_panes ws') = insert i (set (live_panes ws))"
    "set (live_terminals ws') = insert tm (set (live_terminals ws))"
    using assms(6,7,11) by (auto simp: live_panes_def live_terminals_def)
  have c: "tabs_ok (ws_tabs ws)" "\<forall>t \<in> set (ws_tabs ws). tb_number t < ws_next_public_tab_number ws"
    using assms(1) by (simp_all add: workspace_core_def)
  have "tabs_ok (ws_tabs ws @ [t])"
  proof (rule tabs_ok_snoc [OF c(1) assms(5)])
    show "tb_number t \<notin> tb_number ` set (ws_tabs ws)"
      using c(2) assms(8) by auto
    show "set (tab_pane_ids t) \<inter> set (concat (map tab_pane_ids (ws_tabs ws))) = {}"
      using assms(3,6) by (simp add: live_panes_def)
    show "distinct (tab_terminals t)"
      using assms(7) by simp
    show "set (tab_terminals t) \<inter> set (concat (map tab_terminals (ws_tabs ws))) = {}"
      using assms(4,7) by (simp add: live_terminals_def)
  qed
  moreover have "insert i (set (live_panes ws) \<union> E) = set (live_panes ws') \<union> {}"
    using live(1) assms(2) by auto
  ultimately show "workspace_core {} ws'"
    using assms(8-14) c(2) by (auto simp: workspace_core_def)
qed

lemma insert_moved_core:
  assumes "workspace_core E ws" and "E \<subseteq> {mv_pane_id moved}" and "mv_pane_id moved \<notin> set (live_panes ws)"
    and "pn_terminal (mv_pane_state moved) \<notin> set (live_terminals ws)"
    and "insert_moved_pane_into_tab idx target moved d r ws = (ws', ok)"
  shows "\<not> ok \<Longrightarrow> ws' = ws"
    and "ok \<Longrightarrow> workspace_core {} ws' \<and> set (live_panes ws') = insert (mv_pane_id moved) (set (live_panes ws))
      \<and> set (live_terminals ws') = insert (pn_terminal (mv_pane_state moved)) (set (live_terminals ws))
      \<and> ws_active_tab ws' = ws_active_tab ws \<and> length (ws_tabs ws') = length (ws_tabs ws)"
proof -
  show "\<not> ok \<Longrightarrow> ws' = ws"
    using assms(5) by (auto simp: insert_moved_pane_into_tab_def split: option.splits prod.splits if_splits)
  assume ok
  then obtain t t' where t: "tab_at ws idx = Some t" and i: "insert_existing_pane t target moved d r = (t', True)"
    and ws': "ws' = register_if_missing (mv_pane_id moved) (ws\<lparr>ws_tabs := (ws_tabs ws)[idx := t']\<rparr>)"
    using assms(5) by (auto simp: insert_moved_pane_into_tab_def split: option.splits prod.splits if_splits)
  obtain A B where s: "ws_tabs ws = A @ t # B" "length A = idx"
    using tab_at_split [OF t] by blast
  have upd: "(ws_tabs ws)[idx := t'] = A @ t' # B"
    using s by (auto simp: list_update_append)
  note l = core_live [OF assms(1) s(1)]
  have t': "tab_ok t'" "tb_panes t' = hm_insert (mv_pane_id moved) (mv_pane_state moved) (tb_panes t)"
      "tb_number t' = tb_number t"
    using insert_existing_ok(3) [OF l(1) i] by simp_all
  note g = core_register [OF assms(1,3)]
  let ?g = "register_if_missing (mv_pane_id moved) ws"
  have ws'': "ws' = ws\<lparr>ws_tabs := A @ t' # B, ws_public_pane_numbers := ws_public_pane_numbers ?g,
      ws_next_public_pane_number := ws_next_public_pane_number ?g\<rparr>"
    by (simp add: ws' upd register_if_missing_def register_new_pane_with_number_def)
  have "0 < ws_next_public_pane_number ?g"
    using g(5) assms(1) by (simp add: workspace_core_def)
  from core_enter [OF assms(1) s(1) assms(2-4) t' g(1) this ws'']
  show "workspace_core {} ws' \<and> set (live_panes ws') = insert (mv_pane_id moved) (set (live_panes ws))
      \<and> set (live_terminals ws') = insert (pn_terminal (mv_pane_state moved)) (set (live_terminals ws))
      \<and> ws_active_tab ws' = ws_active_tab ws \<and> length (ws_tabs ws') = length (ws_tabs ws)"
    by (simp add: ws'' s(1))
qed

lemma tab_from_existing_facts:
  "0 < number \<Longrightarrow> tab_ok (tab_from_existing_pane number label moved)"
  "tab_pane_ids (tab_from_existing_pane number label moved) = [mv_pane_id moved]"
  "tab_terminals (tab_from_existing_pane number label moved) = [pn_terminal (mv_pane_state moved)]"
  "tb_number (tab_from_existing_pane number label moved) = number"
  "tb_root_pane (tab_from_existing_pane number label moved) = mv_pane_id moved"
  by (simp_all add: tab_from_existing_pane_def tab_ok_def layout_wf_def from_saved_def pane_ids_node
      hm_insert_def hm_ok_def tab_pane_ids_def tab_terminals_def)

lemma create_from_existing_core:
  assumes "workspace_core E ws" and "E \<subseteq> {mv_pane_id moved}" and "mv_pane_id moved \<notin> set (live_panes ws)"
    and "pn_terminal (mv_pane_state moved) \<notin> set (live_terminals ws)"
    and "create_tab_from_existing_pane moved label ws = (ws', idx)"
  shows "workspace_core {} ws'" "set (live_panes ws') = insert (mv_pane_id moved) (set (live_panes ws))"
    "set (live_terminals ws') = insert (pn_terminal (mv_pane_state moved)) (set (live_terminals ws))"
    "ws_active_tab ws' = ws_active_tab ws" "length (ws_tabs ws') = Suc (length (ws_tabs ws))" "idx = length (ws_tabs ws)"
proof -
  let ?t = "tab_from_existing_pane (ws_next_public_tab_number ws) label moved"
  let ?g = "register_if_missing (mv_pane_id moved) ws"
  note g = core_register [OF assms(1,3)]
  have ws': "ws' = ?g\<lparr>ws_next_public_tab_number := ws_next_public_tab_number ws + 1, ws_tabs := ws_tabs ws @ [?t]\<rparr>"
    and idx: "idx = length (ws_tabs ws)"
    using assms(5) by (auto simp: create_tab_from_existing_pane_def Let_def register_if_missing_def
        register_new_pane_with_number_def)
  have pos: "0 < ws_next_public_tab_number ws" "0 < ws_next_public_pane_number ?g"
    using assms(1) g(5) by (simp_all add: workspace_core_def)
  have f: "ws_tabs ws' = ws_tabs ws @ [?t]" "ws_public_pane_numbers ws' = ws_public_pane_numbers ?g"
      "ws_next_public_pane_number ws' = ws_next_public_pane_number ?g"
      "ws_next_public_tab_number ws' = ws_next_public_tab_number ws + 1" "ws_active_tab ws' = ws_active_tab ws"
    by (simp_all add: ws' g(3))
  note c = core_snoc [OF assms(1-4) tab_from_existing_facts(1) [OF pos(1), of label moved]
      tab_from_existing_facts(2-4) g(1) pos(2) f(1-4)]
  show "workspace_core {} ws'" "set (live_panes ws') = insert (mv_pane_id moved) (set (live_panes ws))"
    "set (live_terminals ws') = insert (pn_terminal (mv_pane_state moved)) (set (live_terminals ws))"
    by (rule c)+
  show "ws_active_tab ws' = ws_active_tab ws" "length (ws_tabs ws') = Suc (length (ws_tabs ws))" "idx = length (ws_tabs ws)"
    by (simp_all add: f idx)
qed

section \<open>Operations that start a process\<close>

lemma register_new:
  assumes "workspace_core {} ws" and "i \<notin> set (live_panes ws)"
  shows "register_if_missing i ws = register_new_pane_with_number i (ws_next_public_pane_number ws) ws"
proof -
  have "i \<notin> fst ` set (ws_public_pane_numbers ws)"
    using assms by (simp add: workspace_core_def numbers_ok_def)
  then show ?thesis
    using hm_get_key [of "ws_public_pane_numbers ws" i] by (simp add: register_if_missing_def hm_contains_key_def)
qed

lemma core_next_tab: "workspace_core E ws \<Longrightarrow>
    workspace_core E (ws\<lparr>ws_next_public_tab_number := Suc (ws_next_public_tab_number ws)\<rparr>)"
  by (auto simp: workspace_core_def live_panes_def less_Suc_eq)

lemma create_tab_core:
  assumes "workspace_core {} ws" and "c \<notin> set (live_panes ws)" and "la_terminal_id la \<notin> set (live_terminals ws)"
    and "create_tab_with_runtime c la ws = ((ws', result), c')"
  shows "workspace_core {} ws'" "c' = c + 1" "ws_active_tab ws' = ws_active_tab ws"
    "length (ws_tabs ws) \<le> length (ws_tabs ws')"
    "la_spawned la \<Longrightarrow> (\<exists>tm. result = Some (length (ws_tabs ws), tm))
      \<and> set (live_panes ws') = insert c (set (live_panes ws))
      \<and> set (live_terminals ws') = insert (la_terminal_id la) (set (live_terminals ws))"
    "\<not> la_spawned la \<Longrightarrow> result = None
      \<and> ws' = ws\<lparr>ws_next_public_tab_number := Suc (ws_next_public_tab_number ws)\<rparr>"
proof -
  let ?n = "ws_next_public_tab_number ws"
  have pos: "0 < ?n" using assms(1) by (simp add: workspace_core_def)
  have c': "snd (tab_new_with_runtime c ?n la) = c + 1"
    by (simp add: tab_new_with_runtime_def tile_layout_new_def pane_id_alloc_def)
  have all: "workspace_core {} ws' \<and> c' = c + 1 \<and> ws_active_tab ws' = ws_active_tab ws
    \<and> length (ws_tabs ws) \<le> length (ws_tabs ws')
    \<and> (la_spawned la \<longrightarrow> (\<exists>tm. result = Some (length (ws_tabs ws), tm))
      \<and> set (live_panes ws') = insert c (set (live_panes ws))
      \<and> set (live_terminals ws') = insert (la_terminal_id la) (set (live_terminals ws)))
    \<and> (\<not> la_spawned la \<longrightarrow> result = None
      \<and> ws' = ws\<lparr>ws_next_public_tab_number := Suc (ws_next_public_tab_number ws)\<rparr>)"
  proof (cases "la_spawned la")
    case False
    then have "fst (tab_new_with_runtime c ?n la) = None"
      by (simp add: tab_new_with_runtime_def tile_layout_new_def pane_id_alloc_def)
    then have "ws' = ws\<lparr>ws_next_public_tab_number := Suc ?n\<rparr>" "result = None" "c' = c + 1"
      using assms(4) c' by (auto simp: create_tab_with_runtime_def Let_def split: prod.splits)
    then show ?thesis
      using core_next_tab [OF assms(1)] False by simp
  next
    case True
    then obtain t tm where new: "tab_new_with_runtime c ?n la = (Some (t, tm), c + 1)"
      by (simp add: tab_new_with_runtime_def tile_layout_new_def pane_id_alloc_def)
    note f = tab_new_ok [OF new pos]
    let ?g = "register_if_missing c ws"
    note g = core_register [OF assms(1,2)]
    have ws': "ws' = ?g\<lparr>ws_next_public_tab_number := ?n + 1, ws_tabs := ws_tabs ws @ [t]\<rparr>"
      and res: "result = Some (length (ws_tabs ws), tm)" "c' = c + 1"
      using assms(4) new f(5)
      by (auto simp: create_tab_with_runtime_def Let_def register_new [OF assms(1,2)] register_new_pane_with_number_def)
    have h: "ws_tabs ws' = ws_tabs ws @ [t]" "ws_public_pane_numbers ws' = ws_public_pane_numbers ?g"
      "ws_next_public_pane_number ws' = ws_next_public_pane_number ?g"
      "ws_next_public_tab_number ws' = ?n + 1" "ws_active_tab ws' = ws_active_tab ws"
      by (simp_all add: ws' g(3))
    have "0 < ws_next_public_pane_number ?g"
      using assms(1) g(5) by (simp add: workspace_core_def)
    note k = core_snoc [OF assms(1) _ assms(2,3) f(1-4) g(1) this h(1-4)]
    show ?thesis
      using k res h True by simp
  qed
  show "workspace_core {} ws'" "c' = c + 1" "ws_active_tab ws' = ws_active_tab ws"
    "length (ws_tabs ws) \<le> length (ws_tabs ws')"
    "la_spawned la \<Longrightarrow> (\<exists>tm. result = Some (length (ws_tabs ws), tm))
      \<and> set (live_panes ws') = insert c (set (live_panes ws))
      \<and> set (live_terminals ws') = insert (la_terminal_id la) (set (live_terminals ws))"
    "\<not> la_spawned la \<Longrightarrow> result = None
      \<and> ws' = ws\<lparr>ws_next_public_tab_number := Suc (ws_next_public_tab_number ws)\<rparr>"
    using all by simp_all
qed

lemma tab_refocus:
  assumes "tab_ok t" and "f \<in> set (tab_pane_ids t)"
  shows "focus_pane (tb_layout t) f = (tb_layout t)\<lparr>tl_focus := f\<rparr>"
    "tab_ok (t\<lparr>tb_layout := focus_pane (tb_layout t) f\<rparr>)"
proof -
  have f: "f \<in> set (pane_ids (tb_layout t))" "layout_wf (tb_layout t)"
    using assms by (simp_all add: tab_ok_def tab_pane_ids_def)
  then show g: "focus_pane (tb_layout t) f = (tb_layout t)\<lparr>tl_focus := f\<rparr>"
    by (simp add: focus_pane_def)
  show "tab_ok (t\<lparr>tb_layout := focus_pane (tb_layout t) f\<rparr>)"
    using assms(1) layout_wf_focus [OF f(2,1)] by (simp add: g tab_ok_def pane_ids_node)
qed

lemma tab_focus_live: "tab_ok t \<Longrightarrow> tl_focus (tb_layout t) \<in> set (tab_pane_ids t)"
  by (auto simp: tab_ok_def layout_wf_def tab_pane_ids_def)

text \<open>A split whose process does not start leaves the workspace as it was.\<close>

lemma split_pane_failed:
  assumes "workspace_core {} ws" and "c \<notin> set (live_panes ws)" and "\<not> la_spawned la"
    and "find_tab_index_for_pane ws i = Some idx"
  shows "split_pane_with_runtime c i d ratio la fnew ws = Some ((ws, Some (idx, None)), c + 1)"
proof -
  obtain A t B where t: "ws_tabs ws = A @ t # B" "length A = idx" "i \<in> set (tab_pane_ids t)"
    by (rule find_tab_split [OF assms(4)])
  note l = core_live [OF assms(1) t(1)]
  have nth: "ws_tabs ws ! idx = t" and upd: "(ws_tabs ws)[idx := x] = A @ x # B" for x
    using t by (auto simp: nth_append list_update_append)
  let ?f = "t\<lparr>tb_layout := focus_pane (tb_layout t) i\<rparr>"
  note f = tab_refocus [OF l(1) t(3)]
  have "c \<notin> set (tab_pane_ids ?f)"
    using assms(2) l(6) by (auto simp: tab_pane_ids_def)
  from split_failed [OF f(2) this assms(3)]
  have s: "split_focused_with_runtime c ?f d ratio la = Some ((?f, None), c + 1)" .
  have "focus_pane ((tb_layout t)\<lparr>tl_focus := i\<rparr>) (tl_focus (tb_layout t)) = tb_layout t"
    using l(1) by (auto simp: focus_pane_def tab_ok_def layout_wf_def pane_ids_node)
  then have "?f\<lparr>tb_layout := focus_pane (tb_layout ?f) (tl_focus (tb_layout t))\<rparr> = t"
    by (simp add: f(1))
  then have restore: "(ws_tabs ws)[idx := ?f\<lparr>tb_layout := focus_pane (tb_layout ?f) (tl_focus (tb_layout t))\<rparr>] = ws_tabs ws"
    by (simp only: upd) (simp add: t(1))
  have "(ws_tabs ws)[idx := t] = ws_tabs ws"
    by (simp only: upd) (simp add: t(1))
  then show ?thesis
    using assms(4) restore by (simp add: split_pane_with_runtime_def nth s Let_def)
qed

lemma split_pane_core:
  assumes "workspace_core {} ws" and "c \<notin> set (live_panes ws)" and "la_terminal_id la \<notin> set (live_terminals ws)"
    and "la_spawned la" and "find_tab_index_for_pane ws i = Some idx"
  obtains ws' where "split_pane_with_runtime c i d ratio la fnew ws =
      Some ((ws', Some (idx, Some \<lparr>np_pane_id = c, np_terminal = launched_terminal la\<rparr>)), c + 1)"
    "workspace_core {} ws'" "set (live_panes ws') = insert c (set (live_panes ws))"
    "set (live_terminals ws') = insert (la_terminal_id la) (set (live_terminals ws))"
    "ws_active_tab ws' = ws_active_tab ws" "length (ws_tabs ws') = length (ws_tabs ws)"
    "public_pane_number ws' c = Some (ws_next_public_pane_number ws)"
proof -
  obtain A t B where t: "ws_tabs ws = A @ t # B" "length A = idx" "i \<in> set (tab_pane_ids t)"
    by (rule find_tab_split [OF assms(5)])
  note l = core_live [OF assms(1) t(1)]
  have nth: "ws_tabs ws ! idx = t" and upd: "(ws_tabs ws)[idx := x] = A @ x # B" for x
    using t by (auto simp: nth_append list_update_append)
  let ?f = "t\<lparr>tb_layout := focus_pane (tb_layout t) i\<rparr>"
  note f = tab_refocus [OF l(1) t(3)]
  have c: "c \<notin> set (tab_pane_ids ?f)"
    using assms(2) l(6) by (auto simp: tab_pane_ids_def)
  obtain t1 where s: "split_focused_with_runtime c ?f d ratio la =
      Some ((t1, Some \<lparr>np_pane_id = c, np_terminal = launched_terminal la\<rparr>), c + 1)"
    "tab_ok t1" "set (tab_pane_ids t1) = insert c (set (tab_pane_ids ?f))"
    "tb_panes t1 = hm_insert c (pane_state_new (la_terminal_id la)) (tb_panes ?f)"
    "tb_number t1 = tb_number ?f"
    by (rule split_spawned [OF f(2) c assms(4)])
  define t2 where "t2 = (if fnew then t1 else t1\<lparr>tb_layout := focus_pane (tb_layout t1) (tl_focus (tb_layout t))\<rparr>)"
  have "tl_focus (tb_layout t) \<in> set (tab_pane_ids t1)"
    using s(3) tab_focus_live [OF l(1)] by (simp add: tab_pane_ids_def)
  then have t2: "tab_ok t2" "tb_panes t2 = hm_insert c (pane_state_new (la_terminal_id la)) (tb_panes t)"
      "tb_number t2 = tb_number t"
    using s tab_refocus(2) [OF s(2)] by (simp_all add: t2_def)
  let ?g = "register_if_missing c ws"
  note g = core_register [OF assms(1,2)]
  let ?ws = "ws\<lparr>ws_tabs := A @ t2 # B, ws_public_pane_numbers := ws_public_pane_numbers ?g,
      ws_next_public_pane_number := ws_next_public_pane_number ?g\<rparr>"
  have res: "split_pane_with_runtime c i d ratio la fnew ws =
      Some ((?ws, Some (idx, Some \<lparr>np_pane_id = c, np_terminal = launched_terminal la\<rparr>)), c + 1)"
    using assms(5) by (simp add: split_pane_with_runtime_def nth s(1) Let_def upd t2_def [symmetric]
        register_new [OF assms(1,2)] register_new_pane_with_number_def)
  have pos: "0 < ws_next_public_pane_number ?g"
    using assms(1) g(5) by (simp add: workspace_core_def)
  have tm: "pn_terminal (pane_state_new (la_terminal_id la)) \<notin> set (live_terminals ws)"
    using assms(3) by (simp add: pane_state_new_def)
  note k = core_enter [OF assms(1) t(1) _ assms(2) tm t2 g(1) pos refl]
  show thesis
    using that [OF res] k t(1) register_new [OF assms(1,2)]
    by (simp add: pane_state_new_def public_pane_number_def register_new_pane_with_number_def)
qed

lemma active_split: "active_tab ws = Some t \<Longrightarrow> \<exists>A B. ws_tabs ws = A @ t # B \<and> length A = ws_active_tab ws"
  using id_take_nth_drop [of "ws_active_tab ws" "ws_tabs ws"] by (force simp: active_tab_def split: if_splits)

lemma split_focused_failed:
  assumes "workspace_core {} ws" and "c \<notin> set (live_panes ws)" and "\<not> la_spawned la" and "active_tab ws = Some t"
  shows "workspace_split_focused_command c d la ws = Some ((ws, None), c + 1)"
proof -
  obtain A B where t: "ws_tabs ws = A @ t # B" "length A = ws_active_tab ws"
    using active_split [OF assms(4)] by blast
  note l = core_live [OF assms(1) t(1)]
  have "c \<notin> set (tab_pane_ids t)"
    using assms(2) l(6) by auto
  from split_failed [OF l(1) this assms(3)]
  show ?thesis
    using assms(4) t by (simp add: workspace_split_focused_command_def t(2) [symmetric] list_update_append)
qed

lemma split_focused_core:
  assumes "workspace_core {} ws" and "c \<notin> set (live_panes ws)" and "la_terminal_id la \<notin> set (live_terminals ws)"
    and "la_spawned la" and "active_tab ws = Some t"
  obtains ws' where "workspace_split_focused_command c d la ws =
      Some ((ws', Some \<lparr>np_pane_id = c, np_terminal = launched_terminal la\<rparr>), c + 1)"
    "workspace_core {} ws'" "set (live_panes ws') = insert c (set (live_panes ws))"
    "set (live_terminals ws') = insert (la_terminal_id la) (set (live_terminals ws))"
    "ws_active_tab ws' = ws_active_tab ws" "length (ws_tabs ws') = length (ws_tabs ws)"
proof -
  obtain A B where t: "ws_tabs ws = A @ t # B" "length A = ws_active_tab ws"
    using active_split [OF assms(5)] by blast
  note l = core_live [OF assms(1) t(1)]
  have c: "c \<notin> set (tab_pane_ids t)"
    using assms(2) l(6) by auto
  obtain t1 where s: "split_focused_with_runtime c t d None la =
      Some ((t1, Some \<lparr>np_pane_id = c, np_terminal = launched_terminal la\<rparr>), c + 1)"
    "tab_ok t1" "set (tab_pane_ids t1) = insert c (set (tab_pane_ids t))"
    "tb_panes t1 = hm_insert c (pane_state_new (la_terminal_id la)) (tb_panes t)" "tb_number t1 = tb_number t"
    by (rule split_spawned [OF l(1) c assms(4)])
  let ?g = "register_if_missing c ws"
  note g = core_register [OF assms(1,2)]
  let ?ws = "ws\<lparr>ws_tabs := A @ t1 # B, ws_public_pane_numbers := ws_public_pane_numbers ?g,
      ws_next_public_pane_number := ws_next_public_pane_number ?g\<rparr>"
  have res: "workspace_split_focused_command c d la ws =
      Some ((?ws, Some \<lparr>np_pane_id = c, np_terminal = launched_terminal la\<rparr>), c + 1)"
    using assms(5) t by (simp add: workspace_split_focused_command_def s(1) t(2) [symmetric] list_update_append Let_def
        register_new [OF assms(1,2)] register_new_pane_with_number_def)
  have pos: "0 < ws_next_public_pane_number ?g"
    using assms(1) g(5) by (simp add: workspace_core_def)
  have tm: "pn_terminal (pane_state_new (la_terminal_id la)) \<notin> set (live_terminals ws)"
    using assms(3) by (simp add: pane_state_new_def)
  note k = core_enter [OF assms(1) t(1) _ assms(2) tm s(2,4,5) g(1) pos refl]
  show thesis
    using that [OF res] k t(1) by (simp add: pane_state_new_def)
qed

section \<open>Closing\<close>

lemma close_is_remove: "workspace_close_pane i ws = workspace_remove_pane i ws"
  by (simp add: workspace_close_pane_def workspace_remove_pane_def tab_close_pane_def tab_remove_pane_def
      split: option.split)

lemma remove_pane_core:
  assumes "workspace_ok ws"
  obtains ws' close where "workspace_remove_pane i ws = Some (ws', close)" "workspace_ok ws'"
    "close \<Longrightarrow> ws' = ws \<and> set (live_panes ws) = {i}"
    "\<not> close \<Longrightarrow> set (live_panes ws') = set (live_panes ws) - {i}"
    "set (live_terminals ws') \<subseteq> set (live_terminals ws)"
    "\<And>j. j \<noteq> i \<Longrightarrow> public_pane_number ws' j = public_pane_number ws j"
    "ws_next_public_pane_number ws' = ws_next_public_pane_number ws"
proof (cases "find_tab_index_for_pane ws i")
  case None
  then have "workspace_remove_pane i ws = Some (ws, False)" "i \<notin> set (live_panes ws)"
    using find_tab_None [of ws i] by (simp_all add: workspace_remove_pane_def)
  then show thesis using that [of ws False] assms by simp
next
  case (Some idx)
  then obtain A t B where t: "ws_tabs ws = A @ t # B" "length A = idx" "i \<in> set (tab_pane_ids t)"
    by (rule find_tab_split)
  have core: "workspace_core {} ws" using assms by (simp add: workspace_ok_def)
  note l = core_live [OF core t(1)]
  have nth: "ws_tabs ws ! idx = t" and rem: "remove_at idx (ws_tabs ws) = A @ B"
    and upd: "(ws_tabs ws)[idx := x] = A @ x # B" for x
    using t by (auto simp: nth_append list_update_append)
  have numbers: "hm_ok (ws_public_pane_numbers ws)"
    using core by (simp add: workspace_core_def numbers_ok_def)
  obtain p where p: "hm_get (tb_panes t) i = Some p"
    using t(3) tab_keys [of t i] by (auto simp: hm_contains_key_def)
  show thesis
  proof (cases "pane_count (tb_layout t) \<le> 1")
    case True
    have ids: "set (tab_pane_ids t) = {i}"
      by (rule single_pane_tab [OF l(1) True t(3)])
    show thesis
    proof (cases "length (ws_tabs ws) \<le> 1")
      case last: True
      then have "A = []" "B = []" using t(1) by auto
      then have "set (live_panes ws) = {i}" using l(6) ids by simp
      moreover have "workspace_remove_pane i ws = Some (ws, True)"
        using Some True last by (simp add: workspace_remove_pane_def nth)
      ultimately show thesis using that [of ws True] assms by simp
    next
      case False
      let ?ws = "clamp_active_tab idx (unregister_pane i (ws\<lparr>ws_tabs := A @ B\<rparr>))"
      have res: "workspace_remove_pane i ws = Some (?ws, False)"
        using Some True False by (simp add: workspace_remove_pane_def nth rem)
      have "i \<notin> set (live_panes (ws\<lparr>ws_tabs := A @ B\<rparr>))"
        using l(4) ids by (auto simp: live_panes_def)
      from core_unregister_moved [OF core_remove_tab [OF core t(1)] this]
      have "workspace_core {} ?ws" using ids by simp
      moreover have "A @ B \<noteq> []" using False t(1) by auto
      ultimately have "workspace_ok ?ws"
        using clamp_active [of "unregister_pane i (ws\<lparr>ws_tabs := A @ B\<rparr>)" idx] by (simp add: workspace_ok_def)
      moreover have "set (live_panes ?ws) = set (live_panes ws) - {i}"
          "set (live_terminals ?ws) \<subseteq> set (live_terminals ws)"
        using l(4,6,7) ids by (auto simp: live_panes_def live_terminals_def)
      ultimately show thesis
        using that [OF res] hm.get_remove [OF numbers] by (simp add: public_pane_number_def)
    qed
  next
    case False
    then have many: "1 < pane_count (tb_layout t)" by simp
    obtain t' where d: "detach_pane t i = Some (t', Some (i, pn_terminal p))" "tab_ok t'"
      "tb_panes t' = hm_remove i (tb_panes t)" "tb_number t' = tb_number t"
      by (rule detach_ok [OF l(1) many p]) blast
    note r = remove_pane_lists [OF l(3) p l(2) d(3)]
    let ?ws = "unregister_pane i (ws\<lparr>ws_tabs := A @ t' # B\<rparr>)"
    have res: "workspace_remove_pane i ws = Some (?ws, False)"
      using Some False d(1) by (simp add: workspace_remove_pane_def nth upd tab_remove_pane_def Let_def)
    have S: "set (concat (map tab_pane_ids (A @ B))) \<union> set (tab_pane_ids t') \<union> {i} = set (live_panes ws)"
      using r l(4,6) by auto
    have "workspace_core {i} (ws\<lparr>ws_tabs := A @ t' # B\<rparr>)"
    proof (rule core_replace [OF core t(1) d(2,4)])
      show "numbers_ok (ws_public_pane_numbers ws) (ws_next_public_pane_number ws)
          (set (concat (map tab_pane_ids (A @ B))) \<union> set (tab_pane_ids t') \<union> {i})"
        using core by (simp only: S) (simp add: workspace_core_def)
    qed (use r l(4,5) core in \<open>auto simp: workspace_core_def\<close>)
    moreover have live: "set (live_panes (ws\<lparr>ws_tabs := A @ t' # B\<rparr>)) = set (live_panes ws) - {i}"
      using r l(4,6) by (auto simp: live_panes_def)
    ultimately have "workspace_core {} ?ws"
      using core_unregister_moved [of "{i}" "ws\<lparr>ws_tabs := A @ t' # B\<rparr>" i] by simp
    then have "workspace_ok ?ws"
      using assms t(1) by (simp add: workspace_ok_def)
    moreover have "set (live_terminals ?ws) \<subseteq> set (live_terminals ws)"
      using r l(7) by (auto simp: live_terminals_def)
    ultimately show thesis
      using that [OF res] live hm.get_remove [OF numbers] by (simp add: public_pane_number_def)
  qed
qed

end
