(* ===== verification/Workspace_Steps.thy ===== *)
theory Workspace_Steps
  imports Workspace_Invariants
begin

text \<open>
  The life of a workspace as a step relation over its operations, with the panes that are on
  their way between tabs and workspaces and the process-wide counter of pane identifiers, and
  the proof that every reachable workspace satisfies its invariant and that a public pane
  number is given out once.
\<close>

section \<open>Tabs that are switched, closed and moved\<close>

lemma nth_split: "idx < length xs \<Longrightarrow> \<exists>A B. xs = A @ xs ! idx # B \<and> length A = idx"
  using id_take_nth_drop [of idx xs] by (intro exI [of _ "take idx xs"] exI [of _ "drop (Suc idx) xs"]) simp

lemma live_sets:
  "set (live_panes ws) = \<Union> (set ` tab_pane_ids ` set (ws_tabs ws))"
  "set (live_terminals ws) = \<Union> (set ` tab_terminals ` set (ws_tabs ws))"
  by (simp_all add: live_panes_def live_terminals_def)

text \<open>Tabs that differ in what the invariant does not look at.\<close>

lemma core_images:
  assumes "workspace_core E ws" and "tabs_ok tabs"
    and "tab_pane_ids ` set tabs = tab_pane_ids ` set (ws_tabs ws)"
    and "tab_terminals ` set tabs = tab_terminals ` set (ws_tabs ws)"
    and "tb_number ` set tabs = tb_number ` set (ws_tabs ws)"
  shows "workspace_core E (ws\<lparr>ws_active_tab := a, ws_tabs := tabs\<rparr>)"
    "set (live_panes (ws\<lparr>ws_active_tab := a, ws_tabs := tabs\<rparr>)) = set (live_panes ws)"
    "set (live_terminals (ws\<lparr>ws_active_tab := a, ws_tabs := tabs\<rparr>)) = set (live_terminals ws)"
proof -
  have numbers: "(\<forall>t \<in> set tabs. tb_number t < m) = (\<forall>t \<in> set (ws_tabs ws). tb_number t < m)" for m
    using arg_cong [OF assms(5), of "\<lambda>N. \<forall>n \<in> N. n < m"] by simp
  show live: "set (live_panes (ws\<lparr>ws_active_tab := a, ws_tabs := tabs\<rparr>)) = set (live_panes ws)"
    "set (live_terminals (ws\<lparr>ws_active_tab := a, ws_tabs := tabs\<rparr>)) = set (live_terminals ws)"
    using assms(3,4) by (simp_all add: live_sets)
  then show "workspace_core E (ws\<lparr>ws_active_tab := a, ws_tabs := tabs\<rparr>)"
    using assms(1,2) numbers unfolding workspace_core_def by simp
qed

lemma core_perm:
  assumes "workspace_core E ws" and "ws_tabs ws = A @ t # B" and "C @ D = A @ B"
  shows "workspace_core E (ws\<lparr>ws_active_tab := a, ws_tabs := C @ t # D\<rparr>)"
    "set (live_panes (ws\<lparr>ws_active_tab := a, ws_tabs := C @ t # D\<rparr>)) = set (live_panes ws)"
    "set (live_terminals (ws\<lparr>ws_active_tab := a, ws_tabs := C @ t # D\<rparr>)) = set (live_terminals ws)"
proof -
  have "set C \<union> set D = set A \<union> set B" using arg_cong [OF assms(3), of set] by simp
  then have S: "set (C @ t # D) = set (ws_tabs ws)" by (auto simp: assms(2))
  have ok: "tabs_ok (C @ t # D)"
    using assms by (simp add: workspace_core_def tabs_ok_insert)
  note k = core_images [OF assms(1) ok arg_cong [OF S] arg_cong [OF S] arg_cong [OF S]]
  show "workspace_core E (ws\<lparr>ws_active_tab := a, ws_tabs := C @ t # D\<rparr>)"
    "set (live_panes (ws\<lparr>ws_active_tab := a, ws_tabs := C @ t # D\<rparr>)) = set (live_panes ws)"
    "set (live_terminals (ws\<lparr>ws_active_tab := a, ws_tabs := C @ t # D\<rparr>)) = set (live_terminals ws)"
    by (rule k)+
qed

lemma seen_tab:
  fixes see :: "tab \<Rightarrow> tab"
  assumes "see = (\<lambda>t. t\<lparr>tb_panes := map (\<lambda>(i, pane). (i, pane\<lparr>pn_seen := True\<rparr>)) (tb_panes t)\<rparr>)"
  shows "tab_pane_ids (see t) = tab_pane_ids t" "tab_terminals (see t) = tab_terminals t"
    "tab_ok (see t) = tab_ok t" "tb_number (see t) = tb_number t"
proof -
  show ids: "tab_pane_ids (see t) = tab_pane_ids t" and tms: "tab_terminals (see t) = tab_terminals t"
    by (simp_all add: assms tab_pane_ids_def tab_terminals_def comp_def case_prod_unfold)
  then show "tab_ok (see t) = tab_ok t" "tb_number (see t) = tb_number t"
    by (simp_all add: assms tab_ok_def hm_ok_def tab_pane_ids_def comp_def case_prod_unfold)
qed

lemma map_update_same: "(\<And>x. f (g x) = f x) \<Longrightarrow> map f (xs[k := g (xs ! k)]) = map f xs"
  by (cases "k < length xs") (simp_all add: map_update list_update_same_conv not_less list_update_beyond)

lemma tabs_ok_maps:
  "map tab_ok xs = map tab_ok ys \<Longrightarrow> map tb_number xs = map tb_number ys \<Longrightarrow>
   map tab_pane_ids xs = map tab_pane_ids ys \<Longrightarrow> map tab_terminals xs = map tab_terminals ys \<Longrightarrow>
   tabs_ok xs = tabs_ok ys"
proof -
  have "list_all tab_ok tabs = (\<forall>b \<in> set (map tab_ok tabs). b)" for tabs
    by (simp add: list_all_iff)
  then show "map tab_ok xs = map tab_ok ys \<Longrightarrow> map tb_number xs = map tb_number ys \<Longrightarrow>
      map tab_pane_ids xs = map tab_pane_ids ys \<Longrightarrow> map tab_terminals xs = map tab_terminals ys \<Longrightarrow>
      tabs_ok xs = tabs_ok ys"
    by (simp only: tabs_ok_def)
qed

lemma core_switch_tab:
  assumes "workspace_core E ws"
  shows "workspace_core E (switch_tab idx ws)" "set (live_panes (switch_tab idx ws)) = set (live_panes ws)"
    "set (live_terminals (switch_tab idx ws)) = set (live_terminals ws)"
    "length (ws_tabs (switch_tab idx ws)) = length (ws_tabs ws)"
    "ws_active_tab (switch_tab idx ws) = (if idx < length (ws_tabs ws) then idx else ws_active_tab ws)"
proof -
  define see :: "tab \<Rightarrow> tab" where "see = (\<lambda>t. t\<lparr>tb_panes := map (\<lambda>(i, pane). (i, pane\<lparr>pn_seen := True\<rparr>)) (tb_panes t)\<rparr>)"
  note seen = seen_tab [OF see_def]
  have sw: "switch_tab idx ws = (if idx < length (ws_tabs ws)
      then ws\<lparr>ws_active_tab := idx, ws_tabs := (ws_tabs ws)[idx := see (ws_tabs ws ! idx)]\<rparr> else ws)"
    by (simp add: switch_tab_def see_def Let_def)
  let ?tabs = "(ws_tabs ws)[idx := see (ws_tabs ws ! idx)]"
  note m = map_update_same [of tab_ok see, OF seen(3)] map_update_same [of tb_number see, OF seen(4)]
    map_update_same [of tab_pane_ids see, OF seen(1)] map_update_same [of tab_terminals see, OF seen(2)]
  have ok: "tabs_ok ?tabs"
    using assms tabs_ok_maps [OF m] by (simp add: workspace_core_def)
  have images: "tab_pane_ids ` set ?tabs = tab_pane_ids ` set (ws_tabs ws)"
    "tab_terminals ` set ?tabs = tab_terminals ` set (ws_tabs ws)" "tb_number ` set ?tabs = tb_number ` set (ws_tabs ws)"
    using m [THEN arg_cong [of _ _ set]] by (simp_all only: set_map)
  note k = core_images [OF assms ok images]
  show "workspace_core E (switch_tab idx ws)" "set (live_panes (switch_tab idx ws)) = set (live_panes ws)"
    "set (live_terminals (switch_tab idx ws)) = set (live_terminals ws)"
    using k assms by (simp_all only: sw split: if_split) simp_all
qed (simp_all add: switch_tab_def)

lemma core_unregister_all:
  assumes "workspace_core E ws" and "set ids \<inter> set (live_panes ws) = {}"
  shows "workspace_core (E - set ids) (fold unregister_pane ids ws)
    \<and> ws_tabs (fold unregister_pane ids ws) = ws_tabs ws \<and> ws_active_tab (fold unregister_pane ids ws) = ws_active_tab ws"
  using assms
proof (induction ids arbitrary: E ws)
  case (Cons i ids)
  have "workspace_core (E - {i}) (unregister_pane i ws)"
    using core_unregister_moved [OF Cons.prems(1), of i] Cons.prems(2) by simp
  moreover have "E - {i} - set ids = E - set (i # ids)" by auto
  ultimately show ?case
    using Cons.IH [of "E - {i}" "unregister_pane i ws"] Cons.prems(2) by simp
qed simp

lemma close_tab_ok:
  assumes "workspace_ok ws" and "close_tab idx ws = (ws', ok)"
  shows "workspace_ok ws'" "\<not> ok \<Longrightarrow> ws' = ws"
    "set (live_panes ws') \<subseteq> set (live_panes ws)" "set (live_terminals ws') \<subseteq> set (live_terminals ws)"
    "ok \<Longrightarrow> ws_tabs ws' = remove_at idx (ws_tabs ws)"
proof -
  have core: "workspace_core {} ws" using assms(1) by (simp add: workspace_ok_def)
  have "workspace_ok ws' \<and> (\<not> ok \<longrightarrow> ws' = ws) \<and> set (live_panes ws') \<subseteq> set (live_panes ws)
    \<and> set (live_terminals ws') \<subseteq> set (live_terminals ws) \<and> (ok \<longrightarrow> ws_tabs ws' = remove_at idx (ws_tabs ws))"
  proof (cases "length (ws_tabs ws) \<le> 1 \<or> length (ws_tabs ws) \<le> idx")
    case True
    then show ?thesis using assms by (simp add: close_tab_def)
  next
    case False
    then obtain A t B where t: "ws_tabs ws = A @ t # B" "length A = idx"
      using nth_split [of idx "ws_tabs ws"] by force
    note l = core_live [OF core t(1)]
    let ?ws = "ws\<lparr>ws_tabs := A @ B\<rparr>"
    have keys: "set (map fst (tb_panes t)) = set (tab_pane_ids t)" by (simp add: tab_pane_ids_def)
    have live: "set (live_panes ?ws) = set (concat (map tab_pane_ids (A @ B)))" by (simp add: live_panes_def)
    have u: "workspace_core {} (fold unregister_pane (map fst (tb_panes t)) ?ws)
        \<and> ws_tabs (fold unregister_pane (map fst (tb_panes t)) ?ws) = A @ B"
      using core_unregister_all [OF core_remove_tab [OF core t(1)], of "map fst (tb_panes t)"] keys l(4)
      by (simp add: live Int_commute)
    have res: "ws' = clamp_active_tab idx (fold unregister_pane (map fst (tb_panes t)) ?ws)" "ok"
      using assms(2) False t(2) by (auto simp: close_tab_def t(1) Let_def split: if_splits)
    have "A @ B \<noteq> []" using False t by auto
    then show ?thesis
      using u clamp_active [of "fold unregister_pane (map fst (tb_panes t)) ?ws" idx] l(6,7) t
      by (auto simp: res workspace_ok_def live_panes_def live_terminals_def)
  qed
  then show "workspace_ok ws'" "\<not> ok \<Longrightarrow> ws' = ws"
    "set (live_panes ws') \<subseteq> set (live_panes ws)" "set (live_terminals ws') \<subseteq> set (live_terminals ws)"
    "ok \<Longrightarrow> ws_tabs ws' = remove_at idx (ws_tabs ws)" by simp_all
qed

text \<open>The tabs of a workspace have different root panes.\<close>

lemma index_of_Some: "index_of p xs = Some k \<Longrightarrow> k < length xs \<and> p (xs ! k)"
  by (drule index_of_split) (auto simp: nth_append)

lemma root_in_tab: "tab_ok t \<Longrightarrow> tb_root_pane t \<in> set (tab_pane_ids t)"
  by (auto simp: tab_ok_def tab_pane_ids_def)

lemma root_unique:
  assumes "tabs_ok tabs" and "t \<in> set tabs" "t' \<in> set tabs" and "tb_root_pane t = tb_root_pane t'"
  shows "t = t'"
proof (rule ccontr)
  assume "t \<noteq> t'"
  moreover obtain A B where s: "tabs = A @ t # B" using split_list [OF assms(2)] by blast
  ultimately have "t' \<in> set (A @ B)" using assms(3) by auto
  then have "tb_root_pane t \<in> set (concat (map tab_pane_ids (A @ B)))"
    using assms root_in_tab [of t'] s by (auto simp: tabs_ok_def list_all_iff)
  moreover have "tb_root_pane t \<in> set (tab_pane_ids t)"
    using assms root_in_tab [of t] by (auto simp: tabs_ok_def list_all_iff)
  ultimately show False using assms(1) unfolding s by (auto simp: tabs_ok_def)
qed

lemma move_tab_ok:
  assumes "workspace_ok ws" and "move_tab source ins ws = (ws', ok)"
  shows "workspace_ok ws'" "\<not> ok \<Longrightarrow> ws' = ws" "active_tab ws' = active_tab ws"
    "set (live_panes ws') = set (live_panes ws)" "set (live_terminals ws') = set (live_terminals ws)"
    "ok \<Longrightarrow> source < length (ws_tabs ws) \<and> ws_tabs ws' = insert_at
      (min (if source < ins then ins - 1 else ins) (length (ws_tabs ws) - 1))
      (ws_tabs ws ! source) (remove_at source (ws_tabs ws))"
    "length (ws_tabs ws') = length (ws_tabs ws)"
proof -
  let ?target = "min (if source < ins then ins - 1 else ins) (length (ws_tabs ws) - 1)"
  have core: "workspace_core {} ws" and act: "ws_active_tab ws < length (ws_tabs ws)"
    using assms(1) by (simp_all add: workspace_ok_def)
  have "workspace_ok ws' \<and> (\<not> ok \<longrightarrow> ws' = ws) \<and> active_tab ws' = active_tab ws
    \<and> set (live_panes ws') = set (live_panes ws) \<and> set (live_terminals ws') = set (live_terminals ws)
    \<and> (ok \<longrightarrow> source < length (ws_tabs ws) \<and>
      ws_tabs ws' = insert_at ?target (ws_tabs ws ! source) (remove_at source (ws_tabs ws)))
    \<and> length (ws_tabs ws') = length (ws_tabs ws)"
  proof (cases "length (ws_tabs ws) \<le> source \<or> length (ws_tabs ws) < ins \<or> source = ?target")
    case True
    then have "ws' = ws \<and> \<not> ok" using assms(2) by (auto simp: move_tab_def Let_def split: if_splits)
    then show ?thesis using assms(1) by simp
  next
    case False
    then obtain A t B where t: "ws_tabs ws = A @ t # B" "length A = source"
      using nth_split [of source "ws_tabs ws"] by force
    define k0 where "k0 = ?target"
    define C where "C = take k0 (A @ B)"
    define D where "D = drop k0 (A @ B)"
    have CD: "C @ D = A @ B" by (simp only: C_def D_def append_take_drop_id)
    have put: "insert_at k0 t (A @ B) = C @ t # D"
      by (simp only: insert_at_def C_def D_def)
    have nth: "ws_tabs ws ! source = t" and rem: "remove_at source (ws_tabs ws) = A @ B"
      using t by (auto simp: nth_append)
    let ?act = "ws_tabs ws ! ws_active_tab ws"
    let ?k = "unwrap_or (index_of (\<lambda>t. tb_root_pane t = tb_root_pane ?act) (C @ t # D)) k0"
    have "(length (ws_tabs ws) \<le> source \<or> length (ws_tabs ws) < ins) = False" "(source = k0) = False"
      using False by (simp_all only: k0_def) simp_all
    then have "move_tab source ins ws = (ws\<lparr>ws_tabs := C @ t # D, ws_active_tab := unwrap_or (Option.bind
        (map_option tb_root_pane (active_tab ws)) (\<lambda>root. index_of (\<lambda>t. tb_root_pane t = root) (C @ t # D))) k0\<rparr>, True)"
      by (simp only: move_tab_def Let_def k0_def [symmetric] if_False nth rem put)
    then have res: "ws' = ws\<lparr>ws_active_tab := ?k, ws_tabs := C @ t # D\<rparr>" "ok"
      using assms(2) act by (auto simp: active_tab_def)
    have S: "set (C @ t # D) = set (ws_tabs ws)"
      using arg_cong [OF CD, of set] t(1) by auto
    have len: "length (C @ t # D) = length (ws_tabs ws)"
      using arg_cong [OF CD, of length] t(1) by simp
    have "?act \<in> set (C @ t # D)" using act by (simp only: S) simp
    then obtain k where k: "index_of (\<lambda>t. tb_root_pane t = tb_root_pane ?act) (C @ t # D) = Some k"
      using index_of_None [of "\<lambda>t. tb_root_pane t = tb_root_pane ?act" "C @ t # D"] by (metis not_None_eq)
    have K: "k < length (C @ t # D)" "tb_root_pane ((C @ t # D) ! k) = tb_root_pane ?act"
      using index_of_Some [OF k] by simp_all
    have "(C @ t # D) ! k \<in> set (ws_tabs ws)" using nth_mem [OF K(1)] by (simp only: S)
    then have "(C @ t # D) ! k = ?act"
      using root_unique [of "ws_tabs ws" _ ?act] K(2) act core by (simp add: workspace_core_def)
    then have "active_tab ws' = active_tab ws"
      using K(1) act by (simp add: active_tab_def res k)
    moreover have "workspace_ok ws'"
      using core_perm(1) [OF core t(1) CD] K(1) by (simp add: workspace_ok_def res k)
    moreover have "ws_tabs ws' = insert_at ?target (ws_tabs ws ! source) (remove_at source (ws_tabs ws))"
      by (simp only: k0_def [symmetric] nth rem put) (simp add: res)
    moreover have "source < length (ws_tabs ws)" using t by simp
    ultimately show ?thesis
      using core_perm(2,3) [OF core t(1) CD] len by (simp add: res)
  qed
  then show "workspace_ok ws'" "\<not> ok \<Longrightarrow> ws' = ws" "active_tab ws' = active_tab ws"
    "set (live_panes ws') = set (live_panes ws)" "set (live_terminals ws') = set (live_terminals ws)"
    "ok \<Longrightarrow> source < length (ws_tabs ws) \<and> ws_tabs ws' = insert_at ?target (ws_tabs ws ! source) (remove_at source (ws_tabs ws))"
    "length (ws_tabs ws') = length (ws_tabs ws)" by simp_all
qed

section \<open>Public pane numbers\<close>

text \<open>A step gives new panes numbers that were never in use, and leaves the others.\<close>

definition numbers_step :: "workspace \<Rightarrow> workspace \<Rightarrow> bool" where
  "numbers_step ws ws' =
     (ws_next_public_pane_number ws \<le> ws_next_public_pane_number ws' \<and>
      (\<forall>i n. public_pane_number ws' i = Some n \<longrightarrow>
         public_pane_number ws i = Some n \<or> ws_next_public_pane_number ws \<le> n))"

lemma numbers_step_trans: "numbers_step a b \<Longrightarrow> numbers_step b c \<Longrightarrow> numbers_step a c"
  unfolding numbers_step_def by (meson order_trans)

lemma numbers_step_same:
  "ws_public_pane_numbers ws' = ws_public_pane_numbers ws \<Longrightarrow>
   ws_next_public_pane_number ws' = ws_next_public_pane_number ws \<Longrightarrow> numbers_step ws ws'"
  by (simp add: numbers_step_def public_pane_number_def)

lemma numbers_step_fields:
  "ws_public_pane_numbers ws1 = ws_public_pane_numbers ws \<Longrightarrow>
   ws_next_public_pane_number ws1 = ws_next_public_pane_number ws \<Longrightarrow> numbers_step ws1 ws2 \<Longrightarrow> numbers_step ws ws2"
  by (simp add: numbers_step_def public_pane_number_def)

lemma numbers_step_into:
  "numbers_step ws ws1 \<Longrightarrow> ws_public_pane_numbers ws2 = ws_public_pane_numbers ws1 \<Longrightarrow>
   ws_next_public_pane_number ws2 = ws_next_public_pane_number ws1 \<Longrightarrow> numbers_step ws ws2"
  by (simp add: numbers_step_def public_pane_number_def)

lemma numbers_step_register:
  "ws_next_public_pane_number ws \<le> n \<Longrightarrow> numbers_step ws (register_new_pane_with_number i n ws)"
  by (auto simp: numbers_step_def public_pane_number_def register_new_pane_with_number_def)

lemma numbers_step_register_if: "numbers_step ws (register_if_missing i ws)"
  using numbers_step_register [of ws] numbers_step_same [of ws ws] by (simp add: register_if_missing_def)

lemma numbers_step_unregister: "numbers_step ws (unregister_pane i ws)"
  by (auto simp: numbers_step_def public_pane_number_def unregister_pane_def hm_get_def hm_remove_def delete_conv'
      split: if_splits)

lemma numbers_step_unregister_all: "numbers_step ws (fold unregister_pane ids ws)"
proof (induction ids arbitrary: ws)
  case (Cons i ids)
  show ?case using numbers_step_trans [OF numbers_step_unregister Cons.IH] by simp
qed (simp add: numbers_step_same)

lemma clamp_numbers: "numbers_step ws ws' \<Longrightarrow> numbers_step ws (clamp_active_tab k ws')"
  by (simp add: numbers_step_def public_pane_number_def)

lemma numbers_step_create_tab:
  "create_tab_with_runtime c la ws = ((ws', result), c') \<Longrightarrow> numbers_step ws ws'"
  by (auto simp: create_tab_with_runtime_def Let_def numbers_step_def public_pane_number_def
      register_new_pane_with_number_def split: prod.splits option.splits if_splits)

lemma numbers_step_register_tabs:
  "ws_next_public_pane_number ws \<le> n \<Longrightarrow> numbers_step ws (register_new_pane_with_number i n (ws\<lparr>ws_tabs := tabs\<rparr>))"
  by (auto simp: numbers_step_def public_pane_number_def register_new_pane_with_number_def)

lemma numbers_step_split_pane:
  "split_pane_with_runtime c i d r la fnew ws = Some ((ws', result), c') \<Longrightarrow> numbers_step ws ws'"
  by (auto simp: split_pane_with_runtime_def Let_def numbers_step_same numbers_step_register_tabs
      split: option.splits if_splits prod.splits)

lemma numbers_step_split_focused:
  "workspace_split_focused_command c d la ws = Some ((ws', result), c') \<Longrightarrow> numbers_step ws ws'"
  by (auto simp: workspace_split_focused_command_def Let_def numbers_step_same numbers_step_register_tabs
      bind_eq_Some_conv split: option.splits if_splits prod.splits)

lemma numbers_step_unregister_tabs: "numbers_step ws (unregister_pane i (ws\<lparr>ws_tabs := tabs\<rparr>))"
  using numbers_step_fields [OF _ _ numbers_step_unregister] by simp

lemma numbers_step_remove_pane: "workspace_remove_pane i ws = Some (ws', close) \<Longrightarrow> numbers_step ws ws'"
  by (auto simp: workspace_remove_pane_def Let_def numbers_step_same numbers_step_unregister_tabs clamp_numbers
      split: option.splits if_splits prod.splits)

lemma numbers_step_close_tab: "close_tab k ws = (ws', ok) \<Longrightarrow> numbers_step ws ws'"
  using numbers_step_fields [OF _ _ numbers_step_unregister_all, of "ws\<lparr>ws_tabs := tabs\<rparr>" ws for tabs]
  by (auto simp: close_tab_def Let_def numbers_step_same clamp_numbers split: if_splits)

lemma numbers_step_insert:
  "insert_moved_pane_into_tab k target moved d r ws = (ws', ok) \<Longrightarrow> numbers_step ws ws'"
  using numbers_step_fields [OF _ _ numbers_step_register_if, of "ws\<lparr>ws_tabs := tabs\<rparr>" ws for tabs]
  by (auto simp: insert_moved_pane_into_tab_def numbers_step_same split: option.splits prod.splits if_splits)

lemma numbers_step_create_existing:
  assumes "create_tab_from_existing_pane moved label ws = (ws', k)"
  shows "numbers_step ws ws'"
proof -
  let ?ws = "ws\<lparr>ws_next_public_tab_number := Suc (ws_next_public_tab_number ws)\<rparr>"
  have "numbers_step ws (register_if_missing (mv_pane_id moved) ?ws)"
    using numbers_step_fields [OF _ _ numbers_step_register_if, of ?ws ws] by simp
  from numbers_step_into [OF this, of ws'] show ?thesis
    using assms by (auto simp: create_tab_from_existing_pane_def Let_def)
qed

lemma numbers_step_move_tab: "move_tab source k ws = (ws', ok) \<Longrightarrow> numbers_step ws ws'"
  by (auto simp: move_tab_def Let_def numbers_step_same split: if_splits)

lemma numbers_step_switch: "numbers_step ws (switch_tab k ws)"
  by (simp add: switch_tab_def numbers_step_same)

section \<open>The step relation\<close>

text \<open>
  A state is a workspace, the pane that is on its way (out of one of its tabs or from another
  workspace) and the counter of \<open>PaneId::alloc\<close>. The handlers of the application hold the
  state exclusively, so nothing else happens to the workspace while a pane is moved. The
  counter is assumed not to wrap (four billion panes), and a new terminal has a new identifier.
\<close>

type_synonym workspace_state = "workspace \<times> moved_pane option \<times> u32"

inductive workspace_step :: "workspace_state \<Rightarrow> workspace_state \<Rightarrow> bool" where
  step_elsewhere: "c \<noteq> - 1 \<Longrightarrow> workspace_step (ws, m, c) (ws, m, c + 1)"
| step_rename: "workspace_step (ws, m, c) (set_custom_name name ws, m, c)"
| step_switch: "workspace_step (ws, None, c) (switch_tab k ws, None, c)"
| step_move_tab: "move_tab source k ws = (ws', ok) \<Longrightarrow> workspace_step (ws, None, c) (ws', None, c)"
| step_close_tab: "close_tab k ws = (ws', ok) \<Longrightarrow> workspace_step (ws, None, c) (ws', None, c)"
| step_create_tab: "c \<noteq> - 1 \<Longrightarrow> la_terminal_id la \<notin> set (live_terminals ws) \<Longrightarrow>
    create_tab_with_runtime c la ws = ((ws', result), c') \<Longrightarrow> workspace_step (ws, None, c) (ws', None, c')"
| step_split_pane: "c \<noteq> - 1 \<Longrightarrow> la_terminal_id la \<notin> set (live_terminals ws) \<Longrightarrow>
    split_pane_with_runtime c i d ratio la fnew ws = Some ((ws', result), c') \<Longrightarrow>
    workspace_step (ws, None, c) (ws', None, c')"
| step_split_focused: "c \<noteq> - 1 \<Longrightarrow> la_terminal_id la \<notin> set (live_terminals ws) \<Longrightarrow>
    workspace_split_focused_command c d la ws = Some ((ws', result), c') \<Longrightarrow>
    workspace_step (ws, None, c) (ws', None, c')"
| step_remove_pane: "workspace_remove_pane i ws = Some (ws', close) \<Longrightarrow> workspace_step (ws, None, c) (ws', None, c)"
| step_close_pane: "workspace_close_pane i ws = Some (ws', close) \<Longrightarrow> workspace_step (ws, None, c) (ws', None, c)"
| step_take: "take_pane_for_move i ws = Some (ws', Some tk) \<Longrightarrow>
    workspace_step (ws, None, c) (ws', Some (tk_moved tk), c)"
| step_arrive: "mv_pane_id moved < c \<Longrightarrow> mv_pane_id moved \<notin> set (live_panes ws) \<Longrightarrow>
    pn_terminal (mv_pane_state moved) \<notin> set (live_terminals ws) \<Longrightarrow>
    workspace_step (ws, None, c) (ws, Some moved, c)"
| step_insert: "insert_moved_pane_into_tab k target moved d r ws = (ws', True) \<Longrightarrow>
    workspace_step (ws, Some moved, c) (ws', None, c)"
| step_new_tab: "create_tab_from_existing_pane moved label ws = (ws', k) \<Longrightarrow>
    workspace_step (ws, Some moved, c) (ws', None, c)"
| step_leave: "ws_tabs ws \<noteq> [] \<Longrightarrow>
    workspace_step (ws, Some moved, c) (unregister_moved_pane (mv_pane_id moved) ws, None, c)"

inductive workspace_reachable :: "workspace_state \<Rightarrow> bool" where
  start_new: "c \<noteq> - 1 \<Longrightarrow> new_with_tab c wid la = (Some (ws, terminal), c') \<Longrightarrow> workspace_reachable (ws, None, c')"
| start_moved: "mv_pane_id moved < c \<Longrightarrow>
    workspace_reachable (workspace_from_existing_pane wid label tab_label cwd moved, None, c)"
| reach_step: "workspace_reachable s \<Longrightarrow> workspace_step s s' \<Longrightarrow> workspace_reachable s'"

inductive workspace_reaches :: "workspace_state \<Rightarrow> workspace_state \<Rightarrow> bool" where
  reaches_refl: "workspace_reaches s s"
| reaches_step: "workspace_reaches s s' \<Longrightarrow> workspace_step s' s'' \<Longrightarrow> workspace_reaches s s''"

end
