(* ===== verification/Workspace_Properties.thy ===== *)
theory Workspace_Properties
  imports Workspace_Steps "HOL-Library.Multiset"
begin

text \<open>
  What workspaces promise: the invariant of every reachable workspace, that public pane
  numbers are never reused, that a failed start leaves no trace, and what closing and moving
  tabs and panes does.
\<close>

section \<open>The invariant of the step relation\<close>

definition workspace_inv :: "workspace_state \<Rightarrow> bool" where
  "workspace_inv s = (case s of (ws, m, c) \<Rightarrow>
     (\<forall>i \<in> set (live_panes ws). i < c) \<and>
     (case m of
        None \<Rightarrow> workspace_ok ws
      | Some moved \<Rightarrow>
          (workspace_core {} ws \<or> workspace_core {mv_pane_id moved} ws) \<and> mv_pane_id moved < c
          \<and> mv_pane_id moved \<notin> set (live_panes ws)
          \<and> pn_terminal (mv_pane_state moved) \<notin> set (live_terminals ws)
          \<and> (ws_active_tab ws < length (ws_tabs ws) \<or> ws_tabs ws = [] \<and> ws_active_tab ws = 0)))"

lemma inv_None: "workspace_inv (ws, None, c) \<longleftrightarrow> workspace_ok ws \<and> (\<forall>i \<in> set (live_panes ws). i < c)"
  by (auto simp: workspace_inv_def)

lemma less_plus_one:
  fixes c :: "'a::len word"
  assumes "c \<noteq> - 1"
  shows "c < c + 1" "i < c \<Longrightarrow> i < c + 1"
proof -
  have "1 + c \<noteq> 0" using assms by (simp add: eq_neg_iff_add_eq_0 add.commute)
  then show "c < c + 1" using unatSuc [of c] by (simp add: word_less_nat_alt add.commute)
  then show "i < c \<Longrightarrow> i < c + 1" by simp
qed

lemma inv_fresh: "workspace_inv (ws, None, c) \<Longrightarrow> c \<notin> set (live_panes ws)"
  by (auto simp: inv_None)

lemma inv_ok:
  assumes "workspace_inv (ws, None, c)"
  shows "workspace_ok ws" "workspace_core {} ws" "ws_active_tab ws < length (ws_tabs ws)"
  using assms by (simp_all add: inv_None workspace_ok_def)

lemma inv_add:
  assumes "workspace_inv (ws, None, c)" and "c \<noteq> - 1" and "workspace_core {} ws'"
    and "ws_active_tab ws' < length (ws_tabs ws')" and "set (live_panes ws') \<subseteq> insert c (set (live_panes ws))"
  shows "workspace_inv (ws', None, c + 1)"
  using assms less_plus_one [OF assms(2)] by (auto simp: inv_None workspace_ok_def)

lemma inv_create_tab:
  assumes "workspace_inv (ws, None, c)" and "c \<noteq> - 1" and "la_terminal_id la \<notin> set (live_terminals ws)"
    and "create_tab_with_runtime c la ws = ((ws', result), c')"
  shows "workspace_inv (ws', None, c')"
proof -
  note k = create_tab_core [OF inv_ok(2) [OF assms(1)] inv_fresh [OF assms(1)] assms(3,4)]
  have "set (live_panes ws') \<subseteq> insert c (set (live_panes ws))"
    using k(5,6) by (cases "la_spawned la") (auto simp: live_panes_def)
  then show ?thesis
    using inv_add [OF assms(1,2) k(1)] k(2-4) inv_ok(3) [OF assms(1)] by simp
qed

lemma inv_same:
  "workspace_inv (ws, None, c) \<Longrightarrow> c \<noteq> - 1 \<Longrightarrow> workspace_inv (ws, None, c + 1)"
  by (rule inv_add) (auto dest: inv_ok)

lemma inv_split_pane:
  assumes "workspace_inv (ws, None, c)" and "c \<noteq> - 1" and "la_terminal_id la \<notin> set (live_terminals ws)"
    and "split_pane_with_runtime c i d ratio la fnew ws = Some ((ws', result), c')"
  shows "workspace_inv (ws', None, c')"
proof (cases "find_tab_index_for_pane ws i")
  case None
  then show ?thesis using assms(1,4) by (simp add: split_pane_with_runtime_def)
next
  case (Some idx)
  note f = inv_ok(2) [OF assms(1)] inv_fresh [OF assms(1)]
  show ?thesis
  proof (cases "la_spawned la")
    case False
    then show ?thesis
      using split_pane_failed [OF f False Some, of d ratio fnew] assms inv_same by simp
  next
    case True
    obtain ws1 where "split_pane_with_runtime c i d ratio la fnew ws =
        Some ((ws1, Some (idx, Some \<lparr>np_pane_id = c, np_terminal = launched_terminal la\<rparr>)), c + 1)"
      "workspace_core {} ws1" "set (live_panes ws1) = insert c (set (live_panes ws))"
      "ws_active_tab ws1 = ws_active_tab ws" "length (ws_tabs ws1) = length (ws_tabs ws)"
      by (rule split_pane_core [OF f assms(3) True Some])
    then show ?thesis
      using inv_add [OF assms(1,2), of ws1] inv_ok(3) [OF assms(1)] assms(4) by simp
  qed
qed

lemma inv_active: "workspace_inv (ws, None, c) \<Longrightarrow> \<exists>t. active_tab ws = Some t"
  by (auto dest: inv_ok simp: active_tab_def)

lemma inv_split_focused:
  assumes "workspace_inv (ws, None, c)" and "c \<noteq> - 1" and "la_terminal_id la \<notin> set (live_terminals ws)"
    and "workspace_split_focused_command c d la ws = Some ((ws', result), c')"
  shows "workspace_inv (ws', None, c')"
proof -
  note f = inv_ok(2) [OF assms(1)] inv_fresh [OF assms(1)]
  obtain t where t: "active_tab ws = Some t" using inv_active [OF assms(1)] by blast
  show ?thesis
  proof (cases "la_spawned la")
    case False
    then show ?thesis
      using split_focused_failed [OF f False t, of d] assms inv_same by simp
  next
    case True
    obtain ws1 where "workspace_split_focused_command c d la ws =
        Some ((ws1, Some \<lparr>np_pane_id = c, np_terminal = launched_terminal la\<rparr>), c + 1)"
      "workspace_core {} ws1" "set (live_panes ws1) = insert c (set (live_panes ws))"
      "ws_active_tab ws1 = ws_active_tab ws" "length (ws_tabs ws1) = length (ws_tabs ws)"
      by (rule split_focused_core [OF f assms(3) True t])
    then show ?thesis
      using inv_add [OF assms(1,2), of ws1] inv_ok(3) [OF assms(1)] assms(4) by simp
  qed
qed

lemma inv_remove_pane:
  assumes "workspace_inv (ws, None, c)" and "workspace_remove_pane i ws = Some (ws', close)"
  shows "workspace_inv (ws', None, c)"
proof -
  obtain ws1 close1 where "workspace_remove_pane i ws = Some (ws1, close1)" "workspace_ok ws1"
    "close1 \<Longrightarrow> ws1 = ws" "\<not> close1 \<Longrightarrow> set (live_panes ws1) = set (live_panes ws) - {i}"
    using remove_pane_core [OF inv_ok(1) [OF assms(1)], of i] by metis
  then show ?thesis using assms by (cases close1) (auto simp: inv_None)
qed

lemma inv_take:
  assumes "workspace_inv (ws, None, c)" and "take_pane_for_move i ws = Some (ws', Some tk)"
  shows "workspace_inv (ws', Some (tk_moved tk), c)"
proof -
  have i: "i \<in> set (live_panes ws)"
    using assms(2) find_tab_None [of ws i] by (auto simp: take_pane_for_move_def split: option.splits)
  obtain ws1 tk1 where t: "take_pane_for_move i ws = Some (ws1, Some tk1)" "workspace_core {i} ws1"
      "set (live_panes ws1) = set (live_panes ws) - {i}" "mv_pane_id (tk_moved tk1) = i"
      "set (live_terminals ws1) = set (live_terminals ws) - {pn_terminal (mv_pane_state (tk_moved tk1))}"
      "ws_active_tab ws < length (ws_tabs ws) \<Longrightarrow> ws_active_tab ws1 < length (ws_tabs ws1)
        \<or> ws_tabs ws1 = [] \<and> ws_active_tab ws1 = 0"
    using take_core [OF inv_ok(2) [OF assms(1)] i] by metis
  then show ?thesis
    using assms i inv_ok(3) [OF assms(1)] by (auto simp: workspace_inv_def)
qed

lemma inv_moved:
  assumes "workspace_inv (ws, Some moved, c)"
  obtains E where "workspace_core E ws" "E \<subseteq> {mv_pane_id moved}" "mv_pane_id moved \<notin> set (live_panes ws)"
    "pn_terminal (mv_pane_state moved) \<notin> set (live_terminals ws)" "mv_pane_id moved < c"
    "\<forall>i \<in> set (live_panes ws). i < c"
    "ws_active_tab ws < length (ws_tabs ws) \<or> ws_tabs ws = [] \<and> ws_active_tab ws = 0"
  using assms that [of "{}"] that [of "{mv_pane_id moved}"] by (auto simp: workspace_inv_def)

lemma inv_insert:
  assumes "workspace_inv (ws, Some moved, c)" and "insert_moved_pane_into_tab k target moved d r ws = (ws', True)"
  shows "workspace_inv (ws', None, c)"
proof -
  obtain E where E: "workspace_core E ws" "E \<subseteq> {mv_pane_id moved}" "mv_pane_id moved \<notin> set (live_panes ws)"
    "pn_terminal (mv_pane_state moved) \<notin> set (live_terminals ws)" "mv_pane_id moved < c"
    "\<forall>i \<in> set (live_panes ws). i < c"
    "ws_active_tab ws < length (ws_tabs ws) \<or> ws_tabs ws = [] \<and> ws_active_tab ws = 0"
    by (rule inv_moved [OF assms(1)])
  have "ws_tabs ws \<noteq> []"
    using assms(2) by (auto simp: insert_moved_pane_into_tab_def tab_at_def)
  then show ?thesis
    using insert_moved_core(2) [OF E(1-4) assms(2)] E(5-7) by (auto simp: inv_None workspace_ok_def)
qed

lemma inv_new_tab:
  assumes "workspace_inv (ws, Some moved, c)" and "create_tab_from_existing_pane moved label ws = (ws', k)"
  shows "workspace_inv (ws', None, c)"
proof -
  obtain E where E: "workspace_core E ws" "E \<subseteq> {mv_pane_id moved}" "mv_pane_id moved \<notin> set (live_panes ws)"
    "pn_terminal (mv_pane_state moved) \<notin> set (live_terminals ws)" "mv_pane_id moved < c"
    "\<forall>i \<in> set (live_panes ws). i < c"
    "ws_active_tab ws < length (ws_tabs ws) \<or> ws_tabs ws = [] \<and> ws_active_tab ws = 0"
    by (rule inv_moved [OF assms(1)])
  show ?thesis
    using create_from_existing_core [OF E(1-4) assms(2)] E(5-7) by (auto simp: inv_None workspace_ok_def)
qed

lemma inv_leave:
  assumes "workspace_inv (ws, Some moved, c)" and "ws_tabs ws \<noteq> []"
  shows "workspace_inv (unregister_moved_pane (mv_pane_id moved) ws, None, c)"
proof -
  obtain E where E: "workspace_core E ws" "E \<subseteq> {mv_pane_id moved}" "mv_pane_id moved \<notin> set (live_panes ws)"
    "pn_terminal (mv_pane_state moved) \<notin> set (live_terminals ws)" "mv_pane_id moved < c"
    "\<forall>i \<in> set (live_panes ws). i < c"
    "ws_active_tab ws < length (ws_tabs ws) \<or> ws_tabs ws = [] \<and> ws_active_tab ws = 0"
    by (rule inv_moved [OF assms(1)])
  have none: "E - {mv_pane_id moved} = {}" using E(2) by auto
  show ?thesis
    using core_unregister_moved [OF E(1,3)] E(6,7) assms(2) unfolding none
    by (auto simp: inv_None workspace_ok_def unregister_moved_pane_def)
qed

lemma inv_step:
  assumes "workspace_inv s" and "workspace_step s s'"
  shows "workspace_inv s'"
  using assms(2,1)
proof cases
  case (step_elsewhere c ws m)
  then show ?thesis
    using assms(1) less_plus_one [of c] by (auto simp: workspace_inv_def split: option.splits)
next
  case (step_rename ws m c name)
  have "workspace_core E (set_custom_name name ws) = workspace_core E ws" for E
    by (rule workspace_core_cong) (simp_all add: set_custom_name_def)
  then show ?thesis
    using assms(1) step_rename
    by (auto simp: workspace_inv_def workspace_ok_def live_panes_def live_terminals_def set_custom_name_def
        split: option.splits)
next
  case (step_switch ws c k)
  then show ?thesis
    using assms(1) core_switch_tab [of "{}" ws k] by (auto simp: inv_None workspace_ok_def)
next
  case (step_move_tab source k ws ws' ok c)
  then show ?thesis using assms(1) move_tab_ok [of ws source k ws' ok] by (auto simp: inv_None)
next
  case (step_close_tab k ws ws' ok c)
  then show ?thesis using assms(1) close_tab_ok [of ws k ws' ok] by (auto simp: inv_None)
next
  case (step_arrive moved c ws)
  then show ?thesis using assms(1) by (auto simp: workspace_inv_def workspace_ok_def)
next
  case (step_close_pane i ws ws' close c)
  then show ?thesis using assms(1) inv_remove_pane by (simp add: close_is_remove)
next
  case step_create_tab
  then show ?thesis using assms(1) inv_create_tab by blast
next
  case step_split_pane
  then show ?thesis using assms(1) inv_split_pane by blast
next
  case step_split_focused
  then show ?thesis using assms(1) inv_split_focused by blast
next
  case step_remove_pane
  then show ?thesis using assms(1) inv_remove_pane by blast
next
  case step_take
  then show ?thesis using assms(1) inv_take by blast
next
  case step_insert
  then show ?thesis using assms(1) inv_insert by blast
next
  case step_new_tab
  then show ?thesis using assms(1) inv_new_tab by blast
next
  case step_leave
  then show ?thesis using assms(1) inv_leave by blast
qed

lemma start_inv: "0 < n \<Longrightarrow> tab_ok t \<Longrightarrow> tab_pane_ids t = [i] \<Longrightarrow> tab_terminals t = [tm] \<Longrightarrow> tb_root_pane t = i \<Longrightarrow>
    tb_number t = 1 \<Longrightarrow> i < c \<Longrightarrow> workspace_inv (workspace_with_tab wid label cwd t, None, c)"
  by (simp add: inv_None workspace_ok_def workspace_core_def workspace_with_tab_def tabs_ok_def numbers_ok_def
      live_panes_def hm_insert_def hm_ok_def)

lemma reachable_inv: "workspace_reachable s \<Longrightarrow> workspace_inv s"
proof (induction rule: workspace_reachable.induct)
  case (start_new c wid la ws terminal c')
  then obtain t tm where new: "tab_new_with_runtime c 1 la = (Some (t, tm), c')"
    and ws: "ws = workspace_with_tab wid None (la_cwd la) t"
    by (auto simp: new_with_tab_def split: prod.splits)
  note f = tab_new_ok [OF new zero_less_one]
  show ?case
    using f less_plus_one(1) [OF start_new(1)] by (simp add: ws start_inv [OF zero_less_one])
next
  case (start_moved moved c wid label tab_label cwd)
  then show ?case
    using tab_from_existing_facts [of 1 tab_label moved]
    by (simp add: workspace_from_existing_pane_def start_inv [OF zero_less_one])
next
  case (reach_step s s')
  then show ?case by (blast intro: inv_step)
qed

lemma reachable_ok:
  assumes "workspace_reachable (ws, None, c)"
  shows "workspace_ok ws" "workspace_core {} ws" "c \<notin> set (live_panes ws)" "workspace_inv (ws, None, c)"
  using reachable_inv [OF assms] by (auto dest: inv_ok inv_fresh)

section \<open>A workspace for the witnesses\<close>

definition sample_launch :: "string \<Rightarrow> launch" where
  "sample_launch terminal_id = \<lparr>la_cwd = ''/'', la_argv = None, la_spawned = True, la_terminal_id = terminal_id\<rparr>"

text \<open>Two tabs, the second with two panes.\<close>

definition sample_workspace :: workspace where
  "sample_workspace = fst (the (fst (new_with_tab 1 ''w1'' (sample_launch ''a''))))"

definition sample_tabs :: workspace where
  "sample_tabs = fst (fst (create_tab_with_runtime 2 (sample_launch ''b'') sample_workspace))"

definition sample_split :: workspace where
  "sample_split = fst (fst (the (split_pane_with_runtime 3 2 Horizontal None (sample_launch ''c'') True sample_tabs)))"

lemma sample_steps: "workspace_reachable (sample_workspace, None, 2)" "workspace_reachable (sample_tabs, None, 3)"
  "workspace_reachable (sample_split, None, 4)" "workspace_reaches (sample_tabs, None, 3) (sample_split, None, 4)"
  and sample_split_step: "workspace_step (sample_tabs, None, 3) (sample_split, None, 4)"
proof -
  show a: "workspace_reachable (sample_workspace, None, 2)"
    by (rule start_new [of 1 "''w1''" "sample_launch ''a''" _ "snd (the (fst (new_with_tab 1 ''w1'' (sample_launch ''a''))))"])
      code_simp+
  have "workspace_step (sample_workspace, None, 2) (sample_tabs, None, 3)"
    by (rule step_create_tab [of _ "sample_launch ''b''" _ _ "snd (fst (create_tab_with_runtime 2 (sample_launch ''b'') sample_workspace))"])
      code_simp+
  then show b: "workspace_reachable (sample_tabs, None, 3)"
    by (rule reach_step [OF a])
  show c: "workspace_step (sample_tabs, None, 3) (sample_split, None, 4)"
    by (rule step_split_pane [of _ "sample_launch ''c''" _ 2 Horizontal None True _
          "snd (fst (the (split_pane_with_runtime 3 2 Horizontal None (sample_launch ''c'') True sample_tabs)))"])
      code_simp+
  then show "workspace_reachable (sample_split, None, 4)"
    by (rule reach_step [OF b])
  show "workspace_reaches (sample_tabs, None, 3) (sample_split, None, 4)"
    by (rule reaches_step [OF reaches_refl c])
qed

lemma workspace_numbered:
  assumes "workspace_ok ws"
  shows "public_pane_number ws i \<noteq> None \<longleftrightarrow> i \<in> set (live_panes ws)"
  using assms hm_get_key [of "ws_public_pane_numbers ws" i]
  by (auto simp: workspace_ok_def workspace_core_def numbers_ok_def public_pane_number_def)

lemma core_nonempty: "workspace_ok ws \<Longrightarrow> set (live_panes ws) \<noteq> {}"
  using tab_ok_ids by (fastforce simp: workspace_ok_def workspace_core_def tabs_ok_def list_all_iff live_panes_def
      dest: nth_mem)

lemma index_of_last: "\<forall>x \<in> set xs. \<not> p x \<Longrightarrow> p y \<Longrightarrow> index_of p (xs @ [y]) = Some (length xs)"
  by (induction xs) auto

lemma find_tab_last:
  "ws_tabs ws = tabs @ [t] \<Longrightarrow> i \<notin> set (concat (map tab_pane_ids tabs)) \<Longrightarrow> i \<in> set (tab_pane_ids t) \<Longrightarrow>
   find_tab_index_for_pane ws i = Some (length tabs)"
  by (simp add: find_tab_index_for_pane_def index_of_last tab_keys)

section \<open>Reachable workspaces\<close>

text \<open>C15: In every reachable workspace there is an active tab; the panes, the terminals and the
  numbers of the tabs are all different; the layout of each tab is well formed and shows
  exactly the panes of the tab, its root among them; and the public numbers are a one-to-one
  numbering of exactly the panes of the workspace.\<close>

theorem workspace_reachable_ok:
  assumes "workspace_reachable (ws, None, c)"
  shows "active_tab ws \<noteq> None \<and> distinct (live_panes ws) \<and> distinct (live_terminals ws)
    \<and> distinct (map tb_number (ws_tabs ws))
    \<and> (\<forall>t \<in> set (ws_tabs ws). layout_wf (tb_layout t) \<and> set (pane_ids (tb_layout t)) = set (tab_pane_ids t)
        \<and> tb_root_pane t \<in> set (tab_pane_ids t) \<and> tb_number t < ws_next_public_tab_number ws)
    \<and> (\<forall>i. public_pane_number ws i \<noteq> None \<longleftrightarrow> i \<in> set (live_panes ws))
    \<and> (\<forall>i j n. public_pane_number ws i = Some n \<longrightarrow> public_pane_number ws j = Some n \<longrightarrow> i = j)"
proof -
  have core: "workspace_core {} ws" and act: "active_tab ws \<noteq> None"
    using reachable_ok [OF assms] inv_active by fastforce+
  then have numbers: "numbers_ok (ws_public_pane_numbers ws) (ws_next_public_pane_number ws) (set (live_panes ws))"
    by (simp add: workspace_core_def)
  have "i = j" if "public_pane_number ws i = Some n" "public_pane_number ws j = Some n" for i j n
    using numbers_ok_unique [OF numbers] that by (simp add: public_pane_number_def)
  then show ?thesis
    using core act workspace_numbered [OF reachable_ok(1) [OF assms]]
    by (auto simp: workspace_core_def tabs_ok_def list_all_iff tab_ok_def tab_pane_ids_def live_panes_def live_terminals_def)
qed

theorem workspace_reachable_ok_witness:
  "active_tab sample_split \<noteq> None \<and> distinct (live_panes sample_split)"
  using workspace_reachable_ok [OF sample_steps(3)] by simp

text \<open>C20: In a reachable workspace no operation panics: splitting, closing, removing and taking
  out a pane all return, whatever the pane and whether or not the process starts.\<close>

theorem workspace_operations_return:
  assumes "workspace_reachable (ws, None, c)" and "la_terminal_id la \<notin> set (live_terminals ws)"
  shows "split_pane_with_runtime c i d ratio la fnew ws \<noteq> None \<and> workspace_split_focused_command c d la ws \<noteq> None
    \<and> workspace_remove_pane i ws \<noteq> None \<and> workspace_close_pane i ws \<noteq> None \<and> take_pane_for_move i ws \<noteq> None"
proof -
  note ok = reachable_ok [OF assms(1)]
  obtain t where t: "active_tab ws = Some t" using inv_active [OF ok(4)] by blast
  have "split_pane_with_runtime c i d ratio la fnew ws \<noteq> None"
  proof (cases "find_tab_index_for_pane ws i")
    case None
    then show ?thesis by (simp add: split_pane_with_runtime_def)
  next
    case (Some idx)
    then show ?thesis
      using split_pane_failed [OF ok(2,3) _ Some, of la d ratio fnew] split_pane_core [OF ok(2,3) assms(2) _ Some, of d ratio fnew]
      by (cases "la_spawned la") (auto, metis option.distinct(1))
  qed
  moreover have "workspace_split_focused_command c d la ws \<noteq> None"
    using split_focused_failed [OF ok(2,3) _ t, of la d] split_focused_core [OF ok(2,3) assms(2) _ t, of d]
    by (cases "la_spawned la") (auto, metis option.distinct(1))
  moreover have "workspace_remove_pane i ws \<noteq> None"
    by (rule remove_pane_core [OF ok(1), of i]) simp
  moreover have "take_pane_for_move i ws \<noteq> None"
  proof (cases "i \<in> set (live_panes ws)")
    case True
    show ?thesis by (rule take_core [OF ok(2) True]) simp
  next
    case False
    then show ?thesis using find_tab_None [of ws i] by (simp add: take_pane_for_move_def)
  qed
  ultimately show ?thesis by (simp add: close_is_remove)
qed

theorem workspace_operations_return_witness:
  "split_pane_with_runtime 4 2 Vertical None (sample_launch ''d'') True sample_split \<noteq> None"
proof -
  have "la_terminal_id (sample_launch ''d'') \<notin> set (live_terminals sample_split)" by code_simp
  from workspace_operations_return [OF sample_steps(3) this] show ?thesis by blast
qed

text \<open>C19: When the process of a new pane does not start, a split leaves the workspace as it was,
  and creating a tab only uses up a tab number. Only an identifier of the counter is lost.\<close>

theorem failed_start_leaves_workspace:
  assumes "workspace_reachable (ws, None, c)" and "\<not> la_spawned la"
  shows "workspace_split_focused_command c d la ws = Some ((ws, None), c + 1)
    \<and> (\<forall>k. find_tab_index_for_pane ws i = Some k \<longrightarrow>
        split_pane_with_runtime c i d ratio la fnew ws = Some ((ws, Some (k, None)), c + 1))
    \<and> create_tab_with_runtime c la ws =
        ((ws\<lparr>ws_next_public_tab_number := Suc (ws_next_public_tab_number ws)\<rparr>, None), c + 1)"
proof -
  note ok = reachable_ok [OF assms(1)]
  obtain t where t: "active_tab ws = Some t" using inv_active [OF ok(4)] by blast
  have "fst (tab_new_with_runtime c (ws_next_public_tab_number ws) la) = None"
    "snd (tab_new_with_runtime c (ws_next_public_tab_number ws) la) = c + 1"
    using assms(2) by (simp_all add: tab_new_with_runtime_def tile_layout_new_def pane_id_alloc_def)
  then show ?thesis
    using split_focused_failed [OF ok(2,3) assms(2) t] split_pane_failed [OF ok(2,3) assms(2)]
    by (simp add: create_tab_with_runtime_def Let_def prod_eq_iff split: prod.split)
qed

theorem failed_start_leaves_workspace_witness:
  "split_pane_with_runtime 4 3 Vertical None ((sample_launch ''d'')\<lparr>la_spawned := False\<rparr>) True sample_split =
     Some ((sample_split, Some (1, None)), 5)"
proof -
  have "\<not> la_spawned ((sample_launch ''d'')\<lparr>la_spawned := False\<rparr>)" by simp
  from failed_start_leaves_workspace [OF sample_steps(3) this, of Vertical 3 None True]
  have "split_pane_with_runtime 4 3 Vertical None ((sample_launch ''d'')\<lparr>la_spawned := False\<rparr>) True sample_split =
     Some ((sample_split, Some (1, None)), 4 + 1)"
    by (elim conjE allE [of _ 1]) (erule mp, code_simp)
  then show ?thesis by simp
qed

section \<open>Public numbers\<close>

lemma numbers_step_step:
  assumes "workspace_step (ws, m, c) (ws', m', c')"
  shows "numbers_step ws ws'"
  using assms
proof cases
  case (step_take i tk)
  then show ?thesis
    by (auto simp: take_pane_for_move_def Let_def adjust_active_tab_after_removal_def clamp_numbers numbers_step_same
        split: option.splits if_splits)
next
  case (step_leave moved)
  then show ?thesis by (simp add: unregister_moved_pane_def numbers_step_unregister)
qed (auto simp: close_is_remove numbers_step_same set_custom_name_def numbers_step_switch
    intro: numbers_step_move_tab numbers_step_close_tab numbers_step_create_tab numbers_step_split_pane
      numbers_step_split_focused numbers_step_remove_pane numbers_step_insert numbers_step_create_existing)

lemma numbers_step_reaches: "workspace_reaches s s' \<Longrightarrow> numbers_step (fst s) (fst s')"
proof (induction rule: workspace_reaches.induct)
  case (reaches_step s s' s'')
  obtain ws m c ws' m' c' where "s' = (ws, m, c)" "s'' = (ws', m', c')" by (cases s', cases s'') auto
  then show ?case using reaches_step numbers_step_trans numbers_step_step by fastforce
qed (simp add: numbers_step_same)

text \<open>C17: A public pane number is given to one pane only: however long the workspace is used
  after a pane had a number, no other pane ever gets it, and a pane that gets its number later
  gets one above every number that had been given out.\<close>

theorem public_pane_numbers_not_reused:
  assumes "workspace_reachable (ws, None, c)" and "workspace_reaches (ws, None, c) (ws', m, c')"
    and "public_pane_number ws' j = Some n"
  shows "(public_pane_number ws i = Some n \<longrightarrow> i = j)
    \<and> (public_pane_number ws j \<noteq> Some n \<longrightarrow> (\<forall>k l. public_pane_number ws k = Some l \<longrightarrow> l < n))"
proof -
  have numbers: "numbers_ok (ws_public_pane_numbers ws) (ws_next_public_pane_number ws) (set (live_panes ws))"
    using reachable_ok(2) [OF assms(1)] by (simp add: workspace_core_def)
  have bound: "public_pane_number ws k = Some l \<Longrightarrow> l < ws_next_public_pane_number ws" for k l
    using numbers_ok_bound [OF numbers] by (simp add: public_pane_number_def)
  have "public_pane_number ws j = Some n \<or> ws_next_public_pane_number ws \<le> n"
    using numbers_step_reaches [OF assms(2)] assms(3) by (simp add: numbers_step_def)
  then show ?thesis
    using bound numbers_ok_unique [OF numbers, of i n j] by (fastforce simp: public_pane_number_def)
qed

theorem public_pane_numbers_not_reused_witness:
  "public_pane_number sample_split 3 = Some 3 \<and> public_pane_number sample_tabs 1 \<noteq> Some 3
    \<and> the (public_pane_number sample_tabs 2) < 3"
proof -
  have n: "public_pane_number sample_tabs 3 = None" "public_pane_number sample_split 3 = Some 3"
    "public_pane_number sample_tabs 2 = Some 2" by code_simp+
  show ?thesis
    using public_pane_numbers_not_reused [OF sample_steps(2,4) n(2), of 1] n by simp
qed

section \<open>Tabs and panes that move\<close>

lemma mset_insert_at: "mset (insert_at k x xs) = add_mset x (mset xs)"
proof -
  have "mset (take k xs) + mset (drop k xs) = mset xs" by (simp flip: mset_append)
  then show ?thesis by (simp add: insert_at_def)
qed

lemma length_remove_at: "k < length xs \<Longrightarrow> length (remove_at k xs) = length xs - 1"
  by (simp add: remove_at_def)

lemma nth_insert_at: "k \<le> length xs \<Longrightarrow> insert_at k x xs ! k = x"
  by (simp add: insert_at_def nth_append)

lemma mset_remove_at: "k < length xs \<Longrightarrow> add_mset (xs ! k) (mset (remove_at k xs)) = mset xs"
  using arg_cong [OF id_take_nth_drop [of k xs], of mset] by (simp add: remove_at_def)

text \<open>C22: Moving a tab of a reachable workspace only reorders the tabs, puts the moved one at the
  place asked for, and leaves the same tab active; a move that changes nothing says so.\<close>

theorem move_tab_correct:
  assumes "workspace_reachable (ws, None, c)" and "move_tab source k ws = (ws', ok)"
  shows "mset (ws_tabs ws') = mset (ws_tabs ws) \<and> active_tab ws' = active_tab ws
    \<and> (ok \<longrightarrow> ws_tabs ws' ! (if source < k then k - 1 else min k (length (ws_tabs ws) - 1)) = ws_tabs ws ! source)
    \<and> (\<not> ok \<longrightarrow> ws' = ws)
    \<and> (ok \<longleftrightarrow> source < length (ws_tabs ws) \<and> k \<le> length (ws_tabs ws) \<and>
         source \<noteq> (if source < k then k - 1 else min k (length (ws_tabs ws) - 1)))"
proof -
  note m = move_tab_ok [OF reachable_ok(1) [OF assms(1)] assms(2)]
  let ?k = "min (if source < k then k - 1 else k) (length (ws_tabs ws) - 1)"
  have iff: "ok \<longleftrightarrow> source < length (ws_tabs ws) \<and> k \<le> length (ws_tabs ws) \<and> source \<noteq> ?k"
    using assms(2) by (auto simp: move_tab_def Let_def split: if_splits)
  have target: "k \<le> length (ws_tabs ws) \<Longrightarrow> (if source < k then k - 1 else min k (length (ws_tabs ws) - 1)) = ?k"
    by auto
  show ?thesis
  proof (cases ok)
    case False
    then show ?thesis using m(2) iff target by fastforce
  next
    case True
    then have s: "source < length (ws_tabs ws)" "ws_tabs ws' = insert_at ?k (ws_tabs ws ! source) (remove_at source (ws_tabs ws))"
      and k: "k \<le> length (ws_tabs ws)" "source \<noteq> ?k"
      using m(6) iff by blast+
    have "mset (ws_tabs ws') = mset (ws_tabs ws)"
      using mset_remove_at [OF s(1)] by (simp only: s(2) mset_insert_at)
    moreover have "ws_tabs ws' ! ?k = ws_tabs ws ! source"
      using s(1) by (simp only: s(2)) (rule nth_insert_at, simp add: length_remove_at)
    ultimately show ?thesis
      using True s(1) k m(3) by (simp only: target [OF k(1)]) simp
  qed
qed

theorem move_tab_correct_witness:
  "active_tab (fst (move_tab 0 2 sample_split)) = active_tab sample_split
    \<and> ws_tabs (fst (move_tab 0 2 sample_split)) ! 1 = ws_tabs sample_split ! 0"
proof -
  have "move_tab 0 2 sample_split = (fst (move_tab 0 2 sample_split), True)" by code_simp
  from move_tab_correct [OF sample_steps(3) this] show ?thesis by simp
qed

text \<open>C21: Removing (or closing) a pane of a reachable workspace removes exactly that pane with its
  number and keeps every other pane with its number; only the last pane of the workspace stays,
  and then the caller is told to close the workspace.\<close>

theorem remove_pane_correct:
  assumes "workspace_reachable (ws, None, c)" and "i \<in> set (live_panes ws)"
    and "workspace_close_pane i ws = Some (ws', close)"
  shows "(close \<longleftrightarrow> set (live_panes ws) = {i}) \<and> (close \<longrightarrow> ws' = ws)
    \<and> (\<not> close \<longrightarrow> set (live_panes ws') = set (live_panes ws) - {i} \<and> public_pane_number ws' i = None)
    \<and> (\<forall>j. j \<noteq> i \<longrightarrow> public_pane_number ws' j = public_pane_number ws j) \<and> workspace_reachable (ws', None, c)"
proof -
  note ok = reachable_ok [OF assms(1)]
  obtain ws1 close1 where r: "workspace_remove_pane i ws = Some (ws1, close1)" "workspace_ok ws1"
    "close1 \<Longrightarrow> ws1 = ws \<and> set (live_panes ws) = {i}"
    "\<not> close1 \<Longrightarrow> set (live_panes ws1) = set (live_panes ws) - {i}"
    "set (live_terminals ws1) \<subseteq> set (live_terminals ws)"
    "\<And>j. j \<noteq> i \<Longrightarrow> public_pane_number ws1 j = public_pane_number ws j"
    "ws_next_public_pane_number ws1 = ws_next_public_pane_number ws"
    by (rule remove_pane_core [OF ok(1), of i]) (rule that)
  have eq: "ws1 = ws'" "close1 = close" using r(1) assms(3) by (simp_all add: close_is_remove)
  note r = r [unfolded eq]
  have "set (live_panes ws') \<noteq> {}"
    by (rule core_nonempty [OF r(2)])
  then have "close \<longleftrightarrow> set (live_panes ws) = {i}"
    using r(3,4) by (cases close) simp_all
  moreover have "public_pane_number ws' i = None" if "\<not> close"
    using workspace_numbered [OF r(2), of i] r(4) [OF that] by simp
  moreover have "workspace_reachable (ws', None, c)"
    by (rule reach_step [OF assms(1) step_close_pane [OF assms(3)]])
  ultimately show ?thesis using r(3,4,6) by blast
qed

theorem remove_pane_correct_witness:
  "set (live_panes (fst (the (workspace_close_pane 3 sample_split)))) = {1, 2}"
proof -
  have i: "3 \<in> set (live_panes sample_split)"
    and live: "set (live_panes sample_split) - {3} = {1, 2}" by code_simp+
  have "workspace_close_pane 3 sample_split = Some (fst (the (workspace_close_pane 3 sample_split)), False)"
    by code_simp
  from remove_pane_correct [OF sample_steps(3) i this] show ?thesis by (simp add: live)
qed

text \<open>C18: A pane that is moved to a new tab of its workspace keeps its identifier, its public
  number, its terminal and its seen flag; all other panes keep their numbers, no terminal is
  lost, and the workspace is again a reachable one.\<close>

theorem moved_pane_keeps_identity:
  assumes "workspace_reachable (ws, None, c)" and "i \<in> set (live_panes ws)"
  shows "\<exists>ws1 tk ws2 k. take_pane_for_move i ws = Some (ws1, Some tk)
    \<and> create_tab_from_existing_pane (tk_moved tk) label ws1 = (ws2, k)
    \<and> workspace_reachable (ws2, None, c)
    \<and> pane_state_of ws2 i = pane_state_of ws i \<and> find_tab_index_for_pane ws2 i = Some k
    \<and> set (live_panes ws2) = set (live_panes ws) \<and> set (live_terminals ws2) = set (live_terminals ws)
    \<and> (\<forall>j. public_pane_number ws2 j = public_pane_number ws j)"
proof -
  note ok = reachable_ok [OF assms(1)]
  obtain ws1 tk where t: "take_pane_for_move i ws = Some (ws1, Some tk)" "workspace_core {i} ws1"
    "set (live_panes ws1) = set (live_panes ws) - {i}" "mv_pane_id (tk_moved tk) = i"
    "set (live_terminals ws1) = set (live_terminals ws) - {pn_terminal (mv_pane_state (tk_moved tk))}"
    "pn_terminal (mv_pane_state (tk_moved tk)) \<in> set (live_terminals ws)"
    "ws_public_pane_numbers ws1 = ws_public_pane_numbers ws"
    "pane_state_of ws i = Some (mv_pane_state (tk_moved tk))"
    by (rule take_core [OF ok(2) assms(2)])
  obtain ws2 k where n: "create_tab_from_existing_pane (tk_moved tk) label ws1 = (ws2, k)" by fastforce
  have fresh: "mv_pane_id (tk_moved tk) \<notin> set (live_panes ws1)"
    "pn_terminal (mv_pane_state (tk_moved tk)) \<notin> set (live_terminals ws1)" using t(3-5) by auto
  have "{i} \<subseteq> {mv_pane_id (tk_moved tk)}" using t(4) by simp
  note k = create_from_existing_core [OF t(2) this fresh n]
  have reach: "workspace_reachable (ws2, None, c)"
    by (rule reach_step [OF reach_step [OF assms(1) step_take [OF t(1)]] step_new_tab [OF n]])
  have known: "hm_contains_key (ws_public_pane_numbers ws1) i"
    using workspace_numbered [OF ok(1), of i] assms(2) t(7) by (simp add: hm_contains_key_def public_pane_number_def)
  then have tabs: "ws_tabs ws2 = ws_tabs ws1 @ [tab_from_existing_pane (ws_next_public_tab_number ws1) label (tk_moved tk)]"
    and numbers: "ws_public_pane_numbers ws2 = ws_public_pane_numbers ws"
    using n t(4,7) by (auto simp: create_tab_from_existing_pane_def Let_def register_if_missing_def)
  have "hm_get (tb_panes (tab_from_existing_pane (ws_next_public_tab_number ws1) label (tk_moved tk))) i
      = Some (mv_pane_state (tk_moved tk))"
    by (simp add: tab_from_existing_pane_def t(4))
  then have "pane_state_of ws2 i = Some (mv_pane_state (tk_moved tk))"
    by (rule pane_state_at [OF k(1) tabs])
  moreover have "find_tab_index_for_pane ws2 i = Some k"
    using find_tab_last [OF tabs, of i] fresh(1) k(6) by (simp add: t(4) live_panes_def tab_from_existing_facts(2))
  ultimately show ?thesis
    using t n k(2,3) reach numbers assms(2) by (auto simp: public_pane_number_def)
qed

theorem moved_pane_keeps_identity_witness:
  "\<exists>ws1 tk ws2 k. take_pane_for_move 3 sample_split = Some (ws1, Some tk)
    \<and> create_tab_from_existing_pane (tk_moved tk) None ws1 = (ws2, k) \<and> find_tab_index_for_pane ws2 3 = Some k"
proof -
  have "3 \<in> set (live_panes sample_split)" by code_simp
  from moved_pane_keeps_identity [OF sample_steps(3) this, of None] show ?thesis by blast
qed

end
