(* ===== verification/Workspace_Registry.thy ===== *)
theory Workspace_Registry
  imports Workspace_Properties
begin

text \<open>
  The abstract specification of the public pane numbers: a partial function from panes to
  numbers and the next number. A step changes nothing, gives the next number to a pane that
  has none, or forgets some panes. Every step of a workspace implements such a step.
\<close>

record registry =
  rg_numbers :: "pane_id \<Rightarrow> nat option"
  rg_next :: nat

inductive registry_step :: "registry \<Rightarrow> registry \<Rightarrow> bool" where
  registry_skip: "registry_step r r"
| registry_give: "rg_numbers r i = None \<Longrightarrow>
    registry_step r \<lparr>rg_numbers = (rg_numbers r)(i \<mapsto> rg_next r), rg_next = Suc (rg_next r)\<rparr>"
| registry_forget: "registry_step r (r\<lparr>rg_numbers := rg_numbers r |` (- S)\<rparr>)"

definition registry_of :: "workspace \<Rightarrow> registry" where
  "registry_of ws = \<lparr>rg_numbers = public_pane_number ws, rg_next = ws_next_public_pane_number ws\<rparr>"

lemma registry_of_eq:
  "registry_of ws' = registry_of ws \<longleftrightarrow> (\<forall>i. public_pane_number ws' i = public_pane_number ws i) \<and>
     ws_next_public_pane_number ws' = ws_next_public_pane_number ws"
  by (auto simp: registry_of_def fun_eq_iff)

abbreviation refines :: "workspace \<Rightarrow> workspace \<Rightarrow> bool" where
  "refines ws ws' \<equiv> registry_step (registry_of ws) (registry_of ws')"

lemma refines_same:
  "ws_public_pane_numbers ws' = ws_public_pane_numbers ws \<Longrightarrow>
   ws_next_public_pane_number ws' = ws_next_public_pane_number ws \<Longrightarrow> refines ws ws'"
  by (simp add: registry_of_def public_pane_number_def [abs_def] registry_skip)

lemma refines_give:
  "public_pane_number ws i = None \<Longrightarrow>
   ws_public_pane_numbers ws' = hm_insert i (ws_next_public_pane_number ws) (ws_public_pane_numbers ws) \<Longrightarrow>
   ws_next_public_pane_number ws' = Suc (ws_next_public_pane_number ws) \<Longrightarrow> refines ws ws'"
proof -
  assume a: "public_pane_number ws i = None"
    "ws_public_pane_numbers ws' = hm_insert i (ws_next_public_pane_number ws) (ws_public_pane_numbers ws)"
    "ws_next_public_pane_number ws' = Suc (ws_next_public_pane_number ws)"
  have "registry_of ws' = \<lparr>rg_numbers = (rg_numbers (registry_of ws))(i \<mapsto> rg_next (registry_of ws)),
      rg_next = Suc (rg_next (registry_of ws))\<rparr>"
    using a by (auto simp: registry_of_def public_pane_number_def fun_eq_iff)
  then show ?thesis
    using registry_give [of "registry_of ws" i] a(1) by (simp add: registry_of_def)
qed

lemma refines_forget:
  assumes "ws_public_pane_numbers ws' = fold hm_remove ids (ws_public_pane_numbers ws)"
    and "ws_next_public_pane_number ws' = ws_next_public_pane_number ws"
  shows "refines ws ws'"
proof -
  have "hm_get (fold hm_remove ids m) i = (if i \<in> set ids then None else hm_get m i)" for m :: "(pane_id, nat) hmap" and i
    by (induction ids arbitrary: m) (auto simp: hm_get_def hm_remove_def delete_conv')
  then have "registry_of ws' = (registry_of ws)\<lparr>rg_numbers := rg_numbers (registry_of ws) |` (- set ids)\<rparr>"
    using assms by (auto simp: registry_of_def public_pane_number_def fun_eq_iff restrict_map_def)
  then show ?thesis using registry_forget [of "registry_of ws" "set ids"] by simp
qed

lemma refines_unregister:
  "ws_public_pane_numbers ws1 = ws_public_pane_numbers ws \<Longrightarrow>
   ws_next_public_pane_number ws1 = ws_next_public_pane_number ws \<Longrightarrow> refines ws (unregister_pane i ws1)"
  by (rule refines_forget [of _ "[i]"]) simp_all

lemma refines_unregister_all:
  "ws_public_pane_numbers ws1 = ws_public_pane_numbers ws \<Longrightarrow>
   ws_next_public_pane_number ws1 = ws_next_public_pane_number ws \<Longrightarrow> refines ws (fold unregister_pane ids ws1)"
proof (rule refines_forget)
  have "ws_public_pane_numbers (fold unregister_pane ids w) = fold hm_remove ids (ws_public_pane_numbers w)
      \<and> ws_next_public_pane_number (fold unregister_pane ids w) = ws_next_public_pane_number w" for w
    by (induction ids arbitrary: w) simp_all
  moreover assume "ws_public_pane_numbers ws1 = ws_public_pane_numbers ws"
    "ws_next_public_pane_number ws1 = ws_next_public_pane_number ws"
  ultimately show "ws_public_pane_numbers (fold unregister_pane ids ws1) = fold hm_remove ids (ws_public_pane_numbers ws)"
    "ws_next_public_pane_number (fold unregister_pane ids ws1) = ws_next_public_pane_number ws" by simp_all
qed

lemma refines_clamp: "refines ws ws' \<Longrightarrow> refines ws (clamp_active_tab k ws')"
  by (simp add: registry_of_def public_pane_number_def [abs_def])

lemma refines_register_if:
  assumes "ws_public_pane_numbers ws1 = ws_public_pane_numbers ws"
    and "ws_next_public_pane_number ws1 = ws_next_public_pane_number ws"
  shows "refines ws (register_if_missing i ws1)"
proof (cases "public_pane_number ws i")
  case None
  then show ?thesis
    using assms by (intro refines_give [of ws i]) (auto simp: register_if_missing_def register_new_pane_with_number_def
        public_pane_number_def hm_contains_key_def)
next
  case (Some n)
  then show ?thesis
    using assms by (intro refines_same) (auto simp: register_if_missing_def public_pane_number_def)
qed

section \<open>The operations\<close>

lemma refines_create_tab:
  assumes "public_pane_number ws c = None" and "create_tab_with_runtime c la ws = ((ws', result), c')"
  shows "refines ws ws'"
proof -
  have root: "tab_new_with_runtime c n la = (Some (t, tm), c'') \<Longrightarrow> tb_root_pane t = c" for n t tm c''
    by (auto simp: tab_new_with_runtime_def tile_layout_new_def pane_id_alloc_def split: if_splits)
  show ?thesis
    using assms
    by (auto simp: create_tab_with_runtime_def Let_def register_new_pane_with_number_def root
        split: prod.splits option.splits intro: refines_same refines_give [OF assms(1)])
qed

lemma split_pane_id:
  assumes "split_focused_with_runtime c t d ratio la = Some ((t', Some pane), c')"
  shows "np_pane_id pane = c"
proof -
  obtain r where "(case ratio of Some ratio \<Rightarrow> split_focused_with_ratio c (tb_layout t) d ratio
      | None \<Rightarrow> split_focused c (tb_layout t) d) =
    ((\<lparr>tl_root = split_at (tl_root (tb_layout t)) (tl_focus (tb_layout t)) d c (valid_split_ratio r), tl_focus = c\<rparr>, c), c + 1)"
    by (rule split_eq)
  then show ?thesis
    using assms by (auto simp: split_focused_with_runtime_def Let_def split: if_splits option.splits)
qed

lemma refines_register_new:
  "public_pane_number ws c = None \<Longrightarrow>
   refines ws (register_new_pane_with_number c (ws_next_public_pane_number ws) (ws\<lparr>ws_tabs := tabs\<rparr>))"
  by (rule refines_give) (simp_all add: register_new_pane_with_number_def)

lemma refines_split_pane:
  assumes "public_pane_number ws c = None"
    and "split_pane_with_runtime c i d r la fnew ws = Some ((ws', result), c')"
  shows "refines ws ws'"
  using assms
  by (auto simp: split_pane_with_runtime_def Let_def refines_same refines_register_new registry_skip
      split: option.splits if_splits prod.splits dest!: split_pane_id)

lemma refines_split_focused:
  assumes "public_pane_number ws c = None"
    and "workspace_split_focused_command c d la ws = Some ((ws', result), c')"
  shows "refines ws ws'"
  using assms
  by (auto simp: workspace_split_focused_command_def Let_def bind_eq_Some_conv refines_same refines_register_new
      split: option.splits if_splits prod.splits dest!: split_pane_id)

lemma refines_remove_pane: "workspace_remove_pane i ws = Some (ws', close) \<Longrightarrow> refines ws ws'"
  by (auto simp: workspace_remove_pane_def Let_def refines_same refines_unregister refines_clamp registry_skip
      split: option.splits if_splits prod.splits)

lemma refines_close_tab: "close_tab k ws = (ws', ok) \<Longrightarrow> refines ws ws'"
  by (auto simp: close_tab_def Let_def registry_skip refines_clamp refines_unregister_all split: if_splits)

lemma refines_insert: "insert_moved_pane_into_tab k target moved d r ws = (ws', ok) \<Longrightarrow> refines ws ws'"
  by (auto simp: insert_moved_pane_into_tab_def registry_skip refines_register_if split: option.splits prod.splits if_splits)

lemma refines_create_existing:
  assumes "create_tab_from_existing_pane moved label ws = (ws', k)"
  shows "refines ws ws'"
proof -
  let ?ws = "ws\<lparr>ws_next_public_tab_number := Suc (ws_next_public_tab_number ws)\<rparr>"
  have "refines ws (register_if_missing (mv_pane_id moved) ?ws)"
    by (rule refines_register_if) simp_all
  moreover have "registry_of ws' = registry_of (register_if_missing (mv_pane_id moved) ?ws)"
    using assms by (auto simp: create_tab_from_existing_pane_def Let_def registry_of_eq public_pane_number_def)
  ultimately show ?thesis by simp
qed

lemma refines_take:
  "take_pane_for_move i ws = Some (ws', result) \<Longrightarrow> refines ws ws'"
  by (auto simp: take_pane_for_move_def Let_def adjust_active_tab_after_removal_def refines_clamp refines_same
      registry_skip split: option.splits if_splits)

lemma inv_unnumbered: "workspace_inv (ws, None, c) \<Longrightarrow> public_pane_number ws c = None"
  using workspace_numbered inv_ok(1) inv_fresh by blast

text \<open>C16: Every step of a reachable workspace implements a step of the abstract registry of public
  pane numbers: nothing changes, a pane that has no number gets the next one, or panes are
  forgotten.\<close>

theorem workspace_refines_registry:
  assumes "workspace_reachable (ws, m, c)" and "workspace_step (ws, m, c) (ws', m', c')"
  shows "registry_step (registry_of ws) (registry_of ws')"
  using assms(2)
proof cases
  case (step_create_tab la result)
  then show ?thesis
    using reachable_inv [OF assms(1)] by (auto intro: refines_create_tab [OF inv_unnumbered])
next
  case (step_split_pane la i d ratio fnew result)
  then show ?thesis
    using reachable_inv [OF assms(1)] by (auto intro: refines_split_pane [OF inv_unnumbered])
next
  case (step_split_focused la d result)
  then show ?thesis
    using reachable_inv [OF assms(1)] by (auto intro: refines_split_focused [OF inv_unnumbered])
next
  case (step_close_pane i close)
  then show ?thesis using refines_remove_pane by (simp add: close_is_remove)
next
  case (step_leave moved)
  then show ?thesis by (simp add: unregister_moved_pane_def refines_unregister)
next
  case (step_move_tab source k ok)
  then show ?thesis by (auto simp: move_tab_def Let_def registry_skip refines_same split: if_splits)
qed (auto simp: registry_skip set_custom_name_def switch_tab_def refines_same
    intro: refines_close_tab refines_remove_pane refines_take refines_insert refines_create_existing)

theorem workspace_refines_registry_witness:
  "registry_step (registry_of sample_tabs) (registry_of sample_split)"
  using workspace_refines_registry [OF sample_steps(2) sample_split_step] .

end
