(* ===== verification/Selection.thy ===== *)
theory Selection
  imports Layout_Tree Std_Strings
begin

text \<open>
  \<open>src/src/selection.rs\<close>: the selection of text in a pane. Rows are rows of the screen buffer,
  so that a selection stays where it is while the pane scrolls. A panic of \<open>clamp\<close> is \<open>None\<close>;
  the encoder of the clipboard sequence is a parameter, and the environment of the process is
  an argument.
\<close>

datatype phase = Anchored | Dragging | Done

record selection =
  sel_pane :: pane_id
  sel_anchor :: "u32 \<times> u16"
  sel_cursor :: "u32 \<times> u16"
  sel_phase :: phase

record scroll_metrics =
  sm_offset_from_bottom :: nat
  sm_max_offset_from_bottom :: nat
  sm_viewport_rows :: nat

section \<open>Rows\<close>

definition viewport_top_row :: "scroll_metrics option \<Rightarrow> u32" where
  "viewport_top_row metrics =
     (case metrics of
        None \<Rightarrow> 0
      | Some m \<Rightarrow> of_nat (sm_max_offset_from_bottom m - sm_offset_from_bottom m))"

definition absolute_row_for_viewport_row :: "u16 \<Rightarrow> scroll_metrics option \<Rightarrow> u32" where
  "absolute_row_for_viewport_row row metrics = viewport_top_row metrics + ucast row"

definition viewport_row_for_absolute_row :: "u32 \<Rightarrow> scroll_metrics option \<Rightarrow> u16" where
  "viewport_row_for_absolute_row row metrics =
     (let r = sat_sub row (viewport_top_row metrics) in if unat r < 2 ^ 16 then ucast r else 0)"

definition clamp_to_pane :: "u16 \<Rightarrow> u16 \<Rightarrow> rect \<Rightarrow> (u16 \<times> u16) option" where
  "clamp_to_pane screen_col screen_row pane =
     Option.bind (clamp_word screen_col (rect_x pane) (rect_x pane + sat_sub (rect_width pane) 1)) (\<lambda>col.
       Option.bind (clamp_word screen_row (rect_y pane) (rect_y pane + sat_sub (rect_height pane) 1)) (\<lambda>row.
         Some (row - rect_y pane, col - rect_x pane)))"

section \<open>Making a selection\<close>

definition selection_anchor :: "pane_id \<Rightarrow> u16 \<Rightarrow> u16 \<Rightarrow> scroll_metrics option \<Rightarrow> selection" where
  "selection_anchor i viewport_row col metrics =
     (let a = (absolute_row_for_viewport_row viewport_row metrics, col)
      in \<lparr>sel_pane = i, sel_anchor = a, sel_cursor = a, sel_phase = Anchored\<rparr>)"

definition selection_range :: "pane_id \<Rightarrow> u16 \<Rightarrow> u16 \<Rightarrow> u16 \<Rightarrow> scroll_metrics option \<Rightarrow> selection" where
  "selection_range i viewport_row start_col end_col metrics =
     (let row = absolute_row_for_viewport_row viewport_row metrics
      in \<lparr>sel_pane = i, sel_anchor = (row, start_col), sel_cursor = (row, end_col), sel_phase = Dragging\<rparr>)"

definition line_range :: "pane_id \<Rightarrow> u32 \<Rightarrow> u32 \<Rightarrow> u16 \<Rightarrow> selection" where
  "line_range i anchor_row cursor_row end_col =
     (let (anchor_col, cursor_col) = (if anchor_row \<le> cursor_row then (0, end_col) else (end_col, 0))
      in \<lparr>sel_pane = i, sel_anchor = (anchor_row, anchor_col), sel_cursor = (cursor_row, cursor_col),
          sel_phase = Dragging\<rparr>)"

definition anchor_screen_pos :: "selection \<Rightarrow> rect \<Rightarrow> scroll_metrics option \<Rightarrow> (u16 \<times> u16) option" where
  "anchor_screen_pos s pane metrics =
     (let viewport_row = viewport_row_for_absolute_row (fst (sel_anchor s)) metrics in
      Option.bind (clamp_word (sat_add viewport_row (rect_y pane)) (rect_y pane)
          (rect_y pane + sat_sub (rect_height pane) 1)) (\<lambda>row.
        Option.bind (clamp_word (sat_add (snd (sel_anchor s)) (rect_x pane)) (rect_x pane)
            (rect_x pane + sat_sub (rect_width pane) 1)) (\<lambda>col. Some (row, col))))"

definition drag :: "u16 \<Rightarrow> u16 \<Rightarrow> rect \<Rightarrow> scroll_metrics option \<Rightarrow> selection \<Rightarrow> selection option" where
  "drag screen_col screen_row pane metrics s =
     map_option (\<lambda>(viewport_row, col).
       let s' = s\<lparr>sel_cursor := (absolute_row_for_viewport_row viewport_row metrics, col)\<rparr>
       in if sel_cursor s' \<noteq> sel_anchor s' then s'\<lparr>sel_phase := Dragging\<rparr> else s')
     (clamp_to_pane screen_col screen_row pane)"

definition selection_finish :: "selection \<Rightarrow> selection \<times> bool" where
  "selection_finish s = (if sel_phase s = Dragging then (s\<lparr>sel_phase := Done\<rparr>, True) else (s, False))"

definition is_visible :: "selection \<Rightarrow> bool" where
  "is_visible s = (sel_phase s = Dragging \<or> sel_phase s = Done)"

definition is_done :: "selection \<Rightarrow> bool" where
  "is_done s = (sel_phase s = Done)"

definition was_just_click :: "selection \<Rightarrow> bool" where
  "was_just_click s = (sel_phase s = Anchored)"

definition is_just_click :: "selection \<Rightarrow> bool" where
  "is_just_click s = (sel_phase s = Anchored)"

definition force_dragging :: "selection \<Rightarrow> selection" where
  "force_dragging s = (if sel_phase s = Anchored then s\<lparr>sel_phase := Dragging\<rparr> else s)"

definition is_in_progress :: "selection \<Rightarrow> bool" where
  "is_in_progress s = (sel_phase s = Anchored \<or> sel_phase s = Dragging)"

definition is_dragging :: "selection \<Rightarrow> bool" where
  "is_dragging s = (sel_phase s = Dragging)"

definition ordered :: "selection \<Rightarrow> (u32 \<times> u16) \<times> (u32 \<times> u16)" where
  "ordered s =
     (let (ar, ac) = sel_anchor s; (cr, cc) = sel_cursor s
      in if ar < cr \<or> ar = cr \<and> ac \<le> cc then ((ar, ac), (cr, cc)) else ((cr, cc), (ar, ac)))"

definition ordered_cells :: "selection \<Rightarrow> (u32 \<times> u16) \<times> (u32 \<times> u16)" where
  "ordered_cells s = ordered s"

definition selection_contains :: "u16 \<Rightarrow> u16 \<Rightarrow> scroll_metrics option \<Rightarrow> selection \<Rightarrow> bool" where
  "selection_contains viewport_row col metrics s =
     (if \<not> is_visible s then False
      else
        (let row = absolute_row_for_viewport_row viewport_row metrics;
             ((sr, sc), (er, ec)) = ordered s
         in if row < sr \<or> er < row then False
            else if sr = er then sc \<le> col \<and> col \<le> ec
            else if row = sr then sc \<le> col
            else if row = er then col \<le> ec
            else True))"

section \<open>The clipboard\<close>

definition osc52_sequence :: "(u8 list \<Rightarrow> string) \<Rightarrow> u8 list \<Rightarrow> string" where
  "osc52_sequence base64 bytes = [CHR 0x1B] @ '']52;c;'' @ base64 bytes @ [CHR 0x07]"

definition contains_wsl_marker :: "string \<Rightarrow> bool" where
  "contains_wsl_marker value =
     (let lower = to_ascii_lowercase value
      in contains_str lower ''microsoft'' \<or> contains_str lower ''wsl2'' \<or> contains_str lower ''-wsl'')"

definition is_wsl_for_env ::
  "string option \<Rightarrow> string option \<Rightarrow> string option \<Rightarrow> string option \<Rightarrow> bool \<Rightarrow> bool" where
  "is_wsl_for_env os_release proc_version wsl_distro_name wsl_interop runtime_marker_exists =
     (wsl_distro_name \<noteq> None \<or> wsl_interop \<noteq> None \<or> is_some_and os_release contains_wsl_marker
      \<or> is_some_and proc_version contains_wsl_marker \<or> runtime_marker_exists)"

definition should_prefer_osc52_for_env :: "string option \<Rightarrow> string option \<Rightarrow> bool \<Rightarrow> bool" where
  "should_prefer_osc52_for_env ssh_connection ssh_tty wsl = (ssh_connection \<noteq> None \<or> ssh_tty \<noteq> None \<or> wsl)"

section \<open>Facts\<close>

text \<open>Reading order of cells.\<close>

definition reading_le :: "u32 \<times> u16 \<Rightarrow> u32 \<times> u16 \<Rightarrow> bool" where
  "reading_le a b = (fst a < fst b \<or> fst a = fst b \<and> snd a \<le> snd b)"

lemma reading_le_trans: "reading_le a b \<Longrightarrow> reading_le b c \<Longrightarrow> reading_le a c"
  by (auto simp: reading_le_def)

lemma reading_swap:
  "reading_le a b \<Longrightarrow> reading_le b x \<Longrightarrow> reading_le x a \<Longrightarrow> reading_le a x \<and> reading_le x b"
  by (blast intro: reading_le_trans)

lemma reading_le_total: "reading_le a b \<or> reading_le b a"
  by (auto simp: reading_le_def)

lemma ordered_ends:
  "ordered s = (if reading_le (sel_anchor s) (sel_cursor s) then (sel_anchor s, sel_cursor s)
     else (sel_cursor s, sel_anchor s))"
  by (auto simp: ordered_def reading_le_def Let_def split: prod.split)

lemma clamp_pane_Some:
  fixes x w c :: u16
  assumes "x \<le> x + sat_sub w 1"
  shows "\<exists>y. clamp_word c x (x + sat_sub w 1) = Some y \<and> unat (y - x) \<le> unat w - 1
    \<and> (x \<le> c \<and> c \<le> x + sat_sub w 1 \<longrightarrow> y = c)"
proof -
  obtain y where y: "clamp_word c x (x + sat_sub w 1) = Some y" "x \<le> y" "y \<le> x + sat_sub w 1"
    "x \<le> c \<and> c \<le> x + sat_sub w 1 \<longrightarrow> y = c"
    using clamp_word_Some [OF assms, of c] by blast
  have "unat (y - x) \<le> unat (sat_sub w 1)"
    using y(2,3) assms by (simp add: unat_sub_le word_le_nat_alt unat_plus_if' split: if_splits)
  then show ?thesis
    using y(1,4) by (simp add: unat_sat_sub)
qed

text \<open>C33: A cell is in a visible selection exactly if it lies between the anchor and the cursor in
  reading order, both included, whichever of the two comes first.\<close>

theorem selection_contains_reading_order:
  "selection_contains row col metrics s \<longleftrightarrow>
     sel_phase s \<noteq> Anchored \<and>
     (let cell = (absolute_row_for_viewport_row row metrics, col) in
      reading_le (sel_anchor s) cell \<and> reading_le cell (sel_cursor s) \<or>
      reading_le (sel_cursor s) cell \<and> reading_le cell (sel_anchor s))"
proof -
  let ?cell = "(absolute_row_for_viewport_row row metrics, col)"
  have vis: "is_visible s \<longleftrightarrow> sel_phase s \<noteq> Anchored"
    by (cases "sel_phase s") (simp_all add: is_visible_def)
  obtain a b where ab: "ordered s = (a, b)" by (cases "ordered s")
  have le: "reading_le a b"
    using ab reading_le_total [of "sel_anchor s" "sel_cursor s"] by (auto simp: ordered_ends split: if_splits)
  have "selection_contains row col metrics s \<longleftrightarrow> is_visible s \<and> reading_le a ?cell \<and> reading_le ?cell b"
    using le by (cases a, cases b) (auto simp: selection_contains_def ab Let_def reading_le_def)
  moreover have "reading_le a ?cell \<and> reading_le ?cell b \<longleftrightarrow>
      reading_le (sel_anchor s) ?cell \<and> reading_le ?cell (sel_cursor s) \<or>
      reading_le (sel_cursor s) ?cell \<and> reading_le ?cell (sel_anchor s)"
    using ab le reading_swap [of "sel_anchor s" "sel_cursor s" ?cell]
      reading_swap [of "sel_cursor s" "sel_anchor s" ?cell]
    by (auto simp: ordered_ends split: if_splits)
  ultimately show ?thesis by (simp add: vis Let_def)
qed

lemma drag_in_pane:
  assumes "rect_x pane \<le> rect_x pane + sat_sub (rect_width pane) 1"
    and "rect_y pane \<le> rect_y pane + sat_sub (rect_height pane) 1"
  shows "\<exists>s' row col. drag screen_col screen_row pane metrics s = Some s' \<and> sel_pane s' = sel_pane s
    \<and> sel_anchor s' = sel_anchor s \<and> sel_cursor s' = (absolute_row_for_viewport_row row metrics, col)
    \<and> unat row \<le> unat (rect_height pane) - 1 \<and> unat col \<le> unat (rect_width pane) - 1
    \<and> (rect_x pane \<le> screen_col \<and> screen_col \<le> rect_x pane + sat_sub (rect_width pane) 1 \<longrightarrow> col = screen_col - rect_x pane)
    \<and> (rect_y pane \<le> screen_row \<and> screen_row \<le> rect_y pane + sat_sub (rect_height pane) 1 \<longrightarrow> row = screen_row - rect_y pane)
    \<and> (sel_phase s' = Anchored \<longleftrightarrow> sel_phase s = Anchored \<and> sel_cursor s' = sel_anchor s)"
proof -
  obtain x where x: "clamp_word screen_col (rect_x pane) (rect_x pane + sat_sub (rect_width pane) 1) = Some x"
    "unat (x - rect_x pane) \<le> unat (rect_width pane) - 1"
    "rect_x pane \<le> screen_col \<and> screen_col \<le> rect_x pane + sat_sub (rect_width pane) 1 \<longrightarrow> x = screen_col"
    using clamp_pane_Some [OF assms(1), of screen_col] by blast
  obtain y where y: "clamp_word screen_row (rect_y pane) (rect_y pane + sat_sub (rect_height pane) 1) = Some y"
    "unat (y - rect_y pane) \<le> unat (rect_height pane) - 1"
    "rect_y pane \<le> screen_row \<and> screen_row \<le> rect_y pane + sat_sub (rect_height pane) 1 \<longrightarrow> y = screen_row"
    using clamp_pane_Some [OF assms(2), of screen_row] by blast
  show ?thesis
    using x y
    by (intro exI [of _ "the (drag screen_col screen_row pane metrics s)"] exI [of _ "y - rect_y pane"]
        exI [of _ "x - rect_x pane"]) (simp add: drag_def clamp_to_pane_def Let_def)
qed

end
