(* ===== verification/App_State.thy ===== *)
theory App_State
  imports Workspace Selection Terminal_Reports Terminal_Metadata
begin

text \<open>
  The state of the application (\<open>AppState\<close> of \<open>src/src/app/state.rs\<close>) as far as panes,
  workspaces, focus and notifications are concerned, and the operations of
  \<open>src/src/app/actions.rs\<close> that move the focus. The geometry of the view, scroll offsets and
  logging are left out; of the plugin panes and the graphics of a pane only the set of panes
  that have them is kept. The last fields are the area of the terminal on the screen, fields
  of \<open>App\<close> (\<open>app/mod.rs\<close>) on saving the session, deadlines and panes shown over others, the
  popup pane with its terminal, and the counters from which pane and workspace
  identifiers are allocated (\<open>NEXT_PANE_ID\<close>, \<open>NEXT_WORKSPACE_ID\<close>). An index out of range panics in the code; no caller passes one.
\<close>

section \<open>Data\<close>

datatype mode =
  ModeOnboarding | ModeReleaseNotes | ModeProductAnnouncement | ModeNavigate | ModePrefix | ModeCopy
  | ModeTerminal | ModeRenameWorkspace | ModeRenameTab | ModeRenamePane | ModeRenameSession
  | ModeNewLinkedWorktree | ModeOpenExistingWorktree | ModeConfirmRemoveWorktree | ModeResize
  | ModeConfirmClose | ModeContextMenu | ModeSettings | ModeGlobalMenu | ModeKeybindHelp | ModeNavigator
  | ModeProjectHistory | ModeTopicDetail | ModeEditTopicCover

datatype toast_kind = NeedsAttention | Finished | UpdateInstalled

datatype sound = SoundDone | SoundRequest

datatype toast_delivery = DeliveryOff | DeliveryHerduck | DeliveryTerminal | DeliverySystem

datatype sound_setting = SettingDefault | SettingOn | SettingOff

record agent_sound_overrides =
  sn_pi :: sound_setting
  sn_claude :: sound_setting
  sn_codex :: sound_setting
  sn_gemini :: sound_setting
  sn_cursor :: sound_setting
  sn_devin :: sound_setting
  sn_agy :: sound_setting
  sn_cline :: sound_setting
  sn_open_code :: sound_setting
  sn_github_copilot :: sound_setting
  sn_kimi :: sound_setting
  sn_kiro :: sound_setting
  sn_droid :: sound_setting
  sn_amp :: sound_setting
  sn_grok :: sound_setting
  sn_hermes :: sound_setting
  sn_kilo :: sound_setting
  sn_qodercli :: sound_setting
  sn_maki :: sound_setting

record sound_config =
  so_enabled :: bool
  so_agents :: agent_sound_overrides

record pane_focus =
  pf_workspace_id :: string
  pf_pane_id :: pane_id

record toast =
  to_kind :: toast_kind
  to_title :: string
  to_context :: string
  to_target :: "pane_focus option"

record pending_notification =
  pe_pane_id :: pane_id
  pe_workspace_id :: string
  pe_agent_label :: string
  pe_known_agent :: "agent option"
  pe_kind :: toast_kind
  pe_state :: agent_state
  pe_deadline :: instant

datatype copy_mode_selection = CopyCharacter | CopyLinewise u32

record copy_mode =
  cm_pane_id :: pane_id
  cm_cursor_row :: u16
  cm_cursor_col :: u16
  cm_entry_offset_from_bottom :: nat
  cm_selection :: "copy_mode_selection option"

record overlay_pane =
  ov_ws_idx :: nat
  ov_tab_idx :: nat
  ov_previous_focus :: pane_id
  ov_previous_zoomed :: bool

record app =
  as_terminals :: "(string, terminal) hmap"
  as_pane_id_aliases :: "(u32, pane_id) hmap"
  as_public_pane_id_aliases :: "(string, pane_id) hmap"
  as_workspaces :: "workspace list"
  as_active :: "nat option"
  as_selected :: nat
  as_previous_pane_focus :: "pane_focus option"
  as_mode :: mode
  as_confirm_close :: bool
  as_copy_mode :: "copy_mode option"
  as_selection :: "selection option"
  as_selection_autoscroll :: bool
  as_pending_agent_notifications :: "(pane_id, pending_notification) hmap"
  as_outer_terminal_focus :: "bool option"
  as_update_available :: "string option"
  as_update_install_command :: string
  as_latest_release_notes_available :: bool
  as_update_dismissed :: bool
  as_next_agent_state_change_seq :: u64
  as_sound :: sound_config
  as_local_sound_playback :: bool
  as_played_sounds :: "sound list"
  as_toast_delivery :: toast_delivery
  as_toast_delay_seconds :: u64
  as_toast :: "toast option"
  as_plugin_panes :: "pane_id list"
  as_pane_graphics_layers :: "pane_id list"
  as_pane_graphics_streams :: "pane_id list"
  as_session_dirty :: bool
  as_terminal_runtime_shutdowns :: "string list"
  as_terminal_area :: rect
  as_no_session :: bool
  as_session_save_deadline :: "instant option"
  as_toast_deadline :: "instant option"
  as_agent_metadata_deadline :: "instant option"
  as_popup_pane :: "(pane_id \<times> string) option"
  as_overlay_panes :: "(pane_id, overlay_pane) hmap"
  as_next_pane_id :: u32
  as_next_workspace_id :: nat

section \<open>Access\<close>

definition ws_at :: "app \<Rightarrow> nat \<Rightarrow> workspace option" where
  "ws_at s idx = (if idx < length (as_workspaces s) then Some (as_workspaces s ! idx) else None)"

definition update_ws :: "nat \<Rightarrow> (workspace \<Rightarrow> workspace) \<Rightarrow> app \<Rightarrow> app" where
  "update_ws idx f s = s\<lparr>as_workspaces := (as_workspaces s)[idx := f (as_workspaces s ! idx)]\<rparr>"

definition mark_session_dirty :: "app \<Rightarrow> app" where
  "mark_session_dirty s = s\<lparr>as_session_dirty := True\<rparr>"

definition current_pane_focus_target :: "app \<Rightarrow> pane_focus option" where
  "current_pane_focus_target s =
     Option.bind (as_active s) (\<lambda>ws_idx. Option.bind (ws_at s ws_idx) (\<lambda>ws.
       map_option (\<lambda>i. \<lparr>pf_workspace_id = ws_id ws, pf_pane_id = i\<rparr>) (focused_pane_id ws)))"

definition pane_focus_target_indices :: "app \<Rightarrow> pane_focus \<Rightarrow> (nat \<times> nat) option" where
  "pane_focus_target_indices s target =
     Option.bind (index_of (\<lambda>ws. ws_id ws = pf_workspace_id target) (as_workspaces s)) (\<lambda>ws_idx.
       map_option (\<lambda>tab_idx. (ws_idx, tab_idx))
         (find_tab_index_for_pane (as_workspaces s ! ws_idx) (pf_pane_id target)))"

definition pane_is_in_active_tab :: "app \<Rightarrow> nat \<Rightarrow> pane_id \<Rightarrow> bool" where
  "pane_is_in_active_tab s ws_idx i =
     (as_active s = Some ws_idx \<and>
      is_some_and (ws_at s ws_idx) (\<lambda>ws. is_some_and (find_tab_index_for_pane ws i) (\<lambda>tab_idx. tab_idx = ws_active_tab ws)))"

definition terminal_ids_for_workspace :: "app \<Rightarrow> nat \<Rightarrow> string list" where
  "terminal_ids_for_workspace s ws_idx =
     (case ws_at s ws_idx of
        None \<Rightarrow> []
      | Some ws \<Rightarrow> concat (map (\<lambda>t. map pn_terminal (hm_values (tb_panes t))) (ws_tabs ws)))"

definition pane_ids_for_workspace :: "app \<Rightarrow> nat \<Rightarrow> pane_id list" where
  "pane_ids_for_workspace s ws_idx =
     (case ws_at s ws_idx of None \<Rightarrow> [] | Some ws \<Rightarrow> concat (map (\<lambda>t. pane_ids (tb_layout t)) (ws_tabs ws)))"

definition terminal_ids_for_tab :: "app \<Rightarrow> nat \<Rightarrow> nat \<Rightarrow> string list" where
  "terminal_ids_for_tab s ws_idx tab_idx =
     (case Option.bind (ws_at s ws_idx) (\<lambda>ws. tab_at ws tab_idx) of
        None \<Rightarrow> [] | Some t \<Rightarrow> map pn_terminal (hm_values (tb_panes t)))"

definition pane_ids_for_tab :: "app \<Rightarrow> nat \<Rightarrow> nat \<Rightarrow> pane_id list" where
  "pane_ids_for_tab s ws_idx tab_idx =
     (case Option.bind (ws_at s ws_idx) (\<lambda>ws. tab_at ws tab_idx) of
        None \<Rightarrow> [] | Some t \<Rightarrow> pane_ids (tb_layout t))"

definition terminal_id_for_pane :: "app \<Rightarrow> nat \<Rightarrow> pane_id \<Rightarrow> string option" where
  "terminal_id_for_pane s ws_idx i =
     Option.bind (ws_at s ws_idx) (\<lambda>ws. map_option pn_terminal (pane_state_of ws i))"

section \<open>Selection and copy mode\<close>

definition clear_selection :: "app \<Rightarrow> app" where
  "clear_selection s = s\<lparr>as_selection := None, as_selection_autoscroll := False\<rparr>"

definition clear_copy_mode_selection :: "app \<Rightarrow> app" where
  "clear_copy_mode_selection s =
     (let s1 = clear_selection s
      in s1\<lparr>as_copy_mode := map_option (\<lambda>cm. cm\<lparr>cm_selection := None\<rparr>) (as_copy_mode s1)\<rparr>)"

definition copy_mode_pane_is_focused :: "app \<Rightarrow> bool" where
  "copy_mode_pane_is_focused s =
     (case as_copy_mode s of
        None \<Rightarrow> False
      | Some cm \<Rightarrow> is_some_and (current_pane_focus_target s) (\<lambda>target. pf_pane_id target = cm_pane_id cm))"

definition sync_copy_mode_with_focus :: "app \<Rightarrow> app" where
  "sync_copy_mode_with_focus s =
     (if as_copy_mode s = None then s
      else if as_mode s \<notin> {ModeCopy, ModeTerminal, ModeNavigate, ModePrefix} then s
      else if copy_mode_pane_is_focused s then s\<lparr>as_mode := ModeCopy\<rparr>
      else if as_active s \<noteq> None then (clear_copy_mode_selection s)\<lparr>as_mode := ModeTerminal\<rparr>
      else (clear_copy_mode_selection s)\<lparr>as_mode := ModeNavigate\<rparr>)"

definition settle_terminal_mode_after_focus :: "app \<Rightarrow> app" where
  "settle_terminal_mode_after_focus s = sync_copy_mode_with_focus (s\<lparr>as_mode := ModeTerminal\<rparr>)"

definition clear_copy_mode_for_removed_panes :: "pane_id list \<Rightarrow> app \<Rightarrow> app" where
  "clear_copy_mode_for_removed_panes ids s =
     (case as_copy_mode s of
        None \<Rightarrow> s
      | Some cm \<Rightarrow>
          if cm_pane_id cm \<in> set ids then
            (let s1 = (clear_selection s)\<lparr>as_copy_mode := None\<rparr>
             in if as_mode s1 = ModeCopy
                then s1\<lparr>as_mode := (if as_active s1 \<noteq> None then ModeTerminal else ModeNavigate)\<rparr> else s1)
          else s)"

section \<open>Focus\<close>

definition record_pane_focus_change :: "pane_focus option \<Rightarrow> nat \<Rightarrow> pane_id \<Rightarrow> app \<Rightarrow> app" where
  "record_pane_focus_change previous ws_idx i s =
     (case ws_at s ws_idx of
        None \<Rightarrow> s
      | Some ws \<Rightarrow>
          if previous \<noteq> Some \<lparr>pf_workspace_id = ws_id ws, pf_pane_id = i\<rparr>
          then s\<lparr>as_previous_pane_focus := previous\<rparr> else s)"

definition record_pane_focus_after_navigation :: "pane_focus option \<Rightarrow> app \<Rightarrow> app" where
  "record_pane_focus_after_navigation previous s =
     (if previous \<noteq> current_pane_focus_target s then s\<lparr>as_previous_pane_focus := previous\<rparr> else s)"

definition sync_selection_after_focus_navigation :: "app \<Rightarrow> app" where
  "sync_selection_after_focus_navigation s =
     (if as_copy_mode s \<noteq> None then sync_copy_mode_with_focus s else clear_selection s)"

definition switch_workspace :: "nat \<Rightarrow> app \<Rightarrow> app" where
  "switch_workspace idx s =
     (if idx < length (as_workspaces s) then
        (let previous = current_pane_focus_target s;
             s1 = mark_session_dirty (s\<lparr>as_active := Some idx, as_selected := idx\<rparr>);
             s2 = update_ws idx (\<lambda>ws. switch_tab (ws_active_tab ws) ws) s1
         in sync_selection_after_focus_navigation (record_pane_focus_after_navigation previous s2))
      else s)"

definition switch_workspace_tab :: "nat \<Rightarrow> nat \<Rightarrow> app \<Rightarrow> app \<times> bool" where
  "switch_workspace_tab ws_idx tab_idx s =
     (if is_none_or (ws_at s ws_idx) (\<lambda>ws. length (ws_tabs ws) \<le> tab_idx) then (s, False)
      else
        (let previous = current_pane_focus_target s;
             s1 = mark_session_dirty (s\<lparr>as_active := Some ws_idx, as_selected := ws_idx\<rparr>);
             s2 = update_ws ws_idx (switch_tab tab_idx) s1
         in (sync_selection_after_focus_navigation (record_pane_focus_after_navigation previous s2), True)))"

definition focus_tab_pane :: "nat \<Rightarrow> nat \<Rightarrow> pane_id \<Rightarrow> app \<Rightarrow> app" where
  "focus_tab_pane ws_idx tab_idx i =
     update_ws ws_idx (\<lambda>ws. ws\<lparr>ws_tabs := (ws_tabs ws)[tab_idx :=
       (let t = ws_tabs ws ! tab_idx in t\<lparr>tb_layout := focus_pane (tb_layout t) i\<rparr>)]\<rparr>)"

definition focus_pane_in_workspace :: "nat \<Rightarrow> pane_id \<Rightarrow> app \<Rightarrow> app \<times> bool" where
  "focus_pane_in_workspace ws_idx i s =
     (case ws_at s ws_idx of
        None \<Rightarrow> (s, False)
      | Some ws \<Rightarrow>
          (case find_tab_index_for_pane ws i of
             None \<Rightarrow> (s, False)
           | Some tab_idx \<Rightarrow>
               (let previous = current_pane_focus_target s in
                if previous = Some \<lparr>pf_workspace_id = ws_id ws, pf_pane_id = i\<rparr> then (s, False)
                else
                  (let s1 = (if as_copy_mode s \<noteq> None then clear_copy_mode_selection s else s);
                       s2 = fst (switch_workspace_tab ws_idx tab_idx s1)
                   in if Option.bind (ws_at s2 ws_idx) (\<lambda>ws. tab_at ws tab_idx) = None then (s2, False)
                      else
                        (let s3 = focus_tab_pane ws_idx tab_idx i s2
                         in (sync_copy_mode_with_focus (mark_session_dirty (s3\<lparr>as_previous_pane_focus := previous\<rparr>)),
                             True))))))"

definition mark_active_tab_seen :: "app \<Rightarrow> app \<times> bool" where
  "mark_active_tab_seen s =
     (case as_active s of
        None \<Rightarrow> (s, False)
      | Some ws_idx \<Rightarrow>
          (case Option.bind (ws_at s ws_idx) active_tab of
             None \<Rightarrow> (s, False)
           | Some t \<Rightarrow>
               (update_ws ws_idx (\<lambda>ws. ws\<lparr>ws_tabs := (ws_tabs ws)[ws_active_tab ws :=
                  t\<lparr>tb_panes := map (\<lambda>(i, pane). (i, pane\<lparr>pn_seen := True\<rparr>)) (tb_panes t)\<rparr>]\<rparr>) s,
                list_ex (\<lambda>pane. \<not> pn_seen pane) (hm_values (tb_panes t)))))"

datatype zoom_command = ZoomToggle | ZoomOn | ZoomOff

datatype zoom_noop_reason = SinglePane | AlreadyZoomed | AlreadyUnzoomed

record zoom_outcome =
  zo_changed :: bool
  zo_focus_changed :: bool
  zo_reason :: "zoom_noop_reason option"
  zo_zoomed :: bool

definition apply_pane_zoom :: "nat \<Rightarrow> pane_id \<Rightarrow> zoom_command \<Rightarrow> app \<Rightarrow> app \<times> zoom_outcome option" where
  "apply_pane_zoom ws_idx i command s =
     (case Option.bind (ws_at s ws_idx) (\<lambda>ws. find_tab_index_for_pane ws i) of
        None \<Rightarrow> (s, None)
      | Some tab_idx \<Rightarrow>
          (let (s1, focus_changed) = focus_pane_in_workspace ws_idx i s in
           (case Option.bind (ws_at s1 ws_idx) (\<lambda>ws. tab_at ws tab_idx) of
              None \<Rightarrow> (s1, None)
            | Some t \<Rightarrow>
                if pane_count (tb_layout t) \<le> 1 then
                  (s1, Some \<lparr>zo_changed = False, zo_focus_changed = focus_changed,
                             zo_reason = Some SinglePane, zo_zoomed = tb_zoomed t\<rparr>)
                else
                  (let desired = (case command of ZoomToggle \<Rightarrow> \<not> tb_zoomed t | ZoomOn \<Rightarrow> True | ZoomOff \<Rightarrow> False);
                       reason = (if command = ZoomOn \<and> tb_zoomed t then Some AlreadyZoomed
                                 else if command = ZoomOff \<and> \<not> tb_zoomed t then Some AlreadyUnzoomed else None)
                   in if reason \<noteq> None then
                        (s1, Some \<lparr>zo_changed = False, zo_focus_changed = focus_changed,
                                   zo_reason = reason, zo_zoomed = tb_zoomed t\<rparr>)
                      else
                        (mark_session_dirty (update_ws ws_idx (\<lambda>ws. ws\<lparr>ws_tabs := (ws_tabs ws)[tab_idx :=
                           t\<lparr>tb_zoomed := desired\<rparr>]\<rparr>) s1),
                         Some \<lparr>zo_changed = True, zo_focus_changed = focus_changed,
                               zo_reason = None, zo_zoomed = desired\<rparr>)))))"

section \<open>Workspaces\<close>

definition move_workspace :: "nat \<Rightarrow> nat \<Rightarrow> app \<Rightarrow> app \<times> bool" where
  "move_workspace source_idx insert_idx s =
     (if length (as_workspaces s) \<le> source_idx \<or> length (as_workspaces s) < insert_idx then (s, False)
      else
        (let target_idx = (if source_idx < insert_idx then insert_idx - 1 else insert_idx) in
         if source_idx = target_idx then (s, False)
         else
           (let s1 = mark_session_dirty s;
                active_id = map_option (\<lambda>idx. ws_id (as_workspaces s1 ! idx)) (as_active s1);
                selected_id = map_option ws_id (ws_at s1 (as_selected s1));
                workspaces = insert_at target_idx (as_workspaces s1 ! source_idx) (remove_at source_idx (as_workspaces s1));
                position = (\<lambda>wid. index_of (\<lambda>ws. ws_id ws = wid) workspaces)
            in (s1\<lparr>as_workspaces := workspaces, as_active := Option.bind active_id position,
                   as_selected := unwrap_or (Option.bind selected_id position) 0\<rparr>, True))))"

text \<open>A terminal that no pane shows any more is removed, and its process is to be stopped.\<close>

definition terminal_attached :: "app \<Rightarrow> string \<Rightarrow> bool" where
  "terminal_attached s terminal_id =
     list_ex (\<lambda>ws. list_ex (\<lambda>t. list_ex (\<lambda>pane. pn_terminal pane = terminal_id) (hm_values (tb_panes t)))
       (ws_tabs ws)) (as_workspaces s)"

definition remove_unattached_terminal_id :: "string \<Rightarrow> app \<Rightarrow> app" where
  "remove_unattached_terminal_id terminal_id s =
     (if terminal_attached s terminal_id then s
      else if hm_contains_key (as_terminals s) terminal_id then
        (let s1 = s\<lparr>as_terminals := hm_remove terminal_id (as_terminals s)\<rparr>
         in if terminal_id \<in> set (as_terminal_runtime_shutdowns s1) then s1
            else s1\<lparr>as_terminal_runtime_shutdowns := as_terminal_runtime_shutdowns s1 @ [terminal_id]\<rparr>)
      else s)"

definition remove_unattached_terminal_ids :: "string list \<Rightarrow> app \<Rightarrow> app" where
  "remove_unattached_terminal_ids ids s = fold remove_unattached_terminal_id ids s"

definition remove_plugin_pane_records :: "pane_id list \<Rightarrow> app \<Rightarrow> app" where
  "remove_plugin_pane_records ids s =
     (let s1 = clear_copy_mode_for_removed_panes ids s;
          s2 = (if is_some_and (as_previous_pane_focus s1) (\<lambda>focus. pf_pane_id focus \<in> set ids)
                then s1\<lparr>as_previous_pane_focus := None\<rparr> else s1);
          keep = filter (\<lambda>i. i \<notin> set ids)
      in s2\<lparr>as_plugin_panes := keep (as_plugin_panes s2),
            as_pane_graphics_layers := keep (as_pane_graphics_layers s2),
            as_pane_graphics_streams := keep (as_pane_graphics_streams s2)\<rparr>)"

text \<open>The workspaces that are closed together: a main checkout takes its linked worktrees with
  it.\<close>

definition worktree_group :: "app \<Rightarrow> nat \<Rightarrow> nat list option" where
  "worktree_group s idx =
     (case Option.bind (ws_at s idx) ws_worktree_space of
        None \<Rightarrow> None
      | Some space \<Rightarrow>
          if wt_is_linked_worktree space then None
          else
            (let members = filter (\<lambda>k. is_some_and (ws_worktree_space (as_workspaces s ! k))
                   (\<lambda>member. wt_key member = wt_key space)) [0..<length (as_workspaces s)]
             in if 2 \<le> length members then Some members else None))"

definition workspace_close_would_close_worktree_group :: "app \<Rightarrow> nat \<Rightarrow> bool" where
  "workspace_close_would_close_worktree_group s idx = (worktree_group s idx \<noteq> None)"

definition confirm_implicit_worktree_group_close :: "nat \<Rightarrow> app \<Rightarrow> app \<times> bool" where
  "confirm_implicit_worktree_group_close ws_idx s =
     (if as_confirm_close s \<and> workspace_close_would_close_worktree_group s ws_idx
      then (s\<lparr>as_selected := ws_idx, as_mode := ModeConfirmClose\<rparr>, True) else (s, False))"

definition close_pane_would_close_workspace :: "app \<Rightarrow> nat \<Rightarrow> pane_id \<Rightarrow> bool" where
  "close_pane_would_close_workspace s ws_idx i =
     is_some_and (ws_at s ws_idx) (\<lambda>ws. is_some_and (find_tab_index_for_pane ws i) (\<lambda>tab_idx.
       pane_count (tb_layout (ws_tabs ws ! tab_idx)) \<le> 1 \<and> length (ws_tabs ws) \<le> 1))"

definition close_selected_workspace :: "app \<Rightarrow> app" where
  "close_selected_workspace s =
     (if as_workspaces s = [] then s
      else
        (let s1 = mark_session_dirty (s\<lparr>as_selection := None, as_selection_autoscroll := False\<rparr>);
             close_indices = unwrap_or (worktree_group s1 (as_selected s1)) [as_selected s1];
             terminal_ids = concat (map (terminal_ids_for_workspace s1) close_indices);
             ids = concat (map (pane_ids_for_workspace s1) close_indices);
             s2 = remove_plugin_pane_records ids s1;
             s3 = s2\<lparr>as_workspaces := fold remove_at (rev close_indices) (as_workspaces s2)\<rparr>;
             s4 = remove_unattached_terminal_ids terminal_ids s3
         in if as_workspaces s4 = [] then s4\<lparr>as_active := None, as_selected := 0\<rparr>
            else
              (let s5 = (if length (as_workspaces s4) \<le> as_selected s4
                         then s4\<lparr>as_selected := length (as_workspaces s4) - 1\<rparr> else s4)
               in s5\<lparr>as_active := Some (as_selected s5)\<rparr>)))"

end
