(* ===== verification/App_Ids.thy ===== *)
theory App_Ids
  imports App_State Public_Ids
begin

text \<open>
  \<open>src/src/app/ids.rs\<close>: how the API names workspaces, tabs and panes, and how such a name is
  resolved. A pane that has moved to another workspace is also found under the names it had
  (\<open>as_public_pane_id_aliases\<close>); the positional names of older versions are still understood.
\<close>

section \<open>Parsing\<close>

fun rsplit_once :: "string \<Rightarrow> string \<Rightarrow> (string \<times> string) option" where
  "rsplit_once [] p = None"
| "rsplit_once (c # cs) p =
     (case rsplit_once cs p of
        Some (before, after) \<Rightarrow> Some (c # before, after)
      | None \<Rightarrow> if starts_with (c # cs) p then Some ([], drop (length p) (c # cs)) else None)"

definition parse_usize :: "string \<Rightarrow> nat option" where
  "parse_usize s = parse_str (usize_limit - 1) s"

definition parse_u32 :: "string \<Rightarrow> u32 option" where
  "parse_u32 s = map_option of_nat (parse_str (2 ^ 32 - 1) s)"

definition checked_pred :: "nat \<Rightarrow> nat option" where
  "checked_pred n = (if n = 0 then None else Some (n - 1))"

section \<open>Names\<close>

definition find_pane :: "app \<Rightarrow> pane_id \<Rightarrow> (nat \<times> pane_state) option" where
  "find_pane s i =
     find_map (\<lambda>(ws_idx, ws). map_option (\<lambda>pane. (ws_idx, pane)) (pane_state_of ws i))
       (zip [0..<length (as_workspaces s)] (as_workspaces s))"

definition public_workspace_id :: "app \<Rightarrow> nat \<Rightarrow> string option" where
  "public_workspace_id s ws_idx = map_option ws_id (ws_at s ws_idx)"

definition public_tab_id :: "app \<Rightarrow> nat \<Rightarrow> nat \<Rightarrow> string option" where
  "public_tab_id s ws_idx tab_idx =
     Option.bind (ws_at s ws_idx) (\<lambda>ws.
       map_option (public_tab_id_for_number (ws_id ws)) (public_tab_number ws tab_idx))"

definition public_pane_id :: "app \<Rightarrow> nat \<Rightarrow> pane_id \<Rightarrow> string option" where
  "public_pane_id s ws_idx i =
     Option.bind (ws_at s ws_idx) (\<lambda>ws.
       map_option (public_pane_id_for_number (ws_id ws)) (public_pane_number ws i))"

section \<open>Resolution\<close>

definition positional_index :: "string \<Rightarrow> nat option" where
  "positional_index s = Option.bind (parse_usize s) checked_pred"

definition parse_workspace_id :: "app \<Rightarrow> string \<Rightarrow> nat option" where
  "parse_workspace_id s wid =
     or_else (index_of (\<lambda>ws. ws_id ws = wid) (as_workspaces s))
       (or_else (Option.bind (strip_prefix wid ''w_'') positional_index) (positional_index wid))"

definition parse_tab_id :: "app \<Rightarrow> string \<Rightarrow> (nat \<times> nat) option" where
  "parse_tab_id s tid =
     (case strip_prefix tid ''t_'' of
        Some rest \<Rightarrow>
          Option.bind (rsplit_once rest ''_'') (\<lambda>(ws_raw, tab_raw).
            Option.bind (parse_workspace_id s ws_raw) (\<lambda>ws_idx.
              Option.bind (positional_index tab_raw) (\<lambda>tab_idx.
                Option.bind (Option.bind (ws_at s ws_idx) (\<lambda>ws. tab_at ws tab_idx)) (\<lambda>_. Some (ws_idx, tab_idx)))))
      | None \<Rightarrow>
          Option.bind (rsplit_once tid '':'') (\<lambda>(ws_raw, tab_raw).
            Option.bind (parse_workspace_id s ws_raw) (\<lambda>ws_idx.
              Option.bind
                (case strip_prefix tab_raw ''t'' of
                   Some encoded \<Rightarrow>
                     Option.bind (decode_public_number encoded) (\<lambda>tab_number.
                       Option.bind (ws_at s ws_idx) (\<lambda>ws. index_of (\<lambda>t. tb_number t = tab_number) (ws_tabs ws)))
                 | None \<Rightarrow> positional_index tab_raw)
                (\<lambda>tab_idx.
                  Option.bind (Option.bind (ws_at s ws_idx) (\<lambda>ws. tab_at ws tab_idx)) (\<lambda>_. Some (ws_idx, tab_idx))))))"

definition resolve_raw_pane_id :: "app \<Rightarrow> u32 \<Rightarrow> pane_id option" where
  "resolve_raw_pane_id s raw =
     (case hm_get (as_pane_id_aliases s) raw of
        Some alias \<Rightarrow> map_option (\<lambda>_. alias) (find_pane s alias)
      | None \<Rightarrow> if find_pane s raw \<noteq> None then Some raw else None)"

definition pane_with_number :: "workspace \<Rightarrow> nat \<Rightarrow> pane_id option" where
  "pane_with_number ws number =
     find_map (\<lambda>(i, n). if n = number then Some i else None) (ws_public_pane_numbers ws)"

definition parse_pane_id :: "app \<Rightarrow> string \<Rightarrow> (nat \<times> pane_id) option" where
  "parse_pane_id s name =
     (case hm_get (as_public_pane_id_aliases s) name of
        Some alias \<Rightarrow> map_option (\<lambda>(ws_idx, _). (ws_idx, alias)) (find_pane s alias)
      | None \<Rightarrow>
          (case strip_prefix name ''p_'' of
             Some rest \<Rightarrow>
               (case rsplit_once rest ''_'' of
                  Some (ws_raw, pane_raw) \<Rightarrow>
                    Option.bind (parse_workspace_id s ws_raw) (\<lambda>ws_idx.
                      Option.bind (Option.bind (parse_u32 pane_raw) (resolve_raw_pane_id s)) (\<lambda>i.
                        Option.bind (Option.bind (ws_at s ws_idx) (\<lambda>ws. pane_state_of ws i)) (\<lambda>_. Some (ws_idx, i))))
                | None \<Rightarrow>
                    Option.bind (Option.bind (parse_u32 rest) (resolve_raw_pane_id s)) (\<lambda>i.
                      map_option (\<lambda>(ws_idx, _). (ws_idx, i)) (find_pane s i)))
           | None \<Rightarrow>
               (case rsplit_once name '':p'' of
                  Some (ws_raw, number_raw) \<Rightarrow>
                    Option.bind (parse_workspace_id s ws_raw) (\<lambda>ws_idx.
                      Option.bind (decode_public_number number_raw) (\<lambda>number.
                        Option.bind (ws_at s ws_idx) (\<lambda>ws. map_option (Pair ws_idx) (pane_with_number ws number))))
                | None \<Rightarrow>
                    Option.bind (rsplit_once name ''-'') (\<lambda>(ws_raw, number_raw).
                      Option.bind (parse_workspace_id s ws_raw) (\<lambda>ws_idx.
                        Option.bind (parse_usize number_raw) (\<lambda>number.
                          Option.bind (ws_at s ws_idx) (\<lambda>ws. map_option (Pair ws_idx) (pane_with_number ws number))))))))"

end
