(* ===== verification/App_Api.thy ===== *)
theory App_Api
  imports App_Ids
begin

text \<open>
  What the requests of the API do to workspaces and tabs (\<open>src/src/app/api/workspaces.rs\<close>,
  \<open>api/tabs.rs\<close>, \<open>api/env.rs\<close>, \<open>app/creation.rs\<close>). A handler returns the new state and
  either the code of its error or what it found; the descriptions it puts into its answer,
  the published events, the logging and the project catalog are left out. The working
  directory that a new process gets, and whether it starts, are in \<open>launch\<close>.
\<close>

type_synonym 'a response = "string + 'a"

section \<open>Shared\<close>

definition SESSION_SAVE_DEBOUNCE :: duration where
  "SESSION_SAVE_DEBOUNCE = 5 * 10 ^ 9"

definition schedule_session_save :: "instant \<Rightarrow> app \<Rightarrow> app" where
  "schedule_session_save now s =
     (if as_no_session s then s else s\<lparr>as_session_save_deadline := Some (now + SESSION_SAVE_DEBOUNCE)\<rparr>)"

definition sync_session_save_schedule :: "instant \<Rightarrow> app \<Rightarrow> app" where
  "sync_session_save_schedule now s =
     (if as_session_dirty s then schedule_session_save now (s\<lparr>as_session_dirty := False\<rparr>) else s)"

definition remove_alias_shadowed_by_new_pane :: "pane_id \<Rightarrow> app \<Rightarrow> app" where
  "remove_alias_shadowed_by_new_pane i s = s\<lparr>as_pane_id_aliases := hm_remove i (as_pane_id_aliases s)\<rparr>"

definition shutdown_detached_terminal_runtimes :: "app \<Rightarrow> app" where
  "shutdown_detached_terminal_runtimes s = s\<lparr>as_terminal_runtime_shutdowns := []\<rparr>"

definition add_terminal :: "terminal \<Rightarrow> app \<Rightarrow> app" where
  "add_terminal t s = s\<lparr>as_terminals := hm_insert (t_id t) t (as_terminals s)\<rparr>"

definition update_tab :: "nat \<Rightarrow> nat \<Rightarrow> (tab \<Rightarrow> tab) \<Rightarrow> app \<Rightarrow> app" where
  "update_tab ws_idx tab_idx f =
     update_ws ws_idx (\<lambda>ws. ws\<lparr>ws_tabs := (ws_tabs ws)[tab_idx := f (ws_tabs ws ! tab_idx)]\<rparr>)"

text \<open>The environment of a new process, sorted by key.\<close>

definition valid_env_entry :: "string \<times> string \<Rightarrow> bool" where
  "valid_env_entry entry =
     (let (key, value) = entry
      in key \<noteq> '''' \<and> CHR ''='' \<notin> set key \<and> CHR 0x00 \<notin> set key \<and> CHR 0x00 \<notin> set value)"

definition string_less_eq :: "string \<Rightarrow> string \<Rightarrow> bool" where
  "string_less_eq a b = (a = b \<or> (map code a, map code b) \<in> lexord {(x, y). x < y})"

fun insert_by_key :: "string \<times> string \<Rightarrow> (string \<times> string) list \<Rightarrow> (string \<times> string) list" where
  "insert_by_key e [] = [e]"
| "insert_by_key e (x # xs) = (if string_less_eq (fst e) (fst x) then e # x # xs else x # insert_by_key e xs)"

definition normalize_launch_env :: "(string, string) hmap \<Rightarrow> (string \<times> string) list response" where
  "normalize_launch_env env =
     (if list_all valid_env_entry env then Inr (foldr insert_by_key env []) else Inl ''invalid_env'')"

section \<open>Workspaces\<close>

definition workspace_creation_source :: "app \<Rightarrow> nat option" where
  "workspace_creation_source s =
     (if as_mode s = ModeNavigate \<and> ws_at s (as_selected s) \<noteq> None then Some (as_selected s)
      else or_else (as_active s) (map_option (\<lambda>_. as_selected s) (ws_at s (as_selected s))))"

definition create_workspace_with_launch_env :: "instant \<Rightarrow> launch \<Rightarrow> bool \<Rightarrow> app \<Rightarrow> app \<times> nat option" where
  "create_workspace_with_launch_env now la focus s0 =
     (let (wid, next_workspace) = generate_workspace_id (as_next_workspace_id s0);
          (created, next_pane) = new_with_tab (as_next_pane_id s0) wid la;
          s = s0\<lparr>as_next_workspace_id := next_workspace, as_next_pane_id := next_pane\<rparr>
      in (case created of
            None \<Rightarrow> (s, None)
          | Some (ws, terminal) \<Rightarrow>
              (let s1 = add_terminal terminal s;
                   s2 = s1\<lparr>as_workspaces := as_workspaces s1 @ [ws]\<rparr>;
                   idx = length (as_workspaces s2) - 1;
                   s3 = remove_alias_shadowed_by_new_pane (tb_root_pane (ws_tabs ws ! 0)) s2;
                   s4 = (if focus \<or> as_active s3 = None then (switch_workspace idx s3)\<lparr>as_mode := ModeTerminal\<rparr> else s3)
               in (schedule_session_save now s4, Some idx))))"

definition handle_workspace_create ::
  "instant \<Rightarrow> (string, string) hmap \<Rightarrow> launch \<Rightarrow> bool \<Rightarrow> string option \<Rightarrow> app \<Rightarrow> app \<times> nat response" where
  "handle_workspace_create now env la focus label s =
     (case normalize_launch_env env of
        Inl e \<Rightarrow> (s, Inl e)
      | Inr _ \<Rightarrow>
          (case create_workspace_with_launch_env now la focus s of
             (s1, None) \<Rightarrow> (s1, Inl ''workspace_create_failed'')
           | (s1, Some idx) \<Rightarrow>
               ((case label of None \<Rightarrow> s1 | Some label \<Rightarrow> update_ws idx (set_custom_name label) s1), Inr idx)))"

definition find_workspace :: "app \<Rightarrow> string \<Rightarrow> nat option" where
  "find_workspace s wid =
     Option.bind (parse_workspace_id s wid) (\<lambda>idx. if idx < length (as_workspaces s) then Some idx else None)"

definition handle_workspace_focus :: "string \<Rightarrow> app \<Rightarrow> app \<times> nat response" where
  "handle_workspace_focus wid s =
     (case find_workspace s wid of
        None \<Rightarrow> (s, Inl ''workspace_not_found'')
      | Some idx \<Rightarrow> (switch_workspace idx s, Inr idx))"

definition handle_workspace_rename :: "instant \<Rightarrow> string \<Rightarrow> string \<Rightarrow> app \<Rightarrow> app \<times> nat response" where
  "handle_workspace_rename now wid label s =
     (case find_workspace s wid of
        None \<Rightarrow> (s, Inl ''workspace_not_found'')
      | Some idx \<Rightarrow> (schedule_session_save now (update_ws idx (set_custom_name label) s), Inr idx))"

definition handle_workspace_move :: "string \<Rightarrow> nat \<Rightarrow> app \<Rightarrow> app \<times> bool response" where
  "handle_workspace_move wid insert_idx s =
     (case find_workspace s wid of
        None \<Rightarrow> (s, Inl ''workspace_not_found'')
      | Some idx \<Rightarrow>
          if length (as_workspaces s) < insert_idx then (s, Inl ''workspace_move_failed'')
          else (let (s1, moved) = move_workspace idx insert_idx s in (s1, Inr moved)))"

definition handle_workspace_close :: "string \<Rightarrow> app \<Rightarrow> app \<times> unit response" where
  "handle_workspace_close wid s =
     (case find_workspace s wid of
        None \<Rightarrow> (s, Inl ''workspace_not_found'')
      | Some idx \<Rightarrow>
          (let ids = pane_ids_for_workspace s idx;
               s1 = close_selected_workspace (s\<lparr>as_selected := idx\<rparr>);
               s2 = remove_plugin_pane_records ids s1
           in (shutdown_detached_terminal_runtimes s2, Inr ())))"

section \<open>Tabs\<close>

definition handle_tab_create ::
  "instant \<Rightarrow> string option \<Rightarrow> (string, string) hmap \<Rightarrow> launch \<Rightarrow> bool \<Rightarrow> string option \<Rightarrow> app \<Rightarrow>
   app \<times> (nat \<times> nat) response" where
  "handle_tab_create now wid env la focus label s =
     (case (case wid of Some wid \<Rightarrow> parse_workspace_id s wid | None \<Rightarrow> as_active s) of
        None \<Rightarrow> (s, Inl ''workspace_not_found'')
      | Some ws_idx \<Rightarrow>
          (case normalize_launch_env env of
             Inl e \<Rightarrow> (s, Inl e)
           | Inr _ \<Rightarrow>
               (case ws_at s ws_idx of
                  None \<Rightarrow> (s, Inl ''tab_create_failed'')
                | Some ws \<Rightarrow>
                    (let ((ws', created), next_pane) = create_tab_with_runtime (as_next_pane_id s) la ws;
                         s1 = update_ws ws_idx (\<lambda>_. ws') (s\<lparr>as_next_pane_id := next_pane\<rparr>)
                     in (case created of
                           None \<Rightarrow> (s1, Inl ''tab_create_failed'')
                         | Some (tab_idx, terminal) \<Rightarrow>
                             (let s2 = remove_alias_shadowed_by_new_pane (tb_root_pane (ws_tabs ws' ! tab_idx))
                                         (add_terminal terminal s1);
                                  s3 = (case label of None \<Rightarrow> s2
                                        | Some label \<Rightarrow> update_tab ws_idx tab_idx (tab_set_custom_name label) s2);
                                  s4 = (if focus then (fst (switch_workspace_tab ws_idx tab_idx s3))\<lparr>as_mode := ModeTerminal\<rparr>
                                        else s3)
                              in (schedule_session_save now s4, Inr (ws_idx, tab_idx))))))))"

definition handle_tab_focus :: "string \<Rightarrow> app \<Rightarrow> app \<times> (nat \<times> nat) response" where
  "handle_tab_focus tid s =
     (case parse_tab_id s tid of
        None \<Rightarrow> (s, Inl ''tab_not_found'')
      | Some (ws_idx, tab_idx) \<Rightarrow> (fst (switch_workspace_tab ws_idx tab_idx s), Inr (ws_idx, tab_idx)))"

definition handle_tab_rename :: "instant \<Rightarrow> string \<Rightarrow> string \<Rightarrow> app \<Rightarrow> app \<times> (nat \<times> nat) response" where
  "handle_tab_rename now tid label s =
     (case parse_tab_id s tid of
        None \<Rightarrow> (s, Inl ''tab_not_found'')
      | Some (ws_idx, tab_idx) \<Rightarrow>
          (schedule_session_save now (update_tab ws_idx tab_idx (tab_set_custom_name label) s), Inr (ws_idx, tab_idx)))"

definition handle_tab_move :: "instant \<Rightarrow> string \<Rightarrow> nat \<Rightarrow> app \<Rightarrow> app \<times> bool response" where
  "handle_tab_move now tid insert_idx s =
     (case parse_tab_id s tid of
        None \<Rightarrow> (s, Inl ''tab_not_found'')
      | Some (ws_idx, tab_idx) \<Rightarrow>
          if length (ws_tabs (as_workspaces s ! ws_idx)) < insert_idx then (s, Inl ''tab_move_failed'')
          else
            (let (ws', moved) = move_tab tab_idx insert_idx (as_workspaces s ! ws_idx);
                 s1 = update_ws ws_idx (\<lambda>_. ws') s
             in ((if moved then schedule_session_save now s1 else s1), Inr moved)))"

definition handle_tab_close :: "instant \<Rightarrow> string \<Rightarrow> app \<Rightarrow> app \<times> unit response" where
  "handle_tab_close now tid s =
     (case parse_tab_id s tid of
        None \<Rightarrow> (s, Inl ''tab_not_found'')
      | Some (ws_idx, tab_idx) \<Rightarrow>
          (let terminal_ids = terminal_ids_for_tab s ws_idx tab_idx;
               ids = pane_ids_for_tab s ws_idx tab_idx;
               ws = as_workspaces s ! ws_idx
           in if length (ws_tabs ws) \<le> 1 then (s, Inl ''tab_close_failed'')
              else
                (let (ws', closed) = close_tab tab_idx ws in
                 if \<not> closed then (s, Inl ''tab_close_failed'')
                 else
                   (let s1 = remove_plugin_pane_records ids (update_ws ws_idx (\<lambda>_. ws') s);
                        s2 = shutdown_detached_terminal_runtimes (remove_unattached_terminal_ids terminal_ids s1)
                    in (schedule_session_save now s2, Inr ())))))"

end
