(* ===== verification/App_Api_Panes.thy ===== *)
theory App_Api_Panes
  imports App_Api
begin

text \<open>
  What the requests of the API do to panes (\<open>src/src/app/api/panes.rs\<close>): splitting, focus,
  resizing, swapping, zooming, renaming and closing. \<open>None\<close> is a panic: of the layout or of
  an \<open>unwrap\<close> of a description that does not exist. As in App_Api the descriptions themselves
  are left out, but not whether they exist.
\<close>

section \<open>Descriptions\<close>

definition pane_info_exists :: "app \<Rightarrow> nat \<Rightarrow> pane_id \<Rightarrow> bool" where
  "pane_info_exists s ws_idx i =
     is_some_and (ws_at s ws_idx) (\<lambda>ws.
       is_some_and (pane_state_of ws i) (\<lambda>pane. hm_contains_key (as_terminals s) (pn_terminal pane))
       \<and> is_some_and (find_tab_index_for_pane ws i) (\<lambda>tab_idx.
            public_pane_id s ws_idx i \<noteq> None \<and> public_tab_id s ws_idx tab_idx \<noteq> None))"

definition layout_snapshot_exists :: "app \<Rightarrow> nat \<Rightarrow> nat \<Rightarrow> bool" where
  "layout_snapshot_exists s ws_idx tab_idx =
     is_some_and (Option.bind (ws_at s ws_idx) (\<lambda>ws. tab_at ws tab_idx)) (\<lambda>t.
       public_pane_id s ws_idx (tl_focus (tb_layout t)) \<noteq> None \<and> public_tab_id s ws_idx tab_idx \<noteq> None)"

section \<open>Which pane is meant\<close>

definition focused_pane_of :: "app \<Rightarrow> nat \<Rightarrow> (nat \<times> pane_id) option" where
  "focused_pane_of s ws_idx = map_option (Pair ws_idx) (Option.bind (ws_at s ws_idx) focused_pane_id)"

definition resolve_optional_pane :: "app \<Rightarrow> string option \<Rightarrow> (nat \<times> pane_id) option" where
  "resolve_optional_pane s name =
     (case name of
        Some name \<Rightarrow> parse_pane_id s name
      | None \<Rightarrow> Option.bind (as_active s) (focused_pane_of s))"

definition directional_pane_target ::
  "rect_ctor \<Rightarrow> app \<Rightarrow> nat \<Rightarrow> nat \<Rightarrow> pane_id \<Rightarrow> nav_direction \<Rightarrow> pane_id option" where
  "directional_pane_target rn s ws_idx tab_idx source nav =
     Option.bind (Option.bind (ws_at s ws_idx) (\<lambda>ws. tab_at ws tab_idx)) (\<lambda>t.
       let ps = panes rn (tb_layout t) (as_terminal_area s) in
       Option.bind (find (\<lambda>p. pi_id p = source) ps) (\<lambda>p. find_in_direction p nav ps))"

section \<open>Splitting\<close>

definition split_target :: "app \<Rightarrow> string option \<Rightarrow> string option \<Rightarrow> (nat \<times> pane_id) option" where
  "split_target s target_name wid =
     (case target_name of
        Some name \<Rightarrow> parse_pane_id s name
      | None \<Rightarrow>
          (case wid of
             Some wid \<Rightarrow> Option.bind (parse_workspace_id s wid) (focused_pane_of s)
           | None \<Rightarrow> Option.bind (as_active s) (focused_pane_of s)))"

definition handle_pane_split ::
  "instant \<Rightarrow> string option \<Rightarrow> string option \<Rightarrow> direction \<Rightarrow> f32 option \<Rightarrow> (string, string) hmap \<Rightarrow> launch \<Rightarrow> bool \<Rightarrow>
   app \<Rightarrow> (app \<times> pane_id response) option" where
  "handle_pane_split now target_name wid direction ratio env la focus s =
     (case split_target s target_name wid of
        None \<Rightarrow> Some (s, Inl ''pane_not_found'')
      | Some (ws_idx, target) \<Rightarrow>
          (case normalize_launch_env env of
             Inl e \<Rightarrow> Some (s, Inl e)
           | Inr _ \<Rightarrow>
               (let previous_focus = current_pane_focus_target s in
                case ws_at s ws_idx of
                  None \<Rightarrow> Some (s, Inl ''pane_not_found'')
                | Some ws \<Rightarrow>
                    Option.bind (split_pane_with_runtime (as_next_pane_id s) target direction ratio la focus ws)
                      (\<lambda>((ws', result), next_pane).
                        let s1 = update_ws ws_idx (\<lambda>_. ws') (s\<lparr>as_next_pane_id := next_pane\<rparr>) in
                        (case result of
                           None \<Rightarrow> Some (s1, Inl ''pane_not_found'')
                         | Some (_, None) \<Rightarrow> Some (s1, Inl ''pane_split_failed'')
                         | Some (tab_idx, Some pane) \<Rightarrow>
                             (let s2 = (if focus then
                                    settle_terminal_mode_after_focus
                                      (record_pane_focus_change previous_focus ws_idx (np_pane_id pane)
                                        (fst (switch_workspace_tab ws_idx tab_idx s1)))
                                  else s1);
                                  s3 = add_terminal (np_terminal pane)
                                         (remove_alias_shadowed_by_new_pane (np_pane_id pane) s2);
                                  s4 = schedule_session_save now s3
                              in if pane_info_exists s4 ws_idx (np_pane_id pane) then Some (s4, Inr (np_pane_id pane))
                                 else None))))))"

section \<open>Focus\<close>

definition handle_pane_focus :: "string \<Rightarrow> app \<Rightarrow> app \<times> pane_id response" where
  "handle_pane_focus name s =
     (case parse_pane_id s name of
        None \<Rightarrow> (s, Inl ''pane_not_found'')
      | Some (ws_idx, i) \<Rightarrow>
          if find_tab_index_for_pane (as_workspaces s ! ws_idx) i = None then (s, Inl ''pane_not_found'')
          else
            (let s1 = fst (focus_pane_in_workspace ws_idx i s);
                 s2 = settle_terminal_mode_after_focus (fst (mark_active_tab_seen s1))
             in if pane_info_exists s2 ws_idx i then (s2, Inr i) else (s2, Inl ''pane_not_found'')))"

definition handle_pane_focus_direction ::
  "rect_ctor \<Rightarrow> string option \<Rightarrow> nav_direction \<Rightarrow> app \<Rightarrow> app \<times> bool response" where
  "handle_pane_focus_direction rn name nav s =
     (case resolve_optional_pane s name of
        None \<Rightarrow> (s, Inl ''pane_not_found'')
      | Some (ws_idx, source) \<Rightarrow>
          (case find_tab_index_for_pane (as_workspaces s ! ws_idx) source of
             None \<Rightarrow> (s, Inl ''pane_not_found'')
           | Some tab_idx \<Rightarrow>
               if public_pane_id s ws_idx source = None then (s, Inl ''pane_not_found'')
               else
                 (let target = directional_pane_target rn s ws_idx tab_idx source nav;
                      s1 = (case target of
                              None \<Rightarrow> s
                            | Some target \<Rightarrow>
                                settle_terminal_mode_after_focus
                                  (fst (switch_workspace_tab ws_idx tab_idx
                                    (fst (focus_pane_in_workspace ws_idx target s)))))
                  in if layout_snapshot_exists s1 ws_idx tab_idx then (s1, Inr (target \<noteq> None))
                     else (s1, Inl ''pane_layout_unavailable''))))"

section \<open>Resizing\<close>

definition f32_0_05 :: f32 where
  "f32_0_05 = Fin (13421773 * 2 ^ 121)"

text \<open>\<open>filter(is_finite).unwrap_or(0.05).abs().min(0.5)\<close>\<close>

definition resize_amount :: "f32 option \<Rightarrow> f32" where
  "resize_amount amount =
     (case (case amount of Some (Fin a) \<Rightarrow> Fin a | _ \<Rightarrow> f32_0_05) of
        Fin a \<Rightarrow> if f32_lt f32_0_5 (Fin \<bar>a\<bar>) then f32_0_5 else Fin \<bar>a\<bar>
      | x \<Rightarrow> x)"

definition handle_pane_resize ::
  "rect_ctor \<Rightarrow> instant \<Rightarrow> string option \<Rightarrow> nav_direction \<Rightarrow> f32 option \<Rightarrow> app \<Rightarrow> app \<times> bool response" where
  "handle_pane_resize rn now name nav amount s =
     (case resolve_optional_pane s name of
        None \<Rightarrow> (s, Inl ''pane_not_found'')
      | Some (ws_idx, i) \<Rightarrow>
          (case find_tab_index_for_pane (as_workspaces s ! ws_idx) i of
             None \<Rightarrow> (s, Inl ''pane_not_found'')
           | Some tab_idx \<Rightarrow>
               if public_pane_id s ws_idx i = None then (s, Inl ''pane_not_found'')
               else
                 (let t = ws_tabs (as_workspaces s ! ws_idx) ! tab_idx;
                      (layout, changed) = resize_pane rn (tb_layout t) i nav (resize_amount amount) (as_terminal_area s);
                      s1 = update_tab ws_idx tab_idx (\<lambda>t. t\<lparr>tb_layout := layout\<rparr>) s;
                      s2 = (if changed then schedule_session_save now s1 else s1)
                  in if layout_snapshot_exists s2 ws_idx tab_idx then (s2, Inr changed)
                     else (s2, Inl ''pane_layout_unavailable''))))"

section \<open>Swapping\<close>

datatype pane_swap_reason = SwapNoNeighbor | SwapSamePane | SwapNotFound | SwapCrossTab

text \<open>The two panes to swap: a source with a direction, or two names. The result is the workspace
  and tab that the answer describes, the source, the target, and why nothing is swapped.\<close>

definition locate_pane :: "app \<Rightarrow> string \<Rightarrow> (nat \<times> nat \<times> pane_id) option" where
  "locate_pane s name =
     Option.bind (parse_pane_id s name) (\<lambda>(ws_idx, i).
       map_option (\<lambda>tab_idx. (ws_idx, tab_idx, i)) (find_tab_index_for_pane (as_workspaces s ! ws_idx) i))"

definition swap_reason ::
  "(nat \<times> nat \<times> pane_id) option \<Rightarrow> (nat \<times> nat \<times> pane_id) option \<Rightarrow> pane_swap_reason option" where
  "swap_reason source target =
     (case (source, target) of
        (Some (source_ws, source_tab, i), Some (target_ws, target_tab, j)) \<Rightarrow>
          if i = j then Some SwapSamePane
          else if source_ws \<noteq> target_ws \<or> source_tab \<noteq> target_tab then Some SwapCrossTab
          else None
      | _ \<Rightarrow> Some SwapNotFound)"

definition resolve_swap ::
  "rect_ctor \<Rightarrow> app \<Rightarrow> nav_direction option \<Rightarrow> string option \<Rightarrow> string option \<Rightarrow> string option \<Rightarrow>
   (nat \<times> nat \<times> pane_id \<times> pane_id option \<times> pane_swap_reason option) response" where
  "resolve_swap rn s nav name source_name target_name =
     (let directional = (nav \<noteq> None); explicit = (source_name \<noteq> None \<or> target_name \<noteq> None) in
      if directional = explicit then Inl ''invalid_pane_swap''
      else
        (case nav of
           Some nav \<Rightarrow>
             (case resolve_optional_pane s name of
                None \<Rightarrow> Inl ''pane_not_found''
              | Some (ws_idx, source) \<Rightarrow>
                  (case find_tab_index_for_pane (as_workspaces s ! ws_idx) source of
                     None \<Rightarrow> Inl ''pane_not_found''
                   | Some tab_idx \<Rightarrow>
                       (case directional_pane_target rn s ws_idx tab_idx source nav of
                          Some target \<Rightarrow> Inr (ws_idx, tab_idx, source, Some target, None)
                        | None \<Rightarrow> Inr (ws_idx, tab_idx, source, None, Some SwapNoNeighbor))))
         | None \<Rightarrow>
             (case (source_name, target_name) of
                (Some source_name, Some target_name) \<Rightarrow>
                  (let source = locate_pane s source_name;
                       target = locate_pane s target_name
                   in (case or_else (map_option (\<lambda>(w, t, _). (w, t)) source)
                              (or_else (map_option (\<lambda>(w, t, _). (w, t)) target)
                                (Option.bind (as_active s) (\<lambda>w. map_option (\<lambda>ws. (w, ws_active_tab ws)) (ws_at s w)))) of
                         None \<Rightarrow> Inl ''pane_layout_unavailable''
                       | Some (ws_idx, tab_idx) \<Rightarrow>
                           Inr (ws_idx, tab_idx,
                             unwrap_or (or_else (map_option (\<lambda>(_, _, i). i) source)
                               (map_option (\<lambda>t. tl_focus (tb_layout t))
                                 (Option.bind (ws_at s ws_idx) (\<lambda>ws. tab_at ws tab_idx)))) 0,
                             map_option (\<lambda>(_, _, i). i) target, swap_reason source target)))
              | _ \<Rightarrow> Inl ''invalid_pane_swap'')))"

definition handle_pane_swap ::
  "rect_ctor \<Rightarrow> instant \<Rightarrow> nav_direction option \<Rightarrow> string option \<Rightarrow> string option \<Rightarrow> string option \<Rightarrow> app \<Rightarrow>
   app \<times> (bool \<times> pane_swap_reason option) response" where
  "handle_pane_swap rn now nav name source_name target_name s =
     (case resolve_swap rn s nav name source_name target_name of
        Inl e \<Rightarrow> (s, Inl e)
      | Inr (ws_idx, tab_idx, source, target, reason) \<Rightarrow>
          (let (s1, changed) =
             (case (reason, target, Option.bind (ws_at s ws_idx) (\<lambda>ws. tab_at ws tab_idx)) of
                (None, Some target, Some t) \<Rightarrow>
                  (let previous_focus = current_pane_focus_target s;
                       (layout, changed) = swap_panes (tb_layout t) source target;
                       s1 = update_tab ws_idx tab_idx (\<lambda>t. t\<lparr>tb_layout := focus_pane layout source\<rparr>) s
                   in if changed then
                        (schedule_session_save now (mark_session_dirty
                           (record_pane_focus_change previous_focus ws_idx source
                             (fst (switch_workspace_tab ws_idx tab_idx s1)))), True)
                      else (s1, False))
              | _ \<Rightarrow> (s, False))
           in if layout_snapshot_exists s1 ws_idx tab_idx then (s1, Inr (changed, reason))
              else (s1, Inl ''pane_layout_unavailable'')))"

section \<open>Zooming, renaming and closing\<close>

definition handle_pane_zoom ::
  "instant \<Rightarrow> string option \<Rightarrow> zoom_command \<Rightarrow> app \<Rightarrow> app \<times> zoom_outcome response" where
  "handle_pane_zoom now name command s =
     (case resolve_optional_pane s name of
        None \<Rightarrow> (s, Inl ''pane_not_found'')
      | Some (ws_idx, i) \<Rightarrow>
          (case find_tab_index_for_pane (as_workspaces s ! ws_idx) i of
             None \<Rightarrow> (s, Inl ''pane_not_found'')
           | Some tab_idx \<Rightarrow>
               if public_pane_id s ws_idx i = None then (s, Inl ''pane_not_found'')
               else
                 (case apply_pane_zoom ws_idx i command s of
                    (s1, None) \<Rightarrow> (s1, Inl ''pane_not_found'')
                  | (s1, Some outcome) \<Rightarrow>
                      (let s2 = (if zo_changed outcome \<or> zo_focus_changed outcome then schedule_session_save now s1 else s1);
                           s3 = settle_terminal_mode_after_focus s2
                       in if layout_snapshot_exists s3 ws_idx tab_idx then (s3, Inr outcome)
                          else (s3, Inl ''pane_layout_unavailable'')))))"

definition handle_pane_rename :: "string \<Rightarrow> string option \<Rightarrow> app \<Rightarrow> (app \<times> unit response) option" where
  "handle_pane_rename name label s =
     (case parse_pane_id s name of
        None \<Rightarrow> Some (s, Inl ''pane_not_found'')
      | Some (ws_idx, i) \<Rightarrow>
          (case Option.bind (ws_at s ws_idx) (\<lambda>ws. workspace_terminal_id ws i) of
             None \<Rightarrow> Some (s, Inl ''pane_not_found'')
           | Some terminal_id \<Rightarrow>
               (case hm_get (as_terminals s) terminal_id of
                  None \<Rightarrow> Some (s, Inl ''pane_not_found'')
                | Some t \<Rightarrow>
                    (let t' = (case map_option trim label of
                                 Some label \<Rightarrow> if label \<noteq> '''' then set_manual_label label t else clear_manual_label t
                               | None \<Rightarrow> clear_manual_label t);
                         s1 = mark_session_dirty (s\<lparr>as_terminals := hm_insert terminal_id t' (as_terminals s)\<rparr>)
                     in if pane_info_exists s1 ws_idx i then Some (s1, Inr ()) else None))))"

text \<open>\<open>close_pane\<close>: closing the last pane closes the workspace, and with a main checkout its linked
  worktrees, unless that has to be confirmed first.\<close>

definition handle_pane_close :: "instant \<Rightarrow> string \<Rightarrow> app \<Rightarrow> (app \<times> unit response) option" where
  "handle_pane_close now name s =
     (case parse_pane_id s name of
        None \<Rightarrow> Some (s, Inl ''pane_not_found'')
      | Some (ws_idx, i) \<Rightarrow>
          if public_pane_id s ws_idx i = None then Some (s, Inl ''pane_not_found'')
          else
            (let (s0, deferred) = (if close_pane_would_close_workspace s ws_idx i
                                   then confirm_implicit_worktree_group_close ws_idx s else (s, False)) in
             if deferred then Some (s0, Inl ''confirmation_required'')
             else
               (let terminal_id = terminal_id_for_pane s0 ws_idx i in
                map_option (\<lambda>(ws', should_close).
                    let s1 = remove_plugin_pane_records [i] (update_ws ws_idx (\<lambda>_. ws') s0) in
                    if should_close then
                      (shutdown_detached_terminal_runtimes (close_selected_workspace (s1\<lparr>as_selected := ws_idx\<rparr>)), Inr ())
                    else
                      (schedule_session_save now (shutdown_detached_terminal_runtimes
                         (remove_unattached_terminal_ids (case terminal_id of None \<Rightarrow> [] | Some t \<Rightarrow> [t]) s1)), Inr ()))
                  (workspace_close_pane i (as_workspaces s0 ! ws_idx)))))"

end
