(* ===== verification/App_Move.thy ===== *)
theory App_Move
  imports App_Api_Panes
begin

text \<open>
  Moving a pane to another tab, a new tab or a new workspace (\<open>handle_pane_move\<close> and
  \<open>recover_failed_pane_move\<close> of \<open>src/src/app/api/panes.rs\<close>). The pane is first taken out of
  its tab; a workspace it leaves empty is closed; then it is put in its new place. A pane that
  changes its workspace is still found under its old name. \<open>None\<close> is a panic. The directory
  \<open>std::env::current_dir\<close> yields is a parameter.
\<close>

datatype pane_move_destination =
  MoveToTab string "string option" direction "f32 option"
| MoveToNewTab "string option" "string option"
| MoveToNewWorkspace "string option" "string option"

datatype resolved_pane_move_destination =
  ExistingTab string pane_id direction f32 bool
| NewTab string "string option"
| NewWorkspace "string option" "string option"

datatype pane_move_reason = MoveSameTab | MoveZoomedTab

text \<open>What a move answers: nothing changed and why, or the place of the moved pane with the
  workspace and tab it left that are gone.\<close>

datatype pane_move_result =
  MoveUnchanged pane_move_reason
| Moved nat nat pane_id "string option" "string option"

record pane_move_recovery_context =
  rc_source_ws_idx :: nat
  rc_previous_workspace_id :: string
  rc_previous_workspace_label :: "string option"
  rc_previous_tab_label :: "string option"
  rc_previous_worktree_space :: "worktree_space option"
  rc_identity_cwd :: string

section \<open>The destination\<close>

definition unchanged_pane_move ::
  "app \<Rightarrow> nat \<Rightarrow> nat \<Rightarrow> pane_id \<Rightarrow> (nat \<times> nat) option \<Rightarrow> pane_move_reason \<Rightarrow> pane_move_result response" where
  "unchanged_pane_move s ws_idx tab_idx i target reason =
     (if \<not> layout_snapshot_exists s ws_idx tab_idx then Inl ''pane_layout_unavailable''
      else if is_some_and target (\<lambda>(w, t). \<not> layout_snapshot_exists s w t) then Inl ''pane_layout_unavailable''
      else if \<not> pane_info_exists s ws_idx i then Inl ''pane_not_found''
      else Inr (MoveUnchanged reason))"

text \<open>The result is the answer to give at once, or the destination. The identifier of a new
  tab's workspace is read at an index that was not checked: that is the panic.\<close>

definition resolve_move_destination ::
  "app \<Rightarrow> nat \<Rightarrow> nat \<Rightarrow> pane_id \<Rightarrow> string \<Rightarrow> pane_move_destination \<Rightarrow>
   (pane_move_result response + resolved_pane_move_destination) option" where
  "resolve_move_destination s ws_idx tab_idx i previous_workspace_id destination =
     (case destination of
        MoveToTab tid target_name split ratio \<Rightarrow>
          (case parse_tab_id s tid of
             None \<Rightarrow> Some (Inl (Inl ''tab_not_found''))
           | Some (target_ws, target_tab) \<Rightarrow>
               if ws_idx = target_ws \<and> tab_idx = target_tab then
                 Some (Inl (unchanged_pane_move s ws_idx tab_idx i None MoveSameTab))
               else if tb_zoomed (ws_tabs (as_workspaces s ! target_ws) ! target_tab) then
                 Some (Inl (unchanged_pane_move s ws_idx tab_idx i (Some (target_ws, target_tab)) MoveZoomedTab))
               else
                 (case (case target_name of
                          Some raw \<Rightarrow>
                            Option.bind (parse_pane_id s raw) (\<lambda>(pane_ws, j).
                              if pane_ws \<noteq> target_ws
                                 \<or> find_tab_index_for_pane (as_workspaces s ! pane_ws) j \<noteq> Some target_tab
                              then None else Some j)
                        | None \<Rightarrow> Some (tl_focus (tb_layout (ws_tabs (as_workspaces s ! target_ws) ! target_tab)))) of
                    None \<Rightarrow> Some (Inl (Inl ''target_pane_not_found''))
                  | Some target \<Rightarrow>
                      (case public_tab_id s target_ws target_tab of
                         None \<Rightarrow> Some (Inl (Inl ''tab_not_found''))
                       | Some target_tid \<Rightarrow>
                           Some (Inr (ExistingTab target_tid target split (unwrap_or ratio f32_0_5) (ws_idx \<noteq> target_ws))))))
      | MoveToNewTab wid label \<Rightarrow>
          (case wid of
             None \<Rightarrow> Some (Inr (NewTab previous_workspace_id label))
           | Some wid \<Rightarrow>
               (case parse_workspace_id s wid of
                  None \<Rightarrow> Some (Inl (Inl ''workspace_not_found''))
                | Some target_ws \<Rightarrow>
                    map_option (\<lambda>target_wid. Inr (NewTab target_wid label)) (public_workspace_id s target_ws)))
      | MoveToNewWorkspace label tab_label \<Rightarrow> Some (Inr (NewWorkspace label tab_label)))"

definition is_cross_workspace :: "string \<Rightarrow> resolved_pane_move_destination \<Rightarrow> bool" where
  "is_cross_workspace previous_workspace_id resolved =
     (case resolved of
        ExistingTab _ _ _ _ cross \<Rightarrow> cross
      | NewTab wid _ \<Rightarrow> wid \<noteq> previous_workspace_id
      | NewWorkspace _ _ \<Rightarrow> True)"

section \<open>Leaving\<close>

text \<open>The workspace that the pane left empty is removed, and the active and selected workspace
  stay the same unless they were it.\<close>

definition shift_after_removal :: "nat \<Rightarrow> nat \<Rightarrow> nat \<Rightarrow> nat" where
  "shift_after_removal removed n idx =
     (if idx = removed then min removed (n - 1) else if removed < idx then idx - 1 else idx)"

definition close_emptied_workspace :: "nat \<Rightarrow> app \<Rightarrow> app" where
  "close_emptied_workspace ws_idx s0 =
     (let s = s0\<lparr>as_workspaces := remove_at ws_idx (as_workspaces s0)\<rparr>;
          n = length (as_workspaces s)
      in if as_workspaces s = [] then s\<lparr>as_active := None, as_selected := 0\<rparr>
         else s\<lparr>as_active := map_option (shift_after_removal ws_idx n) (as_active s),
                as_selected := shift_after_removal ws_idx n (as_selected s)\<rparr>)"

definition leave_workspace :: "nat \<Rightarrow> pane_id \<Rightarrow> string \<Rightarrow> bool \<Rightarrow> bool \<Rightarrow> app \<Rightarrow> app" where
  "leave_workspace ws_idx i previous_name emptied cross s =
     (let s1 = (if cross then
            (update_ws ws_idx (unregister_moved_pane i) s)
              \<lparr>as_public_pane_id_aliases := hm_insert previous_name i (as_public_pane_id_aliases s)\<rparr>
          else s)
      in if emptied \<and> cross then close_emptied_workspace ws_idx s1 else s1)"

definition recover_failed_pane_move ::
  "instant \<Rightarrow> pane_move_recovery_context \<Rightarrow> moved_pane \<Rightarrow> app \<Rightarrow> app option" where
  "recover_failed_pane_move now rc moved s =
     (case parse_workspace_id s (rc_previous_workspace_id rc) of
        Some ws_idx \<Rightarrow>
          (if ws_idx < length (as_workspaces s) then
             Some (schedule_session_save now (mark_session_dirty
               (update_ws ws_idx (\<lambda>ws. fst (create_tab_from_existing_pane moved (rc_previous_tab_label rc) ws)) s)))
           else None)
      | None \<Rightarrow>
          (let (wid, next_workspace) = generate_workspace_id (as_next_workspace_id s);
               ws = workspace_from_existing_pane wid (rc_previous_workspace_label rc) (rc_previous_tab_label rc)
                      (rc_identity_cwd rc) moved;
               restored = ws\<lparr>ws_id := rc_previous_workspace_id rc, ws_worktree_space := rc_previous_worktree_space rc\<rparr>;
               insert_idx = min (rc_source_ws_idx rc) (length (as_workspaces s))
           in Some (schedule_session_save now (mark_session_dirty
                (s\<lparr>as_next_workspace_id := next_workspace,
                   as_active := map_option (\<lambda>active. if insert_idx \<le> active then active + 1 else active) (as_active s),
                   as_selected := (if insert_idx \<le> as_selected s \<and> as_workspaces s \<noteq> [] then as_selected s + 1
                                   else as_selected s),
                   as_workspaces := insert_at insert_idx restored (as_workspaces s)\<rparr>)))))"

section \<open>Arriving\<close>

text \<open>The new place of the pane: its workspace and tab, or a recovered failure.\<close>

definition place_moved_pane ::
  "string \<Rightarrow> instant \<Rightarrow> pane_move_recovery_context \<Rightarrow> string \<Rightarrow> bool \<Rightarrow> resolved_pane_move_destination \<Rightarrow> moved_pane \<Rightarrow>
   app \<Rightarrow> (app \<times> (nat \<times> nat) option) option" where
  "place_moved_pane current_dir now rc source_terminal focus resolved moved s =
     (case resolved of
        ExistingTab tid target split ratio _ \<Rightarrow>
          (case parse_tab_id s tid of
             None \<Rightarrow> map_option (\<lambda>s. (s, None)) (recover_failed_pane_move now rc moved s)
           | Some (target_ws, target_tab) \<Rightarrow>
               (let ws = as_workspaces s ! target_ws;
                    previous_focus = tl_focus (tb_layout (ws_tabs ws ! target_tab));
                    (ws', ok) = insert_moved_pane_into_tab target_tab target moved split ratio ws
                in if \<not> ok then map_option (\<lambda>s. (s, None)) (recover_failed_pane_move now rc moved s)
                   else
                     (let s1 = update_ws target_ws (\<lambda>_. ws') s;
                          s2 = (if focus then s1
                                else update_tab target_ws target_tab
                                  (\<lambda>t. t\<lparr>tb_layout := focus_pane (tb_layout t) previous_focus\<rparr>) s1)
                      in Some (s2, Some (target_ws, target_tab)))))
      | NewTab wid label \<Rightarrow>
          (case parse_workspace_id s wid of
             None \<Rightarrow> map_option (\<lambda>s. (s, None)) (recover_failed_pane_move now rc moved s)
           | Some target_ws \<Rightarrow>
               (case ws_at s target_ws of
                  None \<Rightarrow> None
                | Some ws \<Rightarrow>
                    (let (ws', tab_idx) = create_tab_from_existing_pane moved label ws
                     in Some (update_ws target_ws (\<lambda>_. ws') s, Some (target_ws, tab_idx)))))
      | NewWorkspace label tab_label \<Rightarrow>
          (let cwd = (case hm_get (as_terminals s) source_terminal of Some t \<Rightarrow> t_cwd t | None \<Rightarrow> current_dir);
               (wid, next_workspace) = generate_workspace_id (as_next_workspace_id s);
               ws = workspace_from_existing_pane wid label tab_label cwd moved;
               s1 = s\<lparr>as_next_workspace_id := next_workspace, as_workspaces := as_workspaces s @ [ws]\<rparr>
           in Some (s1, Some (length (as_workspaces s1) - 1, 0))))"

definition settle_moved_pane ::
  "instant \<Rightarrow> pane_focus option \<Rightarrow> bool \<Rightarrow> nat \<Rightarrow> nat \<Rightarrow> pane_id \<Rightarrow> app \<Rightarrow> app" where
  "settle_moved_pane now previous_focus focus target_ws target_tab i s =
     (let s1 = (if focus \<or> as_active s = None then
            settle_terminal_mode_after_focus
              (record_pane_focus_change previous_focus target_ws i
                (fst (switch_workspace_tab target_ws target_tab s)))
          else s)
      in schedule_session_save now (mark_session_dirty (remove_alias_shadowed_by_new_pane i s1)))"

section \<open>The move\<close>

definition move_pane_to ::
  "string \<Rightarrow> instant \<Rightarrow> nat \<Rightarrow> nat \<Rightarrow> pane_id \<Rightarrow> string \<Rightarrow> string \<Rightarrow> bool \<Rightarrow> resolved_pane_move_destination \<Rightarrow> app \<Rightarrow>
   (app \<times> pane_move_result response) option" where
  "move_pane_to current_dir now ws_idx tab_idx i previous_name source_terminal focus resolved s =
     (let ws = as_workspaces s ! ws_idx;
          previous_tab_id = unwrap_or (public_tab_id s ws_idx tab_idx) '''';
          rc = \<lparr>rc_source_ws_idx = ws_idx, rc_previous_workspace_id = ws_id ws,
                rc_previous_workspace_label = ws_custom_name ws,
                rc_previous_tab_label = tb_custom_name (ws_tabs ws ! tab_idx),
                rc_previous_worktree_space = ws_worktree_space ws, rc_identity_cwd = ws_identity_cwd ws\<rparr>;
          previous_focus = current_pane_focus_target s
      in Option.bind (take_pane_for_move i ws) (\<lambda>(ws', taken).
           let s1 = update_ws ws_idx (\<lambda>_. ws') s in
           (case taken of
              None \<Rightarrow> Some (s1, Inl ''pane_move_failed'')
            | Some taken \<Rightarrow>
                (let cross = is_cross_workspace (ws_id ws) resolved;
                     s2 = leave_workspace ws_idx i previous_name (tk_workspace_empty taken) cross s1
                 in Option.bind (place_moved_pane current_dir now rc source_terminal focus resolved (tk_moved taken) s2)
                      (\<lambda>(s3, place).
                        (case place of
                           None \<Rightarrow> Some (s3, Inl ''pane_move_failed'')
                         | Some (target_ws, target_tab) \<Rightarrow>
                             (let s4 = settle_moved_pane now previous_focus focus target_ws target_tab i s3 in
                              if \<not> pane_info_exists s4 target_ws i then Some (s4, Inl ''pane_move_failed'')
                              else if \<not> layout_snapshot_exists s4 target_ws target_tab then
                                Some (s4, Inl ''pane_layout_unavailable'')
                              else
                                Some (s4, Inr (Moved target_ws target_tab i
                                  (if tk_workspace_empty taken \<and> cross then Some (ws_id ws) else None)
                                  (map_option (\<lambda>_. previous_tab_id) (tk_removed_tab_idx taken)))))))))))"

definition handle_pane_move ::
  "string \<Rightarrow> instant \<Rightarrow> string \<Rightarrow> pane_move_destination \<Rightarrow> bool \<Rightarrow> app \<Rightarrow> (app \<times> pane_move_result response) option" where
  "handle_pane_move current_dir now name destination focus s =
     (case locate_pane s name of
        None \<Rightarrow> Some (s, Inl ''pane_not_found'')
      | Some (ws_idx, tab_idx, i) \<Rightarrow>
          (let ws = as_workspaces s ! ws_idx;
               previous_name = unwrap_or (public_pane_id s ws_idx i) name
           in if public_tab_id s ws_idx tab_idx = None then Some (s, Inl ''tab_not_found'')
              else
                (case tab_terminal_id (ws_tabs ws ! tab_idx) i of
                   None \<Rightarrow> Some (s, Inl ''pane_not_found'')
                 | Some source_terminal \<Rightarrow>
                     if tb_zoomed (ws_tabs ws ! tab_idx) then
                       Some (s, unchanged_pane_move s ws_idx tab_idx i None MoveZoomedTab)
                     else
                       Option.bind (resolve_move_destination s ws_idx tab_idx i (ws_id ws) destination)
                         (\<lambda>resolved. (case resolved of
                            Inl answer \<Rightarrow> Some (s, answer)
                          | Inr resolved \<Rightarrow>
                              move_pane_to current_dir now ws_idx tab_idx i previous_name source_terminal focus resolved s)))))"

end
