(* ===== verification/App_Notify.thy ===== *)
theory App_Notify
  imports App_State
begin

text \<open>
  Notifications of \<open>src/src/app/actions.rs\<close>: which change of a pane's agent makes a sound or
  a toast, when it is delivered at once or later, and what the delivery shows. The label that
  \<open>derive_label_from_cwd\<close> finds for a directory (it looks for a git repository) is a
  parameter. A sound that is played is appended to the list of played sounds.
\<close>

section \<open>Decisions\<close>

definition is_background_completion_transition :: "agent_state \<Rightarrow> agent_state \<Rightarrow> bool" where
  "is_background_completion_transition prev_state new_state =
     (new_state = Idle \<and> (prev_state = Working \<or> prev_state = Blocked))"

definition is_completion_transition_parts ::
  "agent_state \<Rightarrow> agent_state \<Rightarrow> string option \<Rightarrow> string option \<Rightarrow> bool" where
  "is_completion_transition_parts previous_state state previous_agent_label label =
     (is_background_completion_transition previous_state state
      \<or> previous_state = Unknown \<and> state = Idle \<and> previous_agent_label \<noteq> None \<and> previous_agent_label = label)"

definition is_completion_transition :: "effective_state_change \<Rightarrow> bool" where
  "is_completion_transition change =
     is_completion_transition_parts (ch_previous_state change) (ch_state change)
       (ch_previous_agent_label change) (ch_agent_label change)"

definition active_tab_suppresses_notifications :: "bool \<Rightarrow> bool option \<Rightarrow> bool" where
  "active_tab_suppresses_notifications is_active_tab outer_terminal_focus =
     (is_active_tab \<and> outer_terminal_focus \<noteq> Some False)"

definition notification_sound_for_state_change_with_agent_labels ::
  "bool \<Rightarrow> agent_state \<Rightarrow> agent_state \<Rightarrow> string option \<Rightarrow> string option \<Rightarrow> sound option" where
  "notification_sound_for_state_change_with_agent_labels suppress prev_state new_state previous_label label =
     (if new_state = prev_state then None
      else
        (case new_state of
           Blocked \<Rightarrow> Some SoundRequest
         | Idle \<Rightarrow> if is_completion_transition_parts prev_state new_state previous_label label \<and> \<not> suppress
                   then Some SoundDone else None
         | _ \<Rightarrow> None))"

definition notification_sound_for_effective_state_change :: "bool \<Rightarrow> effective_state_change \<Rightarrow> sound option" where
  "notification_sound_for_effective_state_change suppress change =
     (if ch_state change = ch_previous_state change then None
      else
        (case ch_state change of
           Blocked \<Rightarrow> Some SoundRequest
         | Idle \<Rightarrow> if is_completion_transition change \<and> \<not> suppress then Some SoundDone else None
         | _ \<Rightarrow> None))"

definition notification_toast_for_state_change_with_agent_labels ::
  "bool \<Rightarrow> agent_state \<Rightarrow> agent_state \<Rightarrow> string option \<Rightarrow> string option \<Rightarrow> toast_kind option" where
  "notification_toast_for_state_change_with_agent_labels suppress prev_state new_state previous_label label =
     (if suppress \<or> new_state = prev_state then None
      else
        (case new_state of
           Blocked \<Rightarrow> Some NeedsAttention
         | Idle \<Rightarrow> if is_completion_transition_parts prev_state new_state previous_label label
                   then Some Finished else None
         | _ \<Rightarrow> None))"

definition notification_toast_for_effective_state_change ::
  "bool \<Rightarrow> effective_state_change \<Rightarrow> toast_kind option" where
  "notification_toast_for_effective_state_change suppress change =
     (if suppress \<or> ch_state change = ch_previous_state change then None
      else
        (case ch_state change of
           Blocked \<Rightarrow> Some NeedsAttention
         | Idle \<Rightarrow> if is_completion_transition change then Some Finished else None
         | _ \<Rightarrow> None))"

record pane_state_update =
  up_pane_id :: pane_id
  up_ws_idx :: nat
  up_previous_agent_label :: "string option"
  up_previous_known_agent :: "agent option"
  up_previous_state :: agent_state
  up_previous_seen :: bool
  up_previous_presentation :: presentation
  up_agent_label :: "string option"
  up_known_agent :: "agent option"
  up_state :: agent_state
  up_seen :: bool
  up_presentation :: presentation

definition notification_toast_for_pane_state_update :: "bool \<Rightarrow> pane_state_update \<Rightarrow> toast_kind option" where
  "notification_toast_for_pane_state_update suppress update =
     (if suppress \<or> up_state update = up_previous_state update then None
      else notification_toast_for_state_change_with_agent_labels suppress (up_previous_state update)
             (up_state update) (up_previous_agent_label update) (up_agent_label update))"

definition toast_agent_label :: "string \<Rightarrow> string" where
  "toast_agent_label label = label"

definition toast_event_text :: "toast_kind \<Rightarrow> string" where
  "toast_event_text kind =
     (case kind of
        NeedsAttention \<Rightarrow> ''needs attention'' | Finished \<Rightarrow> ''finished'' | UpdateInstalled \<Rightarrow> ''updated'')"

definition sound_for_toast_kind :: "toast_kind \<Rightarrow> bool \<Rightarrow> sound option" where
  "sound_for_toast_kind kind suppress =
     (case kind of
        NeedsAttention \<Rightarrow> Some SoundRequest
      | Finished \<Rightarrow> if \<not> suppress then Some SoundDone else None
      | UpdateInstalled \<Rightarrow> None)"

definition for_agent :: "agent_sound_overrides \<Rightarrow> agent option \<Rightarrow> sound_setting" where
  "for_agent ov agent =
     (case agent of
        None \<Rightarrow> SettingDefault
      | Some Pi \<Rightarrow> sn_pi ov | Some Claude \<Rightarrow> sn_claude ov | Some Codex \<Rightarrow> sn_codex ov
      | Some Gemini \<Rightarrow> sn_gemini ov | Some Cursor \<Rightarrow> sn_cursor ov | Some Devin \<Rightarrow> sn_devin ov
      | Some Antigravity \<Rightarrow> sn_agy ov | Some Cline \<Rightarrow> sn_cline ov | Some Omp \<Rightarrow> SettingDefault
      | Some Mastracode \<Rightarrow> SettingDefault | Some OpenCode \<Rightarrow> sn_open_code ov
      | Some GithubCopilot \<Rightarrow> sn_github_copilot ov | Some Kimi \<Rightarrow> sn_kimi ov | Some Kiro \<Rightarrow> sn_kiro ov
      | Some Droid \<Rightarrow> sn_droid ov | Some Amp \<Rightarrow> sn_amp ov | Some Grok \<Rightarrow> sn_grok ov
      | Some Hermes \<Rightarrow> sn_hermes ov | Some Kilo \<Rightarrow> sn_kilo ov | Some Qodercli \<Rightarrow> sn_qodercli ov
      | Some Maki \<Rightarrow> sn_maki ov)"

definition sound_allows :: "sound_config \<Rightarrow> agent option \<Rightarrow> bool" where
  "sound_allows config agent = (if \<not> so_enabled config then False else for_agent (so_agents config) agent \<noteq> SettingOff)"

section \<open>Delivery\<close>

record delivery =
  de_pane_id :: pane_id
  de_workspace_id :: string
  de_agent_label :: string
  de_known_agent :: "agent option"
  de_kind :: toast_kind
  de_toast :: "toast option"
  de_client_notification :: "toast option"
  de_sound :: "sound option"

definition display_name :: "(string \<Rightarrow> string) \<Rightarrow> workspace \<Rightarrow> string" where
  "display_name label_of_cwd ws =
     (case ws_custom_name ws of Some name \<Rightarrow> name | None \<Rightarrow> label_of_cwd (ws_identity_cwd ws))"

definition separator :: string where
  "separator = '' '' @ [CHR 0xB7] @ '' ''"

definition notification_context :: "workspace \<Rightarrow> string \<Rightarrow> nat \<Rightarrow> pane_id \<Rightarrow> string" where
  "notification_context ws workspace_label ws_idx i =
     (let context = workspace_label @ separator @ map char_of (decimal (ws_idx + 1)) in
      if 1 < length (ws_tabs ws) then
        (case Option.bind (find_tab_index_for_pane ws i) (tab_display_name ws) of
           None \<Rightarrow> context
         | Some label \<Rightarrow> context @ separator @ label)
      else context)"

definition agent_notification_delivery ::
  "(string \<Rightarrow> string) \<Rightarrow> app \<Rightarrow> nat \<Rightarrow> pane_id \<Rightarrow> string \<Rightarrow> string \<Rightarrow> agent option \<Rightarrow> toast_kind \<Rightarrow> agent_state \<Rightarrow>
   delivery option" where
  "agent_notification_delivery label_of_cwd s ws_idx i workspace_id label known_agent kind expected_state =
     (case Option.bind (ws_at s ws_idx) (\<lambda>ws. Option.bind (pane_state_of ws i)
             (\<lambda>pane. hm_get (as_terminals s) (pn_terminal pane))) of
        None \<Rightarrow> None
      | Some t \<Rightarrow>
          if t_state t \<noteq> expected_state then None
          else if effective_agent_label t \<noteq> Some label then None
          else
            (let ws = as_workspaces s ! ws_idx;
                 is_active_tab = pane_is_in_active_tab s ws_idx i;
                 suppress = active_tab_suppresses_notifications is_active_tab (as_outer_terminal_focus s);
                 sound = (if sound_allows (as_sound s) known_agent then sound_for_toast_kind kind suppress else None);
                 built = \<lparr>to_kind = kind,
                          to_title = toast_agent_label label @ '' '' @ toast_event_text kind,
                          to_context = notification_context ws (display_name label_of_cwd ws) ws_idx i,
                          to_target = Some \<lparr>pf_workspace_id = workspace_id, pf_pane_id = i\<rparr>\<rparr>;
                 toast = (if \<not> is_active_tab then Some built else None);
                 client_notification = (if \<not> suppress then Some built else None)
             in if toast = None \<and> client_notification = None \<and> sound = None then None
                else Some \<lparr>de_pane_id = i, de_workspace_id = workspace_id, de_agent_label = label,
                           de_known_agent = known_agent, de_kind = kind, de_toast = toast,
                           de_client_notification = client_notification, de_sound = sound\<rparr>))"

definition apply_agent_notification_delivery :: "delivery \<Rightarrow> app \<Rightarrow> app" where
  "apply_agent_notification_delivery d s =
     (let s1 = (if as_local_sound_playback s
                then (case de_sound d of None \<Rightarrow> s | Some sound \<Rightarrow> s\<lparr>as_played_sounds := as_played_sounds s @ [sound]\<rparr>)
                else s)
      in if as_toast_delivery s1 = DeliveryHerduck
         then (case de_toast d of None \<Rightarrow> s1 | Some toast \<Rightarrow> s1\<lparr>as_toast := Some toast\<rparr>) else s1)"

definition MAX_TOAST_DELAY_SECONDS :: u64 where
  "MAX_TOAST_DELAY_SECONDS = 3600"

definition notification_deadline :: "u64 \<Rightarrow> instant \<Rightarrow> instant" where
  "notification_deadline delay_seconds now =
     unwrap_or (instant_checked_add now (unat (min delay_seconds MAX_TOAST_DELAY_SECONDS) * 10 ^ 9)) now"

definition record_or_deliver_agent_notification ::
  "(string \<Rightarrow> string) \<Rightarrow> instant \<Rightarrow> nat \<Rightarrow> pane_id \<Rightarrow> effective_state_change \<Rightarrow> app \<Rightarrow> app \<times> delivery option" where
  "record_or_deliver_agent_notification label_of_cwd now ws_idx i change s0 =
     (let s = s0\<lparr>as_pending_agent_notifications := hm_remove i (as_pending_agent_notifications s0)\<rparr>;
          suppress = active_tab_suppresses_notifications (pane_is_in_active_tab s ws_idx i) (as_outer_terminal_focus s);
          client_kind = notification_toast_for_effective_state_change suppress change;
          sound = notification_sound_for_effective_state_change suppress change
      in if client_kind = None \<and> sound = None then (s, None)
         else
           (case ch_agent_label change of
              None \<Rightarrow> (s, None)
            | Some label \<Rightarrow>
                (let kind = unwrap_or client_kind (case sound of Some SoundRequest \<Rightarrow> NeedsAttention | _ \<Rightarrow> Finished);
                     workspace_id = ws_id (as_workspaces s ! ws_idx)
                 in if as_toast_delay_seconds s = 0 then
                      (s, agent_notification_delivery label_of_cwd s ws_idx i workspace_id label
                            (ch_known_agent change) kind (ch_state change))
                    else
                      (s\<lparr>as_pending_agent_notifications := hm_insert i
                          \<lparr>pe_pane_id = i, pe_workspace_id = workspace_id, pe_agent_label = label,
                           pe_known_agent = ch_known_agent change, pe_kind = kind, pe_state = ch_state change,
                           pe_deadline = notification_deadline (as_toast_delay_seconds s) now\<rparr>
                          (as_pending_agent_notifications s)\<rparr>, None))))"

definition next_pending_agent_notification_deadline :: "app \<Rightarrow> instant option" where
  "next_pending_agent_notification_deadline s =
     min_by_key (\<lambda>t. t) (map pe_deadline (hm_values (as_pending_agent_notifications s)))"

definition drain_pane ::
  "(string \<Rightarrow> string) \<Rightarrow> pane_id \<Rightarrow> app \<times> delivery list \<Rightarrow> app \<times> delivery list" where
  "drain_pane label_of_cwd i acc =
     (let (s0, deliveries) = acc in
      case hm_get (as_pending_agent_notifications s0) i of
        None \<Rightarrow> (s0, deliveries)
      | Some pending \<Rightarrow>
          (let s = s0\<lparr>as_pending_agent_notifications := hm_remove i (as_pending_agent_notifications s0)\<rparr> in
           case Option.bind (index_of (\<lambda>ws. ws_id ws = pe_workspace_id pending) (as_workspaces s))
                  (\<lambda>ws_idx. agent_notification_delivery label_of_cwd s ws_idx (pe_pane_id pending)
                     (pe_workspace_id pending) (pe_agent_label pending) (pe_known_agent pending)
                     (pe_kind pending) (pe_state pending)) of
             None \<Rightarrow> (s, deliveries)
           | Some d \<Rightarrow> (apply_agent_notification_delivery d s, deliveries @ [d])))"

definition due_panes :: "instant \<Rightarrow> app \<Rightarrow> pane_id list" where
  "due_panes now s =
     map fst (filter (\<lambda>(_, pending). pe_deadline pending \<le> now) (as_pending_agent_notifications s))"

definition drain_due_agent_notifications :: "(string \<Rightarrow> string) \<Rightarrow> instant \<Rightarrow> app \<Rightarrow> app \<times> delivery list" where
  "drain_due_agent_notifications label_of_cwd now s =
     fold (drain_pane label_of_cwd) (due_panes now s) (s, [])"

end
