(* ===== verification/App_Events.thy ===== *)
theory App_Events
  imports App_Notify
begin

text \<open>
  The events that background tasks send to the application and how \<open>AppState\<close> handles them
  (\<open>src/src/events.rs\<close> and the event handling of \<open>src/src/app/actions.rs\<close>): reports on
  a pane go to its terminal, and what they change in the effective state goes to the pane, the
  notifications and the caller. Events that \<open>handle_app_event\<close> ignores are one constructor
  each. Whether a path is a directory is a parameter, and so are the label of a directory and
  the clock.
\<close>

datatype app_event =
  PaneDied pane_id
| StateChanged pane_id "agent option" agent_state bool bool bool instant
| HookStateReported pane_id string string agent_state "string option" "u64 option" "agent_session_ref option"
| AgentSessionReported pane_id string string "u64 option" "agent_session_ref option" "string option"
| HookMetadataReported pane_id agent_metadata_report
| HookAuthorityCleared pane_id "string option" "u64 option"
| HookAgentReleased pane_id string string "agent option" "u64 option"
| UpdateReady string string
| AgentDetectionManifestsUpdated "(agent \<times> string) list"
| ClipboardWrite "u8 list"
| PrefixInputSource bool
| TerminalCwdReported pane_id string
| GitStatusRefreshed
| WorktreeAddFinished
| WorktreeRemoveFinished
| PluginCommandFinished

section \<open>Reports\<close>

definition set_pane_seen :: "pane_id \<Rightarrow> bool \<Rightarrow> tab list \<Rightarrow> tab list" where
  "set_pane_seen i seen tabs =
     (case index_of (\<lambda>t. hm_contains_key (tb_panes t) i) tabs of
        None \<Rightarrow> tabs
      | Some k \<Rightarrow>
          tabs[k := (tabs ! k)\<lparr>tb_panes :=
            map (\<lambda>(j, pane). (j, if j = i then pane\<lparr>pn_seen := seen\<rparr> else pane)) (tb_panes (tabs ! k))\<rparr>])"

definition seen_after_change :: "bool \<Rightarrow> effective_state_change \<Rightarrow> bool \<Rightarrow> bool" where
  "seen_after_change suppress change seen =
     (if ch_state change \<noteq> Idle then True else if is_completion_transition change then suppress else seen)"

definition apply_pane_state_change ::
  "(string \<Rightarrow> string) \<Rightarrow> instant \<Rightarrow> nat \<Rightarrow> pane_id \<Rightarrow> effective_state_change \<Rightarrow> app \<Rightarrow> app \<times> bool option" where
  "apply_pane_state_change label_of_cwd now ws_idx i change s =
     (let suppress = active_tab_suppresses_notifications (pane_is_in_active_tab s ws_idx i) (as_outer_terminal_focus s) in
      case pane_state_of (as_workspaces s ! ws_idx) i of
        None \<Rightarrow> (s, None)
      | Some pane \<Rightarrow>
          (let seen = seen_after_change suppress change (pn_seen pane);
               s1 = update_ws ws_idx (\<lambda>ws. ws\<lparr>ws_tabs := set_pane_seen i seen (ws_tabs ws)\<rparr>) s;
               (s2, delivery) = record_or_deliver_agent_notification label_of_cwd now ws_idx i change s1
           in ((case delivery of None \<Rightarrow> s2 | Some d \<Rightarrow> apply_agent_notification_delivery d s2), Some seen)))"

definition make_update :: "pane_id \<Rightarrow> nat \<Rightarrow> bool \<Rightarrow> effective_state_change \<Rightarrow> bool \<Rightarrow> pane_state_update" where
  "make_update i ws_idx previous_seen change seen =
     \<lparr>up_pane_id = i, up_ws_idx = ws_idx, up_previous_agent_label = ch_previous_agent_label change,
      up_previous_known_agent = ch_previous_known_agent change, up_previous_state = ch_previous_state change,
      up_previous_seen = previous_seen, up_previous_presentation = ch_previous_presentation change,
      up_agent_label = ch_agent_label change, up_known_agent = ch_known_agent change,
      up_state = ch_state change, up_seen = seen, up_presentation = ch_presentation change\<rparr>"

definition workspace_of_pane :: "app \<Rightarrow> pane_id \<Rightarrow> nat option" where
  "workspace_of_pane s i = index_of (\<lambda>ws. pane_state_of ws i \<noteq> None) (as_workspaces s)"

definition announce_change ::
  "(string \<Rightarrow> string) \<Rightarrow> instant \<Rightarrow> nat \<Rightarrow> pane_id \<Rightarrow> string \<Rightarrow> bool \<Rightarrow> mutation \<Rightarrow> app \<Rightarrow> app \<times> pane_state_update option" where
  "announce_change label_of_cwd now ws_idx i terminal_id previous_seen mutation s =
     (let s1 = (if mu_session_ref_changed mutation then mark_session_dirty s else s) in
      case mu_change mutation of
        None \<Rightarrow> (s1, None)
      | Some change \<Rightarrow>
          (let s2 = (if ch_previous_state change \<noteq> ch_state change then
                 (let seq = as_next_agent_state_change_seq s1 + 1;
                      s' = s1\<lparr>as_next_agent_state_change_seq := seq\<rparr>
                  in (case hm_get (as_terminals s') terminal_id of
                        None \<Rightarrow> s'
                      | Some t \<Rightarrow> s'\<lparr>as_terminals := hm_insert terminal_id
                          (t\<lparr>t_last_agent_state_change_seq := Some seq\<rparr>) (as_terminals s')\<rparr>))
               else s1);
               (s3, seen) = apply_pane_state_change label_of_cwd now ws_idx i change s2
           in (s3, map_option (make_update i ws_idx previous_seen change) seen)))"

definition update_terminal_state ::
  "(string \<Rightarrow> string) \<Rightarrow> instant \<Rightarrow> pane_id \<Rightarrow> (terminal \<Rightarrow> terminal \<times> mutation option) \<Rightarrow> app \<Rightarrow>
   app \<times> pane_state_update option" where
  "update_terminal_state label_of_cwd now i update s =
     (case workspace_of_pane s i of
        None \<Rightarrow> (s, None)
      | Some ws_idx \<Rightarrow>
          (case pane_state_of (as_workspaces s ! ws_idx) i of
             None \<Rightarrow> (s, None)
           | Some pane \<Rightarrow>
               (case hm_get (as_terminals s) (pn_terminal pane) of
                  None \<Rightarrow> (s, None)
                | Some t \<Rightarrow>
                    (let (t', mutation) = update t;
                         s1 = s\<lparr>as_terminals := hm_insert (pn_terminal pane) t' (as_terminals s)\<rparr>
                     in (case mutation of
                           None \<Rightarrow> (s1, None)
                         | Some m \<Rightarrow> announce_change label_of_cwd now ws_idx i (pn_terminal pane) (pn_seen pane) m s1)))))"

definition publish_pane_process_exit_if_agent ::
  "(string \<Rightarrow> string) \<Rightarrow> instant \<Rightarrow> instant \<Rightarrow> pane_id \<Rightarrow> app \<Rightarrow> app \<times> pane_state_update option" where
  "publish_pane_process_exit_if_agent label_of_cwd observed_at clock i s =
     update_terminal_state label_of_cwd clock i (\<lambda>t.
       let agent = or_else (effective_known_agent t) (t_detected_agent t) in
       if agent = None \<and> \<not> live_full_lifecycle_hook_authority t then (t, None)
       else (let (t', m) = set_detected_state_with_screen_signals_at agent Idle False True observed_at clock t
             in (t', Some m))) s"

section \<open>A pane's process has died\<close>

definition handle_pane_died :: "pane_id \<Rightarrow> app \<Rightarrow> app" where
  "handle_pane_died i s0 =
     (let s = remove_plugin_pane_records [i]
                (s0\<lparr>as_pending_agent_notifications := hm_remove i (as_pending_agent_notifications s0)\<rparr>) in
      case index_of (\<lambda>ws. find_tab_index_for_pane ws i \<noteq> None) (as_workspaces s) of
        None \<Rightarrow> s
      | Some ws_idx \<Rightarrow>
          (let s1 = (if is_some_and (as_selection s) (\<lambda>sel. sel_pane sel = i)
                     then s\<lparr>as_selection := None, as_selection_autoscroll := False\<rparr> else s);
               pane_terminal_id = terminal_id_for_pane s1 ws_idx i;
               workspace_terminal_ids = terminal_ids_for_workspace s1 ws_idx;
               s2 = s1\<lparr>as_pane_id_aliases := hm_retain (\<lambda>_ alias. alias \<noteq> i) (as_pane_id_aliases s1),
                       as_public_pane_id_aliases := hm_retain (\<lambda>_ alias. alias \<noteq> i) (as_public_pane_id_aliases s1)\<rparr>
           in (case workspace_remove_pane i (as_workspaces s2 ! ws_idx) of
                 None \<Rightarrow> s2
               | Some (ws', should_close) \<Rightarrow>
                   (let s3 = mark_session_dirty (update_ws ws_idx (\<lambda>_. ws') s2)
                    in if should_close then
                         (let s4 = remove_unattached_terminal_ids workspace_terminal_ids
                                (s3\<lparr>as_workspaces := remove_at ws_idx (as_workspaces s3)\<rparr>);
                              n = length (as_workspaces s4)
                          in if as_workspaces s4 = [] then
                               s4\<lparr>as_active := None, as_selected := 0,
                                  as_mode := (if as_mode s4 = ModeTerminal then ModeNavigate else as_mode s4)\<rparr>
                             else
                               s4\<lparr>as_active := map_option (\<lambda>active. if n \<le> active then n - 1 else active) (as_active s4),
                                  as_selected := (if n \<le> as_selected s4 then n - 1 else as_selected s4)\<rparr>)
                       else remove_unattached_terminal_ids (case pane_terminal_id of None \<Rightarrow> [] | Some t \<Rightarrow> [t]) s3))))"

section \<open>Events\<close>

definition update_install_instruction :: "string \<Rightarrow> string" where
  "update_install_instruction command =
     (if command = ''herdr update'' then ''detach, run `herdr update`, then follow its restart guidance''
      else if command = ''brew update && brew upgrade herdr'' then
        ''detach, run `brew update && brew upgrade herdr`, then restart this Herdr session when ready''
      else if command = ''mise upgrade herdr'' then
        ''detach, run `mise upgrade herdr`, then restart this Herdr session when ready''
      else if command = ''update through Nix'' then
        ''detach, update through Nix, then restart this Herdr session when ready''
      else ''detach, run `'' @ command @ ''`, then restart this Herdr session when ready'')"

fun join :: "string \<Rightarrow> string list \<Rightarrow> string" where
  "join sep [] = ''''"
| "join sep [x] = x"
| "join sep (x # y # xs) = x @ sep @ join sep (y # xs)"

definition option_list :: "'a \<times> 'b option \<Rightarrow> 'a \<times> 'b list" where
  "option_list p = (fst p, (case snd p of None \<Rightarrow> [] | Some x \<Rightarrow> [x]))"

definition is_absolute :: "string \<Rightarrow> bool" where
  "is_absolute path = starts_with path ''/''"

definition handle_app_event ::
  "(string \<Rightarrow> string) \<Rightarrow> (string \<Rightarrow> bool) \<Rightarrow> instant \<Rightarrow> instant \<Rightarrow> app_event \<Rightarrow> app \<Rightarrow> app \<times> pane_state_update list" where
  "handle_app_event label_of_cwd is_dir now clock event s =
     (let report = (\<lambda>i update. option_list (update_terminal_state label_of_cwd clock i update s)) in
      case event of
        PaneDied i \<Rightarrow> (handle_pane_died i s, [])
      | UpdateReady version install_command \<Rightarrow>
          (let s1 = s\<lparr>as_update_available := Some version, as_update_install_command := install_command,
                      as_latest_release_notes_available := True, as_update_dismissed := True\<rparr>
           in ((if as_toast_delivery s1 = DeliveryHerduck then
                  s1\<lparr>as_toast := Some \<lparr>to_kind = UpdateInstalled, to_title = ''v'' @ version @ '' available'',
                     to_context = update_install_instruction install_command, to_target = None\<rparr>\<rparr>
                else s1), []))
      | AgentDetectionManifestsUpdated updated \<Rightarrow>
          ((if updated \<noteq> [] \<and> as_toast_delivery s = DeliveryHerduck then
              s\<lparr>as_toast := Some \<lparr>to_kind = UpdateInstalled, to_title = ''Agent detection rules updated'',
                 to_context = join '', '' (map (\<lambda>(agent, version). agent_label agent @ '' '' @ version) updated),
                 to_target = None\<rparr>\<rparr>
            else s), [])
      | StateChanged i agent state visible_blocker visible_working process_exited observed_at \<Rightarrow>
          report i (\<lambda>t. let (t', m) = set_detected_state_with_screen_signals_at agent state visible_blocker
                              process_exited observed_at clock t in (t', Some m))
      | HookStateReported i source label state message seq session_ref \<Rightarrow>
          if is_reserved_native_state_source source label
          then report i (set_agent_session_ref source label session_ref seq now clock)
          else report i (set_hook_authority_with_session_ref source label state message session_ref seq now clock)
      | AgentSessionReported i source label seq session_ref session_start_source \<Rightarrow>
          report i (set_agent_session_ref_for_session_start source label session_ref seq session_start_source now clock)
      | HookMetadataReported i metadata \<Rightarrow> report i (set_agent_metadata metadata now)
      | HookAuthorityCleared i source seq \<Rightarrow> report i (clear_hook_authority_with_mutation source seq now clock)
      | HookAgentReleased i source label _ seq \<Rightarrow>
          if is_reserved_native_state_source source label then (s, [])
          else report i (release_agent_with_mutation source label seq now clock)
      | TerminalCwdReported i cwd \<Rightarrow>
          (if \<not> is_absolute cwd \<or> \<not> is_dir cwd then (s, [])
           else
             (case find_map (\<lambda>ws. map_option pn_terminal (pane_state_of ws i)) (as_workspaces s) of
                None \<Rightarrow> (s, [])
              | Some terminal_id \<Rightarrow>
                  (case hm_get (as_terminals s) terminal_id of
                     None \<Rightarrow> (s, [])
                   | Some t \<Rightarrow>
                       ((if t_cwd t \<noteq> cwd
                         then mark_session_dirty (s\<lparr>as_terminals := hm_insert terminal_id (t\<lparr>t_cwd := cwd\<rparr>) (as_terminals s)\<rparr>)
                         else s), []))))
      | ClipboardWrite _ \<Rightarrow> (s, [])
      | PrefixInputSource _ \<Rightarrow> (s, [])
      | GitStatusRefreshed \<Rightarrow> (s, [])
      | WorktreeAddFinished \<Rightarrow> (s, [])
      | WorktreeRemoveFinished \<Rightarrow> (s, [])
      | PluginCommandFinished \<Rightarrow> (s, []))"

section \<open>Deadlines\<close>

text \<open>Every pane with its workspace and terminal, in the order of the workspaces and layouts.\<close>

definition pane_terminals :: "app \<Rightarrow> (nat \<times> pane_id \<times> string) list" where
  "pane_terminals s =
     concat (map (\<lambda>(ws_idx, ws). concat (map (\<lambda>t. List.map_filter (\<lambda>i.
         map_option (\<lambda>pane. (ws_idx, i, pn_terminal pane)) (pane_state_of ws i)) (pane_ids (tb_layout t))) (ws_tabs ws)))
       (zip [0..<length (as_workspaces s)] (as_workspaces s)))"

definition next_app_metadata_expiry :: "instant \<Rightarrow> app \<Rightarrow> instant option" where
  "next_app_metadata_expiry now s =
     min_by_key (\<lambda>t. t)
       (List.map_filter (\<lambda>t. next_agent_metadata_expiry t now) (hm_values (as_terminals s))
        @ List.map_filter (\<lambda>t. next_expiry (t_metadata_tokens t)) (hm_values (as_terminals s))
        @ List.map_filter (\<lambda>ws. next_expiry (ws_metadata_tokens ws)) (as_workspaces s))"

definition expire_pane_metadata ::
  "(string \<Rightarrow> string) \<Rightarrow> instant \<Rightarrow> instant \<Rightarrow> nat \<times> pane_id \<times> string \<Rightarrow>
   app \<times> pane_state_update list \<Rightarrow> app \<times> pane_state_update list" where
  "expire_pane_metadata label_of_cwd scheduled_deadline now entry acc =
     (let (ws_idx, i, terminal_id) = entry; (s, updates) = acc in
      case pane_state_of (as_workspaces s ! ws_idx) i of
        None \<Rightarrow> acc
      | Some pane \<Rightarrow>
          (case hm_get (as_terminals s) terminal_id of
             None \<Rightarrow> acc
           | Some t \<Rightarrow>
               (let (t', mutation) = expire_agent_metadata_at scheduled_deadline now t;
                    s1 = s\<lparr>as_terminals := hm_insert terminal_id t' (as_terminals s)\<rparr>
                in (case Option.bind mutation mu_change of
                      None \<Rightarrow> (s1, updates)
                    | Some change \<Rightarrow>
                        (let (s2, seen) = apply_pane_state_change label_of_cwd now ws_idx i change s1
                         in (s2, updates @ (case seen of None \<Rightarrow> []
                               | Some seen \<Rightarrow> [make_update i ws_idx (pn_seen pane) change seen])))))))"

definition expire_app_agent_metadata_at ::
  "(string \<Rightarrow> string) \<Rightarrow> instant \<Rightarrow> instant \<Rightarrow> app \<Rightarrow> app \<times> pane_state_update list" where
  "expire_app_agent_metadata_at label_of_cwd scheduled_deadline now s =
     fold (expire_pane_metadata label_of_cwd scheduled_deadline now) (pane_terminals s) (s, [])"

definition expire_pane_tokens ::
  "instant \<Rightarrow> nat \<times> pane_id \<times> string \<Rightarrow> app \<times> (nat \<times> pane_id) list \<Rightarrow> app \<times> (nat \<times> pane_id) list" where
  "expire_pane_tokens now entry acc =
     (let (ws_idx, i, terminal_id) = entry; (s, changed) = acc in
      case hm_get (as_terminals s) terminal_id of
        None \<Rightarrow> acc
      | Some t \<Rightarrow>
          (let (tokens, expired) = expire_at (t_metadata_tokens t) now;
               t1 = t\<lparr>t_metadata_tokens := tokens\<rparr>;
               t2 = (if expired then t1\<lparr>t_revision := sat_add (t_revision t1) 1\<rparr> else t1)
           in (s\<lparr>as_terminals := hm_insert terminal_id t2 (as_terminals s)\<rparr>,
               if expired then changed @ [(ws_idx, i)] else changed)))"

definition expire_app_metadata_tokens :: "instant \<Rightarrow> app \<Rightarrow> app \<times> (nat \<times> pane_id) list \<times> nat list" where
  "expire_app_metadata_tokens now s =
     (let (s1, changed_panes) = fold (expire_pane_tokens now) (pane_terminals s) (s, []);
          expired = map (\<lambda>ws. expire_at (ws_metadata_tokens ws) now) (as_workspaces s1)
      in (s1\<lparr>as_workspaces := map (\<lambda>(ws, e). ws\<lparr>ws_metadata_tokens := fst e\<rparr>) (zip (as_workspaces s1) expired)\<rparr>,
          changed_panes, filter (\<lambda>k. snd (expired ! k)) [0..<length expired]))"

end
