(* ===== verification/App_Loop.thy ===== *)
theory App_Loop
  imports App_Events App_Api_Panes
begin

text \<open>
  How \<open>App\<close> handles an internal event (\<open>handle_internal_event\<close> of \<open>src/src/app/api.rs\<close>) and
  its deadlines (\<open>src/src/app/runtime.rs\<close>): toasts that disappear, metadata that expires and
  notifications that fall due. Parameters are the labels of directories, the label of a
  workspace whose processes are asked for their directory, and whether a shell could be
  started again. What is sent to clients and to the project catalog, the reclaiming of idle
  processes and the handling of git, worktree and plugin results are left out.
\<close>

section \<open>Toasts\<close>

definition toast_duration :: "toast_kind \<Rightarrow> duration" where
  "toast_duration kind =
     (case kind of
        NeedsAttention \<Rightarrow> 8 * 10 ^ 9 | Finished \<Rightarrow> 5 * 10 ^ 9 | UpdateInstalled \<Rightarrow> 3 * 10 ^ 9)"

definition sync_toast_deadline :: "instant \<Rightarrow> toast option \<Rightarrow> app \<Rightarrow> app" where
  "sync_toast_deadline now previous_toast s =
     (if as_toast s \<noteq> previous_toast
      then s\<lparr>as_toast_deadline := map_option (\<lambda>toast. now + toast_duration (to_kind toast)) (as_toast s)\<rparr> else s)"

definition refresh_new_herdr_toast_context_for_update ::
  "(workspace \<Rightarrow> string) \<Rightarrow> toast option \<Rightarrow> pane_state_update \<Rightarrow> app \<Rightarrow> app" where
  "refresh_new_herdr_toast_context_for_update live_label previous_toast update s =
     (if as_toast_delivery s \<noteq> DeliveryHerduck \<or> as_toast s = previous_toast then s
      else
        (case Option.bind (as_toast s) to_target of
           None \<Rightarrow> s
         | Some target \<Rightarrow>
             if pf_pane_id target \<noteq> up_pane_id update then s
             else
               (case ws_at s (up_ws_idx update) of
                  None \<Rightarrow> s
                | Some ws \<Rightarrow>
                    if ws_id ws \<noteq> pf_workspace_id target then s
                    else s\<lparr>as_toast := map_option (\<lambda>toast. toast\<lparr>to_context :=
                        notification_context ws (live_label ws) (up_ws_idx update) (up_pane_id update)\<rparr>) (as_toast s)\<rparr>)))"

section \<open>Panes over others\<close>

definition is_active_pane :: "app \<Rightarrow> nat \<Rightarrow> nat \<Rightarrow> pane_id \<Rightarrow> bool" where
  "is_active_pane s ws_idx tab_idx i =
     (as_active s = Some ws_idx \<and>
      is_some_and (ws_at s ws_idx) (\<lambda>ws. ws_active_tab ws = tab_idx \<and>
        is_some_and (tab_at ws tab_idx) (\<lambda>t. tl_focus (tb_layout t) = i)))"

definition close_popup_pane :: "app \<Rightarrow> app \<times> bool" where
  "close_popup_pane s =
     (case as_popup_pane s of
        None \<Rightarrow> (s, False)
      | Some (_, terminal_id) \<Rightarrow>
          (s\<lparr>as_popup_pane := None, as_terminals := hm_remove terminal_id (as_terminals s),
             as_mode := (if as_active s \<noteq> None then ModeTerminal else ModeNavigate)\<rparr>, True))"

text \<open>The overlay with what it looked like before the pane went away: whether it was the active
  pane, whether it had the focus of its tab, and whether the tab was zoomed.\<close>

definition take_overlay :: "pane_id \<Rightarrow> app \<Rightarrow> app \<times> (overlay_pane \<times> bool \<times> bool \<times> bool option) option" where
  "take_overlay i s =
     (case hm_get (as_overlay_panes s) i of
        None \<Rightarrow> (s, None)
      | Some ov \<Rightarrow>
          (let s1 = s\<lparr>as_overlay_panes := hm_remove i (as_overlay_panes s)\<rparr>;
               t = Option.bind (ws_at s1 (ov_ws_idx ov)) (\<lambda>ws. tab_at ws (ov_tab_idx ov))
           in (s1, Some (ov, is_active_pane s1 (ov_ws_idx ov) (ov_tab_idx ov) i,
                is_some_and t (\<lambda>t. tl_focus (tb_layout t) = i), map_option tb_zoomed t))))"

definition restore_overlay_after_exit :: "overlay_pane \<times> bool \<times> bool \<times> bool option \<Rightarrow> app \<Rightarrow> app" where
  "restore_overlay_after_exit restored s =
     (let (ov, was_active, was_focused, zoomed_before) = restored in
      case ws_at s (ov_ws_idx ov) of
        None \<Rightarrow> s
      | Some ws \<Rightarrow>
          if length (ws_tabs ws) \<le> ov_tab_idx ov then s
          else if \<not> was_focused then
            (case zoomed_before of
               None \<Rightarrow> s
             | Some zoomed \<Rightarrow> update_tab (ov_ws_idx ov) (ov_tab_idx ov) (\<lambda>t. t\<lparr>tb_zoomed := zoomed\<rparr>) s)
          else
            (let s1 = (if was_active then update_ws (ov_ws_idx ov) (\<lambda>ws. ws\<lparr>ws_active_tab := ov_tab_idx ov\<rparr>) s else s);
                 s2 = update_tab (ov_ws_idx ov) (ov_tab_idx ov) (\<lambda>t. t\<lparr>
                        tb_layout := (if hm_contains_key (tb_panes t) (ov_previous_focus ov)
                                      then focus_pane (tb_layout t) (ov_previous_focus ov) else tb_layout t),
                        tb_zoomed := ov_previous_zoomed ov\<rparr>) s1
             in if was_active \<and> as_active s2 = Some (ov_ws_idx ov) then s2\<lparr>as_mode := ModeTerminal\<rparr> else s2))"

section \<open>A shell in the place of a process\<close>

text \<open>\<open>runtime_exit_action\<close> on Unix: true for \<open>RespawnShell\<close>.\<close>

definition runtime_exit_respawns :: "app \<Rightarrow> pane_id \<Rightarrow> bool" where
  "runtime_exit_respawns s i =
     (case find_pane s i of
        None \<Rightarrow> False
      | Some (_, pane) \<Rightarrow>
          (case hm_get (as_terminals s) (pn_terminal pane) of
             None \<Rightarrow> False | Some t \<Rightarrow> t_respawn_shell_on_exit t))"

definition respawn_shell_for_launch_pane :: "instant \<Rightarrow> bool \<Rightarrow> pane_id \<Rightarrow> app \<Rightarrow> app \<times> bool" where
  "respawn_shell_for_launch_pane now spawned i s =
     (case find_pane s i of
        None \<Rightarrow> (s, False)
      | Some (ws_idx, pane) \<Rightarrow>
          (case hm_get (as_terminals s) (pn_terminal pane) of
             None \<Rightarrow> (s, False)
           | Some t \<Rightarrow>
               if \<not> pane_info_exists s ws_idx i \<or> \<not> spawned then (s, False)
               else (schedule_session_save now (s\<lparr>as_terminals :=
                 hm_insert (pn_terminal pane) (clear_agent_runtime_identity_after_respawn t) (as_terminals s)\<rparr>), True)))"

section \<open>Internal events\<close>

definition pane_died_prelude ::
  "(string \<Rightarrow> string) \<Rightarrow> (workspace \<Rightarrow> string) \<Rightarrow> bool \<Rightarrow> instant \<Rightarrow> instant \<Rightarrow> pane_id \<Rightarrow> app \<Rightarrow> app \<times> bool" where
  "pane_died_prelude label_of_cwd live_label spawned now clock i s =
     (if is_some_and (as_popup_pane s) (\<lambda>(popup, _). popup = i) then (fst (close_popup_pane s), True)
      else
        (let (s1, update) = publish_pane_process_exit_if_agent label_of_cwd now clock i s;
             s2 = (case update of
                     None \<Rightarrow> s1
                   | Some update \<Rightarrow> refresh_new_herdr_toast_context_for_update live_label (as_toast s) update s1)
         in if runtime_exit_respawns s2 i then
              (let (s3, respawned) = respawn_shell_for_launch_pane now spawned i s2 in
               if respawned then (s3\<lparr>as_overlay_panes := hm_remove i (as_overlay_panes s3)\<rparr>, True) else (s3, False))
            else (s2, False)))"

text \<open>The state after the event; the toast deadline compares with the toast as it is before
  \<open>handle_app_event\<close>, not before the event.\<close>

definition sync_agent_metadata_deadline :: "instant \<Rightarrow> app \<Rightarrow> app" where
  "sync_agent_metadata_deadline now s = s\<lparr>as_agent_metadata_deadline := next_app_metadata_expiry now s\<rparr>"

definition deliver_event ::
  "(string \<Rightarrow> string) \<Rightarrow> (workspace \<Rightarrow> string) \<Rightarrow> (string \<Rightarrow> bool) \<Rightarrow> instant \<Rightarrow> instant \<Rightarrow> app_event \<Rightarrow> app \<Rightarrow> app" where
  "deliver_event label_of_cwd live_label is_dir now clock event s =
     (let (s0, restored) = (case event of PaneDied i \<Rightarrow> take_overlay i s | _ \<Rightarrow> (s, None));
          (s1, updates) = handle_app_event label_of_cwd is_dir now clock event s0;
          s2 = fold (refresh_new_herdr_toast_context_for_update live_label (as_toast s0)) updates s1;
          s3 = sync_agent_metadata_deadline clock s2;
          s4 = (case restored of None \<Rightarrow> s3 | Some restored \<Rightarrow> restore_overlay_after_exit restored s3)
      in shutdown_detached_terminal_runtimes (sync_toast_deadline clock (as_toast s0) s4))"

text \<open>For the events that reach \<open>handle_app_event\<close>. Those of the clipboard, the input source, git,
  plugin commands and worktrees return before and are not modelled.\<close>

definition handle_internal_event ::
  "(string \<Rightarrow> string) \<Rightarrow> (workspace \<Rightarrow> string) \<Rightarrow> (string \<Rightarrow> bool) \<Rightarrow> bool \<Rightarrow> instant \<Rightarrow> instant \<Rightarrow> app_event \<Rightarrow> app \<Rightarrow> app" where
  "handle_internal_event label_of_cwd live_label is_dir spawned now clock event s =
     (let (s1, finished) =
        (case event of
           PaneDied i \<Rightarrow> pane_died_prelude label_of_cwd live_label spawned now clock i s
         | _ \<Rightarrow> (s, False))
      in if finished then s1 else deliver_event label_of_cwd live_label is_dir now clock event s1)"

section \<open>Deadlines\<close>

definition expire_metadata_at ::
  "(string \<Rightarrow> string) \<Rightarrow> (workspace \<Rightarrow> string) \<Rightarrow> instant \<Rightarrow> instant \<Rightarrow> app \<Rightarrow> app" where
  "expire_metadata_at label_of_cwd live_label deadline now s =
     (let (s1, updates) = expire_app_agent_metadata_at label_of_cwd deadline now s;
          s2 = fold (refresh_new_herdr_toast_context_for_update live_label (as_toast s)) updates s1
      in sync_agent_metadata_deadline now (fst (expire_app_metadata_tokens now s2)))"

definition expire_due_metadata ::
  "(string \<Rightarrow> string) \<Rightarrow> (workspace \<Rightarrow> string) \<Rightarrow> instant \<Rightarrow> app \<Rightarrow> app \<times> bool" where
  "expire_due_metadata label_of_cwd live_label now s =
     (case as_agent_metadata_deadline s of
        None \<Rightarrow> (s, False)
      | Some deadline \<Rightarrow>
          if now < deadline then (s, False) else (expire_metadata_at label_of_cwd live_label deadline now s, True))"

definition expire_toast :: "instant \<Rightarrow> app \<Rightarrow> app" where
  "expire_toast now s =
     (if is_some_and (as_toast_deadline s) (\<lambda>deadline. deadline \<le> now)
      then s\<lparr>as_toast_deadline := None, as_toast := None\<rparr> else s)"

definition refresh_delivery_context :: "(workspace \<Rightarrow> string) \<Rightarrow> delivery \<Rightarrow> app \<Rightarrow> app" where
  "refresh_delivery_context live_label d s =
     (case index_of (\<lambda>ws. ws_id ws = de_workspace_id d) (as_workspaces s) of
        None \<Rightarrow> s
      | Some ws_idx \<Rightarrow>
          (let ws = as_workspaces s ! ws_idx;
               context = notification_context ws (live_label ws) ws_idx (de_pane_id d)
           in s\<lparr>as_toast := map_option (\<lambda>toast.
                if is_some_and (to_target toast) (\<lambda>target. pf_workspace_id target = de_workspace_id d
                     \<and> pf_pane_id target = de_pane_id d)
                then toast\<lparr>to_context := context\<rparr> else toast) (as_toast s)\<rparr>))"

definition deliver_due_notifications ::
  "(string \<Rightarrow> string) \<Rightarrow> (workspace \<Rightarrow> string) \<Rightarrow> instant \<Rightarrow> instant \<Rightarrow> app \<Rightarrow> app" where
  "deliver_due_notifications label_of_cwd live_label now clock s =
     (if is_some_and (next_pending_agent_notification_deadline s) (\<lambda>deadline. deadline \<le> now) then
        (let (s1, deliveries) = drain_due_agent_notifications label_of_cwd now s in
         if deliveries = [] then s1
         else sync_toast_deadline clock (as_toast s) (fold (refresh_delivery_context live_label) deliveries s1))
      else s)"

end
