(* ===== verification/App_Reports.thy ===== *)
theory App_Reports
  imports App_Loop
begin

text \<open>
  The reports that an agent's integration makes over the API (\<open>src/src/app/api/panes.rs\<close> and
  \<open>api/workspaces.rs\<close>) with the checks of their texts (\<open>src/src/app/api_helpers.rs\<close>): what is
  too long, unprintable or unknown is cut, dropped or refused before it reaches the terminal.
\<close>

section \<open>Checks\<close>

definition is_ascii_alphanumeric :: "char \<Rightarrow> bool" where
  "is_ascii_alphanumeric c =
     (let n = code c in 48 \<le> n \<and> n \<le> 57 \<or> 65 \<le> n \<and> n \<le> 90 \<or> 97 \<le> n \<and> n \<le> 122)"

definition normalize_reported_agent_label :: "string \<Rightarrow> string option" where
  "normalize_reported_agent_label name =
     (let trimmed = trim name in
      if trimmed = '''' then None
      else (case parse_agent_label trimmed of Some agent \<Rightarrow> Some (agent_label agent) | None \<Rightarrow> Some trimmed))"

definition METADATA_TTL_MAX_MS :: nat where "METADATA_TTL_MAX_MS = 86400000"
definition METADATA_SOURCE_MAX_CHARS :: nat where "METADATA_SOURCE_MAX_CHARS = 80"
definition METADATA_TTL_MIN_MS :: nat where "METADATA_TTL_MIN_MS = 1"
definition MAX_METADATA_TOKEN_KEYS_PER_REQUEST :: nat where "MAX_METADATA_TOKEN_KEYS_PER_REQUEST = 16"
definition MAX_METADATA_TOKEN_KEYS_PER_RESOURCE :: nat where "MAX_METADATA_TOKEN_KEYS_PER_RESOURCE = 32"
definition MAX_METADATA_TOKEN_KEY_LEN :: nat where "MAX_METADATA_TOKEN_KEY_LEN = 32"
definition MAX_METADATA_TOKEN_VALUE_LEN :: nat where "MAX_METADATA_TOKEN_VALUE_LEN = 80"

definition normalize_metadata_source :: "string \<Rightarrow> string option" where
  "normalize_metadata_source raw =
     (let value = trim raw in
      if value = '''' \<or> METADATA_SOURCE_MAX_CHARS < length value
         \<or> \<not> list_all (\<lambda>c. is_ascii_alphanumeric c \<or> c \<in> set '':._-'') value
      then None else Some value)"

text \<open>The outer \<open>None\<close> is the refusal; a millisecond is a million nanoseconds.\<close>

definition normalize_metadata_ttl :: "u64 option \<Rightarrow> duration option option" where
  "normalize_metadata_ttl ttl_ms =
     (case ttl_ms of
        None \<Rightarrow> Some None
      | Some ttl \<Rightarrow>
          if unat ttl < METADATA_TTL_MIN_MS \<or> METADATA_TTL_MAX_MS < unat ttl then None
          else Some (Some (unat ttl * 10 ^ 6)))"

definition printable_prefix :: "nat \<Rightarrow> string \<Rightarrow> string option" where
  "printable_prefix limit value =
     (let normalized = take limit (filter (\<lambda>c. \<not> is_control c) (trim value))
      in if trim normalized \<noteq> '''' then Some (trim normalized) else None)"

definition valid_token_key :: "string \<Rightarrow> bool" where
  "valid_token_key key =
     (key \<noteq> '''' \<and> utf8_len key \<le> MAX_METADATA_TOKEN_KEY_LEN
      \<and> list_all (\<lambda>c. is_ascii_alphanumeric c \<or> c \<in> set ''_-'') key)"

definition normalize_metadata_tokens :: "(string, string option) hmap \<Rightarrow> (string, string option) hmap option" where
  "normalize_metadata_tokens tokens =
     (if tokens = [] \<or> MAX_METADATA_TOKEN_KEYS_PER_REQUEST < hm_len tokens
         \<or> \<not> list_all (\<lambda>(key, _). valid_token_key key) tokens
      then None
      else Some (map (\<lambda>(key, value). (key, Option.bind value (printable_prefix MAX_METADATA_TOKEN_VALUE_LEN))) tokens))"

definition normalize_presentation_text :: "string option \<Rightarrow> string option" where
  "normalize_presentation_text value = Option.bind value (printable_prefix 80)"

definition state_label_names :: "string list" where
  "state_label_names = [''idle'', ''working'', ''blocked'', ''done'', ''unknown'']"

definition normalize_state_labels :: "(string, string) hmap \<Rightarrow> (string, string) hmap option" where
  "normalize_state_labels labels =
     (if \<not> list_all (\<lambda>(status, _). to_ascii_lowercase (trim status) \<in> set state_label_names) labels then None
      else Some (fold (\<lambda>(status, label). hm_insert status label)
        (List.map_filter (\<lambda>(status, label).
           map_option (Pair (to_ascii_lowercase (trim status))) (normalize_presentation_text (Some label))) labels) []))"

section \<open>Agents\<close>

definition handle_pane_report_agent ::
  "(string \<Rightarrow> string) \<Rightarrow> (workspace \<Rightarrow> string) \<Rightarrow> (string \<Rightarrow> bool) \<Rightarrow> instant \<Rightarrow> instant \<Rightarrow>
   string \<Rightarrow> string \<Rightarrow> string \<Rightarrow> agent_state \<Rightarrow> string option \<Rightarrow> u64 option \<Rightarrow> string option \<Rightarrow> string option \<Rightarrow>
   app \<Rightarrow> app \<times> unit response" where
  "handle_pane_report_agent label_of_cwd live_label is_dir now clock
     name source agent_name state message seq session_id session_path s =
     (case parse_pane_id s name of
        None \<Rightarrow> (s, Inl ''pane_not_found'')
      | Some (_, i) \<Rightarrow>
          (case normalize_reported_agent_label agent_name of
             None \<Rightarrow> (s, Inl ''invalid_agent'')
           | Some label \<Rightarrow>
               (handle_internal_event label_of_cwd live_label is_dir False now clock
                  (HookStateReported i source label state message seq
                    (session_ref_from_report source label session_id session_path)) s, Inr ())))"

definition handle_pane_report_agent_session ::
  "(string \<Rightarrow> string) \<Rightarrow> (workspace \<Rightarrow> string) \<Rightarrow> (string \<Rightarrow> bool) \<Rightarrow> instant \<Rightarrow> instant \<Rightarrow>
   string \<Rightarrow> string \<Rightarrow> string \<Rightarrow> u64 option \<Rightarrow> string option \<Rightarrow> string option \<Rightarrow> string option \<Rightarrow>
   app \<Rightarrow> app \<times> unit response" where
  "handle_pane_report_agent_session label_of_cwd live_label is_dir now clock
     name source agent_name seq session_id session_path start_source s =
     (case parse_pane_id s name of
        None \<Rightarrow> (s, Inl ''pane_not_found'')
      | Some (_, i) \<Rightarrow>
          (case normalize_reported_agent_label agent_name of
             None \<Rightarrow> (s, Inl ''invalid_agent'')
           | Some label \<Rightarrow>
               (handle_internal_event label_of_cwd live_label is_dir False now clock
                  (AgentSessionReported i source label seq
                    (session_ref_from_report source label session_id session_path)
                    (normalize_session_start_source start_source)) s, Inr ())))"

definition handle_pane_clear_agent_authority ::
  "(string \<Rightarrow> string) \<Rightarrow> (workspace \<Rightarrow> string) \<Rightarrow> (string \<Rightarrow> bool) \<Rightarrow> instant \<Rightarrow> instant \<Rightarrow>
   string \<Rightarrow> string option \<Rightarrow> u64 option \<Rightarrow> app \<Rightarrow> app \<times> unit response" where
  "handle_pane_clear_agent_authority label_of_cwd live_label is_dir now clock name source seq s =
     (case parse_pane_id s name of
        None \<Rightarrow> (s, Inl ''pane_not_found'')
      | Some (_, i) \<Rightarrow>
          (handle_internal_event label_of_cwd live_label is_dir False now clock
             (HookAuthorityCleared i source seq) s, Inr ()))"

definition handle_pane_release_agent ::
  "(string \<Rightarrow> string) \<Rightarrow> (workspace \<Rightarrow> string) \<Rightarrow> (string \<Rightarrow> bool) \<Rightarrow> instant \<Rightarrow> instant \<Rightarrow>
   string \<Rightarrow> string \<Rightarrow> string \<Rightarrow> u64 option \<Rightarrow> app \<Rightarrow> app \<times> unit response" where
  "handle_pane_release_agent label_of_cwd live_label is_dir now clock name source agent_name seq s =
     (case parse_pane_id s name of
        None \<Rightarrow> (s, Inl ''pane_not_found'')
      | Some (_, i) \<Rightarrow>
          (case normalize_reported_agent_label agent_name of
             None \<Rightarrow> (s, Inl ''invalid_agent'')
           | Some label \<Rightarrow>
               (handle_internal_event label_of_cwd live_label is_dir False now clock
                  (HookAgentReleased i source label (parse_agent_label label) seq) s, Inr ())))"

section \<open>Metadata\<close>

record metadata_request =
  mr_pane :: string
  mr_agent :: "string option"
  mr_source :: string
  mr_applies_to_source :: "string option"
  mr_title :: "string option"
  mr_display_agent :: "string option"
  mr_state_labels :: "(string, string) hmap"
  mr_tokens :: "(string, string option) hmap"
  mr_clear_title :: bool
  mr_clear_display_agent :: bool
  mr_clear_state_labels :: bool
  mr_seq :: "u64 option"
  mr_ttl_ms :: "u64 option"

text \<open>The checked request: the report for the terminal without its number, and the tokens.\<close>

definition check_agent :: "string option \<Rightarrow> string option option" where
  "check_agent agent_name = (case agent_name of None \<Rightarrow> Some None | Some name \<Rightarrow> map_option Some (normalize_reported_agent_label name))"

definition check_tokens :: "(string, string option) hmap \<Rightarrow> (string, string option) hmap option option" where
  "check_tokens tokens = (if tokens = [] then Some None else map_option Some (normalize_metadata_tokens tokens))"

definition sets_and_clears :: "metadata_request \<Rightarrow> bool" where
  "sets_and_clears r =
     (mr_title r \<noteq> None \<and> mr_clear_title r \<or> mr_display_agent r \<noteq> None \<and> mr_clear_display_agent r
      \<or> mr_state_labels r \<noteq> [] \<and> mr_clear_state_labels r)"

definition presentation_requested :: "agent_metadata_report \<Rightarrow> bool" where
  "presentation_requested report =
     (rep_title report \<noteq> None \<or> rep_display_agent report \<noteq> None \<or> rep_state_labels report \<noteq> []
      \<or> rep_clear_title report \<or> rep_clear_display_agent report \<or> rep_clear_state_labels report)"

definition check_metadata_request ::
  "metadata_request \<Rightarrow> (agent_metadata_report \<times> (string, string option) hmap option) response" where
  "check_metadata_request r =
     (case check_agent (mr_agent r) of None \<Rightarrow> Inl ''invalid_agent'' | Some reported_label \<Rightarrow>
      (case normalize_metadata_source (mr_source r) of None \<Rightarrow> Inl ''invalid_metadata_source'' | Some source \<Rightarrow>
       (case check_tokens (mr_tokens r) of None \<Rightarrow> Inl ''invalid_metadata_token'' | Some tokens \<Rightarrow>
        (case normalize_metadata_ttl (mr_ttl_ms r) of None \<Rightarrow> Inl ''invalid_metadata_ttl'' | Some ttl \<Rightarrow>
         (case (case mr_applies_to_source r of None \<Rightarrow> Some None
                | Some raw \<Rightarrow> map_option Some (normalize_metadata_source raw)) of
            None \<Rightarrow> Inl ''invalid_metadata_source''
          | Some applies_to_source \<Rightarrow>
         (case normalize_state_labels (mr_state_labels r) of None \<Rightarrow> Inl ''invalid_state_label'' | Some state_labels \<Rightarrow>
          (let report = \<lparr>rep_source = source, rep_agent_label = reported_label,
                 rep_applies_to_source = applies_to_source,
                 rep_title = normalize_presentation_text (mr_title r),
                 rep_display_agent = normalize_presentation_text (mr_display_agent r),
                 rep_state_labels = state_labels, rep_clear_title = mr_clear_title r,
                 rep_clear_display_agent = mr_clear_display_agent r,
                 rep_clear_state_labels = mr_clear_state_labels r, rep_ttl = ttl, rep_seq = None\<rparr>
           in if sets_and_clears r \<or> \<not> presentation_requested report \<and> tokens = None
              then Inl ''invalid_metadata_request'' else Inr (report, tokens))))))))"

text \<open>Recording the number of a report and its tokens in the terminal; \<open>Inr None\<close> is a report
  that comes too late, \<open>Inr (Some changed)\<close> tells whether the tokens changed.\<close>

definition accept_tokens ::
  "instant \<Rightarrow> string \<Rightarrow> u64 option \<Rightarrow> (string, string option) hmap option \<Rightarrow> duration option \<Rightarrow> terminal \<Rightarrow>
   terminal \<times> bool option response" where
  "accept_tokens now source seq tokens ttl t =
     (if \<not> metadata_report_sequence_is_fresh t source seq then (t, Inr None)
      else if is_some_and tokens (\<lambda>tokens. MAX_METADATA_TOKEN_KEYS_PER_RESOURCE
                < key_count_after_patch (t_metadata_tokens t) tokens)
      then (t, Inl ''metadata_token_limit'')
      else
        (case accept_metadata_report t source seq (tokens \<noteq> None) of
           (t1, Inl _) \<Rightarrow> (t1, Inl ''metadata_sequence_source_limit'')
         | (t1, Inr False) \<Rightarrow> (t1, Inr None)
         | (t1, Inr True) \<Rightarrow>
             (case tokens of
                None \<Rightarrow> (t1, Inr (Some False))
              | Some tokens \<Rightarrow>
                  (let (patched, changed) = patch (t_metadata_tokens t1) tokens ttl now;
                       t2 = t1\<lparr>t_metadata_tokens := patched\<rparr>
                   in ((if changed then t2\<lparr>t_revision := sat_add (t_revision t2) 1\<rparr> else t2), Inr (Some changed))))))"

definition handle_pane_report_metadata ::
  "(string \<Rightarrow> string) \<Rightarrow> (workspace \<Rightarrow> string) \<Rightarrow> (string \<Rightarrow> bool) \<Rightarrow> instant \<Rightarrow> instant \<Rightarrow>
   metadata_request \<Rightarrow> app \<Rightarrow> app \<times> unit response" where
  "handle_pane_report_metadata label_of_cwd live_label is_dir now clock r s =
     (case parse_pane_id s (mr_pane r) of
        None \<Rightarrow> (s, Inl ''pane_not_found'')
      | Some (ws_idx, i) \<Rightarrow>
          (case check_metadata_request r of
             Inl e \<Rightarrow> (s, Inl e)
           | Inr (report, tokens) \<Rightarrow>
               (case Option.bind (ws_at s ws_idx) (\<lambda>ws. pane_state_of ws i) of
                  None \<Rightarrow> (s, Inl ''pane_not_found'')
                | Some pane \<Rightarrow>
                    (case hm_get (as_terminals s) (pn_terminal pane) of
                       None \<Rightarrow> (s, Inl ''pane_not_found'')
                     | Some t \<Rightarrow>
                         (let (t1, accepted) = accept_tokens clock (rep_source report) (mr_seq r) tokens (rep_ttl report) t;
                              s1 = s\<lparr>as_terminals := hm_insert (pn_terminal pane) t1 (as_terminals s)\<rparr>
                          in (case accepted of
                                Inl e \<Rightarrow> (s1, Inl e)
                              | Inr None \<Rightarrow> (s1, Inr ())
                              | Inr (Some changed) \<Rightarrow>
                                  (let s2 = (if presentation_requested report then
                                         handle_internal_event label_of_cwd live_label is_dir False now clock
                                           (HookMetadataReported i report) s1
                                       else s1)
                                   in ((if changed then sync_agent_metadata_deadline clock s2 else s2), Inr ()))))))))"

definition handle_workspace_report_metadata ::
  "instant \<Rightarrow> string \<Rightarrow> string \<Rightarrow> (string, string option) hmap \<Rightarrow> u64 option \<Rightarrow> u64 option \<Rightarrow> app \<Rightarrow> app \<times> unit response" where
  "handle_workspace_report_metadata now wid raw_source raw_tokens seq ttl_ms s =
     (case parse_workspace_id s wid of
        None \<Rightarrow> (s, Inl ''workspace_not_found'')
      | Some idx \<Rightarrow>
          (case normalize_metadata_source raw_source of
             None \<Rightarrow> (s, Inl ''invalid_metadata_source'')
           | Some source \<Rightarrow>
          (case normalize_metadata_ttl ttl_ms of
             None \<Rightarrow> (s, Inl ''invalid_metadata_ttl'')
           | Some ttl \<Rightarrow>
          (case normalize_metadata_tokens raw_tokens of
             None \<Rightarrow> (s, Inl ''invalid_metadata_token'')
           | Some tokens \<Rightarrow>
          (case ws_at s idx of
             None \<Rightarrow> (s, Inl ''workspace_not_found'')
           | Some ws \<Rightarrow>
               if \<not> sequence_is_fresh (ws_metadata_token_sequences ws) source seq then (s, Inr ())
               else if MAX_METADATA_TOKEN_KEYS_PER_RESOURCE < key_count_after_patch (ws_metadata_tokens ws) tokens
               then (s, Inl ''metadata_token_limit'')
               else
                 (case accept_sequence (ws_metadata_token_sequences ws) source seq of
                    (sequences, Inl _) \<Rightarrow>
                      (update_ws idx (\<lambda>ws. ws\<lparr>ws_metadata_token_sequences := sequences\<rparr>) s, Inl ''metadata_sequence_source_limit'')
                  | (sequences, Inr False) \<Rightarrow>
                      (update_ws idx (\<lambda>ws. ws\<lparr>ws_metadata_token_sequences := sequences\<rparr>) s, Inr ())
                  | (sequences, Inr True) \<Rightarrow>
                      (let (patched, changed) = patch (ws_metadata_tokens ws) tokens ttl now;
                           s1 = update_ws idx (\<lambda>ws. ws\<lparr>ws_metadata_token_sequences := sequences,
                                  ws_metadata_tokens := patched\<rparr>) s
                       in ((if changed then sync_agent_metadata_deadline now s1 else s1), Inr ()))))))))"

end
