(* ===== verification/App_Invariants.thy ===== *)
theory App_Invariants
  imports App_Move App_Reports Workspace_Properties
begin

text \<open>
  What holds of the application between two events or requests
  (\<open>assert_invariants_for_test\<close> of \<open>src/src/app/state.rs\<close>, as far as it concerns workspaces,
  panes, terminals and which workspace is active), and one lemma per operation on focus that
  the operation keeps it. A terminal that is started is attached to its pane before it is
  stored; the set \<open>T\<close> of such terminals is a parameter.
\<close>

section \<open>The invariant\<close>

definition workspaces_ok :: "workspace list \<Rightarrow> bool" where
  "workspaces_ok wss =
     (list_all workspace_ok wss \<and> distinct (map ws_id wss)
      \<and> distinct (concat (map live_panes wss)) \<and> distinct (concat (map live_terminals wss)))"

definition focus_ok :: "workspace list \<Rightarrow> nat option \<Rightarrow> nat \<Rightarrow> bool" where
  "focus_ok wss active selected =
     (if wss = [] then active = None \<and> selected = 0
      else selected < length wss \<and> is_some_and active (\<lambda>a. a < length wss))"

definition generated_id :: "nat \<Rightarrow> string \<Rightarrow> bool" where
  "generated_id counter wid = (\<exists>n. 0 < n \<and> n < counter \<and> wid = ''w'' @ encode_public_number n)"

definition app_panes :: "app \<Rightarrow> pane_id set" where
  "app_panes s = (\<Union>ws \<in> set (as_workspaces s). set (live_panes ws))"

definition app_terminals :: "app \<Rightarrow> string set" where
  "app_terminals s = (\<Union>ws \<in> set (as_workspaces s). set (live_terminals ws))"

definition app_inv :: "string set \<Rightarrow> app \<Rightarrow> bool" where
  "app_inv T s =
     (workspaces_ok (as_workspaces s) \<and> focus_ok (as_workspaces s) (as_active s) (as_selected s)
      \<and> hm_ok (as_terminals s) \<and> app_terminals s \<subseteq> fst ` set (as_terminals s) \<union> T
      \<and> (\<forall>i \<in> app_panes s. i < as_next_pane_id s)
      \<and> (\<forall>ws \<in> set (as_workspaces s). generated_id (as_next_workspace_id s) (ws_id ws))
      \<and> 0 < as_next_workspace_id s
      \<and> is_none_or (as_popup_pane s) (\<lambda>(_, terminal_id). terminal_id \<notin> app_terminals s))"

definition app_ok :: "app \<Rightarrow> bool" where
  "app_ok s = app_inv {} s"

text \<open>What the invariant looks at.\<close>

definition app_view where
  "app_view s = (as_workspaces s, as_active s, as_selected s, as_terminals s, as_next_pane_id s,
     as_next_workspace_id s, as_popup_pane s)"

lemma app_viewD:
  assumes "app_view s' = app_view s"
  shows "as_workspaces s' = as_workspaces s" "as_active s' = as_active s" "as_selected s' = as_selected s"
    "as_terminals s' = as_terminals s" "as_next_pane_id s' = as_next_pane_id s"
    "as_next_workspace_id s' = as_next_workspace_id s" "as_popup_pane s' = as_popup_pane s"
  using assms by (simp_all add: app_view_def)

lemma app_inv_view: "app_view s' = app_view s \<Longrightarrow> app_inv T s' = app_inv T s"
  by (simp add: app_view_def app_inv_def app_panes_def app_terminals_def)

named_theorems view_simps \<open>operations that change nothing the invariant looks at\<close>

lemma view_fields [view_simps]:
  "app_view (s\<lparr>as_pane_id_aliases := x0\<rparr>) = app_view s"
  "app_view (s\<lparr>as_public_pane_id_aliases := x1\<rparr>) = app_view s"
  "app_view (s\<lparr>as_previous_pane_focus := x2\<rparr>) = app_view s"
  "app_view (s\<lparr>as_mode := x3\<rparr>) = app_view s"
  "app_view (s\<lparr>as_copy_mode := x4\<rparr>) = app_view s"
  "app_view (s\<lparr>as_selection := x5\<rparr>) = app_view s"
  "app_view (s\<lparr>as_selection_autoscroll := x6\<rparr>) = app_view s"
  "app_view (s\<lparr>as_pending_agent_notifications := x7\<rparr>) = app_view s"
  "app_view (s\<lparr>as_update_available := x8\<rparr>) = app_view s"
  "app_view (s\<lparr>as_update_install_command := x9\<rparr>) = app_view s"
  "app_view (s\<lparr>as_latest_release_notes_available := x10\<rparr>) = app_view s"
  "app_view (s\<lparr>as_update_dismissed := x11\<rparr>) = app_view s"
  "app_view (s\<lparr>as_next_agent_state_change_seq := x12\<rparr>) = app_view s"
  "app_view (s\<lparr>as_played_sounds := x13\<rparr>) = app_view s"
  "app_view (s\<lparr>as_toast := x14\<rparr>) = app_view s"
  "app_view (s\<lparr>as_plugin_panes := x15\<rparr>) = app_view s"
  "app_view (s\<lparr>as_pane_graphics_layers := x16\<rparr>) = app_view s"
  "app_view (s\<lparr>as_pane_graphics_streams := x17\<rparr>) = app_view s"
  "app_view (s\<lparr>as_session_dirty := x18\<rparr>) = app_view s"
  "app_view (s\<lparr>as_terminal_runtime_shutdowns := x19\<rparr>) = app_view s"
  "app_view (s\<lparr>as_session_save_deadline := x20\<rparr>) = app_view s"
  "app_view (s\<lparr>as_toast_deadline := x21\<rparr>) = app_view s"
  "app_view (s\<lparr>as_agent_metadata_deadline := x22\<rparr>) = app_view s"
  "app_view (s\<lparr>as_overlay_panes := x23\<rparr>) = app_view s"
  by (simp_all add: app_view_def)

lemma view_marks [view_simps]:
  "app_view (mark_session_dirty s) = app_view s" "app_view (clear_selection s) = app_view s"
  "app_view (schedule_session_save now s) = app_view s" "app_view (remove_alias_shadowed_by_new_pane i s) = app_view s"
  "app_view (shutdown_detached_terminal_runtimes s) = app_view s"
  by (simp_all add: view_simps mark_session_dirty_def clear_selection_def schedule_session_save_def
      remove_alias_shadowed_by_new_pane_def shutdown_detached_terminal_runtimes_def)

lemma view_clear_copy_mode_selection [view_simps]: "app_view (clear_copy_mode_selection s) = app_view s"
  by (simp add: clear_copy_mode_selection_def Let_def view_simps)

lemma view_sync_copy_mode [view_simps]: "app_view (sync_copy_mode_with_focus s) = app_view s"
  by (simp add: sync_copy_mode_with_focus_def view_simps)

lemma view_focus [view_simps]:
  "app_view (settle_terminal_mode_after_focus s) = app_view s"
  "app_view (record_pane_focus_change previous k i s) = app_view s"
  "app_view (record_pane_focus_after_navigation previous s) = app_view s"
  "app_view (sync_selection_after_focus_navigation s) = app_view s"
  by (simp_all add: settle_terminal_mode_after_focus_def record_pane_focus_change_def
      record_pane_focus_after_navigation_def sync_selection_after_focus_navigation_def view_simps split: option.split)

lemma view_clear_copy_mode [view_simps]: "app_view (clear_copy_mode_for_removed_panes ids s) = app_view s"
  by (simp add: clear_copy_mode_for_removed_panes_def Let_def view_simps split: option.split)

lemma view_remove_plugin_records [view_simps]: "app_view (remove_plugin_pane_records ids s) = app_view s"
  by (simp add: remove_plugin_pane_records_def Let_def view_simps)

lemmas inv_view [simp] = view_simps [THEN app_inv_view]

lemmas view_get [simp] = view_simps [THEN app_viewD(1)] view_simps [THEN app_viewD(2)] view_simps [THEN app_viewD(3)]
  view_simps [THEN app_viewD(4)] view_simps [THEN app_viewD(5)] view_simps [THEN app_viewD(6)]
  view_simps [THEN app_viewD(7)]

section \<open>Replacing a workspace\<close>

lemma workspaces_ok_replace:
  assumes "workspaces_ok (A @ B)" and "workspace_ok ws" and "ws_id ws \<notin> ws_id ` set (A @ B)"
    and "set (live_panes ws) \<inter> \<Union> (set ` live_panes ` set (A @ B)) = {}"
    and "set (live_terminals ws) \<inter> \<Union> (set ` live_terminals ` set (A @ B)) = {}"
  shows "workspaces_ok (A @ ws # B)"
proof -
  have "distinct (live_panes ws)" "distinct (live_terminals ws)"
    using assms(2) by (simp_all add: workspace_ok_def workspace_core_def tabs_ok_def live_panes_def live_terminals_def)
  then show ?thesis
    using assms by (auto simp: workspaces_ok_def)
qed

lemma workspaces_ok_remove: "workspaces_ok (A @ ws # B) \<Longrightarrow> workspaces_ok (A @ B)"
  by (auto simp: workspaces_ok_def)

lemma distinct_middle: "distinct (xs @ ys @ zs) = distinct (ys @ xs @ zs)"
  by auto

lemma workspaces_ok_insert: "workspaces_ok (A @ ws # B) \<longleftrightarrow> workspaces_ok (ws # A @ B)"
  using distinct_middle [of "concat (map live_panes A)" "live_panes ws" "concat (map live_panes B)"]
    distinct_middle [of "concat (map live_terminals A)" "live_terminals ws" "concat (map live_terminals B)"]
    distinct_middle [of "map ws_id A" "[ws_id ws]" "map ws_id B"]
  unfolding workspaces_ok_def by (simp del: distinct_append) blast

lemma workspaces_ok_apart:
  assumes "workspaces_ok (A @ ws # B)"
  shows "workspace_ok ws" "ws_id ws \<notin> ws_id ` set (A @ B)"
    "set (live_panes ws) \<inter> \<Union> (set ` live_panes ` set (A @ B)) = {}"
    "set (live_terminals ws) \<inter> \<Union> (set ` live_terminals ` set (A @ B)) = {}"
  using assms by (auto simp: workspaces_ok_def)

lemma ws_at_split:
  "ws_at s k = Some ws \<Longrightarrow> \<exists>A B. as_workspaces s = A @ ws # B \<and> length A = k"
  using nth_split [of k "as_workspaces s"] by (auto simp: ws_at_def split: if_splits)

lemma ws_at_nth: "ws_at s k = Some ws \<longleftrightarrow> k < length (as_workspaces s) \<and> as_workspaces s ! k = ws"
  by (auto simp: ws_at_def)

lemma update_ws_split:
  "as_workspaces s = A @ ws # B \<Longrightarrow> length A = k \<Longrightarrow> as_workspaces (update_ws k f s) = A @ f ws # B"
  by (auto simp: update_ws_def nth_append)

lemma update_ws_fields [simp]:
  "as_active (update_ws k f s) = as_active s" "as_selected (update_ws k f s) = as_selected s"
  "as_terminals (update_ws k f s) = as_terminals s" "as_next_pane_id (update_ws k f s) = as_next_pane_id s"
  "as_next_workspace_id (update_ws k f s) = as_next_workspace_id s" "as_popup_pane (update_ws k f s) = as_popup_pane s"
  "length (as_workspaces (update_ws k f s)) = length (as_workspaces s)"
  by (simp_all add: update_ws_def)

lemma update_ws_nth: "k < length (as_workspaces s) \<Longrightarrow> as_workspaces (update_ws k f s) ! k = f (as_workspaces s ! k)"
  by (simp add: update_ws_def)

text \<open>The new workspace in the place of another may have new panes and terminals.\<close>

lemma app_inv_replace:
  assumes "app_inv T s" and "ws_at s k = Some ws" and "workspace_ok ws'" and "ws_id ws' = ws_id ws"
    and "set (live_panes ws') \<subseteq> set (live_panes ws) \<union> N" "N \<inter> app_panes s = {}" "\<forall>i \<in> N. i < as_next_pane_id s"
    and "set (live_terminals ws') \<subseteq> set (live_terminals ws) \<union> M" "M \<inter> app_terminals s = {}"
    and "M \<subseteq> fst ` set (as_terminals s) \<union> T" "is_none_or (as_popup_pane s) (\<lambda>(_, tm). tm \<notin> M)"
  shows "app_inv T (update_ws k (\<lambda>_. ws') s)"
proof -
  obtain A B where s: "as_workspaces s = A @ ws # B" "length A = k"
    using ws_at_split [OF assms(2)] by blast
  note u = update_ws_split [OF s, of "\<lambda>_. ws'"]
  have ok: "workspaces_ok (A @ ws # B)" using assms(1) s by (simp add: app_inv_def)
  note apart = workspaces_ok_apart [OF ok]
  have sets: "app_panes s = set (live_panes ws) \<union> \<Union> (set ` live_panes ` set (A @ B))"
    "app_terminals s = set (live_terminals ws) \<union> \<Union> (set ` live_terminals ` set (A @ B))"
    by (auto simp: s app_panes_def app_terminals_def)
  have wss: "workspaces_ok (A @ ws' # B)"
  proof (rule workspaces_ok_replace [OF workspaces_ok_remove [OF ok] assms(3)])
    show "ws_id ws' \<notin> ws_id ` set (A @ B)" using apart(2) assms(4) by simp
    show "set (live_panes ws') \<inter> \<Union> (set ` live_panes ` set (A @ B)) = {}"
      using apart(3) assms(5,6) unfolding sets by blast
    show "set (live_terminals ws') \<inter> \<Union> (set ` live_terminals ` set (A @ B)) = {}"
      using apart(4) assms(8,9) unfolding sets by blast
  qed
  have panes: "app_panes (update_ws k (\<lambda>_. ws') s) \<subseteq> app_panes s \<union> N"
    and terminals: "app_terminals (update_ws k (\<lambda>_. ws') s) \<subseteq> app_terminals s \<union> M"
    using assms(5,8) unfolding sets unfolding app_panes_def app_terminals_def u by auto
  have ids: "\<forall>ws \<in> set (A @ ws' # B). generated_id (as_next_workspace_id s) (ws_id ws)"
    using assms(1,4) s by (auto simp: app_inv_def)
  have "focus_ok (A @ ws' # B) (as_active s) (as_selected s)"
    using assms(1) s by (simp add: app_inv_def focus_ok_def)
  moreover have "\<forall>i \<in> app_panes (update_ws k (\<lambda>_. ws') s). i < as_next_pane_id s"
    using panes assms(1,7) by (auto simp: app_inv_def)
  moreover have "app_terminals (update_ws k (\<lambda>_. ws') s) \<subseteq> fst ` set (as_terminals s) \<union> T"
    using terminals assms(1,10) by (auto simp: app_inv_def)
  moreover have "is_none_or (as_popup_pane s) (\<lambda>(_, tm). tm \<notin> app_terminals (update_ws k (\<lambda>_. ws') s))"
    using terminals assms(1,11) by (auto simp: app_inv_def is_none_or_def split: option.splits)
  moreover have "hm_ok (as_terminals s)" "0 < as_next_workspace_id s" using assms(1) by (simp_all add: app_inv_def)
  ultimately show ?thesis
    using wss ids by (simp add: app_inv_def u)
qed

lemma is_none_or_True [simp]: "is_none_or x (\<lambda>(_, _). True)"
  by (simp add: is_none_or_def split: option.split)

lemmas app_inv_shrink = app_inv_replace [where N = "{}" and M = "{}", simplified]

section \<open>Shape\<close>

text \<open>Which panes and terminals are where, and their public names. Most operations only move the
  focus, mark panes as seen, zoom, resize or swap: they keep the shape, and then the invariant
  only asks that layouts are still well-formed and indices in range.\<close>

definition tab_shape where
  "tab_shape t = (tb_number t, tb_root_pane t, map (\<lambda>(i, pane). (i, pn_terminal pane)) (tb_panes t))"

definition ws_shape where
  "ws_shape ws = (ws_id ws, ws_public_pane_numbers ws, ws_next_public_pane_number ws,
     ws_next_public_tab_number ws, map tab_shape (ws_tabs ws))"

definition app_shape where
  "app_shape s = (map ws_shape (as_workspaces s), map fst (as_terminals s), as_next_pane_id s,
     as_next_workspace_id s, as_popup_pane s)"

definition ws_loose :: "workspace \<Rightarrow> bool" where
  "ws_loose ws = (list_all tab_ok (ws_tabs ws) \<and> ws_active_tab ws < length (ws_tabs ws))"

definition app_loose :: "app \<Rightarrow> bool" where
  "app_loose s = (list_all ws_loose (as_workspaces s) \<and> focus_ok (as_workspaces s) (as_active s) (as_selected s))"

lemma tab_shape_ids: "tab_pane_ids t = map fst (snd (snd (tab_shape t)))" "tab_terminals t = map snd (snd (snd (tab_shape t)))"
  "tb_number t = fst (tab_shape t)"
  by (simp_all add: tab_pane_ids_def tab_terminals_def tab_shape_def comp_def case_prod_unfold)

lemma tab_shapeD:
  assumes "tab_shape t' = tab_shape t"
  shows "tab_pane_ids t' = tab_pane_ids t" "tab_terminals t' = tab_terminals t" "tb_number t' = tb_number t"
    "tb_root_pane t' = tb_root_pane t"
  using assms by (simp_all add: tab_shape_ids) (simp add: tab_shape_def)

lemma map_via:
  assumes "map g xs = map g ys" and "\<And>x y. g x = g y \<Longrightarrow> f x = f y"
  shows "map f xs = map f ys"
  using assms(1)
proof (induction xs arbitrary: ys)
  case (Cons x xs)
  from Cons.prems obtain y zs where y: "ys = y # zs" "g x = g y" "map g xs = map g zs" by (cases ys) auto
  show ?case using Cons.IH [OF y(3)] assms(2) [OF y(2)] y(1) by simp
qed simp

lemma ws_shapeD:
  assumes "ws_shape ws' = ws_shape ws"
  shows "ws_id ws' = ws_id ws" "live_panes ws' = live_panes ws" "live_terminals ws' = live_terminals ws"
    "map tb_number (ws_tabs ws') = map tb_number (ws_tabs ws)" "length (ws_tabs ws') = length (ws_tabs ws)"
    "ws_public_pane_numbers ws' = ws_public_pane_numbers ws" "ws_next_public_pane_number ws' = ws_next_public_pane_number ws"
    "ws_next_public_tab_number ws' = ws_next_public_tab_number ws"
proof -
  have tabs: "map tab_shape (ws_tabs ws') = map tab_shape (ws_tabs ws)" using assms by (simp add: ws_shape_def)
  show "live_panes ws' = live_panes ws" "live_terminals ws' = live_terminals ws"
    "map tb_number (ws_tabs ws') = map tb_number (ws_tabs ws)"
    using map_via [OF tabs tab_shapeD(1)] map_via [OF tabs tab_shapeD(2)] map_via [OF tabs tab_shapeD(3)]
    by (simp_all add: live_panes_def live_terminals_def)
  show "length (ws_tabs ws') = length (ws_tabs ws)" using arg_cong [OF tabs, of length] by simp
qed (use assms in \<open>simp_all add: ws_shape_def\<close>)

lemma ws_loose_ok: "workspace_ok ws \<Longrightarrow> ws_loose ws"
  by (simp add: workspace_ok_def workspace_core_def tabs_ok_def ws_loose_def)

lemma workspace_ok_shape:
  assumes "workspace_ok ws" and "ws_shape ws' = ws_shape ws" and "ws_loose ws'"
  shows "workspace_ok ws'"
proof -
  note d = ws_shapeD [OF assms(2)]
  have "(\<forall>t \<in> set (ws_tabs ws'). tb_number t < n) = (\<forall>t \<in> set (ws_tabs ws). tb_number t < n)" for n
    using arg_cong [OF d(4), of "\<lambda>xs. \<forall>m \<in> set xs. m < n"] by simp
  then show ?thesis
    using assms(1,3) d(2,3)
    by (simp add: workspace_ok_def workspace_core_def tabs_ok_def ws_loose_def d live_panes_def live_terminals_def)
qed

lemma app_shapeD:
  assumes "app_shape s' = app_shape s"
  shows "map ws_id (as_workspaces s') = map ws_id (as_workspaces s)"
    "map live_panes (as_workspaces s') = map live_panes (as_workspaces s)"
    "map live_terminals (as_workspaces s') = map live_terminals (as_workspaces s)"
    "length (as_workspaces s') = length (as_workspaces s)"
    "app_panes s' = app_panes s" "app_terminals s' = app_terminals s"
    "map fst (as_terminals s') = map fst (as_terminals s)" "as_next_pane_id s' = as_next_pane_id s"
    "as_next_workspace_id s' = as_next_workspace_id s" "as_popup_pane s' = as_popup_pane s"
    "k < length (as_workspaces s) \<Longrightarrow> ws_shape (as_workspaces s' ! k) = ws_shape (as_workspaces s ! k)"
proof -
  have w: "map ws_shape (as_workspaces s') = map ws_shape (as_workspaces s)"
    using assms by (simp add: app_shape_def)
  show len: "length (as_workspaces s') = length (as_workspaces s)" using arg_cong [OF w, of length] by simp
  have nth: "ws_shape (as_workspaces s' ! k) = ws_shape (as_workspaces s ! k)" if "k < length (as_workspaces s)" for k
    using that w len by (metis nth_map)
  then show "k < length (as_workspaces s) \<Longrightarrow> ws_shape (as_workspaces s' ! k) = ws_shape (as_workspaces s ! k)" .
  show "map ws_id (as_workspaces s') = map ws_id (as_workspaces s)"
    and p: "map live_panes (as_workspaces s') = map live_panes (as_workspaces s)"
    and t: "map live_terminals (as_workspaces s') = map live_terminals (as_workspaces s)"
    by (rule map_via [OF w ws_shapeD(1)] map_via [OF w ws_shapeD(2)] map_via [OF w ws_shapeD(3)], assumption)+
  show "app_panes s' = app_panes s" "app_terminals s' = app_terminals s"
    using arg_cong [OF p, of "\<lambda>xs. \<Union> (set ` set xs)"] arg_cong [OF t, of "\<lambda>xs. \<Union> (set ` set xs)"]
    by (simp_all add: app_panes_def app_terminals_def image_image)
qed (use assms in \<open>simp_all add: app_shape_def\<close>)

lemma app_inv_shape:
  assumes "app_inv T s" and "app_shape s' = app_shape s" and "app_loose s'"
  shows "app_inv T s'"
proof -
  note d = app_shapeD [OF assms(2)]
  have "list_all workspace_ok (as_workspaces s')"
    using assms(1,3) d(4,11)
    by (auto simp: list_all_length app_inv_def workspaces_ok_def app_loose_def intro: workspace_ok_shape)
  moreover have "\<forall>ws \<in> set (as_workspaces s'). generated_id (as_next_workspace_id s) (ws_id ws)"
    using assms(1) arg_cong [OF d(1), of "\<lambda>xs. \<forall>x \<in> set xs. generated_id (as_next_workspace_id s) x"]
    by (simp add: app_inv_def)
  moreover have "fst ` set (as_terminals s') = fst ` set (as_terminals s)"
    using arg_cong [OF d(7), of set] by simp
  ultimately show ?thesis
    using assms(1,3) d by (simp add: app_inv_def workspaces_ok_def app_loose_def hm_ok_def)
qed

lemma app_loose: "app_inv T s \<Longrightarrow> app_loose s"
  by (auto simp: app_inv_def app_loose_def workspaces_ok_def list_all_iff ws_loose_ok)

lemma view_shape: "app_view s' = app_view s \<Longrightarrow> app_shape s' = app_shape s" "app_view s' = app_view s \<Longrightarrow> app_loose s' = app_loose s"
  by (simp_all add: app_view_def app_shape_def app_loose_def)

lemmas shape_view [simp] = view_simps [THEN view_shape(1)] view_simps [THEN view_shape(2)]

end
