(* ===== verification/App_Focus.thy ===== *)
theory App_Focus
  imports App_Invariants
begin

text \<open>
  The operations that keep the shape of the application: focus, zoom, resizing and swapping,
  names, and everything that only happens to terminals (reports, expiry, notifications).
\<close>

definition keeps :: "app \<Rightarrow> app \<Rightarrow> bool" where
  "keeps s s' = (app_shape s' = app_shape s \<and> (app_loose s \<longrightarrow> app_loose s'))"

lemma keeps_inv: "keeps s s' \<Longrightarrow> app_inv T s \<Longrightarrow> app_inv T s'"
  using app_inv_shape [of T s s'] app_loose [of T s] by (simp add: keeps_def)

lemma keeps_shape: "keeps s s' \<Longrightarrow> app_shape s' = app_shape s"
  by (simp add: keeps_def)

lemma keeps_refl [simp, intro]: "keeps s s"
  by (simp add: keeps_def)

lemma keeps_trans [trans]: "keeps s s' \<Longrightarrow> keeps s' s'' \<Longrightarrow> keeps s s''"
  by (simp add: keeps_def)

lemma keeps_view: "app_view s' = app_view s \<Longrightarrow> keeps s s'"
  using view_shape [of s' s] by (simp add: keeps_def)

lemma keeps_view_iff: "app_view s'' = app_view s' \<Longrightarrow> keeps s s'' = keeps s s'"
  using view_shape [of s'' s'] by (simp add: keeps_def)

lemmas keeps_views [simp] = view_simps [THEN keeps_view_iff]

section \<open>Focus\<close>

lemma keeps_update_ws:
  assumes "\<And>ws. ws_at s k = Some ws \<Longrightarrow> ws_shape (f ws) = ws_shape ws"
    and "\<And>ws. ws_at s k = Some ws \<Longrightarrow> ws_loose ws \<Longrightarrow> ws_loose (f ws)"
  shows "keeps s (update_ws k f s)"
proof (cases "k < length (as_workspaces s)")
  case True
  then have k: "ws_at s k = Some (as_workspaces s ! k)" by (simp add: ws_at_def)
  have "map ws_shape (as_workspaces (update_ws k f s)) = map ws_shape (as_workspaces s)"
    using assms(1) [OF k] True by (simp add: update_ws_def map_update list_update_same_conv)
  moreover have "app_loose (update_ws k f s)" if "app_loose s"
    using that assms(2) [OF k] True
    by (auto simp: app_loose_def list_all_length update_ws_def nth_list_update focus_ok_def)
  ultimately show ?thesis by (simp add: keeps_def app_shape_def)
next
  case False
  then have "update_ws k f s = s" by (simp add: update_ws_def list_update_beyond)
  then show ?thesis by simp
qed

lemma keeps_active: "k < length (as_workspaces s) \<Longrightarrow> keeps s (s\<lparr>as_active := Some k, as_selected := k\<rparr>)"
  by (auto simp: keeps_def app_shape_def app_loose_def focus_ok_def)

text \<open>One tab of a workspace.\<close>

lemma tab_update_shape:
  assumes "tab_at ws j = Some t" and "tab_shape t' = tab_shape t" and "tab_ok t \<Longrightarrow> tab_ok t'"
  shows "ws_shape (ws\<lparr>ws_tabs := (ws_tabs ws)[j := t']\<rparr>) = ws_shape ws"
    "ws_loose ws \<Longrightarrow> ws_loose (ws\<lparr>ws_tabs := (ws_tabs ws)[j := t']\<rparr>)"
proof -
  have j: "j < length (ws_tabs ws)" "ws_tabs ws ! j = t" using assms(1) by (auto simp: tab_at_def split: if_splits)
  then show "ws_shape (ws\<lparr>ws_tabs := (ws_tabs ws)[j := t']\<rparr>) = ws_shape ws"
    using assms(2) by (simp add: ws_shape_def map_update list_update_same_conv)
  show "ws_loose ws \<Longrightarrow> ws_loose (ws\<lparr>ws_tabs := (ws_tabs ws)[j := t']\<rparr>)"
    using assms(3) j by (auto simp: ws_loose_def list_all_length nth_list_update)
qed

lemma keeps_update_tab:
  assumes "\<And>ws t. ws_at s k = Some ws \<Longrightarrow> tab_at ws j = Some t \<Longrightarrow>
      tab_shape (f t) = tab_shape t \<and> (tab_ok t \<longrightarrow> tab_ok (f t))"
  shows "keeps s (update_tab k j f s)"
  unfolding update_tab_def
proof (rule keeps_update_ws)
  fix ws assume ws: "ws_at s k = Some ws"
  have "ws_tabs ws ! j = t" "tab_shape (f t) = tab_shape t" "tab_ok t \<Longrightarrow> tab_ok (f t)" if "tab_at ws j = Some t" for t
    using that assms [OF ws that] by (auto simp: tab_at_def split: if_splits)
  moreover have "(ws_tabs ws)[j := t] = ws_tabs ws" if "tab_at ws j = None" for t
    using that by (simp add: tab_at_def list_update_beyond split: if_splits)
  ultimately show "ws_shape (ws\<lparr>ws_tabs := (ws_tabs ws)[j := f (ws_tabs ws ! j)]\<rparr>) = ws_shape ws"
    "ws_loose ws \<Longrightarrow> ws_loose (ws\<lparr>ws_tabs := (ws_tabs ws)[j := f (ws_tabs ws ! j)]\<rparr>)"
    using tab_update_shape [of ws j _ "f (ws_tabs ws ! j)"] by (cases "tab_at ws j"; simp)+
qed

lemma seen_tab_shape:
  "tab_shape (t\<lparr>tb_panes := map (\<lambda>(i, pane). (i, pane\<lparr>pn_seen := f i pane\<rparr>)) (tb_panes t)\<rparr>) = tab_shape t"
  "tab_ok (t\<lparr>tb_panes := map (\<lambda>(i, pane). (i, pane\<lparr>pn_seen := f i pane\<rparr>)) (tb_panes t)\<rparr>) = tab_ok t"
  by (simp_all add: tab_shape_def tab_ok_def hm_ok_def comp_def case_prod_unfold)

lemma switch_tab_shape:
  "ws_shape (switch_tab j ws) = ws_shape ws" "ws_loose ws \<Longrightarrow> ws_loose (switch_tab j ws)"
proof -
  let ?f = "\<lambda>t. t\<lparr>tb_panes := map (\<lambda>(i, pane). (i, pane\<lparr>pn_seen := True\<rparr>)) (tb_panes t)\<rparr>"
  have s: "switch_tab j ws = (if j < length (ws_tabs ws)
      then ws\<lparr>ws_tabs := (ws_tabs ws)[j := ?f (ws_tabs ws ! j)], ws_active_tab := j\<rparr> else ws)"
    by (simp add: switch_tab_def Let_def)
  have t: "tab_at ws j = Some (ws_tabs ws ! j)" if "j < length (ws_tabs ws)" using that by (simp add: tab_at_def)
  note u = tab_update_shape [OF t, of "?f (ws_tabs ws ! j)", unfolded seen_tab_shape, OF _ refl]
  show "ws_shape (switch_tab j ws) = ws_shape ws" "ws_loose ws \<Longrightarrow> ws_loose (switch_tab j ws)"
    using u by (auto simp: s ws_shape_def ws_loose_def)
qed

lemma keeps_switch_workspace: "keeps s (switch_workspace k s)"
proof (cases "k < length (as_workspaces s)")
  case True
  have "keeps s (update_ws k (\<lambda>ws. switch_tab (ws_active_tab ws) ws) (mark_session_dirty (s\<lparr>as_active := Some k, as_selected := k\<rparr>)))"
    by (rule keeps_trans [OF keeps_active [OF True]], rule keeps_trans [OF keeps_view keeps_update_ws])
      (simp_all add: view_simps switch_tab_shape)
  then show ?thesis using True by (simp add: switch_workspace_def Let_def)
qed (simp add: switch_workspace_def)

lemma keeps_switch_workspace_tab: "keeps s (fst (switch_workspace_tab k j s))"
proof (cases "is_none_or (ws_at s k) (\<lambda>ws. length (ws_tabs ws) \<le> j)")
  case False
  then have k: "k < length (as_workspaces s)" by (auto simp: ws_at_def split: if_splits)
  have "keeps s (update_ws k (switch_tab j) (mark_session_dirty (s\<lparr>as_active := Some k, as_selected := k\<rparr>)))"
    by (rule keeps_trans [OF keeps_active [OF k]], rule keeps_trans [OF keeps_view keeps_update_ws])
      (simp_all add: view_simps switch_tab_shape)
  then show ?thesis using False by (simp add: switch_workspace_tab_def Let_def)
qed (simp add: switch_workspace_tab_def)

lemma focus_shape:
  "tab_shape (t\<lparr>tb_layout := focus_pane (tb_layout t) i\<rparr>) = tab_shape t"
  "tab_ok t \<Longrightarrow> tab_ok (t\<lparr>tb_layout := focus_pane (tb_layout t) i\<rparr>)"
proof -
  show "tab_ok t \<Longrightarrow> tab_ok (t\<lparr>tb_layout := focus_pane (tb_layout t) i\<rparr>)"
    using tab_refocus(2) [of t i] by (cases "i \<in> set (tab_pane_ids t)")
      (simp_all add: focus_pane_def tab_ok_def tab_pane_ids_def)
qed (simp add: tab_shape_def)

lemma keeps_focus_tab_pane: "keeps s (focus_tab_pane k j i s)"
  using keeps_update_tab [of s k j "\<lambda>t. t\<lparr>tb_layout := focus_pane (tb_layout t) i\<rparr>"]
  by (simp add: focus_tab_pane_def update_tab_def Let_def focus_shape)

lemma keeps_focus_pane: "keeps s (fst (focus_pane_in_workspace k i s))"
proof -
  have "keeps s (fst (switch_workspace_tab k j (clear_copy_mode_selection s)))" for j
    using keeps_trans [OF keeps_view keeps_switch_workspace_tab] by (simp add: view_simps)
  then have sw: "keeps s (fst (switch_workspace_tab k j (if as_copy_mode s \<noteq> None then clear_copy_mode_selection s else s)))" for j
    using keeps_switch_workspace_tab [of s k j] by simp
  have "keeps s (focus_tab_pane k j i
      (fst (switch_workspace_tab k j (if as_copy_mode s \<noteq> None then clear_copy_mode_selection s else s))))" for j
    by (rule keeps_trans [OF sw keeps_focus_tab_pane])
  with sw show ?thesis
    by (cases "as_copy_mode s") (simp_all add: focus_pane_in_workspace_def Let_def split: option.split)
qed

lemma keeps_mark_active_tab_seen: "keeps s (fst (mark_active_tab_seen s))"
proof -
  have "keeps s (update_ws k (\<lambda>ws. ws\<lparr>ws_tabs := (ws_tabs ws)[ws_active_tab ws :=
      t\<lparr>tb_panes := map (\<lambda>(i, pane). (i, pane\<lparr>pn_seen := True\<rparr>)) (tb_panes t)\<rparr>]\<rparr>) s)"
    if "Option.bind (ws_at s k) active_tab = Some t" for k t
    using that tab_update_shape [of "as_workspaces s ! k" "ws_active_tab (as_workspaces s ! k)" t]
    by (intro keeps_update_ws)
      (auto simp: ws_at_nth bind_eq_Some_conv active_tab_def tab_at_def seen_tab_shape split: if_splits)
  then show ?thesis by (simp add: mark_active_tab_seen_def split: option.split)
qed

lemma keeps_apply_pane_zoom: "keeps s (fst (apply_pane_zoom k i command s))"
proof -
  have z: "keeps s' (update_ws k (\<lambda>ws. ws\<lparr>ws_tabs := (ws_tabs ws)[j := t\<lparr>tb_zoomed := z\<rparr>]\<rparr>) s')"
    if "Option.bind (ws_at s' k) (\<lambda>ws. tab_at ws j) = Some t" for s' j t z
    using that tab_update_shape [of "as_workspaces s' ! k" j t "t\<lparr>tb_zoomed := z\<rparr>"]
    by (intro keeps_update_ws) (auto simp: ws_at_nth bind_eq_Some_conv tab_shape_def tab_ok_def)
  obtain s1 b where f: "focus_pane_in_workspace k i s = (s1, b)" by fastforce
  then have "keeps s s1" using keeps_focus_pane [of s k i] by simp
  then show ?thesis
    using keeps_trans [OF _ z [of s1]] by (auto simp: apply_pane_zoom_def f Let_def split: option.split)
qed

section \<open>Requests on tabs and panes\<close>

lemma keeps_handle_pane_focus: "keeps s (fst (handle_pane_focus name s))"
proof -
  have "keeps s (fst (mark_active_tab_seen (fst (focus_pane_in_workspace k i s))))" for k i
    by (rule keeps_trans [OF keeps_focus_pane keeps_mark_active_tab_seen])
  then show ?thesis by (simp add: handle_pane_focus_def Let_def split: option.split)
qed

lemma keeps_handle_pane_focus_direction: "keeps s (fst (handle_pane_focus_direction rn name nav s))"
proof -
  have "keeps s (fst (switch_workspace_tab k j (fst (focus_pane_in_workspace k i s))))" for k j i
    by (rule keeps_trans [OF keeps_focus_pane keeps_switch_workspace_tab])
  then show ?thesis by (simp add: handle_pane_focus_direction_def Let_def split: option.split)
qed

lemma resize_amount_finite: "resize_amount amount \<noteq> NaN"
  by (auto simp: resize_amount_def f32_0_05_def f32_0_5_def f32_0_1_def split: option.split f32.split)

lemma resize_shape:
  assumes "delta \<noteq> NaN"
  shows "tab_shape (t\<lparr>tb_layout := fst (resize_pane rn (tb_layout t) i nav delta area)\<rparr>) = tab_shape t"
    "tab_ok t \<Longrightarrow> tab_ok (t\<lparr>tb_layout := fst (resize_pane rn (tb_layout t) i nav delta area)\<rparr>)"
  using resize_pane_wf [OF _ assms] by (simp_all add: tab_shape_def tab_ok_def resize_pane_frame(1))

lemma swap_shape:
  "tab_shape (t\<lparr>tb_layout := focus_pane (fst (swap_panes (tb_layout t) a b)) c\<rparr>) = tab_shape t"
  "tab_ok t \<Longrightarrow> tab_ok (t\<lparr>tb_layout := focus_pane (fst (swap_panes (tb_layout t) a b)) c\<rparr>)"
proof -
  let ?t = "t\<lparr>tb_layout := fst (swap_panes (tb_layout t) a b)\<rparr>"
  have "set (pane_ids (fst (swap_panes (tb_layout t) a b))) = set (pane_ids (tb_layout t))"
    using set_swap_ids [of a "set (pane_ids (tb_layout t))" b]
    by (auto simp: swap_panes_def pane_ids_node node_ids_swap Let_def)
  then have "tab_ok t \<Longrightarrow> tab_ok ?t" by (simp add: tab_ok_def swap_panes_wf)
  then show "tab_ok t \<Longrightarrow> tab_ok (t\<lparr>tb_layout := focus_pane (fst (swap_panes (tb_layout t) a b)) c\<rparr>)"
    using focus_shape(2) [of ?t c] by simp
qed (simp add: tab_shape_def)

lemma keeps_handle_pane_resize: "keeps s (fst (handle_pane_resize rn now name nav amount s))"
proof -
  have "keeps s (update_tab k j (\<lambda>t. t\<lparr>tb_layout := layout\<rparr>) s)"
    if "resize_pane rn (tb_layout (ws_tabs (as_workspaces s ! k) ! j)) i nav (resize_amount amount) (as_terminal_area s)
      = (layout, changed)" for k j i layout changed
    using that resize_shape [OF resize_amount_finite [of amount], where t = "ws_tabs (as_workspaces s ! k) ! j" and rn = rn and i = i and nav = nav and area = "as_terminal_area s"]
    by (intro keeps_update_tab) (auto simp: ws_at_nth tab_at_def split: if_splits)
  then show ?thesis by (auto simp: handle_pane_resize_def Let_def split: option.split prod.split)
qed

lemma keeps_handle_pane_swap: "keeps s (fst (handle_pane_swap rn now nav name source target s))"
proof -
  have u: "keeps s (update_tab k j (\<lambda>t. t\<lparr>tb_layout := focus_pane layout a\<rparr>) s)"
    if "Option.bind (ws_at s k) (\<lambda>ws. tab_at ws j) = Some t" "swap_panes (tb_layout t) a b = (layout, changed)"
    for k j t a b layout changed
    using that swap_shape [of t a b a]
    by (intro keeps_update_tab) (auto simp: bind_eq_Some_conv split: if_splits)
  have "keeps s (fst (switch_workspace_tab k j (update_tab k j (\<lambda>t. t\<lparr>tb_layout := focus_pane layout a\<rparr>) s)))"
    if "Option.bind (ws_at s k) (\<lambda>ws. tab_at ws j) = Some t" "swap_panes (tb_layout t) a b = (layout, changed)"
    for k j t a b layout changed
    by (rule keeps_trans [OF u [OF that] keeps_switch_workspace_tab])
  with u show ?thesis
    by (auto simp: handle_pane_swap_def Let_def split: option.split sum.split prod.split)
qed

lemma keeps_handle_pane_zoom: "keeps s (fst (handle_pane_zoom now name command s))"
proof -
  have "keeps s s1" if "apply_pane_zoom k i command s = (s1, r)" for k i s1 r
    using keeps_apply_pane_zoom [of s k i command] that by simp
  then show ?thesis by (auto simp: handle_pane_zoom_def Let_def split: option.split prod.split)
qed

lemma keeps_tab_rename: "keeps s (update_tab k j (tab_set_custom_name label) s)"
  by (rule keeps_update_tab) (simp add: tab_shape_def tab_ok_def tab_set_custom_name_def)

lemma keeps_workspace_rename: "keeps s (update_ws k (set_custom_name label) s)"
  by (rule keeps_update_ws) (simp_all add: ws_shape_def ws_loose_def set_custom_name_def)

lemma keeps_focus_requests:
  "keeps s (fst (handle_tab_rename now name label s))" "keeps s (fst (handle_workspace_rename now name label s))"
  "keeps s (fst (handle_tab_focus name s))" "keeps s (fst (handle_workspace_focus name s))"
  using keeps_tab_rename keeps_workspace_rename keeps_switch_workspace_tab keeps_switch_workspace
  by (auto simp: handle_tab_rename_def handle_workspace_rename_def handle_tab_focus_def handle_workspace_focus_def
      split: option.split prod.split)

section \<open>Terminals\<close>

lemma keeps_terminal:
  assumes "hm_get (as_terminals s) k = Some t"
  shows "keeps s (s\<lparr>as_terminals := hm_insert k t' (as_terminals s)\<rparr>)"
proof -
  have "k \<in> fst ` set (as_terminals s)"
    using assms by (auto simp: hm_get_def dest!: map_of_SomeD intro: rev_image_eqI)
  then have "map fst (hm_insert k t' (as_terminals s)) = map fst (as_terminals s)"
    unfolding hm_insert_def by (simp add: update_keys)
  then show ?thesis by (simp add: keeps_def app_shape_def app_loose_def)
qed

lemma view_apply_delivery [simp]: "app_view (apply_agent_notification_delivery d s) = app_view s"
  by (simp add: apply_agent_notification_delivery_def Let_def view_simps split: option.split)

lemma view_record_or_deliver: "app_view (fst (record_or_deliver_agent_notification label now k i change s)) = app_view s"
  by (simp add: record_or_deliver_agent_notification_def Let_def view_simps split: option.split)

lemma list_all_update: "k < length xs \<Longrightarrow> P x = P (xs ! k) \<Longrightarrow> list_all P (xs[k := x]) = list_all P xs"
  by (auto simp: list_all_length nth_list_update)

lemma set_pane_seen_shape:
  "map tab_shape (set_pane_seen i seen tabs) = map tab_shape tabs"
  "list_all tab_ok (set_pane_seen i seen tabs) = list_all tab_ok tabs"
  "length (set_pane_seen i seen tabs) = length tabs"
proof -
  have s: "tb_panes t = tb_panes t \<Longrightarrow> (t\<lparr>tb_panes := map (\<lambda>(j, pane). (j, if j = i then pane\<lparr>pn_seen := seen\<rparr> else pane)) (tb_panes t)\<rparr>)
      = t\<lparr>tb_panes := map (\<lambda>(j, pane). (j, pane\<lparr>pn_seen := (if j = i then seen else pn_seen pane)\<rparr>)) (tb_panes t)\<rparr>" for t
    by (simp add: case_prod_unfold cong: map_cong)
  show "map tab_shape (set_pane_seen i seen tabs) = map tab_shape tabs"
    "list_all tab_ok (set_pane_seen i seen tabs) = list_all tab_ok tabs"
    "length (set_pane_seen i seen tabs) = length tabs"
    by (auto simp: set_pane_seen_def s seen_tab_shape map_update list_update_same_conv list_all_update
        dest: index_of_Some split: option.split)
qed

lemma keeps_apply_pane_state_change: "keeps s (fst (apply_pane_state_change label now k i change s))"
proof -
  have u: "keeps s (update_ws k (\<lambda>ws. ws\<lparr>ws_tabs := set_pane_seen i seen (ws_tabs ws)\<rparr>) s)" for seen
    by (rule keeps_update_ws) (simp_all add: ws_shape_def ws_loose_def set_pane_seen_shape)
  have "keeps s (fst (record_or_deliver_agent_notification label now k i change
      (update_ws k (\<lambda>ws. ws\<lparr>ws_tabs := set_pane_seen i seen (ws_tabs ws)\<rparr>) s)))" for seen
    using u [of seen] by (simp add: keeps_view_iff [OF view_record_or_deliver])
  then show ?thesis
    by (simp add: apply_pane_state_change_def Let_def case_prod_unfold keeps_view_iff [OF view_apply_delivery]
        split: option.split)
qed

lemma keeps_announce_change:
  "keeps s (fst (announce_change label now k i terminal_id seen mutation s))"
proof -
  have t: "keeps s (s\<lparr>as_next_agent_state_change_seq := n, as_terminals := hm_insert terminal_id t' (as_terminals s)\<rparr>)"
    if "hm_get (as_terminals s) terminal_id = Some t" for s n t'  t
    using keeps_trans [OF keeps_view keeps_terminal [of "s\<lparr>as_next_agent_state_change_seq := n\<rparr>" terminal_id t t'], of s] that
    by (simp add: view_simps)
  have "keeps s s' \<Longrightarrow> keeps s (fst (apply_pane_state_change label now k i change s'))" for s s' change
    by (rule keeps_trans [OF _ keeps_apply_pane_state_change])
  then show ?thesis
    using t [of s] t [of "mark_session_dirty s"] keeps_trans [OF keeps_view, of "mark_session_dirty s" s]
    by (simp add: announce_change_def Let_def case_prod_unfold view_simps split: option.split)
qed

lemma keeps_update_terminal_state: "keeps s (fst (update_terminal_state label now i update s))"
proof -
  have "keeps s (fst (announce_change label now k i tm seen m (s\<lparr>as_terminals := hm_insert tm t' (as_terminals s)\<rparr>)))"
    if "hm_get (as_terminals s) tm = Some t" for k tm seen m t t'
    by (rule keeps_trans [OF keeps_terminal [OF that] keeps_announce_change])
  then show ?thesis
    using keeps_terminal [of s]
    by (simp add: update_terminal_state_def Let_def case_prod_unfold split: option.split)
qed

lemma keeps_publish_exit: "keeps s (fst (publish_pane_process_exit_if_agent label observed clock i s))"
  by (simp add: publish_pane_process_exit_if_agent_def keeps_update_terminal_state)

text \<open>Every event that is not the death of a pane.\<close>

lemma keeps_handle_app_event:
  assumes "\<And>i. event \<noteq> PaneDied i"
  shows "keeps s (fst (handle_app_event label is_dir now clock event s))"
proof (cases event)
  case (TerminalCwdReported i cwd)
  then show ?thesis using keeps_terminal [of s] by (simp add: handle_app_event_def Let_def split: option.split)
next
  case (UpdateReady version command)
  have "app_view (s\<lparr>as_update_available := a, as_update_install_command := b,
      as_latest_release_notes_available := c, as_update_dismissed := d\<rparr>) = app_view s" for a b c d
    by (simp add: view_simps)
  then show ?thesis using UpdateReady
    by (simp add: handle_app_event_def Let_def keeps_view view_simps)
qed (use assms in \<open>simp_all add: handle_app_event_def option_list_def Let_def keeps_update_terminal_state\<close>)

section \<open>Deadlines\<close>

lemma keeps_fold:
  assumes "\<And>x a. keeps (g a) (g (f x a))"
  shows "keeps (g a) (g (fold f xs a))"
proof (induction xs arbitrary: a)
  case (Cons x xs)
  show ?case using keeps_trans [OF assms [of a x] Cons.IH] by simp
qed simp

lemma keeps_expire_pane_metadata: "keeps (fst acc) (fst (expire_pane_metadata label deadline now entry acc))"
proof -
  obtain k i tm where e: "entry = (k, i, tm)" by (cases entry) auto
  obtain s updates where a: "acc = (s, updates)" by (cases acc)
  have "keeps s (fst (apply_pane_state_change label now k i change (s\<lparr>as_terminals := hm_insert tm t' (as_terminals s)\<rparr>)))"
    if "hm_get (as_terminals s) tm = Some t" for change t t'
    by (rule keeps_trans [OF keeps_terminal [OF that] keeps_apply_pane_state_change])
  then show ?thesis
    using keeps_terminal [of s tm]
    by (simp add: expire_pane_metadata_def e a Let_def case_prod_unfold split: option.split)
qed

lemma keeps_expire_app_agent_metadata: "keeps s (fst (expire_app_agent_metadata_at label deadline now s))"
  using keeps_fold [of fst "expire_pane_metadata label deadline now" "(s, [])" "pane_terminals s"] keeps_expire_pane_metadata
  by (simp add: expire_app_agent_metadata_at_def)

lemma keeps_expire_pane_tokens: "keeps (fst acc) (fst (expire_pane_tokens now entry acc))"
  using keeps_terminal [of "fst acc" "snd (snd entry)"]
  by (auto simp: expire_pane_tokens_def case_prod_unfold Let_def split: option.split)

lemma keeps_workspace_tokens:
  assumes "length es = length (as_workspaces s)"
  shows "keeps s (s\<lparr>as_workspaces := map (\<lambda>(ws, e). ws\<lparr>ws_metadata_tokens := fst e\<rparr>) (zip (as_workspaces s) es)\<rparr>)"
  using assms by (auto simp: keeps_def app_shape_def ws_shape_def app_loose_def ws_loose_def focus_ok_def list_all_length
      intro!: nth_equalityI)

lemma keeps_expire_app_metadata_tokens: "keeps s (fst (expire_app_metadata_tokens now s))"
proof -
  define s1 where "s1 = fst (fold (expire_pane_tokens now) (pane_terminals s) (s, []))"
  have "keeps s s1"
    using keeps_fold [of fst "expire_pane_tokens now", OF keeps_expire_pane_tokens] by (metis fst_conv s1_def)
  from keeps_trans [OF this keeps_workspace_tokens, of "map (\<lambda>ws. expire_at (ws_metadata_tokens ws) now) (as_workspaces s1)"]
  show ?thesis by (simp add: expire_app_metadata_tokens_def Let_def case_prod_unfold s1_def)
qed

lemma view_sync_deadlines [simp]:
  "app_view (sync_agent_metadata_deadline now s) = app_view s" "app_view (sync_toast_deadline now toast s) = app_view s"
  "app_view (refresh_new_herdr_toast_context_for_update live toast update s) = app_view s"
  "app_view (refresh_delivery_context live d s) = app_view s" "app_view (expire_toast now s) = app_view s"
  by (simp_all add: sync_agent_metadata_deadline_def sync_toast_deadline_def refresh_new_herdr_toast_context_for_update_def
      refresh_delivery_context_def expire_toast_def Let_def view_simps split: option.split)

lemma view_fold: "(\<And>x s. app_view (f x s) = app_view s) \<Longrightarrow> app_view (fold f xs s) = app_view s"
  by (induction xs arbitrary: s) simp_all

lemma view_refresh_all [simp]:
  "app_view (fold (refresh_new_herdr_toast_context_for_update live toast) updates s) = app_view s"
  "app_view (fold (refresh_delivery_context live) ds s) = app_view s"
  by (rule view_fold, simp)+

lemmas keeps_refresh [simp] = view_sync_deadlines [THEN keeps_view_iff] view_refresh_all [THEN keeps_view_iff]

lemma keeps_expire_due_metadata: "keeps s (fst (expire_due_metadata label live now s))"
proof -
  have "keeps s (expire_metadata_at label live deadline now s)" for deadline
  proof -
    let ?s1 = "fst (expire_app_agent_metadata_at label deadline now s)"
    let ?us = "snd (expire_app_agent_metadata_at label deadline now s)"
    have "keeps s (fold (refresh_new_herdr_toast_context_for_update live (as_toast s)) ?us ?s1)"
      by (simp add: keeps_expire_app_agent_metadata)
    from keeps_trans [OF this keeps_expire_app_metadata_tokens [of _ now]] show ?thesis
      by (simp add: expire_metadata_at_def Let_def case_prod_unfold)
  qed
  then show ?thesis by (simp add: expire_due_metadata_def split: option.split)
qed

lemma keeps_deliver_due: "keeps s (deliver_due_notifications label live now clock s)"
proof -
  have "app_view (fst (drain_pane label i acc)) = app_view (fst acc)" for i acc
    by (cases acc) (simp add: drain_pane_def Let_def view_simps split: option.split)
  then have "keeps (fst a) (fst (drain_pane label i a))" for i a by (rule keeps_view)
  from keeps_fold [of fst "drain_pane label", OF this] have "keeps s (fst (drain_due_agent_notifications label now s))"
    by (metis fst_conv drain_due_agent_notifications_def)
  then show ?thesis by (simp add: deliver_due_notifications_def Let_def case_prod_unfold)
qed

lemma keeps_expire_toast: "keeps s (expire_toast now s)"
  by simp

end
