(* ===== verification/App_Structure.thy ===== *)
theory App_Structure
  imports App_Focus
begin

text \<open>
  The operations that change which workspaces, tabs and panes there are, one lemma per request
  and event that they keep the invariant. Identifiers of new terminals are assumed fresh, and
  the counters of panes and workspaces not to wrap around.
\<close>

section \<open>Parts of the invariant\<close>

definition app_core :: "string set \<Rightarrow> app \<Rightarrow> bool" where
  "app_core T s =
     (workspaces_ok (as_workspaces s)
      \<and> hm_ok (as_terminals s) \<and> app_terminals s \<subseteq> fst ` set (as_terminals s) \<union> T
      \<and> (\<forall>i \<in> app_panes s. i < as_next_pane_id s)
      \<and> (\<forall>ws \<in> set (as_workspaces s). generated_id (as_next_workspace_id s) (ws_id ws))
      \<and> 0 < as_next_workspace_id s
      \<and> is_none_or (as_popup_pane s) (\<lambda>(_, terminal_id). terminal_id \<notin> app_terminals s))"

lemma app_inv_core: "app_inv T s \<longleftrightarrow> app_core T s \<and> focus_ok (as_workspaces s) (as_active s) (as_selected s)"
  by (auto simp: app_inv_def app_core_def)

lemma app_core_view: "app_view s' = app_view s \<Longrightarrow> app_core T s' = app_core T s"
  by (simp add: app_view_def app_core_def app_panes_def app_terminals_def)

lemmas core_view [simp] = view_simps [THEN app_core_view]

lemma app_core_focus [simp]:
  "app_core T (s\<lparr>as_active := a\<rparr>) = app_core T s" "app_core T (s\<lparr>as_selected := k\<rparr>) = app_core T s"
  by (simp_all add: app_core_def app_panes_def app_terminals_def)

text \<open>The last conditions of a step that starts a process.\<close>

definition fresh_terminal :: "app \<Rightarrow> string \<Rightarrow> bool" where
  "fresh_terminal s tm = (tm \<notin> fst ` set (as_terminals s) \<and> is_none_or (as_popup_pane s) (\<lambda>(_, popup). popup \<noteq> tm))"

lemma fresh_not_attached: "app_core {} s \<Longrightarrow> fresh_terminal s tm \<Longrightarrow> tm \<notin> app_terminals s"
  by (auto simp: app_core_def fresh_terminal_def)

lemma fresh_pane: "app_core T s \<Longrightarrow> as_next_pane_id s \<notin> app_panes s"
  by (auto simp: app_core_def)

lemma generated_id_mono: "generated_id n wid \<Longrightarrow> n \<le> m \<Longrightarrow> generated_id m wid"
  by (auto simp: generated_id_def)

lemma app_core_bump:
  assumes "app_core T s" and "as_next_pane_id s \<le> p" and "as_next_workspace_id s \<le> w"
  shows "app_core T (s\<lparr>as_next_workspace_id := w, as_next_pane_id := p\<rparr>)"
  using assms generated_id_mono [of "as_next_workspace_id s" _ w]
  by (auto simp: app_core_def app_panes_def app_terminals_def dest!: bspec)

lemma app_inv_weaken: "app_inv T s \<Longrightarrow> T \<subseteq> T' \<Longrightarrow> app_inv T' s"
  by (auto simp: app_inv_def)

lemma app_core_weaken: "app_core T s \<Longrightarrow> T \<subseteq> T' \<Longrightarrow> app_core T' s"
  by (auto simp: app_core_def)

lemma add_terminal_fields [simp]:
  "as_workspaces (add_terminal t s) = as_workspaces s" "as_active (add_terminal t s) = as_active s"
  "as_selected (add_terminal t s) = as_selected s" "as_next_pane_id (add_terminal t s) = as_next_pane_id s"
  "as_next_workspace_id (add_terminal t s) = as_next_workspace_id s" "as_popup_pane (add_terminal t s) = as_popup_pane s"
  "as_terminals (add_terminal t s) = hm_insert (t_id t) t (as_terminals s)"
  by (simp_all add: add_terminal_def)

lemma app_core_add_terminal: "app_core (insert (t_id t) T) s \<Longrightarrow> app_core T (add_terminal t s)"
  by (auto simp: app_core_def app_panes_def app_terminals_def hm_ok_intros)

lemma app_inv_add_terminal: "app_inv (insert (t_id t) T) s \<Longrightarrow> app_inv T (add_terminal t s)"
  by (simp add: app_inv_core app_core_add_terminal)

lemma app_core_snoc:
  assumes "app_core T s" and "workspace_ok ws" and "ws_id ws \<notin> ws_id ` set (as_workspaces s)"
    and "generated_id (as_next_workspace_id s) (ws_id ws)"
    and "set (live_panes ws) \<inter> app_panes s = {}" "\<forall>i \<in> set (live_panes ws). i < as_next_pane_id s"
    and "set (live_terminals ws) \<inter> app_terminals s = {}" "set (live_terminals ws) \<subseteq> fst ` set (as_terminals s) \<union> T"
    and "is_none_or (as_popup_pane s) (\<lambda>(_, tm). tm \<notin> set (live_terminals ws))"
  shows "app_core T (s\<lparr>as_workspaces := as_workspaces s @ [ws]\<rparr>)"
proof -
  let ?s = "s\<lparr>as_workspaces := as_workspaces s @ [ws]\<rparr>"
  have sets: "app_panes ?s = app_panes s \<union> set (live_panes ws)" "app_terminals ?s = app_terminals s \<union> set (live_terminals ws)"
    by (auto simp: app_panes_def app_terminals_def)
  have "workspaces_ok (as_workspaces s @ ws # [])"
    using assms(1-3,5,7)
    by (intro workspaces_ok_replace) (auto simp: app_core_def app_panes_def app_terminals_def)
  then show ?thesis
    using assms(1,4,6,8,9) by (auto simp: app_core_def sets is_none_or_def split: option.splits)
qed

lemma app_core_remove:
  assumes "app_core T s" and "as_workspaces s = A @ ws # B"
  shows "app_core T (s\<lparr>as_workspaces := A @ B\<rparr>)"
proof -
  have "app_panes (s\<lparr>as_workspaces := A @ B\<rparr>) \<subseteq> app_panes s" "app_terminals (s\<lparr>as_workspaces := A @ B\<rparr>) \<subseteq> app_terminals s"
    using assms(2) by (auto simp: app_panes_def app_terminals_def)
  moreover have "workspaces_ok (A @ B)"
    using assms workspaces_ok_remove [of A ws B] by (simp add: app_core_def)
  ultimately show ?thesis
    using assms by (auto simp: app_core_def is_none_or_def split: option.splits)
qed

section \<open>New workspaces\<close>

text \<open>The counters are not at their ends.\<close>

definition counters_ok :: "app \<Rightarrow> bool" where
  "counters_ok s = (as_next_pane_id s \<noteq> - 1 \<and> as_next_workspace_id s + 1 < usize_limit)"

lemma workspace_with_tab_ok:
  assumes "tab_ok t" and "tab_pane_ids t = [i]" and "tab_terminals t = [tm]" and "tb_root_pane t = i" and "tb_number t = 1"
  shows "workspace_ok (workspace_with_tab wid label cwd t)" "live_panes (workspace_with_tab wid label cwd t) = [i]"
    "live_terminals (workspace_with_tab wid label cwd t) = [tm]" "ws_id (workspace_with_tab wid label cwd t) = wid"
  using assms
  by (simp_all add: workspace_ok_def workspace_core_def workspace_with_tab_def tabs_ok_def numbers_ok_def
      live_panes_def live_terminals_def hm_insert_def hm_ok_def)

lemma new_with_tab_facts:
  assumes "new_with_tab c wid la = (created, c')"
  shows "c' = c + 1" "\<not> la_spawned la \<Longrightarrow> created = None"
    "la_spawned la \<Longrightarrow> \<exists>ws. created = Some (ws, launched_terminal la) \<and> workspace_ok ws \<and> live_panes ws = [c]
      \<and> live_terminals ws = [la_terminal_id la] \<and> ws_id ws = wid"
proof -
  obtain r where r: "tab_new_with_runtime c 1 la = (r, c')" and created: "created = map_option
      (\<lambda>(t, terminal). (workspace_with_tab wid None (la_cwd la) t, terminal)) r"
    using assms by (auto simp: new_with_tab_def split: prod.splits)
  show "c' = c + 1" "\<not> la_spawned la \<Longrightarrow> created = None"
    using r created by (auto simp: tab_new_with_runtime_def pane_id_alloc_def tile_layout_new_def Let_def split: prod.splits if_splits)
  assume "la_spawned la"
  then obtain t where t: "r = Some (t, launched_terminal la)"
    using r by (auto simp: tab_new_with_runtime_def pane_id_alloc_def tile_layout_new_def Let_def split: prod.splits if_splits)
  note f = tab_new_ok [OF r [unfolded t] zero_less_one]
  show "\<exists>ws. created = Some (ws, launched_terminal la) \<and> workspace_ok ws \<and> live_panes ws = [c]
      \<and> live_terminals ws = [la_terminal_id la] \<and> ws_id ws = wid"
    using workspace_with_tab_ok [OF f(1-3,5,4)] by (simp add: created t)
qed

lemma encode_inj:
  assumes "n < usize_limit" "m < usize_limit" "0 < n" "0 < m" "encode_public_number n = encode_public_number m"
  shows "n = m"
proof -
  have "rev (encode_digits n) = rev (encode_digits m)" using assms(3-5) by (simp add: encode_public_number_def)
  then show ?thesis using decode_digits [OF assms(1)] decode_digits [OF assms(2)] by (metis option.inject)
qed

lemma generated_fresh:
  assumes "app_core T s" and "as_next_workspace_id s + 1 < usize_limit"
  shows "fst (generate_workspace_id (as_next_workspace_id s)) \<notin> ws_id ` set (as_workspaces s)"
    "generated_id (snd (generate_workspace_id (as_next_workspace_id s))) (fst (generate_workspace_id (as_next_workspace_id s)))"
    "snd (generate_workspace_id (as_next_workspace_id s)) = as_next_workspace_id s + 1"
proof -
  show "fst (generate_workspace_id (as_next_workspace_id s)) \<notin> ws_id ` set (as_workspaces s)"
  proof
    assume "fst (generate_workspace_id (as_next_workspace_id s)) \<in> ws_id ` set (as_workspaces s)"
    then obtain n where "0 < n" "n < as_next_workspace_id s"
        "encode_public_number (as_next_workspace_id s) = encode_public_number n"
      using assms(1) by (auto simp: app_core_def generated_id_def generate_workspace_id_def)
    then show False using encode_inj [of "as_next_workspace_id s" n] assms(2) by simp
  qed
  show n: "snd (generate_workspace_id (as_next_workspace_id s)) = as_next_workspace_id s + 1"
    using assms(2) by (simp add: generate_workspace_id_def)
  show "generated_id (snd (generate_workspace_id (as_next_workspace_id s))) (fst (generate_workspace_id (as_next_workspace_id s)))"
    using assms(1) unfolding n by (auto simp: generated_id_def generate_workspace_id_def app_core_def)
qed

lemma launched_terminal_id [simp]: "t_id (launched_terminal la) = la_terminal_id la"
  by (simp add: launched_terminal_def terminal_new_def with_launch_argv_def split: option.split)

lemma switch_workspace_inv:
  assumes "app_core T s" and "k < length (as_workspaces s)"
  shows "app_inv T (switch_workspace k s)" "length (as_workspaces (switch_workspace k s)) = length (as_workspaces s)"
proof -
  let ?s = "s\<lparr>as_active := Some k, as_selected := k\<rparr>"
  have v: "app_view (switch_workspace k s) = app_view (update_ws k (\<lambda>ws. switch_tab (ws_active_tab ws) ws) ?s)"
    using assms(2) by (simp add: switch_workspace_def Let_def view_simps) (simp add: app_view_def update_ws_def mark_session_dirty_def)
  have "app_inv T ?s" using assms by (auto simp: app_inv_core focus_ok_def)
  from keeps_inv [OF keeps_update_ws this] show "app_inv T (switch_workspace k s)"
    by (simp add: app_inv_view [OF v] switch_tab_shape)
  show "length (as_workspaces (switch_workspace k s)) = length (as_workspaces s)"
    using app_viewD(1) [OF v] by simp
qed

lemmas keeps_lengths [simp] =
  app_shapeD(4) [OF keeps_shape [OF keeps_switch_workspace]] app_shapeD(4) [OF keeps_shape [OF keeps_switch_workspace_tab]]

lemma focus_ok_snoc: "k < length wss \<Longrightarrow> j < length wss \<Longrightarrow> focus_ok wss (Some k) j"
  by (auto simp: focus_ok_def)

lemma create_workspace_inv:
  assumes "app_inv {} s" and "counters_ok s" and "fresh_terminal s (la_terminal_id la)"
    and "create_workspace_with_launch_env now la focus s = (s', idx)"
  shows "app_inv {} s'" "la_spawned la \<Longrightarrow> idx = Some (length (as_workspaces s))" "\<not> la_spawned la \<Longrightarrow> idx = None"
    "\<not> la_spawned la \<Longrightarrow> s' = s\<lparr>as_next_workspace_id := as_next_workspace_id s + 1, as_next_pane_id := as_next_pane_id s + 1\<rparr>"
    "la_spawned la \<Longrightarrow> length (as_workspaces s') = length (as_workspaces s) + 1"
proof -
  have core: "app_core {} s" and focus: "focus_ok (as_workspaces s) (as_active s) (as_selected s)"
    using assms(1) by (simp_all add: app_inv_core)
  have ws: "as_next_workspace_id s + 1 < usize_limit" and pane: "as_next_pane_id s \<noteq> - 1"
    using assms(2) by (simp_all add: counters_ok_def)
  obtain wid where wid: "generate_workspace_id (as_next_workspace_id s) = (wid, as_next_workspace_id s + 1)"
    "wid \<notin> ws_id ` set (as_workspaces s)" "generated_id (as_next_workspace_id s + 1) wid"
    using generated_fresh [OF core ws] by (cases "generate_workspace_id (as_next_workspace_id s)") simp
  obtain created c' where new: "new_with_tab (as_next_pane_id s) wid la = (created, c')" by fastforce
  note f = new_with_tab_facts [OF new]
  let ?s = "s\<lparr>as_next_workspace_id := as_next_workspace_id s + 1, as_next_pane_id := as_next_pane_id s + 1\<rparr>"
  have core1: "app_core {} ?s"
    using less_plus_one(1) [OF pane] by (intro app_core_bump [OF core]) simp_all
  have inv1: "app_inv {} ?s" using core1 focus by (simp add: app_inv_core)
  show "\<not> la_spawned la \<Longrightarrow> idx = None"
    "\<not> la_spawned la \<Longrightarrow> s' = s\<lparr>as_next_workspace_id := as_next_workspace_id s + 1, as_next_pane_id := as_next_pane_id s + 1\<rparr>"
    using assms(4) f by (simp_all add: create_workspace_with_launch_env_def wid new)
  have all: "app_inv {} s' \<and> idx = Some (length (as_workspaces s)) \<and> length (as_workspaces s') = length (as_workspaces s) + 1"
    if spawned: "la_spawned la"
  proof -
    obtain w where w: "created = Some (w, launched_terminal la)" "workspace_ok w" "live_panes w = [as_next_pane_id s]"
      "live_terminals w = [la_terminal_id la]" "ws_id w = wid"
      using f(3) [OF spawned] by blast
    let ?s1 = "add_terminal (launched_terminal la) ?s"
    let ?s2 = "?s1\<lparr>as_workspaces := as_workspaces s @ [w]\<rparr>"
    have g: "as_workspaces ?s1 = as_workspaces s" "as_next_pane_id ?s1 = as_next_pane_id s + 1"
      "as_next_workspace_id ?s1 = as_next_workspace_id s + 1" "as_popup_pane ?s1 = as_popup_pane s"
      "app_panes ?s1 = app_panes s" "app_terminals ?s1 = app_terminals s"
      by (simp_all add: app_panes_def app_terminals_def)
    have core2: "app_core {} ?s1" by (rule app_core_add_terminal) (rule app_core_weaken [OF core1], simp)
    have "app_core {} (?s1\<lparr>as_workspaces := as_workspaces ?s1 @ [w]\<rparr>)"
    proof (rule app_core_snoc [OF core2 w(2)])
      show "ws_id w \<notin> ws_id ` set (as_workspaces ?s1)" by (simp only: g(1) w(5) wid(2)) simp
      show "generated_id (as_next_workspace_id ?s1) (ws_id w)" by (simp only: g(3) w(5) wid(3))
      show "set (live_panes w) \<inter> app_panes ?s1 = {}" using fresh_pane [OF core] by (simp only: g(5) w(3)) simp
      show "\<forall>i \<in> set (live_panes w). i < as_next_pane_id ?s1"
        using less_plus_one(1) [OF pane] by (simp only: g(2) w(3)) simp
      show "set (live_terminals w) \<inter> app_terminals ?s1 = {}"
        using fresh_not_attached [OF core assms(3)] by (simp only: g(6) w(4)) simp
      show "set (live_terminals w) \<subseteq> fst ` set (as_terminals ?s1) \<union> {}" by (simp add: w(4))
      show "is_none_or (as_popup_pane ?s1) (\<lambda>(_, tm). tm \<notin> set (live_terminals w))"
        using assms(3) unfolding g(4) w(4) by (auto simp: fresh_terminal_def is_none_or_def split: option.splits)
    qed
    then have core3: "app_core {} ?s2" by (simp only: g(1))
    let ?s3 = "remove_alias_shadowed_by_new_pane (tb_root_pane (ws_tabs w ! 0)) ?s2"
    let ?n = "length (as_workspaces s)"
    have s': "s' = schedule_session_save now (if focus \<or> as_active ?s3 = None
        then (switch_workspace ?n ?s3)\<lparr>as_mode := ModeTerminal\<rparr> else ?s3)" "idx = Some ?n"
      using assms(4) by (auto simp: create_workspace_with_launch_env_def wid new f(1) w(1) Let_def add_terminal_def)
    have n: "as_workspaces ?s3 = as_workspaces s @ [w]" "as_active ?s3 = as_active s" "as_selected ?s3 = as_selected s"
      by (simp_all add: g)
    have "app_inv {} (switch_workspace ?n ?s3)"
      using core3 by (intro switch_workspace_inv) simp_all
    moreover have "app_inv {} ?s3" if "as_active s \<noteq> None"
      using that focus core3 unfolding app_inv_core n by (auto simp: focus_ok_def split: if_splits)
    ultimately show ?thesis
      by (auto simp: s' n(2))
  qed
  show "app_inv {} s'" using all inv1 assms(4) f by (cases "la_spawned la") (simp_all add: create_workspace_with_launch_env_def wid new)
  show "la_spawned la \<Longrightarrow> idx = Some (length (as_workspaces s))"
    "la_spawned la \<Longrightarrow> length (as_workspaces s') = length (as_workspaces s) + 1"
    using all by simp_all
qed

section \<open>Tabs\<close>

lemma ws_id_frames:
  "create_tab_with_runtime c la ws = ((ws', created), c') \<Longrightarrow> ws_id ws' = ws_id ws"
  "split_pane_with_runtime c i d ratio la b ws = Some ((ws', new), c') \<Longrightarrow> ws_id ws' = ws_id ws"
  "workspace_remove_pane i ws = Some (ws', close) \<Longrightarrow> ws_id ws' = ws_id ws"
  "close_tab k ws = (ws', ok) \<Longrightarrow> ws_id ws' = ws_id ws"
  "move_tab k l ws = (ws', ok) \<Longrightarrow> ws_id ws' = ws_id ws"
proof -
  have u: "ws_id (fold unregister_pane ids ws) = ws_id ws" for ids ws
    by (induction ids arbitrary: ws) (simp_all add: unregister_pane_def)
  have c: "ws_id (clamp_active_tab k ws) = ws_id ws" for k ws by (simp add: clamp_active_tab_def)
  show "create_tab_with_runtime c la ws = ((ws', created), c') \<Longrightarrow> ws_id ws' = ws_id ws"
    by (auto simp: create_tab_with_runtime_def register_new_pane_with_number_def Let_def split: prod.splits option.splits)
  show "split_pane_with_runtime c i d ratio la b ws = Some ((ws', new), c') \<Longrightarrow> ws_id ws' = ws_id ws"
    by (auto simp: split_pane_with_runtime_def register_new_pane_with_number_def Let_def
        split: prod.splits option.splits if_splits)
  show "workspace_remove_pane i ws = Some (ws', close) \<Longrightarrow> ws_id ws' = ws_id ws"
    by (auto simp: workspace_remove_pane_def unregister_pane_def c Let_def split: prod.splits option.splits if_splits)
  show "close_tab k ws = (ws', ok) \<Longrightarrow> ws_id ws' = ws_id ws"
    by (auto simp: close_tab_def c u Let_def split: if_splits)
  show "move_tab k l ws = (ws', ok) \<Longrightarrow> ws_id ws' = ws_id ws"
    by (auto simp: move_tab_def Let_def split: if_splits)
qed

lemma app_inv_at: "app_inv T s \<Longrightarrow> ws_at s k = Some ws \<Longrightarrow> workspace_ok ws"
  by (auto simp: app_inv_def workspaces_ok_def list_all_iff ws_at_nth)

lemma app_inv_bump_pane:
  assumes "app_inv T s" and "as_next_pane_id s \<noteq> - 1"
  shows "app_inv T (s\<lparr>as_next_pane_id := as_next_pane_id s + 1\<rparr>)"
  using assms less_plus_one [OF assms(2)] by (auto simp: app_inv_def app_panes_def app_terminals_def)

lemma ws_at_fields [simp]: "ws_at (s\<lparr>as_next_pane_id := c\<rparr>) k = ws_at s k" "ws_at (add_terminal t s) k = ws_at s k"
  by (simp_all add: ws_at_def)

lemma live_at: "ws_at s k = Some ws \<Longrightarrow> set (live_panes ws) \<subseteq> app_panes s" "ws_at s k = Some ws \<Longrightarrow> set (live_terminals ws) \<subseteq> app_terminals s"
  using nth_mem [of k "as_workspaces s"] by (auto simp: ws_at_nth app_panes_def app_terminals_def)

text \<open>A workspace in which a process was started in a new pane.\<close>

lemma app_inv_started:
  assumes "app_inv {} s" and "as_next_pane_id s \<noteq> - 1" and "fresh_terminal s tm" and "ws_at s k = Some ws"
    and "workspace_ok ws'" and "ws_id ws' = ws_id ws"
    and "set (live_panes ws') \<subseteq> insert (as_next_pane_id s) (set (live_panes ws))"
    and "set (live_terminals ws') \<subseteq> insert tm (set (live_terminals ws))"
  shows "app_inv {tm} (update_ws k (\<lambda>_. ws') (s\<lparr>as_next_pane_id := as_next_pane_id s + 1\<rparr>))"
proof -
  let ?s = "s\<lparr>as_next_pane_id := as_next_pane_id s + 1\<rparr>"
  have core: "app_core {} s" using assms(1) by (simp add: app_inv_core)
  have sets: "app_panes ?s = app_panes s" "app_terminals ?s = app_terminals s"
    by (simp_all add: app_panes_def app_terminals_def)
  have "app_inv {tm} ?s" by (rule app_inv_weaken [OF app_inv_bump_pane [OF assms(1,2)]]) simp
  then show ?thesis
  proof (rule app_inv_replace [where N = "{as_next_pane_id s}" and M = "{tm}"])
    show "{as_next_pane_id s} \<inter> app_panes ?s = {}" using fresh_pane [OF core] by (simp add: sets)
    show "\<forall>i \<in> {as_next_pane_id s}. i < as_next_pane_id ?s" using less_plus_one(1) [OF assms(2)] by simp
    show "{tm} \<inter> app_terminals ?s = {}" using fresh_not_attached [OF core assms(3)] by (simp add: sets)
    show "is_none_or (as_popup_pane ?s) (\<lambda>(_, t). t \<notin> {tm})"
      using assms(3) by (auto simp: fresh_terminal_def is_none_or_def split: option.splits)
  qed (use assms(4-8) in auto)
qed

lemma keeps_chain: "app_inv T s \<Longrightarrow> keeps s s' \<Longrightarrow> app_inv T s'"
  by (rule keeps_inv)

lemma handle_tab_create_inv:
  assumes "app_inv {} s" and "as_next_pane_id s \<noteq> - 1" and "fresh_terminal s (la_terminal_id la)"
  shows "app_inv {} (fst (handle_tab_create now wid env la focus label s))"
proof -
  have main: "case created of None \<Rightarrow> app_inv {} (update_ws k (\<lambda>_. ws') (s\<lparr>as_next_pane_id := c'\<rparr>))
      | Some (j, terminal) \<Rightarrow> app_inv {} (add_terminal terminal (update_ws k (\<lambda>_. ws') (s\<lparr>as_next_pane_id := c'\<rparr>)))"
    if ws: "ws_at s k = Some ws" and new: "create_tab_with_runtime (as_next_pane_id s) la ws = ((ws', created), c')"
    for k ws ws' created c'
  proof -
    have ok: "workspace_ok ws" by (rule app_inv_at [OF assms(1) ws])
    then have core: "workspace_core {} ws" by (simp add: workspace_ok_def)
    have fresh: "as_next_pane_id s \<notin> set (live_panes ws)" "la_terminal_id la \<notin> set (live_terminals ws)"
      using assms fresh_pane [of "{}" s] fresh_not_attached [of s] live_at [OF ws] by (auto simp: app_inv_core)
    note k = create_tab_core [OF core fresh new]
    have "workspace_ok ws'"
      using k(1,3,4) ok by (simp add: workspace_ok_def)
    note started = app_inv_started [OF assms(1-3) ws this ws_id_frames(1) [OF new]]
    show ?thesis
    proof (cases "la_spawned la")
      case True
      then obtain j terminal where c: "created = Some (j, terminal)" using k(5) by auto
      have "t_id terminal = la_terminal_id la"
        using new c by (auto simp: create_tab_with_runtime_def tab_new_with_runtime_def pane_id_alloc_def
            tile_layout_new_def Let_def split: prod.splits option.splits if_splits)
      moreover have "app_inv {la_terminal_id la} (update_ws k (\<lambda>_. ws') (s\<lparr>as_next_pane_id := c'\<rparr>))"
        using started k(2,5) True by auto
      ultimately show ?thesis
        unfolding c by (simp add: app_inv_add_terminal)
    next
      case False
      then have "created = None" "live_panes ws' = live_panes ws" "live_terminals ws' = live_terminals ws"
        using k(6) by (simp_all add: live_panes_def live_terminals_def)
      then show ?thesis
        using app_inv_shrink [OF app_inv_bump_pane [OF assms(1,2)], of k ws ws'] ws \<open>workspace_ok ws'\<close> ws_id_frames(1) [OF new] k(2)
        by simp
    qed
  qed
  note rename = keeps_inv [OF keeps_tab_rename] and switch = keeps_inv [OF keeps_switch_workspace_tab]
  show ?thesis
    using assms(1) by (auto simp: handle_tab_create_def Let_def intro!: rename switch dest!: main
        split: option.split sum.split prod.split)
qed

end
