(* ===== verification/App_Closing.thy ===== *)
theory App_Closing
  imports App_Structure
begin

text \<open>
  Closing and moving workspaces, tabs and panes, and the death of a pane's process: each keeps
  the invariant of the application, and closing removes exactly what it should.
\<close>

section \<open>Terminals nobody shows\<close>

lemma terminal_attached_iff: "terminal_attached s tm \<longleftrightarrow> tm \<in> app_terminals s"
  by (force simp: terminal_attached_def app_terminals_def live_terminals_def tab_terminals_def list_ex_iff
      hm_values_def case_prod_unfold)

lemma remove_unattached_id_fields:
  "as_workspaces (remove_unattached_terminal_id tm s) = as_workspaces s"
  "as_active (remove_unattached_terminal_id tm s) = as_active s"
  "as_selected (remove_unattached_terminal_id tm s) = as_selected s"
  "as_mode (remove_unattached_terminal_id tm s) = as_mode s"
  "as_next_pane_id (remove_unattached_terminal_id tm s) = as_next_pane_id s"
  "as_next_workspace_id (remove_unattached_terminal_id tm s) = as_next_workspace_id s"
  "as_popup_pane (remove_unattached_terminal_id tm s) = as_popup_pane s"
  by (simp_all add: remove_unattached_terminal_id_def Let_def)

lemma remove_unattached_fields [simp]:
  "as_workspaces (remove_unattached_terminal_ids ids s) = as_workspaces s"
  "as_active (remove_unattached_terminal_ids ids s) = as_active s"
  "as_selected (remove_unattached_terminal_ids ids s) = as_selected s"
  "as_mode (remove_unattached_terminal_ids ids s) = as_mode s"
  "as_next_pane_id (remove_unattached_terminal_ids ids s) = as_next_pane_id s"
  "as_next_workspace_id (remove_unattached_terminal_ids ids s) = as_next_workspace_id s"
  "as_popup_pane (remove_unattached_terminal_ids ids s) = as_popup_pane s"
proof -
  have "as_workspaces (fold remove_unattached_terminal_id ids s) = as_workspaces s
    \<and> as_active (fold remove_unattached_terminal_id ids s) = as_active s
    \<and> as_selected (fold remove_unattached_terminal_id ids s) = as_selected s
    \<and> as_mode (fold remove_unattached_terminal_id ids s) = as_mode s
    \<and> as_next_pane_id (fold remove_unattached_terminal_id ids s) = as_next_pane_id s
    \<and> as_next_workspace_id (fold remove_unattached_terminal_id ids s) = as_next_workspace_id s
    \<and> as_popup_pane (fold remove_unattached_terminal_id ids s) = as_popup_pane s"
    by (induction ids arbitrary: s) (simp_all add: remove_unattached_id_fields)
  then show "as_workspaces (remove_unattached_terminal_ids ids s) = as_workspaces s"
    "as_active (remove_unattached_terminal_ids ids s) = as_active s"
    "as_selected (remove_unattached_terminal_ids ids s) = as_selected s"
    "as_mode (remove_unattached_terminal_ids ids s) = as_mode s"
    "as_next_pane_id (remove_unattached_terminal_ids ids s) = as_next_pane_id s"
    "as_next_workspace_id (remove_unattached_terminal_ids ids s) = as_next_workspace_id s"
    "as_popup_pane (remove_unattached_terminal_ids ids s) = as_popup_pane s"
    by (simp_all add: remove_unattached_terminal_ids_def)
qed

lemma core_remove_terminal:
  assumes "app_core T s" and "tm \<notin> app_terminals s"
  shows "app_core T (s\<lparr>as_terminals := hm_remove tm (as_terminals s)\<rparr>)"
  using assms by (auto simp: app_core_def app_panes_def app_terminals_def hm_ok_intros)

lemma core_remove_unattached_id: "app_core T s \<Longrightarrow> app_core T (remove_unattached_terminal_id tm s)"
  using core_remove_terminal [of T s tm]
  by (simp add: remove_unattached_terminal_id_def terminal_attached_iff Let_def)

lemma core_remove_unattached: "app_core T s \<Longrightarrow> app_core T (remove_unattached_terminal_ids ids s)"
proof -
  show "app_core T s \<Longrightarrow> app_core T (remove_unattached_terminal_ids ids s)"
    unfolding remove_unattached_terminal_ids_def
    by (induction ids arbitrary: s) (simp_all add: core_remove_unattached_id)
qed

lemma inv_remove_unattached: "app_inv T s \<Longrightarrow> app_inv T (remove_unattached_terminal_ids ids s)"
  by (simp add: app_inv_core core_remove_unattached)

section \<open>Removing and moving workspaces\<close>

lemma nths_agree: "(\<And>j. j < length xs \<Longrightarrow> (j \<in> I) = (j \<in> J)) \<Longrightarrow> nths xs I = nths xs J"
  unfolding nths_def by (intro arg_cong [of _ _ "map fst"] filter_cong) (auto dest: set_zip_rightD)

lemma nths_all_but: "k < length xs \<Longrightarrow> (\<forall>j \<in> K. j < k) \<Longrightarrow> nths (remove_at k xs) (- K) = nths xs (- insert k K)"
proof -
  assume k: "k < length xs" and K: "\<forall>j \<in> K. j < k"
  then obtain A x B where xs: "xs = A @ x # B" and A: "length A = k" using nth_split [of k xs] by metis
  have "nths B {j. j + length A \<in> - K} = nths B UNIV" "nths B {j. Suc (j + length A) \<in> - insert k K} = nths B UNIV"
    using K A by (auto intro!: arg_cong [of _ _ "nths B"])
  moreover have "nths A (- K) = nths A (- insert k K)"
    by (rule nths_agree) (use A in auto)
  ultimately show ?thesis
    using A by (simp add: xs remove_at_def nths_append nths_Cons)
qed

lemma fold_remove_at:
  "sorted_wrt (<) ks \<Longrightarrow> \<forall>k \<in> set ks. k < length xs \<Longrightarrow> fold remove_at (rev ks) xs = nths xs (- set ks)"
proof (induction ks arbitrary: xs rule: rev_induct)
  case Nil
  then show ?case by (simp add: nths_all)
next
  case (snoc k ks)
  have "fold remove_at (rev ks) (remove_at k xs) = nths (remove_at k xs) (- set ks)"
    using snoc.prems by (intro snoc.IH) (auto simp: sorted_wrt_append remove_at_def)
  also have "\<dots> = nths xs (- insert k (set ks))"
    using snoc.prems by (intro nths_all_but) (auto simp: sorted_wrt_append)
  finally show ?case by simp
qed

lemma distinct_concat_nths: "distinct (concat (map f xs)) \<Longrightarrow> distinct (concat (map f (nths xs I)))"
proof (induction xs arbitrary: I)
  case (Cons x xs)
  have "set (concat (map f (nths xs {j. Suc j \<in> I}))) \<subseteq> set (concat (map f xs))"
    using set_nths_subset [of xs "{j. Suc j \<in> I}"] by auto
  then show ?case using Cons.IH [of "{j. Suc j \<in> I}"] Cons.prems by (auto simp: nths_Cons)
qed simp

lemma distinct_map_nths: "distinct (map f xs) \<Longrightarrow> distinct (map f (nths xs I))"
  by (simp add: nths_map [symmetric] distinct_nthsI)

lemma workspaces_ok_nths: "workspaces_ok xs \<Longrightarrow> workspaces_ok (nths xs I)"
  using set_nths_subset [of xs I] distinct_map_nths [of ws_id xs I]
  by (auto simp: workspaces_ok_def list_all_iff distinct_concat_nths)

lemma app_core_subset:
  assumes "app_core T s" and "workspaces_ok wss" and "set wss \<subseteq> set (as_workspaces s)"
  shows "app_core T (s\<lparr>as_workspaces := wss\<rparr>)"
proof -
  have "app_panes (s\<lparr>as_workspaces := wss\<rparr>) \<subseteq> app_panes s" "app_terminals (s\<lparr>as_workspaces := wss\<rparr>) \<subseteq> app_terminals s"
    using assms(3) by (auto simp: app_panes_def app_terminals_def)
  then show ?thesis
    using assms by (auto simp: app_core_def is_none_or_def split: option.splits)
qed

lemma worktree_group_sorted:
  assumes "s' = unwrap_or (worktree_group s k) [k]" and "k < length (as_workspaces s)"
  shows "sorted_wrt (<) s'" "\<forall>j \<in> set s'. j < length (as_workspaces s)" "k \<in> set s'"
proof -
  have "sorted_wrt (<) (filter P [0..<n])" for P and n :: nat
    by (rule sorted_wrt_filter) (rule sorted_wrt_upt)
  then show "sorted_wrt (<) s'" "\<forall>j \<in> set s'. j < length (as_workspaces s)" "k \<in> set s'"
    using assms by (auto simp: worktree_group_def ws_at_def unwrap_or_def bind_eq_Some_conv Let_def is_some_and_def
        split: option.splits if_splits)
qed

text \<open>What is left when the selected workspace is closed.\<close>

lemma close_selected_core:
  assumes "app_core T s" and "as_selected s < length (as_workspaces s)"
  shows "app_inv T (close_selected_workspace s)"
    "as_workspaces (close_selected_workspace s)
      = nths (as_workspaces s) (- set (unwrap_or (worktree_group s (as_selected s)) [as_selected s]))"
proof -
  define s1 where "s1 = mark_session_dirty (s\<lparr>as_selection := None, as_selection_autoscroll := False\<rparr>)"
  define ks where "ks = unwrap_or (worktree_group s (as_selected s)) [as_selected s]"
  have v1: "app_view s1 = app_view s" by (simp add: s1_def view_simps)
  have f1: "as_workspaces s1 = as_workspaces s" "as_selected s1 = as_selected s" using app_viewD [OF v1] by simp_all
  have wg: "worktree_group s1 (as_selected s1) = worktree_group s (as_selected s)"
    unfolding worktree_group_def ws_at_def f1 by (rule refl)
  have ks1: "unwrap_or (worktree_group s1 (as_selected s1)) [as_selected s1] = ks"
    by (simp only: wg) (simp add: f1 ks_def)
  note k = worktree_group_sorted [OF ks_def assms(2)]
  define wss where "wss = nths (as_workspaces s) (- set ks)"
  define s2 where "s2 = remove_plugin_pane_records (concat (map (pane_ids_for_workspace s1) ks)) s1"
  define s4 where "s4 = remove_unattached_terminal_ids (concat (map (terminal_ids_for_workspace s1) ks)) (s2\<lparr>as_workspaces := wss\<rparr>)"
  have v2: "app_view s2 = app_view s" by (simp add: s2_def v1 view_simps)
  note f2 = app_viewD [OF v2]
  have fold: "fold remove_at (rev ks) (as_workspaces s2) = wss"
    using fold_remove_at [OF k(1,2)] by (simp add: f2 wss_def)
  have core4: "app_core T s4"
    unfolding s4_def
  proof (rule core_remove_unattached, rule app_core_subset)
    show "app_core T s2" using assms(1) app_core_view [OF v2] by simp
    show "workspaces_ok wss" using assms(1) by (simp add: wss_def workspaces_ok_nths app_core_def)
    show "set wss \<subseteq> set (as_workspaces s2)" using set_nths_subset by (fastforce simp: wss_def f2)
  qed
  have f4: "as_workspaces s4 = wss" "as_selected s4 = as_selected s" by (simp_all add: s4_def f2)
  have c: "close_selected_workspace s = (if wss = [] then s4\<lparr>as_active := None, as_selected := 0\<rparr>
      else (let s5 = (if length wss \<le> as_selected s4 then s4\<lparr>as_selected := length wss - 1\<rparr> else s4)
            in s5\<lparr>as_active := Some (as_selected s5)\<rparr>))"
    using assms(2) unfolding close_selected_workspace_def
    by (simp only: Let_def s1_def [symmetric] ks1 ks_def [symmetric] s2_def [symmetric] fold s4_def [symmetric] f4(1))
      (auto simp: f1)
  show "as_workspaces (close_selected_workspace s)
      = nths (as_workspaces s) (- set (unwrap_or (worktree_group s (as_selected s)) [as_selected s]))"
    by (simp add: c f4 Let_def wss_def [symmetric] ks_def [symmetric])
  show "app_inv T (close_selected_workspace s)"
    using core4 by (auto simp: c f4 Let_def app_inv_core focus_ok_def)
qed

lemma handle_workspace_close_inv: "app_inv {} s \<Longrightarrow> app_inv {} (fst (handle_workspace_close name s))"
proof -
  assume inv: "app_inv {} s"
  have "app_inv {} (close_selected_workspace (s\<lparr>as_selected := k\<rparr>))" if "find_workspace s name = Some k" for k
    using that inv by (intro close_selected_core) (auto simp: app_inv_core find_workspace_def bind_eq_Some_conv split: if_splits)
  then show ?thesis
    using inv by (simp add: handle_workspace_close_def Let_def split: option.split)
qed

lemma index_of_found: "x \<in> set xs \<Longrightarrow> p x \<Longrightarrow> \<exists>k. index_of p xs = Some k \<and> k < length xs \<and> p (xs ! k)"
  using index_of_None [of p xs] index_of_Some [of p xs] by (cases "index_of p xs") auto

lemma move_split:
  assumes "k < length xs" and "t < length xs"
  obtains A B C D where "xs = A @ xs ! k # B" "insert_at t (xs ! k) (remove_at k xs) = C @ xs ! k # D" "C @ D = A @ B"
proof -
  obtain A B where xs: "xs = A @ xs ! k # B" "length A = k" using nth_split [OF assms(1)] by metis
  have "remove_at k xs = A @ B" using xs remove_at_split [of A "xs ! k" B] by simp
  then show thesis
    using that [OF xs(1), of "take t (A @ B)" "drop t (A @ B)"] append_take_drop_id [of t "A @ B"]
    by (simp add: insert_at_def del: take_append drop_append)
qed

lemma workspaces_ok_moved: "workspaces_ok (A @ ws # B) \<Longrightarrow> C @ D = A @ B \<Longrightarrow> workspaces_ok (C @ ws # D)"
  by (simp add: workspaces_ok_insert)

text \<open>Workspaces have different identifiers, so a position is found again by identifier.\<close>

lemma index_of_ws_id:
  assumes "distinct (map ws_id wss)" and "k < length wss"
  shows "index_of (\<lambda>ws. ws_id ws = ws_id (wss ! k)) wss = Some k"
proof -
  obtain j where j: "index_of (\<lambda>ws. ws_id ws = ws_id (wss ! k)) wss = Some j" "j < length wss" "ws_id (wss ! j) = ws_id (wss ! k)"
    using index_of_found [of "wss ! k" wss "\<lambda>ws. ws_id ws = ws_id (wss ! k)"] assms(2) by auto
  then have "j = k" using assms nth_eq_iff_index_eq [of "map ws_id wss" j k] by simp
  then show ?thesis using j by simp
qed

lemma move_workspace_inv:
  assumes "app_inv T s" and "move_workspace k l s = (s', moved)"
  shows "app_inv T s'" "map_option (\<lambda>a. as_workspaces s' ! a) (as_active s') = map_option (\<lambda>a. as_workspaces s ! a) (as_active s)"
    "as_workspaces s \<noteq> [] \<Longrightarrow> as_workspaces s' ! as_selected s' = as_workspaces s ! as_selected s"
    "set (as_workspaces s') = set (as_workspaces s)"
proof -
  let ?t = "if k < l then l - 1 else l"
  have core: "app_core T s" and focus: "focus_ok (as_workspaces s) (as_active s) (as_selected s)"
    using assms(1) by (simp_all add: app_inv_core)
  have "app_inv T s' \<and> map_option (\<lambda>a. as_workspaces s' ! a) (as_active s') = map_option (\<lambda>a. as_workspaces s ! a) (as_active s)
    \<and> (as_workspaces s \<noteq> [] \<longrightarrow> as_workspaces s' ! as_selected s' = as_workspaces s ! as_selected s)
    \<and> set (as_workspaces s') = set (as_workspaces s)"
  proof (cases "length (as_workspaces s) \<le> k \<or> length (as_workspaces s) < l \<or> k = ?t")
    case True
    then have "s' = s" using assms(2) by (auto simp: move_workspace_def Let_def split: if_splits)
    then show ?thesis using assms(1) by simp
  next
    case False
    define wss where "wss = insert_at ?t (as_workspaces s ! k) (remove_at k (as_workspaces s))"
    have k: "k < length (as_workspaces s)" and t: "?t < length (as_workspaces s)" using False by (auto split: if_splits)
    obtain A B C D where m: "as_workspaces s = A @ as_workspaces s ! k # B" "wss = C @ as_workspaces s ! k # D" "C @ D = A @ B"
      unfolding wss_def by (rule move_split [OF k t])
    have set: "set wss = set (as_workspaces s)"
      using arg_cong [OF m(3), of set] by (subst m(1), simp only: m(2)) auto
    have ok: "workspaces_ok wss"
      using core m by (metis app_core_def workspaces_ok_moved)
    then have dist: "distinct (map ws_id wss)" by (simp add: workspaces_ok_def)
    have find: "\<exists>j. index_of (\<lambda>w. ws_id w = ws_id ws) wss = Some j \<and> j < length wss \<and> wss ! j = ws"
      if "ws \<in> set (as_workspaces s)" for ws
    proof -
      have "ws \<in> set wss" using that by (simp only: set)
      then obtain j where "j < length wss" "wss ! j = ws" by (meson in_set_conv_nth)
      then show ?thesis using index_of_ws_id [OF dist, of j] by auto
    qed
    obtain a where a: "as_active s = Some a" "a < length (as_workspaces s)" "as_selected s < length (as_workspaces s)"
      using focus k by (cases "as_active s") (auto simp: focus_ok_def split: if_splits)
    obtain i where i: "index_of (\<lambda>w. ws_id w = ws_id (as_workspaces s ! a)) wss = Some i" "i < length wss"
        "wss ! i = as_workspaces s ! a"
      using find [OF nth_mem [OF a(2)]] by blast
    obtain j where j: "index_of (\<lambda>w. ws_id w = ws_id (as_workspaces s ! as_selected s)) wss = Some j" "j < length wss"
        "wss ! j = as_workspaces s ! as_selected s"
      using find [OF nth_mem [OF a(3)]] by blast
    have s': "s' = (mark_session_dirty s)\<lparr>as_workspaces := wss, as_active := Some i, as_selected := j\<rparr>"
      using assms(2) False a i(1) j(1) by (simp add: move_workspace_def Let_def ws_at_def unwrap_or_def mark_session_dirty_def wss_def)
    have "app_core T ((mark_session_dirty s)\<lparr>as_workspaces := wss\<rparr>)"
      using core by (intro app_core_subset ok) (simp_all add: set)
    then have "app_inv T s'" using i(2) j(2) by (auto simp: s' app_inv_core focus_ok_def)
    moreover have "as_workspaces s' = wss" "as_active s' = Some i" "as_selected s' = j" by (simp_all add: s')
    ultimately show ?thesis by (simp only: a(1) i(3) j(3) set option.map) simp
  qed
  then show "app_inv T s'" "map_option (\<lambda>a. as_workspaces s' ! a) (as_active s') = map_option (\<lambda>a. as_workspaces s ! a) (as_active s)"
    "as_workspaces s \<noteq> [] \<Longrightarrow> as_workspaces s' ! as_selected s' = as_workspaces s ! as_selected s"
    "set (as_workspaces s') = set (as_workspaces s)" by simp_all
qed

lemma handle_workspace_move_inv: "app_inv {} s \<Longrightarrow> app_inv {} (fst (handle_workspace_move name l s))"
  using move_workspace_inv(1) [of "{}" s]
  by (auto simp: handle_workspace_move_def split: option.split prod.split)

section \<open>Closing tabs and panes\<close>

lemma handle_tab_move_inv: "app_inv {} s \<Longrightarrow> app_inv {} (fst (handle_tab_move now name l s))"
proof -
  assume inv: "app_inv {} s"
  have "app_inv {} (update_ws k (\<lambda>_. ws') s)" if "ws_at s k = Some ws" "move_tab j l ws = (ws', moved)" for k ws ws' moved j
    using move_tab_ok [OF app_inv_at [OF inv that(1)] that(2)] ws_id_frames(5) [OF that(2)]
    by (intro app_inv_shrink [OF inv that(1)]) simp_all
  moreover have "ws_at s k = Some (as_workspaces s ! k)" if "parse_tab_id s name = Some (k, j)" for k j
    using that by (auto simp: parse_tab_id_def bind_eq_Some_conv ws_at_nth split: option.splits)
  ultimately show ?thesis
    using inv by (auto simp: handle_tab_move_def Let_def split: option.split prod.split)
qed

lemma handle_tab_close_inv: "app_inv {} s \<Longrightarrow> app_inv {} (fst (handle_tab_close now name s))"
proof -
  assume inv: "app_inv {} s"
  have "app_inv {} (update_ws k (\<lambda>_. ws') s)" if "ws_at s k = Some ws" "close_tab j ws = (ws', closed)" for k ws ws' closed j
    using close_tab_ok [OF app_inv_at [OF inv that(1)] that(2)] ws_id_frames(4) [OF that(2)]
    by (intro app_inv_shrink [OF inv that(1)]) simp_all
  moreover have "ws_at s k = Some (as_workspaces s ! k)" if "parse_tab_id s name = Some (k, j)" for k j
    using that by (auto simp: parse_tab_id_def bind_eq_Some_conv ws_at_nth split: option.splits)
  ultimately show ?thesis
    using inv by (auto simp: handle_tab_close_def Let_def inv_remove_unattached split: option.split prod.split)
qed

end
