(* ===== verification/App_Panes.thy ===== *)
theory App_Panes
  imports App_Closing
begin

text \<open>
  Splitting and closing panes, the death of a pane's process and the reports of agents: each
  keeps the invariant of the application, and none of the requests panics.
\<close>

section \<open>Descriptions\<close>

lemma find_map_Some: "find_map f xs = Some y \<Longrightarrow> \<exists>x \<in> set xs. f x = Some y"
  by (induction xs) (auto simp: find_map_def map_filter_simps split: option.splits)

lemma pane_in_tab:
  assumes "workspace_ok ws" and "i \<in> set (live_panes ws)"
  obtains j t pane where "find_tab_index_for_pane ws i = Some j" "tab_at ws j = Some t" "hm_get (tb_panes t) i = Some pane"
    "pane_state_of ws i = Some pane" "pn_terminal pane \<in> set (live_terminals ws)"
proof -
  have core: "workspace_core {} ws" using assms(1) by (simp add: workspace_ok_def)
  obtain j where j: "find_tab_index_for_pane ws i = Some j"
    using assms(2) find_tab_None [of ws i] by auto
  then obtain A t B where t: "ws_tabs ws = A @ t # B" "length A = j" "i \<in> set (tab_pane_ids t)"
    by (rule find_tab_split)
  obtain pane where p: "hm_get (tb_panes t) i = Some pane"
    using t(3) tab_keys [of t i] by (auto simp: hm_contains_key_def)
  then have "pn_terminal pane \<in> set (tab_terminals t)"
    by (force simp: tab_terminals_def hm_get_def dest!: map_of_SomeD)
  then have "pn_terminal pane \<in> set (live_terminals ws)" by (simp add: live_terminals_def t(1))
  then show thesis
    using that [OF j _ p pane_state_at [OF core t(1) p]] t by (simp add: tab_at_def nth_append)
qed

lemma public_number_live:
  assumes "workspace_ok ws"
  shows "public_pane_number ws i \<noteq> None \<longleftrightarrow> i \<in> set (live_panes ws)"
proof -
  have "fst ` set (ws_public_pane_numbers ws) = set (live_panes ws)"
    using assms by (simp add: workspace_ok_def workspace_core_def numbers_ok_def)
  then show ?thesis using hm_get_key [of "ws_public_pane_numbers ws" i] by (simp add: public_pane_number_def)
qed

lemma pane_state_live: "pane_state_of ws i = Some pane \<Longrightarrow> i \<in> set (live_panes ws)"
  by (force simp: pane_state_of_def live_panes_def tab_pane_ids_def hm_get_def dest!: find_map_Some map_of_SomeD)

text \<open>In a good state the panes that can be described are the ones that are there.\<close>

lemma pane_info_live:
  assumes "app_inv {} s" and "ws_at s k = Some ws"
  shows "pane_info_exists s k i \<longleftrightarrow> i \<in> set (live_panes ws)"
proof
  assume "pane_info_exists s k i"
  then show "i \<in> set (live_panes ws)"
    using assms(2) pane_state_live [of ws i] by (auto simp: pane_info_exists_def is_some_and_def split: option.splits)
next
  assume i: "i \<in> set (live_panes ws)"
  have ok: "workspace_ok ws" by (rule app_inv_at [OF assms])
  obtain j t pane where p: "find_tab_index_for_pane ws i = Some j" "tab_at ws j = Some t" "pane_state_of ws i = Some pane"
    "pn_terminal pane \<in> set (live_terminals ws)" by (rule pane_in_tab [OF ok i])
  have "pn_terminal pane \<in> fst ` set (as_terminals s)"
    using assms p(4) live_at(2) [OF assms(2)] by (auto simp: app_inv_def)
  then have "hm_contains_key (as_terminals s) (pn_terminal pane)"
    using hm_get_key [of "as_terminals s" "pn_terminal pane"] by (simp add: hm_contains_key_def)
  then show "pane_info_exists s k i"
    using p i public_number_live [OF ok, of i] assms(2)
    by (auto simp: pane_info_exists_def public_pane_id_def public_tab_id_def public_tab_number_def)
qed

lemma layout_snapshot_live:
  assumes "app_inv {} s" and "ws_at s k = Some ws" and "tab_at ws j = Some t"
  shows "layout_snapshot_exists s k j"
proof -
  have ok: "workspace_ok ws" by (rule app_inv_at [OF assms(1,2)])
  have t: "t \<in> set (ws_tabs ws)" using assms(3) by (auto simp: tab_at_def split: if_splits)
  then have "tab_ok t" using ok by (auto simp: workspace_ok_def workspace_core_def tabs_ok_def list_all_iff)
  then have "tl_focus (tb_layout t) \<in> set (live_panes ws)"
    using tab_focus_live [of t] t by (auto simp: live_panes_def)
  then show ?thesis
    using public_number_live [OF ok, of "tl_focus (tb_layout t)"] assms(2,3)
    by (auto simp: layout_snapshot_exists_def public_pane_id_def public_tab_id_def public_tab_number_def)
qed

text \<open>A name that is resolved is that of a pane that is there.\<close>

lemma find_pane_Some:
  assumes "find_pane s i = Some (k, pane)"
  shows "k < length (as_workspaces s)" "pane_state_of (as_workspaces s ! k) i = Some pane" "i \<in> set (live_panes (as_workspaces s ! k))"
proof -
  have "\<exists>x \<in> set (zip [0..<length (as_workspaces s)] (as_workspaces s)).
      (case x of (k, ws) \<Rightarrow> map_option (\<lambda>pane. (k, pane)) (pane_state_of ws i)) = Some (k, pane)"
    using assms unfolding find_pane_def by (rule find_map_Some)
  then show "k < length (as_workspaces s)" "pane_state_of (as_workspaces s ! k) i = Some pane"
    by (auto simp: set_zip)
  then show "i \<in> set (live_panes (as_workspaces s ! k))" by (simp add: pane_state_live)
qed

lemma pane_with_number_live:
  assumes "workspace_ok ws" and "pane_with_number ws n = Some i"
  shows "i \<in> set (live_panes ws)"
proof -
  have "i \<in> fst ` set (ws_public_pane_numbers ws)"
    using assms(2) by (force simp: pane_with_number_def dest!: find_map_Some split: if_splits)
  then show ?thesis using assms(1) by (simp add: workspace_ok_def workspace_core_def numbers_ok_def)
qed

lemma parse_pane_id_live:
  assumes "app_inv T s" and "parse_pane_id s name = Some (k, i)"
  shows "k < length (as_workspaces s)" "i \<in> set (live_panes (as_workspaces s ! k))"
proof -
  have "k < length (as_workspaces s) \<and> i \<in> set (live_panes (as_workspaces s ! k))"
    using assms(2) find_pane_Some [of s i] app_inv_at [OF assms(1), of k] pane_with_number_live [of "as_workspaces s ! k" _ i]
    by (auto simp: parse_pane_id_def bind_eq_Some_conv ws_at_nth dest: pane_state_live split: option.splits)
  then show "k < length (as_workspaces s)" "i \<in> set (live_panes (as_workspaces s ! k))" by simp_all
qed

lemma focused_pane_of_live:
  assumes "app_inv T s" and "focused_pane_of s k' = Some (k, i)"
  shows "k < length (as_workspaces s)" "i \<in> set (live_panes (as_workspaces s ! k))"
proof -
  obtain ws t where ws: "ws_at s k = Some ws" "active_tab ws = Some t" "i = tl_focus (tb_layout t)"
    using assms(2) by (auto simp: focused_pane_of_def focused_pane_id_def bind_eq_Some_conv)
  have t: "t \<in> set (ws_tabs ws)" using ws(2) by (auto simp: active_tab_def split: if_splits)
  have "tab_ok t" using app_inv_at [OF assms(1) ws(1)] t
    by (auto simp: workspace_ok_def workspace_core_def tabs_ok_def list_all_iff)
  then show "k < length (as_workspaces s)" "i \<in> set (live_panes (as_workspaces s ! k))"
    using ws tab_focus_live [of t] t by (auto simp: ws_at_nth live_panes_def)
qed

end
