(* ===== verification/App_Requests.thy ===== *)
theory App_Requests
  imports App_Panes
begin

text \<open>
  Splitting and closing panes, the death of a pane's process, the reports of agents and the
  deadlines: each keeps the invariant of the application, and no request panics.
\<close>

section \<open>Splitting\<close>

lemma handle_pane_split_inv:
  assumes "app_inv {} s" and "as_next_pane_id s \<noteq> - 1" and "fresh_terminal s (la_terminal_id la)"
  shows "\<exists>s' answer. handle_pane_split now target wid d ratio env la focus s = Some (s', answer) \<and> app_inv {} s'"
proof (cases "split_target s target wid")
  case None
  then show ?thesis using assms(1) by (simp add: handle_pane_split_def)
next
  case (Some p)
  then obtain k i where p: "split_target s target wid = Some (k, i)" by (cases p) auto
  have live: "k < length (as_workspaces s)" "i \<in> set (live_panes (as_workspaces s ! k))"
    using p parse_pane_id_live [OF assms(1)] focused_pane_of_live [OF assms(1)]
    by (auto simp: split_target_def bind_eq_Some_conv split: option.splits)
  define ws where "ws = as_workspaces s ! k"
  have ws: "ws_at s k = Some ws" using live by (simp add: ws_at_def ws_def)
  have ok: "workspace_ok ws" by (rule app_inv_at [OF assms(1) ws])
  then have core: "workspace_core {} ws" by (simp add: workspace_ok_def)
  obtain j where j: "find_tab_index_for_pane ws i = Some j"
    using live(2) find_tab_None [of ws i] by (auto simp: ws_def)
  have fresh: "as_next_pane_id s \<notin> set (live_panes ws)" "la_terminal_id la \<notin> set (live_terminals ws)"
    using assms fresh_pane [of "{}" s] fresh_not_attached [of s] live_at [OF ws] by (auto simp: app_inv_core)
  show ?thesis
  proof (cases "normalize_launch_env env")
    case (Inl e)
    then show ?thesis using assms(1) p by (simp add: handle_pane_split_def)
  next
    case (Inr e)
    show ?thesis
    proof (cases "la_spawned la")
      case False
      note f = split_pane_failed [OF core fresh(1) False j, of d ratio focus]
      have "app_inv {} (update_ws k (\<lambda>_. ws) (s\<lparr>as_next_pane_id := as_next_pane_id s + 1\<rparr>))"
        using app_inv_shrink [OF app_inv_bump_pane [OF assms(1,2)], of k ws ws] ws ok by simp
      then show ?thesis using p Inr ws f by (simp add: handle_pane_split_def Let_def)
    next
      case True
      obtain ws' where w: "split_pane_with_runtime (as_next_pane_id s) i d ratio la focus ws =
          Some ((ws', Some (j, Some \<lparr>np_pane_id = as_next_pane_id s, np_terminal = launched_terminal la\<rparr>)), as_next_pane_id s + 1)"
        "workspace_core {} ws'" "set (live_panes ws') = insert (as_next_pane_id s) (set (live_panes ws))"
        "set (live_terminals ws') = insert (la_terminal_id la) (set (live_terminals ws))"
        "ws_active_tab ws' = ws_active_tab ws" "length (ws_tabs ws') = length (ws_tabs ws)"
        by (rule split_pane_core [OF core fresh True j]) blast
      have ok': "workspace_ok ws'" using ok w by (simp add: workspace_ok_def)
      define s1 where "s1 = update_ws k (\<lambda>_. ws') (s\<lparr>as_next_pane_id := as_next_pane_id s + 1\<rparr>)"
      define s2 where "s2 = (if focus then settle_terminal_mode_after_focus
          (record_pane_focus_change (current_pane_focus_target s) k (as_next_pane_id s) (fst (switch_workspace_tab k j s1))) else s1)"
      define s4 where "s4 = schedule_session_save now (add_terminal (launched_terminal la)
          (remove_alias_shadowed_by_new_pane (as_next_pane_id s) s2))"
      have "app_inv {la_terminal_id la} s1"
        unfolding s1_def using w(3,4)
        by (intro app_inv_started [OF assms ws ok' ws_id_frames(2) [OF w(1)]]) simp_all
      moreover have k12: "keeps s1 s2" using keeps_switch_workspace_tab [of s1 k j] by (simp add: s2_def)
      ultimately have "app_inv {la_terminal_id la} s2" using keeps_inv by blast
      then have inv: "app_inv {} s4" by (simp add: s4_def app_inv_add_terminal)
      have len: "k < length (as_workspaces s2)" and sh: "ws_shape (as_workspaces s2 ! k) = ws_shape ws'"
        using app_shapeD(4) [OF keeps_shape [OF k12]] app_shapeD(11) [OF keeps_shape [OF k12], of k] live(1)
        by (simp_all add: s1_def update_ws_nth)
      have ws4: "as_workspaces s4 = as_workspaces s2" by (simp add: s4_def)
      have at4: "ws_at s4 k = Some (as_workspaces s2 ! k)" using len ws4 by (simp add: ws_at_def)
      have "as_next_pane_id s \<in> set (live_panes (as_workspaces s2 ! k))"
        using ws_shapeD(2) [OF sh] w(3) by simp
      then have info: "pane_info_exists s4 k (as_next_pane_id s)" using pane_info_live [OF inv at4] by simp
      have "handle_pane_split now target wid d ratio env la focus s = Some (s4, Inr (as_next_pane_id s))"
        using p Inr ws w(1) info [unfolded s4_def s2_def s1_def]
        by (cases focus) (simp_all add: handle_pane_split_def Let_def s1_def s2_def s4_def)
      then show ?thesis using inv by simp
    qed
  qed
qed

section \<open>Closing\<close>

lemma handle_pane_close_inv:
  assumes "app_inv {} s"
  shows "\<exists>s' answer. handle_pane_close now name s = Some (s', answer) \<and> app_inv {} s'"
proof (cases "parse_pane_id s name")
  case None
  then show ?thesis using assms by (simp add: handle_pane_close_def)
next
  case (Some p)
  then obtain k i where p: "parse_pane_id s name = Some (k, i)" by (cases p) auto
  note live = parse_pane_id_live [OF assms p]
  define ws where "ws = as_workspaces s ! k"
  have ws: "ws_at s k = Some ws" using live by (simp add: ws_at_def ws_def)
  have ok: "workspace_ok ws" by (rule app_inv_at [OF assms ws])
  obtain q where pub: "public_pane_id s k i = Some q"
    using public_number_live [OF ok, of i] live(2) ws by (auto simp: public_pane_id_def ws_def)
  obtain ws' close where w: "workspace_remove_pane i ws = Some (ws', close)" "workspace_ok ws'"
    "close \<Longrightarrow> ws' = ws \<and> set (live_panes ws) = {i}"
    "\<not> close \<Longrightarrow> set (live_panes ws') = set (live_panes ws) - {i}"
    "set (live_terminals ws') \<subseteq> set (live_terminals ws)" by (rule remove_pane_core [OF ok]) blast
  have sub: "set (live_panes ws') \<subseteq> set (live_panes ws)" using w(3,4) by (cases close) auto
  show ?thesis
  proof (cases "close_pane_would_close_workspace s k i \<and> as_confirm_close s \<and> workspace_close_would_close_worktree_group s k")
    case True
    moreover have "app_inv {} (s\<lparr>as_selected := k, as_mode := ModeConfirmClose\<rparr>)"
      using assms live by (auto simp: app_inv_core focus_ok_def)
    ultimately show ?thesis
      using p pub by (auto simp: handle_pane_close_def confirm_implicit_worktree_group_close_def)
  next
    case False
    then have deferred: "(if close_pane_would_close_workspace s k i then confirm_implicit_worktree_group_close k s else (s, False)) = (s, False)"
      by (auto simp: confirm_implicit_worktree_group_close_def)
    have inv1: "app_inv {} (update_ws k (\<lambda>_. ws') s)"
      using app_inv_shrink [OF assms ws w(2) ws_id_frames(3) [OF w(1)] sub w(5)] .
    define s1 where "s1 = remove_plugin_pane_records [i] (update_ws k (\<lambda>_. ws') s)"
    have s1: "app_inv {} s1" "length (as_workspaces s1) = length (as_workspaces s)" using inv1 by (simp_all add: s1_def)
    have "app_inv {} (close_selected_workspace (s1\<lparr>as_selected := k\<rparr>))"
      using s1 live(1) by (intro close_selected_core) (simp_all add: app_inv_core)
    then show ?thesis
      using p pub deferred w(1) s1 inv_remove_unattached
      by (simp add: handle_pane_close_def close_is_remove ws_def [symmetric] s1_def [symmetric] Let_def)
  qed
qed

lemma handle_pane_rename_inv:
  assumes "app_inv {} s"
  shows "\<exists>s' answer. handle_pane_rename name label s = Some (s', answer) \<and> app_inv {} s'"
proof -
  have "app_inv {} (s\<lparr>as_terminals := hm_insert tm t' (as_terminals s)\<rparr>)
      \<and> pane_info_exists (mark_session_dirty (s\<lparr>as_terminals := hm_insert tm t' (as_terminals s)\<rparr>)) k i"
    if p: "parse_pane_id s name = Some (k, i)" and t: "hm_get (as_terminals s) tm = Some t" for k i tm t t'
  proof -
    note live = parse_pane_id_live [OF assms p]
    have inv: "app_inv {} (s\<lparr>as_terminals := hm_insert tm t' (as_terminals s)\<rparr>)"
      using keeps_inv [OF keeps_terminal [OF t] assms] .
    then show ?thesis
      using live pane_info_live [of "mark_session_dirty (s\<lparr>as_terminals := hm_insert tm t' (as_terminals s)\<rparr>)" k]
      by (simp add: ws_at_def mark_session_dirty_def)
  qed
  then show ?thesis
    using assms by (simp add: handle_pane_rename_def Let_def split: option.split)
qed

section \<open>Events\<close>

lemma core_remove_ws: "app_core T s \<Longrightarrow> k < length (as_workspaces s) \<Longrightarrow> app_core T (s\<lparr>as_workspaces := remove_at k (as_workspaces s)\<rparr>)"
  using app_core_remove [of T s] nth_split [of k "as_workspaces s"] by (metis remove_at_split)

lemma handle_pane_died_inv: "app_inv {} s0 \<Longrightarrow> app_inv {} (handle_pane_died i s0)"
proof -
  assume inv0: "app_inv {} s0"
  define s where "s = remove_plugin_pane_records [i]
      (s0\<lparr>as_pending_agent_notifications := hm_remove i (as_pending_agent_notifications s0)\<rparr>)"
  have inv: "app_inv {} s" using inv0 by (simp add: s_def)
  show ?thesis
  proof (cases "index_of (\<lambda>ws. find_tab_index_for_pane ws i \<noteq> None) (as_workspaces s)")
    case None
    then show ?thesis using inv by (simp add: handle_pane_died_def s_def [symmetric])
  next
    case (Some k)
    define ws where "ws = as_workspaces s ! k"
    have k: "k < length (as_workspaces s)" using index_of_Some [OF Some] by simp
    then have ws: "ws_at s k = Some ws" by (simp add: ws_at_def ws_def)
    define s1 where "s1 = (if is_some_and (as_selection s) (\<lambda>sel. sel_pane sel = i)
        then s\<lparr>as_selection := None, as_selection_autoscroll := False\<rparr> else s)"
    define s2 where "s2 = s1\<lparr>as_pane_id_aliases := hm_retain (\<lambda>_ alias. alias \<noteq> i) (as_pane_id_aliases s1),
        as_public_pane_id_aliases := hm_retain (\<lambda>_ alias. alias \<noteq> i) (as_public_pane_id_aliases s1)\<rparr>"
    have v: "app_view s2 = app_view s" by (simp add: s2_def s1_def view_simps)
    note f = app_viewD [OF v]
    obtain ws' close where w: "workspace_remove_pane i ws = Some (ws', close)" "workspace_ok ws'"
      "close \<Longrightarrow> ws' = ws \<and> set (live_panes ws) = {i}" "\<not> close \<Longrightarrow> set (live_panes ws') = set (live_panes ws) - {i}"
      "set (live_terminals ws') \<subseteq> set (live_terminals ws)" by (rule remove_pane_core [OF app_inv_at [OF inv ws]]) blast
    have sub: "set (live_panes ws') \<subseteq> set (live_panes ws)" using w(3,4) by (cases close) auto
    have inv2: "app_inv {} s2" using inv app_inv_view [OF v] by simp
    have ws2: "ws_at s2 k = Some ws" using ws by (simp add: ws_at_nth f)
    define s3 where "s3 = mark_session_dirty (update_ws k (\<lambda>_. ws') s2)"
    have inv3: "app_inv {} s3"
      using app_inv_shrink [OF inv2 ws2 w(2) ws_id_frames(3) [OF w(1)] sub w(5)] by (simp add: s3_def)
    have k3: "k < length (as_workspaces s3)" using k by (simp add: s3_def f)
    define s4 where "s4 = remove_unattached_terminal_ids (terminal_ids_for_workspace s1 k)
        (s3\<lparr>as_workspaces := remove_at k (as_workspaces s3)\<rparr>)"
    have core4: "app_core {} s4"
      unfolding s4_def using inv3 k3 by (intro core_remove_unattached core_remove_ws) (simp_all add: app_inv_core)
    have f4: "as_workspaces s4 = remove_at k (as_workspaces s3)" "as_active s4 = as_active s3" "as_selected s4 = as_selected s3"
      by (simp_all add: s4_def)
    have len: "length (as_workspaces s4) = length (as_workspaces s3) - 1" using k3 by (simp add: f4 remove_at_def)
    have focus: "focus_ok (as_workspaces s3) (as_active s3) (as_selected s3)" using inv3 by (simp add: app_inv_core)
    let ?n = "length (as_workspaces s4)"
    have closed: "app_inv {} (if as_workspaces s4 = [] then
          s4\<lparr>as_active := None, as_selected := 0, as_mode := (if as_mode s4 = ModeTerminal then ModeNavigate else as_mode s4)\<rparr>
        else s4\<lparr>as_active := map_option (\<lambda>active. if ?n \<le> active then ?n - 1 else active) (as_active s4),
          as_selected := (if ?n \<le> as_selected s4 then ?n - 1 else as_selected s4)\<rparr>)"
    proof -
      obtain a where a: "as_active s3 = Some a" "a < length (as_workspaces s3)" "as_selected s3 < length (as_workspaces s3)"
        using focus k3 by (cases "as_active s3") (auto simp: focus_ok_def split: if_splits)
      have "as_workspaces s4 \<noteq> [] \<longrightarrow> 0 < ?n" by simp
      then show ?thesis
        using core4 a len by (auto simp: app_inv_core focus_ok_def f4(2,3))
    qed
    have "handle_pane_died i s0 = (if close then (if as_workspaces s4 = [] then
          s4\<lparr>as_active := None, as_selected := 0, as_mode := (if as_mode s4 = ModeTerminal then ModeNavigate else as_mode s4)\<rparr>
        else s4\<lparr>as_active := map_option (\<lambda>active. if ?n \<le> active then ?n - 1 else active) (as_active s4),
          as_selected := (if ?n \<le> as_selected s4 then ?n - 1 else as_selected s4)\<rparr>)
        else remove_unattached_terminal_ids (case terminal_id_for_pane s1 k i of None \<Rightarrow> [] | Some t \<Rightarrow> [t]) s3)"
      unfolding handle_pane_died_def s_def [symmetric] Some Let_def option.case s1_def [symmetric] s2_def [symmetric]
        f(1) ws_def [symmetric] w(1) prod.case s3_def [symmetric] s4_def [symmetric] by (rule refl)
    then show ?thesis using closed inv_remove_unattached [OF inv3] by simp
  qed
qed

lemma close_popup_inv: "app_inv {} s \<Longrightarrow> app_inv {} (fst (close_popup_pane s))"
proof -
  assume inv: "app_inv {} s"
  have "app_inv {} (s\<lparr>as_popup_pane := None, as_terminals := hm_remove tm (as_terminals s), as_mode := m\<rparr>)"
    if "as_popup_pane s = Some (i, tm)" for i tm m
    using inv that by (auto simp: app_inv_def app_panes_def app_terminals_def hm_ok_intros)
  then show ?thesis using inv by (simp add: close_popup_pane_def split: option.split)
qed

lemma keeps_restore_overlay: "keeps s (restore_overlay_after_exit restored s)"
proof -
  obtain ov active focused zoomed where r: "restored = (ov, active, focused, zoomed)" by (cases restored) auto
  have z: "keeps s (update_tab k j (\<lambda>t. t\<lparr>tb_zoomed := z\<rparr>) s)" for k j z
    by (rule keeps_update_tab) (simp add: tab_shape_def tab_ok_def)
  have a: "keeps s (update_ws k (\<lambda>ws. ws\<lparr>ws_active_tab := j\<rparr>) s)"
    if "ws_at s k = Some ws" "\<not> length (ws_tabs ws) \<le> j" for k j ws
    by (rule keeps_update_ws) (use that in \<open>auto simp: ws_shape_def ws_loose_def\<close>)
  have l: "keeps s' (update_tab k j (\<lambda>t. t\<lparr>tb_layout := (if hm_contains_key (tb_panes t) i then focus_pane (tb_layout t) i
      else tb_layout t), tb_zoomed := z\<rparr>) s')" for s' k j i z
  proof (rule keeps_update_tab)
    fix ws t
    show "tab_shape (t\<lparr>tb_layout := (if hm_contains_key (tb_panes t) i then focus_pane (tb_layout t) i
        else tb_layout t), tb_zoomed := z\<rparr>) = tab_shape t \<and> (tab_ok t \<longrightarrow> tab_ok (t\<lparr>tb_layout := (if hm_contains_key (tb_panes t) i
        then focus_pane (tb_layout t) i else tb_layout t), tb_zoomed := z\<rparr>))"
      using focus_shape [of t i] by (simp add: tab_shape_def tab_ok_def)
  qed
  have al: "keeps s (update_tab k j (\<lambda>t. t\<lparr>tb_layout := (if hm_contains_key (tb_panes t) i then focus_pane (tb_layout t) i
      else tb_layout t), tb_zoomed := z\<rparr>) (update_ws k (\<lambda>ws. ws\<lparr>ws_active_tab := j\<rparr>) s))"
    if "ws_at s k = Some ws" "j < length (ws_tabs ws)" for k j ws i z
    using keeps_trans [OF a [OF that(1)] l] that(2) by simp
  show ?thesis
    by (auto simp: restore_overlay_after_exit_def r Let_def not_le intro!: z l al split: option.split)
qed

lemma view_take_overlay: "app_view (fst (take_overlay i s)) = app_view s"
  by (simp add: take_overlay_def Let_def view_simps split: option.split)

lemma deliver_event_inv: "app_inv {} s \<Longrightarrow> app_inv {} (deliver_event label live is_dir now clock event s)"
proof -
  assume inv: "app_inv {} s"
  define s0 where "s0 = fst (case event of PaneDied i \<Rightarrow> take_overlay i s | _ \<Rightarrow> (s, None))"
  define restored where "restored = snd (case event of PaneDied i \<Rightarrow> take_overlay i s | _ \<Rightarrow> (s, None))"
  have inv0: "app_inv {} s0" using inv app_inv_view [OF view_take_overlay] by (simp add: s0_def split: app_event.split)
  have inv1: "app_inv {} (fst (handle_app_event label is_dir now clock event s0))"
  proof (cases "\<exists>i. event = PaneDied i")
    case True
    then show ?thesis using handle_pane_died_inv [OF inv0] by (auto simp: handle_app_event_def Let_def)
  next
    case False
    then show ?thesis using keeps_inv [OF keeps_handle_app_event inv0] by blast
  qed
  define s3 where "s3 = sync_agent_metadata_deadline clock (fold (refresh_new_herdr_toast_context_for_update live (as_toast s0))
      (snd (handle_app_event label is_dir now clock event s0)) (fst (handle_app_event label is_dir now clock event s0)))"
  have "app_view s3 = app_view (fst (handle_app_event label is_dir now clock event s0))" by (simp add: s3_def)
  then have inv3: "app_inv {} s3" using inv1 app_inv_view by blast
  define s4 where "s4 = (case restored of None \<Rightarrow> s3 | Some restored \<Rightarrow> restore_overlay_after_exit restored s3)"
  have "app_inv {} s4" using inv3 keeps_inv [OF keeps_restore_overlay] by (simp add: s4_def split: option.split)
  moreover have "deliver_event label live is_dir now clock event s
      = shutdown_detached_terminal_runtimes (sync_toast_deadline clock (as_toast s0) s4)"
    unfolding deliver_event_def s4_def s3_def s0_def restored_def Let_def case_prod_unfold by (rule refl)
  ultimately show ?thesis by (simp add: app_inv_view [OF view_sync_deadlines(2)])
qed

lemma handle_internal_event_inv: "app_inv {} s \<Longrightarrow> app_inv {} (handle_internal_event label live is_dir spawned now clock event s)"
proof -
  assume inv: "app_inv {} s"
  have prelude: "app_inv {} (fst (pane_died_prelude label live spawned now clock i s))" for i
  proof -
    let ?p = "publish_pane_process_exit_if_agent label now clock i s"
    define s2 where "s2 = (case snd ?p of None \<Rightarrow> fst ?p
        | Some update \<Rightarrow> refresh_new_herdr_toast_context_for_update live (as_toast s) update (fst ?p))"
    have "app_inv {} (fst ?p)" by (rule keeps_inv [OF keeps_publish_exit inv])
    then have inv2: "app_inv {} s2"
      using app_inv_view [OF view_sync_deadlines(3)] by (simp add: s2_def split: option.split)
    have "app_inv {} (fst (respawn_shell_for_launch_pane now spawned i s2))"
      using inv2 keeps_inv [OF keeps_terminal inv2]
      by (auto simp: respawn_shell_for_launch_pane_def split: option.split)
    then have "app_inv {} (fst (respawn_shell_for_launch_pane now spawned i s2)
        \<lparr>as_overlay_panes := hm_remove i (as_overlay_panes (fst (respawn_shell_for_launch_pane now spawned i s2)))\<rparr>)" by simp
    then show ?thesis
      using inv2 close_popup_inv [OF inv] \<open>app_inv {} (fst (respawn_shell_for_launch_pane now spawned i s2))\<close>
      by (simp add: pane_died_prelude_def Let_def case_prod_unfold s2_def [symmetric])
  qed
  have "app_inv {} (fst (case event of PaneDied i \<Rightarrow> pane_died_prelude label live spawned now clock i s | _ \<Rightarrow> (s, False)))"
    using prelude inv by (simp split: app_event.split)
  then show ?thesis
    by (simp add: handle_internal_event_def Let_def case_prod_unfold deliver_event_inv)
qed

end
