(* ===== verification/App_Names.thy ===== *)
theory App_Names
  imports App_Requests
begin

text \<open>
  The names of workspaces, tabs and panes are resolved to what they were made from. Numbers are
  assumed to fit a \<open>usize\<close>.
\<close>

section \<open>Splitting names\<close>

lemma encode_alphabet: "0 < n \<Longrightarrow> set (encode_public_number n) \<subseteq> set PUBLIC_ID_ALPHABET"
proof -
  have "set (encode_digits n) \<subseteq> set PUBLIC_ID_ALPHABET" for n
  proof (induction n rule: encode_digits.induct)
    case (1 n)
    have "PUBLIC_ID_ALPHABET ! ((n - 1) mod 32) \<in> set PUBLIC_ID_ALPHABET"
      by (rule nth_mem) (simp add: alphabet_length)
    then show ?case using 1 encode_digits.simps [of 0] by (cases "n = 0") (simp_all add: encode_digits.simps [of n])
  qed
  then show "0 < n \<Longrightarrow> set (encode_public_number n) \<subseteq> set PUBLIC_ID_ALPHABET"
    by (simp add: encode_public_number_def)
qed

lemma encode_chars: "0 < n \<Longrightarrow> c \<notin> set PUBLIC_ID_ALPHABET \<Longrightarrow> c \<notin> set (encode_public_number n)"
  using encode_alphabet [of n] by blast

lemma rsplit_once_None: "c \<notin> set xs \<Longrightarrow> rsplit_once xs (c # cs) = None"
  by (induction xs) (auto simp: starts_with_def)

lemma rsplit_once_last:
  assumes "c \<notin> set (cs @ ys)"
  shows "rsplit_once (xs @ c # cs @ ys) (c # cs) = Some (xs, ys)"
proof (induction xs)
  case Nil
  have "rsplit_once (cs @ ys) (c # cs) = None" using assms by (rule rsplit_once_None)
  then show ?case by (simp add: starts_with_def)
qed simp

lemma generated_prefix: "generated_id n wid \<Longrightarrow> \<exists>rest. wid = CHR ''w'' # rest"
  by (auto simp: generated_id_def)

section \<open>Workspaces and tabs\<close>

lemma parse_workspace_id_own:
  assumes "distinct (map ws_id (as_workspaces s))" and "ws_at s k = Some ws"
  shows "parse_workspace_id s (ws_id ws) = Some k"
  using index_of_ws_id [OF assms(1), of k] assms(2) by (simp add: parse_workspace_id_def ws_at_nth)

lemma index_of_tab_number:
  assumes "distinct (map tb_number tabs)" and "j < length tabs"
  shows "index_of (\<lambda>t. tb_number t = tb_number (tabs ! j)) tabs = Some j"
proof -
  obtain l where l: "index_of (\<lambda>t. tb_number t = tb_number (tabs ! j)) tabs = Some l" "l < length tabs"
      "tb_number (tabs ! l) = tb_number (tabs ! j)"
    using index_of_found [of "tabs ! j" tabs "\<lambda>t. tb_number t = tb_number (tabs ! j)"] assms(2) by auto
  then have "l = j" using assms nth_eq_iff_index_eq [of "map tb_number tabs" l j] by simp
  then show ?thesis using l by simp
qed

lemma parse_tab_id_own:
  assumes "distinct (map ws_id (as_workspaces s))" and "ws_at s k = Some ws" and "generated_id c (ws_id ws)"
    and "distinct (map tb_number (ws_tabs ws))" and "tab_at ws j = Some t" and "0 < tb_number t" "tb_number t < usize_limit"
  shows "parse_tab_id s (public_tab_id_for_number (ws_id ws) (tb_number t)) = Some (k, j)"
proof -
  let ?e = "encode_public_number (tb_number t)"
  obtain rest where w: "ws_id ws = CHR ''w'' # rest" using generated_prefix [OF assms(3)] by blast
  have colon: "CHR '':'' \<notin> set (''t'' @ ?e)"
    using encode_chars [OF assms(6), of "CHR '':''"] by (simp add: PUBLIC_ID_ALPHABET_def)
  have split: "rsplit_once (public_tab_id_for_number (ws_id ws) (tb_number t)) '':'' = Some (ws_id ws, ''t'' @ ?e)"
    using rsplit_once_last [of "CHR '':''" "[]" "''t'' @ ?e" "ws_id ws"] colon by (simp add: public_tab_id_for_number_def)
  have no_t: "strip_prefix (public_tab_id_for_number (ws_id ws) (tb_number t)) ''t_'' = None"
    by (simp add: public_tab_id_for_number_def w strip_prefix_def starts_with_def)
  have decode: "decode_public_number ?e = Some (tb_number t)"
    using decode_digits [OF assms(7)] assms(6) by (simp add: encode_public_number_def)
  have j: "j < length (ws_tabs ws)" "ws_tabs ws ! j = t" using assms(5) by (auto simp: tab_at_def split: if_splits)
  show ?thesis
    using split no_t decode parse_workspace_id_own [OF assms(1,2)] assms(2) index_of_tab_number [OF assms(4) j(1)] j
    by (simp add: parse_tab_id_def strip_prefix_def starts_with_def tab_at_def)
qed

section \<open>Panes\<close>

lemma find_map_unique:
  assumes "x \<in> set xs" and "f x = Some y" and "\<And>z w. z \<in> set xs \<Longrightarrow> f z = Some w \<Longrightarrow> w = y"
  shows "find_map f xs = Some y"
proof -
  have "find_map f xs \<noteq> None"
    using assms(1,2) by (induction xs) (auto simp: find_map_def map_filter_simps split: option.splits list.splits)
  then show ?thesis using find_map_Some [of f xs] assms(3) by blast
qed

lemma pane_with_number_own:
  assumes "workspace_ok ws" and "public_pane_number ws i = Some n"
  shows "pane_with_number ws n = Some i"
proof -
  have nums: "numbers_ok (ws_public_pane_numbers ws) (ws_next_public_pane_number ws) (set (live_panes ws))"
    using assms(1) by (simp add: workspace_ok_def workspace_core_def)
  have mem: "(i, n) \<in> set (ws_public_pane_numbers ws)"
    using assms(2) by (auto simp: public_pane_number_def hm_get_def dest: map_of_SomeD)
  have "j = i" if "(j, n) \<in> set (ws_public_pane_numbers ws)" for j
    using that mem nums eq_key_imp_eq_value [of "map prod.swap (ws_public_pane_numbers ws)" n j i]
    by (force simp: numbers_ok_def comp_def)
  then show ?thesis
    unfolding pane_with_number_def by (intro find_map_unique [OF mem]) (auto split: if_splits)
qed

text \<open>No old name of another pane is in the way.\<close>

definition not_shadowed :: "app \<Rightarrow> string \<Rightarrow> bool" where
  "not_shadowed s name = (hm_get (as_public_pane_id_aliases s) name = None)"

lemma parse_pane_id_own:
  assumes "app_inv T s" and "ws_at s k = Some ws" and "public_pane_number ws i = Some n" and "n < usize_limit"
    and "not_shadowed s (public_pane_id_for_number (ws_id ws) n)"
  shows "parse_pane_id s (public_pane_id_for_number (ws_id ws) n) = Some (k, i)"
proof -
  have ok: "workspace_ok ws" by (rule app_inv_at [OF assms(1,2)])
  have dist: "distinct (map ws_id (as_workspaces s))" using assms(1) by (simp add: app_inv_def workspaces_ok_def)
  have gen: "generated_id (as_next_workspace_id s) (ws_id ws)"
    using assms(1,2) by (auto simp: app_inv_def ws_at_nth)
  have pos: "0 < n" using ok assms(3)
    by (auto simp: workspace_ok_def workspace_core_def numbers_ok_def public_pane_number_def hm_get_def dest!: map_of_SomeD)
  let ?e = "encode_public_number n"
  obtain rest where w: "ws_id ws = CHR ''w'' # rest" using generated_prefix [OF gen] by blast
  have "CHR '':'' \<notin> set (''p'' @ ?e)"
    using encode_chars [OF pos, of "CHR '':''"] by (simp add: PUBLIC_ID_ALPHABET_def)
  then have split: "rsplit_once (public_pane_id_for_number (ws_id ws) n) '':p'' = Some (ws_id ws, ?e)"
    using rsplit_once_last [of "CHR '':''" "''p''" ?e "ws_id ws"] by (simp add: public_pane_id_for_number_def)
  have no_p: "strip_prefix (public_pane_id_for_number (ws_id ws) n) ''p_'' = None"
    by (simp add: public_pane_id_for_number_def w strip_prefix_def starts_with_def)
  have decode: "decode_public_number ?e = Some n"
    using decode_digits [OF assms(4)] pos by (simp add: encode_public_number_def)
  show ?thesis
    using split no_p decode parse_workspace_id_own [OF dist assms(2)] assms(2,5) pane_with_number_own [OF ok assms(3)]
    by (simp add: parse_pane_id_def not_shadowed_def)
qed

text \<open>An old name of a pane that is there.\<close>

lemma find_pane_live:
  assumes "app_inv T s" and "ws_at s k = Some ws" and "i \<in> set (live_panes ws)"
  shows "\<exists>pane. find_pane s i = Some (k, pane) \<and> pane_state_of ws i = Some pane"
proof -
  have k: "k < length (as_workspaces s)" "as_workspaces s ! k = ws" using assms(2) by (simp_all add: ws_at_nth)
  obtain pane where p: "pane_state_of ws i = Some pane"
    using pane_in_tab [OF app_inv_at [OF assms(1,2)] assms(3)] by blast
  obtain A B where s: "as_workspaces s = A @ ws # B" "length A = k" using ws_at_split [OF assms(2)] by blast
  have apart: "i \<notin> \<Union> (set ` live_panes ` set (A @ B))"
    using workspaces_ok_apart(3) [of A ws B] assms(1,3) s by (auto simp: app_inv_def)
  have "find_pane s i = Some (k, pane)"
    unfolding find_pane_def
  proof (rule find_map_unique)
    show "(k, ws) \<in> set (zip [0..<length (as_workspaces s)] (as_workspaces s))" using k by (force simp: set_zip)
    fix z w
    assume z: "z \<in> set (zip [0..<length (as_workspaces s)] (as_workspaces s))"
      "(case z of (ws_idx, ws) \<Rightarrow> map_option (\<lambda>pane. (ws_idx, pane)) (pane_state_of ws i)) = Some w"
    then obtain l pane' where l: "l < length (as_workspaces s)" "pane_state_of (as_workspaces s ! l) i = Some pane'" "w = (l, pane')"
      by (auto simp: set_zip)
    have "l = k"
    proof (rule ccontr)
      assume "l \<noteq> k"
      then have "as_workspaces s ! l \<in> set (A @ B)"
        using l(1) s by (cases "l < k") (auto simp: nth_append nth_Cons split: nat.split intro: nth_mem)
      then show False using apart pane_state_live [OF l(2)] by auto
    qed
    then show "w = (k, pane)" using l k p by simp
  qed (use p in simp)
  then show ?thesis using p by blast
qed

lemma parse_pane_id_alias:
  assumes "app_inv T s" and "ws_at s k = Some ws" and "i \<in> set (live_panes ws)"
    and "hm_get (as_public_pane_id_aliases s) name = Some i"
  shows "parse_pane_id s name = Some (k, i)"
  using find_pane_live [OF assms(1-3)] assms(4) by (auto simp: parse_pane_id_def)

end
