(* ===== verification/App_Leaving.thy ===== *)
theory App_Leaving
  imports App_Names
begin

text \<open>
  The first half of moving a pane: it is taken out of its tab, and the workspace it leaves to
  go to another one is closed when that was its last pane.
\<close>

section \<open>Taking\<close>

lemma adjust_frame [simp]:
  "ws_id (adjust_active_tab_after_removal k ws) = ws_id ws"
  "ws_next_public_tab_number (adjust_active_tab_after_removal k ws) = ws_next_public_tab_number ws"
  by (simp_all add: adjust_active_tab_after_removal_def clamp_active_tab_def)

lemma take_frame:
  assumes "take_pane_for_move i ws = Some (ws', taken)"
  shows "ws_id ws' = ws_id ws" "ws_next_public_tab_number ws' = ws_next_public_tab_number ws"
    "t \<in> set (ws_tabs ws) \<Longrightarrow> find_tab_index_for_pane ws i = Some j \<Longrightarrow> t \<noteq> ws_tabs ws ! j \<Longrightarrow> t \<in> set (ws_tabs ws')"
proof -
  show "ws_id ws' = ws_id ws" "ws_next_public_tab_number ws' = ws_next_public_tab_number ws"
    using assms by (auto simp: take_pane_for_move_def Let_def split: option.splits if_splits)
  assume t: "t \<in> set (ws_tabs ws)" "find_tab_index_for_pane ws i = Some j" "t \<noteq> ws_tabs ws ! j"
  obtain A x B where s: "ws_tabs ws = A @ x # B" "length A = j" using find_tab_split [OF t(2)] by metis
  have "t \<in> set A \<union> set B" "(ws_tabs ws)[j := y] = A @ y # B" "remove_at j (ws_tabs ws) = A @ B" for y
    using t s remove_at_split [of A x B] by (auto simp: nth_append list_update_append)
  then show "t \<in> set (ws_tabs ws')"
    using assms t(2) by (auto simp: take_pane_for_move_def Let_def split: option.splits if_splits)
qed

lemma app_sets_split:
  assumes "as_workspaces s = A @ ws # B"
  shows "app_panes s = set (live_panes ws) \<union> \<Union> (set ` live_panes ` set (A @ B))"
    "app_terminals s = set (live_terminals ws) \<union> \<Union> (set ` live_terminals ` set (A @ B))"
  using assms by (auto simp: app_panes_def app_terminals_def)

section \<open>Leaving\<close>

lemma shift_focus_ok:
  assumes "focus_ok wss active selected" and "k < length wss" and "length wss' = length wss - 1" and "wss' \<noteq> []"
  shows "focus_ok wss' (map_option (shift_after_removal k (length wss')) active) (shift_after_removal k (length wss') selected)"
proof -
  obtain a where a: "active = Some a" "a < length wss" "selected < length wss"
    using assms(1,2) by (cases active) (auto simp: focus_ok_def split: if_splits)
  have "0 < length wss'" using assms(4) by simp
  then show ?thesis
    using a assms(2-4) by (auto simp: focus_ok_def shift_after_removal_def)
qed

lemma leave_cross:
  assumes "app_inv {} s" and "ws_at s k = Some ws" and "i \<in> set (live_panes ws)"
  obtains ws' tk where "take_pane_for_move i ws = Some (ws', Some tk)" "mv_pane_id (tk_moved tk) = i"
    "pane_state_of ws i = Some (mv_pane_state (tk_moved tk))"
    "pn_terminal (mv_pane_state (tk_moved tk)) \<in> app_terminals s"
    "\<And>name. app_inv {} (leave_workspace k i name (tk_workspace_empty tk) True (update_ws k (\<lambda>_. ws') s))"
    "\<And>name. app_panes (leave_workspace k i name (tk_workspace_empty tk) True (update_ws k (\<lambda>_. ws') s)) = app_panes s - {i}"
    "\<And>name. app_terminals (leave_workspace k i name (tk_workspace_empty tk) True (update_ws k (\<lambda>_. ws') s))
      = app_terminals s - {pn_terminal (mv_pane_state (tk_moved tk))}"
    "\<And>name l w. l \<noteq> k \<Longrightarrow> ws_at s l = Some w \<Longrightarrow> w \<in> set (as_workspaces
      (leave_workspace k i name (tk_workspace_empty tk) True (update_ws k (\<lambda>_. ws') s)))"
    "tk_workspace_empty tk \<longleftrightarrow> set (live_panes ws) = {i}"
proof -
  have ok: "workspace_ok ws" by (rule app_inv_at [OF assms(1,2)])
  then have core: "workspace_core {} ws" by (simp add: workspace_ok_def)
  obtain ws' tk where t: "take_pane_for_move i ws = Some (ws', Some tk)" "workspace_core {i} ws'"
    "set (live_panes ws') = set (live_panes ws) - {i}" "mv_pane_id (tk_moved tk) = i"
    "set (live_terminals ws') = set (live_terminals ws) - {pn_terminal (mv_pane_state (tk_moved tk))}"
    "pn_terminal (mv_pane_state (tk_moved tk)) \<in> set (live_terminals ws)"
    "ws_active_tab ws' < length (ws_tabs ws') \<or> ws_tabs ws' = [] \<and> ws_active_tab ws' = 0"
    "tk_workspace_empty tk \<longleftrightarrow> ws_tabs ws' = []" "pane_state_of ws i = Some (mv_pane_state (tk_moved tk))"
    using take_core [OF core assms(3)] ok by (metis workspace_ok_def)
  let ?tm = "pn_terminal (mv_pane_state (tk_moved tk))"
  define ws1 where "ws1 = unregister_moved_pane i ws'"
  obtain A B where s: "as_workspaces s = A @ ws # B" "length A = k" using ws_at_split [OF assms(2)] by blast
  note sets = app_sets_split [OF s(1)]
  have wok: "workspaces_ok (A @ ws # B)" using assms(1) s(1) by (simp add: app_inv_def)
  note apart = workspaces_ok_apart [OF wok]
  have rest: "i \<notin> \<Union> (set ` live_panes ` set (A @ B))" "?tm \<notin> \<Union> (set ` live_terminals ` set (A @ B))"
    using apart(3,4) assms(3) t(6) by auto
  have ws1: "live_panes ws1 = live_panes ws'" "live_terminals ws1 = live_terminals ws'" "ws_id ws1 = ws_id ws"
    "ws_tabs ws1 = ws_tabs ws'" "ws_active_tab ws1 = ws_active_tab ws'"
    using take_frame(1) [OF t(1)] by (simp_all add: ws1_def unregister_moved_pane_def unregister_pane_def live_panes_def live_terminals_def)
  have core1: "workspace_core {} ws1"
    using core_unregister_moved [OF t(2), of i] t(3) by (simp add: ws1_def unregister_moved_pane_def)
  define s1 where "s1 name = (update_ws k (\<lambda>_. ws1) s)\<lparr>as_public_pane_id_aliases := hm_insert name i (as_public_pane_id_aliases s)\<rparr>" for name
  have u: "update_ws k (unregister_moved_pane i) (update_ws k (\<lambda>_. ws') s) = update_ws k (\<lambda>_. ws1) s"
    using s by (simp add: update_ws_def ws1_def)
  have al: "as_public_pane_id_aliases (update_ws k f s) = as_public_pane_id_aliases s" for f by (simp add: update_ws_def)
  have s1: "as_workspaces (s1 name) = A @ ws1 # B" "as_active (s1 name) = as_active s" "as_selected (s1 name) = as_selected s" for name
    using update_ws_split [OF s, of "\<lambda>_. ws1"] by (simp_all add: s1_def)
  have leave: "leave_workspace k i name (tk_workspace_empty tk) True (update_ws k (\<lambda>_. ws') s)
      = (if ws_tabs ws' = [] then close_emptied_workspace k (s1 name) else s1 name)" for name
    by (simp add: leave_workspace_def u al t(8) s1_def)
  have empty: "set (live_panes ws1) = {}" "set (live_terminals ws1) = {}" if "ws_tabs ws' = []"
    using that ws1 by (simp_all add: live_panes_def live_terminals_def)
  have closed: "as_workspaces (close_emptied_workspace k (s1 name)) = A @ B" for name
    using s1(1) [of name] s(2) remove_at_split [of A ws1 B] by (simp add: close_emptied_workspace_def Let_def)
  have sets1: "app_panes (s1 name) = app_panes s - {i}" "app_terminals (s1 name) = app_terminals s - {?tm}" for name
    using app_sets_split [OF s1(1) [of name]] sets rest t(3,5) ws1 by auto
  have sets2: "app_panes (close_emptied_workspace k (s1 name)) = app_panes s - {i}"
    "app_terminals (close_emptied_workspace k (s1 name)) = app_terminals s - {?tm}" if "ws_tabs ws' = []" for name
    using that app_sets_split [OF s1(1) [of name]] sets1 [of name] empty closed [of name]
    by (auto simp: app_panes_def app_terminals_def)
  have inv1: "app_inv {} (s1 name)" if "ws_tabs ws' \<noteq> []" for name
  proof -
    have "workspace_ok ws1" using core1 t(7) that ws1(4,5) by (simp add: workspace_ok_def)
    then have "app_inv {} (update_ws k (\<lambda>_. ws1) s)"
      using app_inv_shrink [OF assms(1,2), of ws1] ws1 t(3,5) by auto
    then show ?thesis by (simp add: s1_def)
  qed
  have inv2: "app_inv {} (close_emptied_workspace k (s1 name))" for name
  proof -
    have core: "app_core {} (s\<lparr>as_workspaces := A @ B\<rparr>)"
      using app_core_remove [OF _ s(1)] assms(1) by (simp add: app_inv_core)
    have focus: "focus_ok (A @ ws # B) (as_active s) (as_selected s)" using assms(1) s by (simp add: app_inv_core)
    have v: "app_core {} (close_emptied_workspace k (s1 name)) = app_core {} (s\<lparr>as_workspaces := A @ B\<rparr>)"
      using closed [of name]
      by (simp add: app_core_def app_panes_def app_terminals_def)
        (simp add: close_emptied_workspace_def Let_def s1_def update_ws_def)
    have "focus_ok (A @ B) (map_option (shift_after_removal k (length (A @ B))) (as_active s))
        (shift_after_removal k (length (A @ B)) (as_selected s))" if "A @ B \<noteq> []"
      using focus that s(2) by (intro shift_focus_ok) auto
    then have "focus_ok (as_workspaces (close_emptied_workspace k (s1 name))) (as_active (close_emptied_workspace k (s1 name)))
        (as_selected (close_emptied_workspace k (s1 name)))"
      using s1 [of name] s(2) remove_at_split [of A ws1 B] by (auto simp: close_emptied_workspace_def Let_def focus_ok_def)
    then show ?thesis using core v by (simp add: app_inv_core)
  qed
  have others: "w \<in> set (A @ B)" if "l \<noteq> k" "ws_at s l = Some w" for l w
    using that s by (auto simp: ws_at_nth nth_append nth_Cons split: if_splits nat.splits intro: nth_mem)
  have one: "tk_workspace_empty tk \<longleftrightarrow> set (live_panes ws) = {i}"
  proof
    assume "tk_workspace_empty tk"
    then show "set (live_panes ws) = {i}" using t(3,8) assms(3) by (auto simp: live_panes_def)
  next
    assume "set (live_panes ws) = {i}"
    then have "live_panes ws' = []" using t(3) by simp
    moreover have "list_all tab_ok (ws_tabs ws')" using t(2) by (simp add: workspace_core_def tabs_ok_def)
    ultimately show "tk_workspace_empty tk"
      using t(8) tab_ok_ids by (cases "ws_tabs ws'") (auto simp: live_panes_def)
  qed
  show thesis
  proof (rule that [OF t(1,4,9)])
    show "?tm \<in> app_terminals s" using t(6) sets(2) by simp
    fix name
    show "app_inv {} (leave_workspace k i name (tk_workspace_empty tk) True (update_ws k (\<lambda>_. ws') s))"
      using inv1 inv2 by (simp add: leave)
    show "app_panes (leave_workspace k i name (tk_workspace_empty tk) True (update_ws k (\<lambda>_. ws') s)) = app_panes s - {i}"
      "app_terminals (leave_workspace k i name (tk_workspace_empty tk) True (update_ws k (\<lambda>_. ws') s)) = app_terminals s - {?tm}"
      using sets1 sets2 by (simp_all add: leave)
    show "w \<in> set (as_workspaces (leave_workspace k i name (tk_workspace_empty tk) True (update_ws k (\<lambda>_. ws') s)))"
      if "l \<noteq> k" "ws_at s l = Some w" for l w
      using others [OF that] s1(1) [of name] closed [of name] by (auto simp: leave)
  qed (rule one)
qed

text \<open>Nothing else changes.\<close>

lemma leave_frame:
  "as_terminals (leave_workspace k i name e cross (update_ws k f s)) = as_terminals s"
  "as_next_workspace_id (leave_workspace k i name e cross (update_ws k f s)) = as_next_workspace_id s"
  "as_next_pane_id (leave_workspace k i name e cross (update_ws k f s)) = as_next_pane_id s"
  "as_popup_pane (leave_workspace k i name e cross (update_ws k f s)) = as_popup_pane s"
  "as_public_pane_id_aliases (leave_workspace k i name e True (update_ws k f s)) = hm_insert name i (as_public_pane_id_aliases s)"
  by (simp_all add: leave_workspace_def close_emptied_workspace_def Let_def update_ws_def)

end
