(* ===== verification/App_Moving.thy ===== *)
theory App_Moving
  imports App_Leaving
begin

text \<open>
  The second half of moving a pane: it arrives where it should. Moving never fails once the pane
  has been taken out of its tab, so the recovery of a failed move is not reached.
\<close>

section \<open>Arriving in a workspace that is there\<close>

lemma find_map_comp: "map_option g (find_map f xs) = find_map (\<lambda>x. map_option g (f x)) xs"
  by (induction xs) (simp_all add: find_map_def map_filter_simps split: option.split)

lemma find_map_map: "find_map f (map g xs) = find_map (\<lambda>x. f (g x)) xs"
  by (induction xs) (simp_all add: find_map_def map_filter_simps split: option.split)

lemma terminal_id_shape:
  assumes "ws_shape ws' = ws_shape ws"
  shows "map_option pn_terminal (pane_state_of ws' i) = map_option pn_terminal (pane_state_of ws i)"
proof -
  have t: "map_option pn_terminal (hm_get (tb_panes t) i) = map_of (snd (snd (tab_shape t))) i" for t
    by (simp add: tab_shape_def hm_get_def map_of_map)
  have "map_option pn_terminal (pane_state_of w i) = find_map (\<lambda>x. map_of (snd (snd x)) i) (map tab_shape (ws_tabs w))" for w
    by (simp add: pane_state_of_def find_map_comp t find_map_map)
  moreover have "map tab_shape (ws_tabs ws') = map tab_shape (ws_tabs ws)" using assms by (simp add: ws_shape_def)
  ultimately show ?thesis by simp
qed

lemma create_from_existing_state:
  assumes "workspace_core {} ws'" and "create_tab_from_existing_pane moved label ws = (ws', j)"
  shows "pane_state_of ws' (mv_pane_id moved) = Some (mv_pane_state moved)"
    "mv_pane_id moved \<in> set (tab_pane_ids (ws_tabs ws' ! j))"
proof -
  let ?t = "tab_from_existing_pane (ws_next_public_tab_number ws) label moved"
  have tabs: "ws_tabs ws' = ws_tabs ws @ ?t # []" "j = length (ws_tabs ws)"
    using assms(2) by (auto simp: create_tab_from_existing_pane_def Let_def register_if_missing_def register_new_pane_with_number_def)
  show "pane_state_of ws' (mv_pane_id moved) = Some (mv_pane_state moved)"
    by (rule pane_state_at [OF assms(1) tabs(1)]) (simp add: tab_from_existing_pane_def)
  show "mv_pane_id moved \<in> set (tab_pane_ids (ws_tabs ws' ! j))" by (simp add: tabs tab_from_existing_facts(2))
qed

lemma insert_moved_state:
  assumes "workspace_core {} ws'" and "insert_moved_pane_into_tab j target moved d r ws = (ws', True)"
    and "tab_at ws j = Some t" and "tab_ok t"
  shows "pane_state_of ws' (mv_pane_id moved) = Some (mv_pane_state moved)"
    "mv_pane_id moved \<in> set (tab_pane_ids (ws_tabs ws' ! j))"
proof -
  obtain A B where s: "ws_tabs ws = A @ t # B" "length A = j" using tab_at_split [OF assms(3)] by blast
  obtain t' where i: "insert_existing_pane t target moved d r = (t', True)"
    and w: "ws' = register_if_missing (mv_pane_id moved) (ws\<lparr>ws_tabs := (ws_tabs ws)[j := t']\<rparr>)"
    using assms(2,3) by (auto simp: insert_moved_pane_into_tab_def split: prod.splits if_splits)
  have tabs: "ws_tabs ws' = A @ t' # B" using s
    by (simp add: w register_if_missing_def register_new_pane_with_number_def list_update_append)
  show "pane_state_of ws' (mv_pane_id moved) = Some (mv_pane_state moved)"
    by (rule pane_state_at [OF assms(1) tabs]) (use insert_existing_ok(3) [OF assms(4) i] in simp)
  show "mv_pane_id moved \<in> set (tab_pane_ids (ws_tabs ws' ! j))"
    using insert_existing_ok(3) [OF assms(4) i] tab_keys [of t' "mv_pane_id moved"] s(2) by (simp add: tabs nth_append)
qed

text \<open>The destination as a place.\<close>

definition arrives_at :: "resolved_pane_move_destination \<Rightarrow> workspace \<Rightarrow> bool" where
  "arrives_at resolved w =
     (case resolved of
        NewTab wid _ \<Rightarrow> wid = ws_id w
      | ExistingTab tid target _ _ _ \<Rightarrow>
          (\<exists>t \<in> set (ws_tabs w). tid = public_tab_id_for_number (ws_id w) (tb_number t) \<and> target \<in> set (tab_pane_ids t))
      | NewWorkspace _ _ \<Rightarrow> False)"

lemma place_in_workspace:
  assumes "ws_at s k = Some w" and "workspace_core E w" and "E \<subseteq> {mv_pane_id moved}"
    and "ws_active_tab w < length (ws_tabs w) \<or> ws_tabs w = [] \<and> ws_active_tab w = 0"
    and "mv_pane_id moved \<notin> set (live_panes w)" and "pn_terminal (mv_pane_state moved) \<notin> set (live_terminals w)"
    and "distinct (map ws_id (as_workspaces s))" and "generated_id c (ws_id w)" and "ws_next_public_tab_number w \<le> usize_limit"
    and "arrives_at resolved w"
  obtains w' s' j where "place_moved_pane dir now rc tm focus resolved moved s = Some (s', Some (k, j))"
    "app_shape s' = app_shape (update_ws k (\<lambda>_. w') s)" "app_loose (update_ws k (\<lambda>_. w') s) \<Longrightarrow> app_loose s'"
    "as_active s' = as_active s" "as_terminals s' = as_terminals s" "as_public_pane_id_aliases s' = as_public_pane_id_aliases s"
    "workspace_ok w'" "ws_id w' = ws_id w"
    "set (live_panes w') = insert (mv_pane_id moved) (set (live_panes w))"
    "set (live_terminals w') = insert (pn_terminal (mv_pane_state moved)) (set (live_terminals w))"
    "j < length (ws_tabs w')" "pane_state_of w' (mv_pane_id moved) = Some (mv_pane_state moved)"
    "mv_pane_id moved \<in> set (tab_pane_ids (ws_tabs w' ! j))"
proof -
  have frame: "as_active (update_ws k f s) = as_active s" "as_terminals (update_ws k f s) = as_terminals s"
    "as_public_pane_id_aliases (update_ws k f s) = as_public_pane_id_aliases s" for f s
    by (simp_all add: update_ws_def)
  have at: "as_workspaces s ! k = w" "k < length (as_workspaces s)" using assms(1) by (simp_all add: ws_at_nth)
  show thesis
  proof (cases resolved)
    case (NewTab wid label)
    then have wid: "wid = ws_id w" using assms(10) by (simp add: arrives_at_def)
    obtain w' j where n: "create_tab_from_existing_pane moved label w = (w', j)" by fastforce
    note f = create_from_existing_core [OF assms(2,3,5,6) n]
    have "workspace_ok w'" using f(1,4,5) assms(4) by (auto simp: workspace_ok_def)
    moreover have "ws_id w' = ws_id w" using n
      by (auto simp: create_tab_from_existing_pane_def Let_def register_if_missing_def register_new_pane_with_number_def)
    moreover have "place_moved_pane dir now rc tm focus resolved moved s = Some (update_ws k (\<lambda>_. w') s, Some (k, j))"
      using NewTab wid n assms(1) parse_workspace_id_own [OF assms(7,1)] by (simp add: place_moved_pane_def)
    ultimately show thesis
      using that [of "update_ws k (\<lambda>_. w') s" j w'] f create_from_existing_state [OF f(1) n] frame by auto
  next
    case (ExistingTab tid target d r x)
    then obtain t where t: "t \<in> set (ws_tabs w)" "tid = public_tab_id_for_number (ws_id w) (tb_number t)" "target \<in> set (tab_pane_ids t)"
      using assms(10) by (auto simp: arrives_at_def)
    obtain j where j: "j < length (ws_tabs w)" "ws_tabs w ! j = t" using t(1) by (meson in_set_conv_nth)
    then have tab: "tab_at w j = Some t" by (simp add: tab_at_def)
    have tabs: "tabs_ok (ws_tabs w)" "\<forall>t \<in> set (ws_tabs w). tb_number t < ws_next_public_tab_number w"
      using assms(2) by (simp_all add: workspace_core_def)
    have ok: "tab_ok t" using tabs(1) t(1) by (simp add: tabs_ok_def list_all_iff)
    then have number: "0 < tb_number t" "tb_number t < usize_limit" using tabs(2) t(1) assms(9) by (auto simp: tab_ok_def)
    have parse: "parse_tab_id s tid = Some (k, j)"
      unfolding t(2) using tabs(1) by (intro parse_tab_id_own [OF assms(7,1,8) _ tab number]) (simp add: tabs_ok_def)
    obtain t' good where i: "insert_existing_pane t target moved d r = (t', good)" by fastforce
    have "mv_pane_id moved \<notin> set (tab_pane_ids t)" using assms(5) t(1) by (auto simp: live_panes_def)
    then have good: good using insert_existing_ok(1) [OF ok i] t(3) by simp
    let ?w' = "register_if_missing (mv_pane_id moved) (w\<lparr>ws_tabs := (ws_tabs w)[j := t']\<rparr>)"
    have ins: "insert_moved_pane_into_tab j target moved d r w = (?w', True)"
      using i good tab by (simp add: insert_moved_pane_into_tab_def)
    note f = insert_moved_core(2) [OF assms(2,3,5,6) ins TrueI]
    have wok: "workspace_ok ?w'" using f assms(4) j(1) by (auto simp: workspace_ok_def)
    have id: "ws_id ?w' = ws_id w" by (simp add: register_if_missing_def register_new_pane_with_number_def)
    let ?s1 = "update_ws k (\<lambda>_. ?w') s"
    let ?p = "tl_focus (tb_layout t)"
    let ?s2 = "if focus then ?s1 else update_tab k j (\<lambda>t. t\<lparr>tb_layout := focus_pane (tb_layout t) ?p\<rparr>) ?s1"
    have place: "place_moved_pane dir now rc tm focus resolved moved s = Some (?s2, Some (k, j))"
      using ExistingTab parse at j ins by (simp add: place_moved_pane_def Let_def)
    have "keeps ?s1 ?s2"
      using keeps_update_tab [of ?s1 k j "\<lambda>t. t\<lparr>tb_layout := focus_pane (tb_layout t) ?p\<rparr>"] by (simp add: focus_shape)
    moreover have "as_active ?s2 = as_active s" "as_terminals ?s2 = as_terminals s"
      "as_public_pane_id_aliases ?s2 = as_public_pane_id_aliases s"
      by (simp_all add: frame update_tab_def)
    ultimately show thesis
      using that [OF place, of ?w'] wok id f j(1) insert_moved_state [OF _ ins tab ok] by (simp add: keeps_def)
  next
    case (NewWorkspace label tab_label)
    then show thesis using assms(10) by (simp add: arrives_at_def)
  qed
qed

section \<open>Settling\<close>

lemma switch_workspace_tab_inv:
  assumes "app_core T s" and "ws_at s k = Some ws" and "j < length (ws_tabs ws)"
  shows "app_inv T (fst (switch_workspace_tab k j s))"
proof -
  let ?s = "s\<lparr>as_active := Some k, as_selected := k\<rparr>"
  have k: "k < length (as_workspaces s)" using assms(2) by (simp add: ws_at_nth)
  have v: "app_view (fst (switch_workspace_tab k j s)) = app_view (update_ws k (switch_tab j) ?s)"
    using assms(2,3) by (simp add: switch_workspace_tab_def Let_def view_simps) (simp add: app_view_def update_ws_def mark_session_dirty_def)
  have "app_inv T ?s" using assms(1) k by (auto simp: app_inv_core focus_ok_def)
  from keeps_inv [OF keeps_update_ws this] show ?thesis
    by (simp add: app_inv_view [OF v] switch_tab_shape)
qed

lemma settle_inv:
  assumes "app_core T s" and "ws_at s k = Some ws" and "j < length (ws_tabs ws)"
    and "as_active s \<noteq> None \<Longrightarrow> focus_ok (as_workspaces s) (as_active s) (as_selected s)"
  shows "app_inv T (settle_moved_pane now previous focus k j i s)"
    "app_shape (settle_moved_pane now previous focus k j i s) = app_shape s"
proof -
  show "app_inv T (settle_moved_pane now previous focus k j i s)"
    using switch_workspace_tab_inv [OF assms(1-3)] assms(1,4) by (auto simp: settle_moved_pane_def Let_def app_inv_core)
  have "keeps s (settle_moved_pane now previous focus k j i s)"
    using keeps_switch_workspace_tab [of s k j] by (simp add: settle_moved_pane_def Let_def)
  then show "app_shape (settle_moved_pane now previous focus k j i s) = app_shape s" by (rule keeps_shape)
qed

lemma update_ws_aliases [simp]: "as_public_pane_id_aliases (update_ws k f s) = as_public_pane_id_aliases s"
  by (simp add: update_ws_def)

lemma aliases_frame [simp]:
  "as_public_pane_id_aliases (mark_session_dirty s) = as_public_pane_id_aliases s"
  "as_public_pane_id_aliases (clear_selection s) = as_public_pane_id_aliases s"
  "as_public_pane_id_aliases (schedule_session_save now s) = as_public_pane_id_aliases s"
  "as_public_pane_id_aliases (remove_alias_shadowed_by_new_pane i s) = as_public_pane_id_aliases s"
  by (simp_all add: mark_session_dirty_def clear_selection_def schedule_session_save_def remove_alias_shadowed_by_new_pane_def)

lemma aliases_focus [simp]:
  "as_public_pane_id_aliases (clear_copy_mode_selection s) = as_public_pane_id_aliases s"
  "as_public_pane_id_aliases (sync_copy_mode_with_focus s) = as_public_pane_id_aliases s"
  by (simp_all add: clear_copy_mode_selection_def sync_copy_mode_with_focus_def Let_def)

lemma aliases_switch [simp]:
  "as_public_pane_id_aliases (settle_terminal_mode_after_focus s) = as_public_pane_id_aliases s"
  "as_public_pane_id_aliases (record_pane_focus_change previous k i s) = as_public_pane_id_aliases s"
  "as_public_pane_id_aliases (record_pane_focus_after_navigation previous s) = as_public_pane_id_aliases s"
  "as_public_pane_id_aliases (sync_selection_after_focus_navigation s) = as_public_pane_id_aliases s"
  by (simp_all add: settle_terminal_mode_after_focus_def record_pane_focus_change_def
      record_pane_focus_after_navigation_def sync_selection_after_focus_navigation_def split: option.split)

lemma settle_frame [simp]:
  "as_terminals (settle_moved_pane now previous focus k j i s) = as_terminals s"
  "as_public_pane_id_aliases (settle_moved_pane now previous focus k j i s) = as_public_pane_id_aliases s"
proof -
  have "as_terminals (fst (switch_workspace_tab k j s)) = as_terminals s"
    "as_public_pane_id_aliases (fst (switch_workspace_tab k j s)) = as_public_pane_id_aliases s"
    by (simp_all add: switch_workspace_tab_def Let_def)
  then show "as_terminals (settle_moved_pane now previous focus k j i s) = as_terminals s"
    "as_public_pane_id_aliases (settle_moved_pane now previous focus k j i s) = as_public_pane_id_aliases s"
    by (simp_all add: settle_moved_pane_def Let_def)
qed

end
