(* ===== verification/App_Moved.thy ===== *)
theory App_Moved
  imports App_Moving
begin

text \<open>
  Moving a pane to another tab, a new tab or a new workspace: the request keeps the invariant
  of the application, never fails half-way, and the pane keeps its terminal.
\<close>

section \<open>The destination is there\<close>

definition numbers_fit :: "app \<Rightarrow> bool" where
  "numbers_fit s = list_all (\<lambda>ws. ws_next_public_tab_number ws \<le> usize_limit) (as_workspaces s)"

lemma resolved_there:
  assumes "app_inv {} s" and "ws_at s k = Some ws" and "find_tab_index_for_pane ws i = Some j"
    and "resolve_move_destination s k j i (ws_id ws) destination = Some (Inr resolved)"
    and "take_pane_for_move i ws = Some (ws', taken)" and "\<nexists>label tab_label. resolved = NewWorkspace label tab_label"
  shows "\<exists>l w. ws_at s l = Some w \<and> (is_cross_workspace (ws_id ws) resolved \<longleftrightarrow> l \<noteq> k)
    \<and> arrives_at resolved (if l = k then ws' else w)"
proof -
  note frame = take_frame(1) [OF assms(5)]
  have dist: "distinct (map ws_id (as_workspaces s))" using assms(1) by (simp add: app_inv_def workspaces_ok_def)
  have same: "ws_id w = ws_id ws \<longleftrightarrow> l = k" if "ws_at s l = Some w" for l w
    using that assms(2) dist nth_eq_iff_index_eq [of "map ws_id (as_workspaces s)" l k] by (auto simp: ws_at_nth)
  have there: ?thesis if "resolved = NewTab (ws_id w) label" "ws_at s l = Some w" for w l label
    using that frame same [of l w] by (intro exI [of _ l] exI [of _ w]) (auto simp: is_cross_workspace_def arrives_at_def)
  show ?thesis
  proof (cases destination)
    case (MoveToNewTab wid label)
    then obtain w l where "resolved = NewTab (ws_id w) label" "ws_at s l = Some w"
      using assms(2,4) by (auto simp: resolve_move_destination_def public_workspace_id_def split: option.splits)
    then show ?thesis by (rule there)
  next
    case (MoveToNewWorkspace label tab_label)
    then show ?thesis using assms(4,6) by (auto simp: resolve_move_destination_def)
  next
    case (MoveToTab tid name d r)
    then obtain l t where p: "parse_tab_id s tid = Some (l, t)" "\<not> (k = l \<and> j = t)"
      using assms(4) by (auto simp: resolve_move_destination_def split: option.splits if_splits)
    define w where "w = as_workspaces s ! l"
    have at: "ws_at s l = Some w" "t < length (ws_tabs w)"
      using p(1) by (auto simp: w_def parse_tab_id_def bind_eq_Some_conv ws_at_nth tab_at_def split: option.splits if_splits)
    define tab where "tab = ws_tabs w ! t"
    have tab: "tab \<in> set (ws_tabs w)" "tab_at w t = Some tab" using at(2) by (simp_all add: tab_def tab_at_def)
    have ok: "tabs_ok (ws_tabs w)" using app_inv_at [OF assms(1) at(1)] by (simp add: workspace_ok_def workspace_core_def)
    then have tok: "tab_ok tab" using tab(1) by (simp add: tabs_ok_def list_all_iff)
    have target: "target \<in> set (tab_pane_ids tab)"
      if "find_tab_index_for_pane w target = Some t \<or> target = tl_focus (tb_layout tab)" for target
      using that
    proof
      assume "find_tab_index_for_pane w target = Some t"
      then obtain A x B where "ws_tabs w = A @ x # B" "length A = t" "target \<in> set (tab_pane_ids x)" by (rule find_tab_split)
      then show ?thesis by (auto simp: tab_def nth_append)
    qed (use tab_focus_live [OF tok] in simp)
    define chosen where "chosen = (case name of
        Some raw \<Rightarrow> Option.bind (parse_pane_id s raw) (\<lambda>(l', p).
          if l' \<noteq> l \<or> find_tab_index_for_pane (as_workspaces s ! l') p \<noteq> Some t then None else Some p)
      | None \<Rightarrow> Some (tl_focus (tb_layout tab)))"
    have tid: "public_tab_id s l t = Some (public_tab_id_for_number (ws_id w) (tb_number tab))"
      using at(1) tab(2) by (simp add: public_tab_id_def public_tab_number_def)
    have "(case chosen of None \<Rightarrow> Some (Inl (Inl ''target_pane_not_found'' :: pane_move_result response)) | Some target \<Rightarrow>
        Some (Inr (ExistingTab (public_tab_id_for_number (ws_id w) (tb_number tab)) target d (unwrap_or r f32_0_5) (k \<noteq> l))))
        = Some (Inr resolved)"
      using assms(4) [unfolded MoveToTab resolve_move_destination_def pane_move_destination.case p(1) option.case prod.case
          w_def [symmetric] tab_def [symmetric] tid] p(2)
      unfolding chosen_def by (simp split: if_splits)
    then obtain target x where r0: "chosen = Some target"
      "resolved = ExistingTab (public_tab_id_for_number (ws_id w) (tb_number tab)) target d x (k \<noteq> l)"
      by (cases chosen) auto
    have "find_tab_index_for_pane w target = Some t \<or> target = tl_focus (tb_layout tab)"
      using r0(1) by (auto simp: chosen_def w_def bind_eq_Some_conv split: option.splits if_splits)
    note r = r0(2) target [OF this]
    have "tab \<in> set (ws_tabs ws')" if "l = k"
    proof (rule take_frame(3) [OF assms(5) _ assms(3)])
      show "tab \<in> set (ws_tabs ws)" using that at tab assms(2) by simp
      have "j < length (ws_tabs ws)" using assms(3) by (auto simp: find_tab_index_for_pane_def dest: index_of_Some)
      then show "tab \<noteq> ws_tabs ws ! j"
        using that at p(2) assms(2) ok nth_eq_iff_index_eq [of "map tb_number (ws_tabs w)" t j]
        by (auto simp: tab_def tabs_ok_def)
    qed
    then show ?thesis
      using at(1) r tab(1) frame same [OF at(1)]
      by (intro exI [of _ l] exI [of _ w]) (auto simp: is_cross_workspace_def arrives_at_def)
  qed
qed

section \<open>The end of a move\<close>

lemma tab_shape_nth:
  fixes w w' :: workspace
  assumes "ws_shape w' = ws_shape w" and "t < length (ws_tabs w)"
  shows "tab_pane_ids (ws_tabs w' ! t) = tab_pane_ids (ws_tabs w ! t)"
proof -
  have "map tab_shape (ws_tabs w') = map tab_shape (ws_tabs w)" using assms(1) by (simp add: ws_shape_def)
  then have "tab_shape (ws_tabs w' ! t) = tab_shape (ws_tabs w ! t)"
    using assms(2) ws_shapeD(5) [OF assms(1)] by (metis nth_map)
  then show ?thesis by (rule tab_shapeD(1))
qed

lemma settled:
  assumes "app_core {} s" and "ws_at s l = Some w" and "t < length (ws_tabs w)" and "i \<in> set (tab_pane_ids (ws_tabs w ! t))"
    and "as_active s \<noteq> None \<Longrightarrow> focus_ok (as_workspaces s) (as_active s) (as_selected s)"
    and "s' = settle_moved_pane now previous focus l t i s"
  shows "app_inv {} s'" "pane_info_exists s' l i" "layout_snapshot_exists s' l t" "app_panes s' = app_panes s"
    "app_terminals s' = app_terminals s" "as_terminals s' = as_terminals s"
    "as_public_pane_id_aliases s' = as_public_pane_id_aliases s"
    "\<exists>w'. ws_at s' l = Some w' \<and> t < length (ws_tabs w') \<and> i \<in> set (tab_pane_ids (ws_tabs w' ! t))
      \<and> map_option pn_terminal (pane_state_of w' i) = map_option pn_terminal (pane_state_of w i)"
proof -
  note f = settle_inv [OF assms(1-3,5), of now previous focus i, folded assms(6)]
  show inv: "app_inv {} s'" by (rule f)
  show "app_panes s' = app_panes s" by (rule app_shapeD(5) [OF f(2)])
  show "app_terminals s' = app_terminals s" by (rule app_shapeD(6) [OF f(2)])
  show "as_terminals s' = as_terminals s" "as_public_pane_id_aliases s' = as_public_pane_id_aliases s"
    using assms(6) by simp_all
  have l: "l < length (as_workspaces s)" "as_workspaces s ! l = w" using assms(2) by (simp_all add: ws_at_nth)
  define w' where "w' = as_workspaces s' ! l"
  have w': "ws_at s' l = Some w'" using l app_shapeD(4) [OF f(2)] by (simp add: w'_def ws_at_nth)
  have sh: "ws_shape w' = ws_shape w" using app_shapeD(11) [OF f(2) l(1)] l(2) by (simp add: w'_def)
  have "i \<in> set (live_panes w)" using assms(3,4) by (auto simp: live_panes_def)
  then have live: "i \<in> set (live_panes w')" using ws_shapeD(2) [OF sh] by simp
  show "pane_info_exists s' l i" using pane_info_live [OF inv w'] live by simp
  show "layout_snapshot_exists s' l t"
    using layout_snapshot_live [OF inv w', of t] assms(3) ws_shapeD(5) [OF sh] by (simp add: tab_at_def)
  show "\<exists>w'. ws_at s' l = Some w' \<and> t < length (ws_tabs w') \<and> i \<in> set (tab_pane_ids (ws_tabs w' ! t))
      \<and> map_option pn_terminal (pane_state_of w' i) = map_option pn_terminal (pane_state_of w i)"
    using w' assms(3,4) tab_shape_nth [OF sh assms(3)] ws_shapeD(5) [OF sh] terminal_id_shape [OF sh] by auto
qed

text \<open>What a move of the pane \<open>i\<close> of the workspace \<open>ws\<close> to the tab at \<open>t\<close> of the workspace at \<open>l\<close> promises.\<close>

definition pane_moved :: "app \<Rightarrow> workspace \<Rightarrow> pane_id \<Rightarrow> nat \<Rightarrow> nat \<Rightarrow> app \<Rightarrow> bool" where
  "pane_moved s ws i l t s' =
     (app_inv {} s' \<and> app_panes s' = app_panes s \<and> app_terminals s' = app_terminals s \<and> as_terminals s' = as_terminals s
      \<and> is_some_and (ws_at s' l) (\<lambda>w. t < length (ws_tabs w) \<and> i \<in> set (tab_pane_ids (ws_tabs w ! t))
          \<and> map_option pn_terminal (pane_state_of w i) = map_option pn_terminal (pane_state_of ws i)))"

lemma shape_inv:
  assumes "app_inv {} s0" and "app_shape s = app_shape s0" and "app_loose s0 \<Longrightarrow> app_loose s"
  shows "app_inv {} s"
  by (rule keeps_inv [OF _ assms(1)]) (use assms(2,3) in \<open>simp add: keeps_def\<close>)

text \<open>The workspace of the destination gets the pane.\<close>

lemma moved_into:
  assumes "app_inv {} (update_ws l (\<lambda>_. w') s2)" and "l < length (as_workspaces s2)"
    and "app_shape s3 = app_shape (update_ws l (\<lambda>_. w') s2)" "app_loose (update_ws l (\<lambda>_. w') s2) \<Longrightarrow> app_loose s3"
    and "as_terminals s3 = as_terminals s" and "t < length (ws_tabs w')" and "i \<in> set (tab_pane_ids (ws_tabs w' ! t))"
    and "pane_state_of w' i = pane_state_of ws i"
    and "app_panes (update_ws l (\<lambda>_. w') s2) = app_panes s" "app_terminals (update_ws l (\<lambda>_. w') s2) = app_terminals s"
    and "s' = settle_moved_pane now previous focus l t i s3"
  shows "pane_moved s ws i l t s'" "pane_info_exists s' l i" "layout_snapshot_exists s' l t"
proof -
  have inv: "app_inv {} s3" by (rule shape_inv [OF assms(1,3,4)])
  note len = app_shapeD(4) [OF assms(3)]
  define w where "w = as_workspaces s3 ! l"
  have at: "ws_at s3 l = Some w" using assms(2) len by (simp add: ws_at_nth w_def)
  have sh: "ws_shape w = ws_shape w'" using app_shapeD(11) [OF assms(3), of l] assms(2) by (simp add: w_def update_ws_nth)
  have live: "t < length (ws_tabs w)" "i \<in> set (tab_pane_ids (ws_tabs w ! t))"
    using assms(6,7) ws_shapeD(5) [OF sh] tab_shape_nth [OF sh assms(6)] by simp_all
  have core: "app_core {} s3" "focus_ok (as_workspaces s3) (as_active s3) (as_selected s3)" using inv by (simp_all add: app_inv_core)
  note f = settled [OF core(1) at live core(2) assms(11)]
  show "pane_info_exists s' l i" "layout_snapshot_exists s' l t" by (rule f)+
  show "pane_moved s ws i l t s'"
    using f(1,4-6,8) app_shapeD(5,6) [OF assms(3)] assms(5,8-10) terminal_id_shape [OF sh, of i]
    by (auto simp: pane_moved_def)
qed

section \<open>The move\<close>

lemma update_ws_twice: "update_ws k (\<lambda>_. w') (update_ws k (\<lambda>_. w) s) = update_ws k (\<lambda>_. w') s"
  by (simp add: update_ws_def)

lemma update_sets:
  assumes "app_inv T s" and "ws_at s k = Some ws"
    and "set (live_panes ws') = set (live_panes ws) \<union> N" "set (live_terminals ws') = set (live_terminals ws) \<union> M"
  shows "app_panes (update_ws k (\<lambda>_. ws') s) = app_panes s \<union> N" "app_terminals (update_ws k (\<lambda>_. ws') s) = app_terminals s \<union> M"
proof -
  obtain A B where s: "as_workspaces s = A @ ws # B" "length A = k" using ws_at_split [OF assms(2)] by blast
  show "app_panes (update_ws k (\<lambda>_. ws') s) = app_panes s \<union> N" "app_terminals (update_ws k (\<lambda>_. ws') s) = app_terminals s \<union> M"
    using assms(3,4) app_sets_split [OF s(1)] app_sets_split [OF update_ws_split [OF s, of "\<lambda>_. ws'"]] by auto
qed

text \<open>Within a workspace.\<close>

lemma move_within:
  assumes "app_inv {} s" and "numbers_fit s" and "ws_at s k = Some ws" and "find_tab_index_for_pane ws i = Some j"
    and "resolve_move_destination s k j i (ws_id ws) destination = Some (Inr resolved)"
    and "\<not> is_cross_workspace (ws_id ws) resolved"
  shows "\<exists>s' t removed. move_pane_to dir now k j i name tm focus resolved s = Some (s', Inr (Moved k t i None removed))
    \<and> pane_moved s ws i k t s'"
proof -
  have ok: "workspace_ok ws" by (rule app_inv_at [OF assms(1,3)])
  then have core: "workspace_core {} ws" by (simp add: workspace_ok_def)
  have k: "k < length (as_workspaces s)" "as_workspaces s ! k = ws" using assms(3) by (simp_all add: ws_at_nth)
  have i: "i \<in> set (live_panes ws)" using assms(4) find_tab_None [of ws i] by auto
  obtain ws1 tk where t: "take_pane_for_move i ws = Some (ws1, Some tk)" "workspace_core {i} ws1"
    "set (live_panes ws1) = set (live_panes ws) - {i}" "mv_pane_id (tk_moved tk) = i"
    "set (live_terminals ws1) = set (live_terminals ws) - {pn_terminal (mv_pane_state (tk_moved tk))}"
    "pn_terminal (mv_pane_state (tk_moved tk)) \<in> set (live_terminals ws)"
    "ws_active_tab ws1 < length (ws_tabs ws1) \<or> ws_tabs ws1 = [] \<and> ws_active_tab ws1 = 0"
    "pane_state_of ws i = Some (mv_pane_state (tk_moved tk))"
    using take_core [OF core i] ok by (metis workspace_ok_def)
  note frame = take_frame(1,2) [OF t(1)]
  let ?s1 = "update_ws k (\<lambda>_. ws1) s"
  have s1: "ws_at ?s1 k = Some ws1" using k by (simp add: ws_at_nth update_ws_nth)
  have "map ws_id (as_workspaces ?s1) = map ws_id (as_workspaces s)"
    using k frame(1) by (simp add: update_ws_def map_update list_update_same_conv)
  then have dist: "distinct (map ws_id (as_workspaces ?s1))" using assms(1) by (simp add: app_inv_def workspaces_ok_def)
  have gen: "generated_id (as_next_workspace_id s) (ws_id ws1)"
    using assms(1) k nth_mem [OF k(1)] by (simp add: app_inv_def frame)
  have fit: "ws_next_public_tab_number ws1 \<le> usize_limit"
    using assms(2) k nth_mem [OF k(1)] by (simp add: numbers_fit_def list_all_iff frame)
  have "\<nexists>label tab_label. resolved = NewWorkspace label tab_label" using assms(6) by (auto simp: is_cross_workspace_def)
  then have there: "arrives_at resolved ws1"
    using resolved_there [OF assms(1,3-5) t(1)] assms(6) by auto
  define previous where "previous = current_pane_focus_target s"
  have fresh: "{i} \<subseteq> {mv_pane_id (tk_moved tk)}" "mv_pane_id (tk_moved tk) \<notin> set (live_panes ws1)"
    "pn_terminal (mv_pane_state (tk_moved tk)) \<notin> set (live_terminals ws1)" using t(3-5) by auto
  obtain rc where rc: "rc = \<lparr>rc_source_ws_idx = k, rc_previous_workspace_id = ws_id ws,
                rc_previous_workspace_label = ws_custom_name ws,
                rc_previous_tab_label = tb_custom_name (ws_tabs ws ! j),
                rc_previous_worktree_space = ws_worktree_space ws, rc_identity_cwd = ws_identity_cwd ws\<rparr>" by simp
  obtain w' s3 t' where p: "place_moved_pane dir now rc tm focus resolved (tk_moved tk) ?s1 = Some (s3, Some (k, t'))"
    "app_shape s3 = app_shape (update_ws k (\<lambda>_. w') ?s1)" "app_loose (update_ws k (\<lambda>_. w') ?s1) \<Longrightarrow> app_loose s3"
    "as_terminals s3 = as_terminals ?s1"
    "workspace_ok w'" "ws_id w' = ws_id ws1" "set (live_panes w') = insert i (set (live_panes ws1))"
    "set (live_terminals w') = insert (pn_terminal (mv_pane_state (tk_moved tk))) (set (live_terminals ws1))"
    "t' < length (ws_tabs w')" "pane_state_of w' i = Some (mv_pane_state (tk_moved tk))"
    "i \<in> set (tab_pane_ids (ws_tabs w' ! t'))"
    using place_in_workspace [OF s1 t(2) fresh(1) t(7) fresh(2,3) dist gen fit there, where dir = dir and now = now
        and rc = rc and tm = tm and focus = focus] unfolding t(4) by metis
  have sets: "set (live_panes w') = set (live_panes ws)" "set (live_terminals w') = set (live_terminals ws)"
    using p(7,8) t(3,5,6) i by auto
  have inv: "app_inv {} (update_ws k (\<lambda>_. w') ?s1)"
    unfolding update_ws_twice using p(5,6) frame(1) sets by (intro app_inv_shrink [OF assms(1,3)]) simp_all
  define s' where "s' = settle_moved_pane now previous focus k t' i s3"
  note m = moved_into [OF inv _ p(2,3) _ p(9) _ _ _ _ s'_def, of s ws]
  have m: "pane_moved s ws i k t' s'" "pane_info_exists s' k i" "layout_snapshot_exists s' k t'"
    using m k(1) p(4,7,10,11) t(8) update_sets [OF assms(1,3), of w' "{}" "{}"] sets unfolding update_ws_twice by simp_all
  have leave: "leave_workspace k i name e False s = s" for name e s by (simp add: leave_workspace_def)
  show ?thesis
    using m t(1) p(1) assms(6)
    by (auto simp: move_pane_to_def Let_def k(2) rc leave s'_def previous_def)
qed

text \<open>To another workspace.\<close>

lemma terminal_known:
  assumes "app_inv {} s" and "tm \<in> app_terminals s"
  shows "tm \<in> fst ` set (as_terminals s)" "is_none_or (as_popup_pane s) (\<lambda>(_, popup). popup \<notin> {tm})"
  using assms by (auto simp: app_inv_def is_none_or_def split: option.splits)

lemma pane_known: "app_inv {} s \<Longrightarrow> i \<in> app_panes s \<Longrightarrow> i < as_next_pane_id s"
  by (simp add: app_inv_def)

lemma move_across:
  assumes "app_inv {} s" and "numbers_fit s" and "ws_at s k = Some ws" and "find_tab_index_for_pane ws i = Some j"
    and "resolve_move_destination s k j i (ws_id ws) destination = Some (Inr resolved)"
    and "is_cross_workspace (ws_id ws) resolved" and "\<nexists>label tab_label. resolved = NewWorkspace label tab_label"
  shows "\<exists>s' l t removed. move_pane_to dir now k j i name tm focus resolved s
      = Some (s', Inr (Moved l t i (if set (live_panes ws) = {i} then Some (ws_id ws) else None) removed))
    \<and> pane_moved s ws i l t s' \<and> hm_get (as_public_pane_id_aliases s') name = Some i"
proof -
  have k: "k < length (as_workspaces s)" "as_workspaces s ! k = ws" using assms(3) by (simp_all add: ws_at_nth)
  have i: "i \<in> set (live_panes ws)" using assms(4) find_tab_None [of ws i] by auto
  then have ipanes: "i \<in> app_panes s" using live_at(1) [OF assms(3)] by blast
  obtain ws1 tk where t: "take_pane_for_move i ws = Some (ws1, Some tk)" "mv_pane_id (tk_moved tk) = i"
    "pane_state_of ws i = Some (mv_pane_state (tk_moved tk))" "pn_terminal (mv_pane_state (tk_moved tk)) \<in> app_terminals s"
    and leave: "\<And>name. app_inv {} (leave_workspace k i name (tk_workspace_empty tk) True (update_ws k (\<lambda>_. ws1) s))"
    "\<And>name. app_panes (leave_workspace k i name (tk_workspace_empty tk) True (update_ws k (\<lambda>_. ws1) s)) = app_panes s - {i}"
    "\<And>name. app_terminals (leave_workspace k i name (tk_workspace_empty tk) True (update_ws k (\<lambda>_. ws1) s))
      = app_terminals s - {pn_terminal (mv_pane_state (tk_moved tk))}"
    "\<And>name l w. l \<noteq> k \<Longrightarrow> ws_at s l = Some w \<Longrightarrow> w \<in> set (as_workspaces
      (leave_workspace k i name (tk_workspace_empty tk) True (update_ws k (\<lambda>_. ws1) s)))"
    and empty: "tk_workspace_empty tk \<longleftrightarrow> set (live_panes ws) = {i}"
    by (rule leave_cross [OF assms(1,3) i], rule that, simp_all)
  let ?tm = "pn_terminal (mv_pane_state (tk_moved tk))"
  define s2 where "s2 = leave_workspace k i name (tk_workspace_empty tk) True (update_ws k (\<lambda>_. ws1) s)"
  note inv2 = leave(1) [of name, folded s2_def] and sets2 = leave(2,3) [of name, folded s2_def]
  have frame2: "as_terminals s2 = as_terminals s" "as_next_pane_id s2 = as_next_pane_id s" "as_popup_pane s2 = as_popup_pane s"
    "as_public_pane_id_aliases s2 = hm_insert name i (as_public_pane_id_aliases s)"
    by (simp_all add: s2_def leave_frame)
  obtain l0 w where w: "ws_at s l0 = Some w" "l0 \<noteq> k" "arrives_at resolved w"
    using resolved_there [OF assms(1,3-5) t(1) assms(7)] assms(6) by auto
  then have "w \<in> set (as_workspaces s2)" using leave(4) [OF w(2,1), of name] by (simp add: s2_def)
  then obtain l where l: "ws_at s2 l = Some w" by (auto simp: in_set_conv_nth ws_at_nth)
  have ok: "workspace_ok w" by (rule app_inv_at [OF assms(1) w(1)])
  then have core: "workspace_core {} w" "ws_active_tab w < length (ws_tabs w)" by (simp_all add: workspace_ok_def)
  have dist: "distinct (map ws_id (as_workspaces s2))" using inv2 by (simp add: app_inv_def workspaces_ok_def)
  have mem: "w \<in> set (as_workspaces s)" using w(1) nth_mem [of l0 "as_workspaces s"] by (auto simp: ws_at_nth)
  have gen: "generated_id (as_next_workspace_id s) (ws_id w)" using assms(1) mem by (simp add: app_inv_def)
  have fit: "ws_next_public_tab_number w \<le> usize_limit" using assms(2) mem by (simp add: numbers_fit_def list_all_iff)
  have fresh: "mv_pane_id (tk_moved tk) \<notin> set (live_panes w)" "?tm \<notin> set (live_terminals w)"
    using live_at [OF l] sets2 t(2) by auto
  obtain rc where rc: "rc = \<lparr>rc_source_ws_idx = k, rc_previous_workspace_id = ws_id ws,
                rc_previous_workspace_label = ws_custom_name ws,
                rc_previous_tab_label = tb_custom_name (ws_tabs ws ! j),
                rc_previous_worktree_space = ws_worktree_space ws, rc_identity_cwd = ws_identity_cwd ws\<rparr>" by simp
  obtain w' s3 t' where p: "place_moved_pane dir now rc tm focus resolved (tk_moved tk) s2 = Some (s3, Some (l, t'))"
    "app_shape s3 = app_shape (update_ws l (\<lambda>_. w') s2)" "app_loose (update_ws l (\<lambda>_. w') s2) \<Longrightarrow> app_loose s3"
    "as_terminals s3 = as_terminals s2" "as_public_pane_id_aliases s3 = as_public_pane_id_aliases s2"
    "workspace_ok w'" "ws_id w' = ws_id w" "set (live_panes w') = insert i (set (live_panes w))"
    "set (live_terminals w') = insert ?tm (set (live_terminals w))"
    "t' < length (ws_tabs w')" "pane_state_of w' i = Some (mv_pane_state (tk_moved tk))"
    "i \<in> set (tab_pane_ids (ws_tabs w' ! t'))"
    using place_in_workspace [OF l core(1) empty_subsetI disjI1 [OF core(2)] fresh dist gen fit w(3), where dir = dir and now = now
        and rc = rc and tm = tm and focus = focus] unfolding t(2) by metis
  have inv3: "app_inv {} (update_ws l (\<lambda>_. w') s2)"
    using p(6-9) sets2 pane_known [OF assms(1) ipanes] terminal_known [OF assms(1) t(4)]
    by (intro app_inv_replace [OF inv2 l, where N = "{i}" and M = "{?tm}"]) (simp_all add: frame2)
  have usets: "app_panes (update_ws l (\<lambda>_. w') s2) = app_panes s" "app_terminals (update_ws l (\<lambda>_. w') s2) = app_terminals s"
    using update_sets [OF inv2 l, of w' "{i}" "{?tm}"] p(8,9) sets2 ipanes t(4) by auto
  define s' where "s' = settle_moved_pane now (current_pane_focus_target s) focus l t' i s3"
  have len: "l < length (as_workspaces s2)" using l by (simp add: ws_at_nth)
  have terminals: "as_terminals s3 = as_terminals s" by (simp add: p(4) frame2)
  have state: "pane_state_of w' i = pane_state_of ws i" by (simp add: p(11) t(3))
  note m = moved_into [OF inv3 len p(2,3) terminals p(10,12) state usets s'_def]
  have old_name: "hm_get (as_public_pane_id_aliases s') name = Some i"
    by (simp add: s'_def p(5) frame2)
  have "move_pane_to dir now k j i name tm focus resolved s
      = Some (s', Inr (Moved l t' i (if set (live_panes ws) = {i} then Some (ws_id ws) else None)
          (map_option (\<lambda>_. unwrap_or (public_tab_id s k j) '''') (tk_removed_tab_idx tk))))"
    using m(2,3) t(1) p(1) assms(6) empty
    by (simp add: move_pane_to_def Let_def k(2) rc s'_def s2_def)
  then show ?thesis using m(1) old_name by blast
qed

text \<open>To a new workspace.\<close>

lemma focus_ok_append: "focus_ok wss active selected \<Longrightarrow> active \<noteq> None \<Longrightarrow> focus_ok (wss @ [w]) active selected"
  by (auto simp: focus_ok_def is_some_and_def split: if_splits option.splits)

lemma move_to_new:
  assumes "app_inv {} s" and "as_next_workspace_id s + 1 < usize_limit" and "ws_at s k = Some ws"
    and "find_tab_index_for_pane ws i = Some j"
  shows "\<exists>s' removed. move_pane_to dir now k j i name tm focus (NewWorkspace label tab_label) s
      = Some (s', Inr (Moved (length (as_workspaces s) - (if set (live_panes ws) = {i} then 1 else 0)) 0 i
          (if set (live_panes ws) = {i} then Some (ws_id ws) else None) removed))
    \<and> pane_moved s ws i (length (as_workspaces s) - (if set (live_panes ws) = {i} then 1 else 0)) 0 s'
    \<and> hm_get (as_public_pane_id_aliases s') name = Some i"
proof -
  have k: "k < length (as_workspaces s)" "as_workspaces s ! k = ws" using assms(3) by (simp_all add: ws_at_nth)
  have i: "i \<in> set (live_panes ws)" using assms(4) find_tab_None [of ws i] by auto
  then have ipanes: "i \<in> app_panes s" using live_at(1) [OF assms(3)] by blast
  obtain ws1 tk where t: "take_pane_for_move i ws = Some (ws1, Some tk)" "mv_pane_id (tk_moved tk) = i"
    "pane_state_of ws i = Some (mv_pane_state (tk_moved tk))" "pn_terminal (mv_pane_state (tk_moved tk)) \<in> app_terminals s"
    and leave: "\<And>name. app_inv {} (leave_workspace k i name (tk_workspace_empty tk) True (update_ws k (\<lambda>_. ws1) s))"
    "\<And>name. app_panes (leave_workspace k i name (tk_workspace_empty tk) True (update_ws k (\<lambda>_. ws1) s)) = app_panes s - {i}"
    "\<And>name. app_terminals (leave_workspace k i name (tk_workspace_empty tk) True (update_ws k (\<lambda>_. ws1) s))
      = app_terminals s - {pn_terminal (mv_pane_state (tk_moved tk))}"
    and empty: "tk_workspace_empty tk \<longleftrightarrow> set (live_panes ws) = {i}"
    by (rule leave_cross [OF assms(1,3) i], rule that, simp_all)
  let ?tm = "pn_terminal (mv_pane_state (tk_moved tk))"
  define s2 where "s2 = leave_workspace k i name (tk_workspace_empty tk) True (update_ws k (\<lambda>_. ws1) s)"
  note inv2 = leave(1) [of name, folded s2_def] and sets2 = leave(2,3) [of name, folded s2_def]
  have frame2: "as_terminals s2 = as_terminals s" "as_next_pane_id s2 = as_next_pane_id s" "as_popup_pane s2 = as_popup_pane s"
    "as_public_pane_id_aliases s2 = hm_insert name i (as_public_pane_id_aliases s)" "as_next_workspace_id s2 = as_next_workspace_id s"
    by (simp_all add: s2_def leave_frame)
  have len2: "length (as_workspaces s2) = length (as_workspaces s) - (if set (live_panes ws) = {i} then 1 else 0)"
    using k empty by (auto simp: s2_def leave_workspace_def close_emptied_workspace_def Let_def remove_at_def)
  define n where "n = length (as_workspaces s) - (if set (live_panes ws) = {i} then 1 else 0)"
  note len2 = len2 [folded n_def]
  have core2: "app_core {} s2" and focus2: "focus_ok (as_workspaces s2) (as_active s2) (as_selected s2)"
    using inv2 by (simp_all add: app_inv_core)
  obtain wid where wid: "generate_workspace_id (as_next_workspace_id s2) = (wid, as_next_workspace_id s2 + 1)"
    "wid \<notin> ws_id ` set (as_workspaces s2)" "generated_id (as_next_workspace_id s2 + 1) wid"
    using generated_fresh [OF core2] assms(2) by (cases "generate_workspace_id (as_next_workspace_id s2)") (simp add: frame2)
  define cwd where "cwd = (case hm_get (as_terminals s) tm of Some t \<Rightarrow> t_cwd t | None \<Rightarrow> dir)"
  define w where "w = workspace_from_existing_pane wid label tab_label cwd (tk_moved tk)"
  note x = tab_from_existing_facts [where number = 1 and label = tab_label and moved = "tk_moved tk"]
  have w: "workspace_ok w" "live_panes w = [i]" "live_terminals w = [?tm]" "ws_id w = wid"
    using workspace_with_tab_ok [OF x(1) x(2,3,5,4)] t(2) by (simp_all add: w_def workspace_from_existing_pane_def)
  have tabs: "ws_tabs w = [tab_from_existing_pane 1 tab_label (tk_moved tk)]"
    by (simp add: w_def workspace_from_existing_pane_def workspace_with_tab_def)
  have state: "pane_state_of w i = Some (mv_pane_state (tk_moved tk))"
    using w(1) tabs t(2)
    by (intro pane_state_at [of "{}" w "[]" "tab_from_existing_pane 1 tab_label (tk_moved tk)" "[]"])
      (simp_all add: workspace_ok_def tab_from_existing_pane_def)
  define sb where "sb = s2\<lparr>as_next_workspace_id := as_next_workspace_id s2 + 1\<rparr>"
  have coreb: "app_core {} sb"
    using app_core_bump [OF core2, of "as_next_pane_id s2" "as_next_workspace_id s2 + 1"] by (simp add: sb_def)
  have fb: "as_workspaces sb = as_workspaces s2" "as_next_pane_id sb = as_next_pane_id s" "as_terminals sb = as_terminals s"
    "as_popup_pane sb = as_popup_pane s" "as_next_workspace_id sb = as_next_workspace_id s2 + 1"
    "app_panes sb = app_panes s - {i}" "app_terminals sb = app_terminals s - {?tm}"
    using sets2 by (simp_all add: sb_def frame2 app_panes_def app_terminals_def)
  define s3 where "s3 = sb\<lparr>as_workspaces := as_workspaces sb @ [w]\<rparr>"
  have core3: "app_core {} s3"
    unfolding s3_def
  proof (rule app_core_snoc [OF coreb w(1)])
    show "set (live_terminals w) \<subseteq> fst ` set (as_terminals sb) \<union> {}"
      "is_none_or (as_popup_pane sb) (\<lambda>(_, tm). tm \<notin> set (live_terminals w))"
      using terminal_known [OF assms(1) t(4)] by (simp_all add: w(3) fb)
  qed (use w wid pane_known [OF assms(1) ipanes] in \<open>simp_all add: fb\<close>)
  have f3: "as_workspaces s3 = as_workspaces s2 @ [w]" "as_active s3 = as_active s2" "as_selected s3 = as_selected s2"
    "as_terminals s3 = as_terminals s" "as_public_pane_id_aliases s3 = as_public_pane_id_aliases s2"
    by (simp_all add: s3_def sb_def frame2)
  have at3: "ws_at s3 n = Some w" using len2 by (simp add: ws_at_nth f3 nth_append)
  have sets3: "app_panes s3 = app_panes s" "app_terminals s3 = app_terminals s"
    using sets2 ipanes t(4) w(2,3) by (auto simp: app_panes_def app_terminals_def f3)
  define s' where "s' = settle_moved_pane now (current_pane_focus_target s) focus n 0 i s3"
  have focus3: "as_active s3 \<noteq> None \<Longrightarrow> focus_ok (as_workspaces s3) (as_active s3) (as_selected s3)"
    using focus2 unfolding f3 by (rule focus_ok_append)
  have tab0: "0 < length (ws_tabs w)" and live: "i \<in> set (tab_pane_ids (ws_tabs w ! 0))" using t(2) by (simp_all add: tabs tab_from_existing_facts(2))
  note m = settled [OF core3 at3 tab0 live focus3 s'_def]
  obtain rc where rc: "rc = \<lparr>rc_source_ws_idx = k, rc_previous_workspace_id = ws_id ws,
                rc_previous_workspace_label = ws_custom_name ws,
                rc_previous_tab_label = tb_custom_name (ws_tabs ws ! j),
                rc_previous_worktree_space = ws_worktree_space ws, rc_identity_cwd = ws_identity_cwd ws\<rparr>" by simp
  have place: "place_moved_pane dir now rc tm focus (NewWorkspace label tab_label) (tk_moved tk) s2 = Some (s3, Some (n, 0))"
    using len2 wid(1) unfolding frame2(5)
    by (simp add: place_moved_pane_def Let_def frame2 cwd_def [symmetric] w_def [symmetric])
      (simp add: s3_def sb_def frame2)
  have "move_pane_to dir now k j i name tm focus (NewWorkspace label tab_label) s
      = Some (s', Inr (Moved n 0 i (if set (live_panes ws) = {i} then Some (ws_id ws) else None)
          (map_option (\<lambda>_. unwrap_or (public_tab_id s k j) '''') (tk_removed_tab_idx tk))))"
    using m(2,3) t(1) place empty
    by (simp add: move_pane_to_def Let_def k(2) rc s'_def s2_def is_cross_workspace_def)
  moreover have "pane_moved s ws i n 0 s'"
    using m(1,4-6,8) sets3 f3(4) state t(3) by (auto simp: pane_moved_def)
  moreover have "hm_get (as_public_pane_id_aliases s') name = Some i"
    using m(7) by (simp add: f3 frame2)
  ultimately show ?thesis unfolding n_def [symmetric] by blast
qed

section \<open>The request\<close>

text \<open>The workspace that is meant by its position is not looked up before it is read.\<close>

definition names_missing_workspace :: "app \<Rightarrow> pane_move_destination \<Rightarrow> bool" where
  "names_missing_workspace s destination =
     (case destination of
        MoveToNewTab (Some wid) _ \<Rightarrow> is_some_and (parse_workspace_id s wid) (\<lambda>k. length (as_workspaces s) \<le> k)
      | _ \<Rightarrow> False)"

lemma resolve_panics:
  "resolve_move_destination s k j i wid destination = None \<longleftrightarrow> names_missing_workspace s destination"
  by (auto simp: resolve_move_destination_def names_missing_workspace_def public_workspace_id_def ws_at_def not_less
      split: option.split pane_move_destination.split)

lemma resolve_new:
  "resolve_move_destination s k j i wid destination = Some (Inr (NewWorkspace label tab_label))
    \<Longrightarrow> destination = MoveToNewWorkspace label tab_label"
  by (auto simp: resolve_move_destination_def split: option.splits pane_move_destination.splits if_splits)

lemma handle_pane_move_cases:
  assumes "app_inv {} s" and "counters_ok s" and "numbers_fit s"
    and "handle_pane_move dir now name destination focus s = Some (s', answer)"
  shows "s' = s \<and> (\<forall>l t i closed removed. answer \<noteq> Inr (Moved l t i closed removed))
    \<or> (\<exists>k ws i l t closed removed. parse_pane_id s name = Some (k, i) \<and> ws_at s k = Some ws
        \<and> answer = Inr (Moved l t i closed removed) \<and> pane_moved s ws i l t s'
        \<and> (closed = None \<or> closed = Some (ws_id ws) \<and> set (live_panes ws) = {i}))"
proof (cases "locate_pane s name")
  case None
  then show ?thesis using assms(4) by (auto simp: handle_pane_move_def)
next
  case (Some p)
  then obtain k j i where p: "parse_pane_id s name = Some (k, i)" "locate_pane s name = Some (k, j, i)"
    "find_tab_index_for_pane (as_workspaces s ! k) i = Some j"
    by (auto simp: locate_pane_def bind_eq_Some_conv)
  define ws where "ws = as_workspaces s ! k"
  have ws: "ws_at s k = Some ws" using parse_pane_id_live(1) [OF assms(1) p(1)] by (simp add: ws_at_nth ws_def)
  have j: "find_tab_index_for_pane ws i = Some j" using p(3) by (simp add: ws_def)
  let ?name = "unwrap_or (public_pane_id s k i) name"
  show ?thesis
  proof (cases "public_tab_id s k j = None \<or> tab_terminal_id (ws_tabs ws ! j) i = None \<or> tb_zoomed (ws_tabs ws ! j)
      \<or> (\<exists>answer. resolve_move_destination s k j i (ws_id ws) destination = Some (Inl answer))")
    case True
    have "unchanged_pane_move s k j i target reason \<noteq> Inr (Moved l t i' closed removed)"
      for target reason l t i' closed removed
      by (simp add: unchanged_pane_move_def)
    moreover have "a \<noteq> Inr (Moved l t i' closed removed)"
      if "resolve_move_destination s k j i (ws_id ws) destination = Some (Inl a)" for a l t i' closed removed
      using that by (auto simp: resolve_move_destination_def unchanged_pane_move_def
          split: option.splits pane_move_destination.splits if_splits)
    ultimately show ?thesis
      using True assms(4) p(2) by (auto simp: handle_pane_move_def Let_def ws_def [symmetric] split: option.splits if_splits)
  next
    case False
    then obtain tm tid where tm: "tab_terminal_id (ws_tabs ws ! j) i = Some tm" "public_tab_id s k j = Some tid" by auto
    have whole: "handle_pane_move dir now name destination focus s =
        Option.bind (resolve_move_destination s k j i (ws_id ws) destination) (\<lambda>resolved. (case resolved of
            Inl answer \<Rightarrow> Some (s, answer) | Inr resolved \<Rightarrow> move_pane_to dir now k j i ?name tm focus resolved s))"
      using False p(2) tm by (simp add: handle_pane_move_def Let_def ws_def [symmetric])
    obtain r0 where "resolve_move_destination s k j i (ws_id ws) destination = Some r0"
      using assms(4) whole by (cases "resolve_move_destination s k j i (ws_id ws) destination") simp_all
    then obtain resolved where r: "resolve_move_destination s k j i (ws_id ws) destination = Some (Inr resolved)"
      using False by (cases r0) simp_all
    have m: "move_pane_to dir now k j i ?name tm focus resolved s = Some (s', answer)"
      using assms(4) unfolding whole r by simp
    have "\<exists>l t closed removed. answer = Inr (Moved l t i closed removed) \<and> pane_moved s ws i l t s'
        \<and> (closed = None \<or> closed = Some (ws_id ws) \<and> set (live_panes ws) = {i})"
    proof (cases "is_cross_workspace (ws_id ws) resolved")
      case False
      from move_within [OF assms(1,3) ws j r False, of dir now ?name tm focus] show ?thesis using m(1) by auto
    next
      case cross: True
      show ?thesis
      proof (cases "\<exists>label tab_label. resolved = NewWorkspace label tab_label")
        case True
        then obtain label tab_label where n: "resolved = NewWorkspace label tab_label" by blast
        have "as_next_workspace_id s + 1 < usize_limit" using assms(2) by (simp add: counters_ok_def)
        from move_to_new [OF assms(1) this ws j, of dir now ?name tm focus label tab_label] show ?thesis
          using m n by (auto split: if_splits)
      next
        case False
        from move_across [OF assms(1,3) ws j r cross False, of dir now ?name tm focus] show ?thesis
          using m by (auto split: if_splits)
      qed
    qed
    then show ?thesis using p(1) ws by blast
  qed
qed

text \<open>When it panics.\<close>

lemma handle_pane_move_panics:
  assumes "app_inv {} s" and "counters_ok s" and "numbers_fit s"
    and "handle_pane_move dir now name destination focus s = None"
  shows "names_missing_workspace s destination"
proof (rule ccontr)
  assume there: "\<not> names_missing_workspace s destination"
  obtain k j i where p: "parse_pane_id s name = Some (k, i)" "locate_pane s name = Some (k, j, i)"
    "find_tab_index_for_pane (as_workspaces s ! k) i = Some j"
    using assms(4) by (cases "locate_pane s name") (auto simp: handle_pane_move_def locate_pane_def bind_eq_Some_conv)
  define ws where "ws = as_workspaces s ! k"
  have ws: "ws_at s k = Some ws" using parse_pane_id_live(1) [OF assms(1) p(1)] by (simp add: ws_at_nth ws_def)
  have j: "find_tab_index_for_pane ws i = Some j" using p(3) by (simp add: ws_def)
  let ?name = "unwrap_or (public_pane_id s k i) name"
  have "resolve_move_destination s k j i (ws_id ws) destination \<noteq> None"
    using there resolve_panics by blast
  then obtain r0 where r0: "resolve_move_destination s k j i (ws_id ws) destination = Some r0" by blast
  obtain tm where m0: "(case r0 of Inl answer \<Rightarrow> Some (s, answer)
      | Inr resolved \<Rightarrow> move_pane_to dir now k j i ?name tm focus resolved s) = None"
    using assms(4) p(2) r0 by (auto simp: handle_pane_move_def Let_def ws_def split: option.splits if_splits)
  then obtain resolved where m: "move_pane_to dir now k j i ?name tm focus resolved s = None" "r0 = Inr resolved"
    by (cases r0) simp_all
  note r = r0 [unfolded m(2)]
  show False
  proof (cases "is_cross_workspace (ws_id ws) resolved")
    case False
    from move_within [OF assms(1,3) ws j r False, of dir now ?name tm focus] show ?thesis using m(1) by auto
  next
    case cross: True
    show ?thesis
    proof (cases "\<exists>label tab_label. resolved = NewWorkspace label tab_label")
      case True
      then obtain label tab_label where n: "resolved = NewWorkspace label tab_label" by blast
      have "as_next_workspace_id s + 1 < usize_limit" using assms(2) by (simp add: counters_ok_def)
      from move_to_new [OF assms(1) this ws j, of dir now ?name tm focus label tab_label] show ?thesis
        using m(1) n by auto
    next
      case False
      from move_across [OF assms(1,3) ws j r cross False, of dir now ?name tm focus] show ?thesis
        using m(1) by auto
    qed
  qed
qed

end
