(* ===== verification/App_Steps.thy ===== *)
theory App_Steps
  imports App_Moved
begin

text \<open>
  The steps of the application: every request on workspaces, tabs and panes, every report of an
  agent, every event that reaches \<open>handle_app_event\<close> and every deadline. What a run of them
  reaches from the application without workspaces is in order.
\<close>

section \<open>Reports\<close>

lemma handle_workspace_create_inv:
  assumes "app_inv {} s" and "counters_ok s" and "fresh_terminal s (la_terminal_id la)"
  shows "app_inv {} (fst (handle_workspace_create now env la focus label s))"
proof (cases "normalize_launch_env env")
  case (Inl e)
  then show ?thesis using assms(1) by (simp add: handle_workspace_create_def)
next
  case (Inr e)
  obtain s1 idx where c: "create_workspace_with_launch_env now la focus s = (s1, idx)" by fastforce
  note inv = create_workspace_inv(1) [OF assms c]
  have "app_inv {} (update_ws k (set_custom_name label) s1)" for k label
    by (rule keeps_inv [OF keeps_workspace_rename inv])
  then show ?thesis using inv Inr c by (simp add: handle_workspace_create_def split: option.split)
qed

lemma agent_reports_inv:
  assumes "app_inv {} s"
  shows "app_inv {} (fst (handle_pane_report_agent label live is_dir now clock name source agent state message seq sid path s))"
    "app_inv {} (fst (handle_pane_report_agent_session label live is_dir now clock name source agent seq sid path start s))"
    "app_inv {} (fst (handle_pane_clear_agent_authority label live is_dir now clock name source' seq s))"
    "app_inv {} (fst (handle_pane_release_agent label live is_dir now clock name source agent seq s))"
  using assms handle_internal_event_inv [OF assms]
  by (simp_all add: handle_pane_report_agent_def handle_pane_report_agent_session_def
      handle_pane_clear_agent_authority_def handle_pane_release_agent_def split: option.split)

lemma handle_pane_report_metadata_inv:
  assumes "app_inv {} s"
  shows "app_inv {} (fst (handle_pane_report_metadata label live is_dir now clock r s))"
proof -
  have t: "app_inv {} (s\<lparr>as_terminals := hm_insert tm t' (as_terminals s)\<rparr>)" if "hm_get (as_terminals s) tm = Some t" for tm t t'
    by (rule keeps_inv [OF keeps_terminal [OF that] assms])
  then have "app_inv {} (handle_internal_event label live is_dir False now clock event
      (s\<lparr>as_terminals := hm_insert tm t' (as_terminals s)\<rparr>))"
    if "hm_get (as_terminals s) tm = Some t" for tm t t' event
    using that by (intro handle_internal_event_inv)
  with t assms show ?thesis
    by (auto simp: handle_pane_report_metadata_def Let_def app_inv_view [OF view_sync_deadlines(1)]
        split: option.split sum.split prod.split)
qed

lemma handle_workspace_report_metadata_inv:
  assumes "app_inv {} s"
  shows "app_inv {} (fst (handle_workspace_report_metadata now wid source tokens seq ttl s))"
proof -
  have "keeps s (update_ws k (\<lambda>ws. ws\<lparr>ws_metadata_token_sequences := a\<rparr>) s)"
    "keeps s (update_ws k (\<lambda>ws. ws\<lparr>ws_metadata_token_sequences := a, ws_metadata_tokens := b\<rparr>) s)" for k a b
    by (rule keeps_update_ws; simp add: ws_shape_def ws_loose_def)+
  then have "app_inv {} (update_ws k (\<lambda>ws. ws\<lparr>ws_metadata_token_sequences := a\<rparr>) s)"
    "app_inv {} (update_ws k (\<lambda>ws. ws\<lparr>ws_metadata_token_sequences := a, ws_metadata_tokens := b\<rparr>) s)" for k a b
    using keeps_inv assms by blast+
  then show ?thesis
    using assms by (simp add: handle_workspace_report_metadata_def Let_def app_inv_view [OF view_sync_deadlines(1)]
        split: option.split sum.split prod.split bool.split)
qed

section \<open>Steps\<close>

text \<open>The identifier of a new terminal is not in use, and no counter is at its end.\<close>

definition can_start :: "app \<Rightarrow> launch \<Rightarrow> bool" where
  "can_start s la = (counters_ok s \<and> fresh_terminal s (la_terminal_id la))"

inductive app_step :: "app \<Rightarrow> app \<Rightarrow> bool" where
  step_workspace_create: "can_start s la \<Longrightarrow> app_step s (fst (handle_workspace_create now env la focus label s))"
| step_workspace_focus: "app_step s (fst (handle_workspace_focus wid s))"
| step_workspace_rename: "app_step s (fst (handle_workspace_rename now wid label s))"
| step_workspace_move: "app_step s (fst (handle_workspace_move wid k s))"
| step_workspace_close: "app_step s (fst (handle_workspace_close wid s))"
| step_workspace_metadata: "app_step s (fst (handle_workspace_report_metadata now wid source tokens seq ttl s))"
| step_tab_create: "can_start s la \<Longrightarrow> app_step s (fst (handle_tab_create now wid_opt env la focus name_opt s))"
| step_tab_focus: "app_step s (fst (handle_tab_focus tid s))"
| step_tab_rename: "app_step s (fst (handle_tab_rename now tid label s))"
| step_tab_move: "app_step s (fst (handle_tab_move now tid k s))"
| step_tab_close: "app_step s (fst (handle_tab_close now tid s))"
| step_pane_split: "can_start s la \<Longrightarrow>
    handle_pane_split now target wid_opt direction ratio env la focus s = Some (s', r0) \<Longrightarrow> app_step s s'"
| step_pane_focus: "app_step s (fst (handle_pane_focus name s))"
| step_pane_focus_direction: "app_step s (fst (handle_pane_focus_direction rn name_opt nav s))"
| step_pane_resize: "app_step s (fst (handle_pane_resize rn now name_opt nav amount s))"
| step_pane_swap: "app_step s (fst (handle_pane_swap rn now nav_opt name_opt source_name target_name s))"
| step_pane_zoom: "app_step s (fst (handle_pane_zoom now name_opt command s))"
| step_pane_rename: "handle_pane_rename name name_opt s = Some (s', r1) \<Longrightarrow> app_step s s'"
| step_pane_close: "handle_pane_close now name s = Some (s', r2) \<Longrightarrow> app_step s s'"
| step_pane_move: "counters_ok s \<Longrightarrow> numbers_fit s \<Longrightarrow>
    handle_pane_move dir now name destination focus s = Some (s', r3) \<Longrightarrow> app_step s s'"
| step_report_agent: "app_step s (fst (handle_pane_report_agent label_of live is_dir now clock
    name source agent state message seq sid path s))"
| step_report_session: "app_step s (fst (handle_pane_report_agent_session label_of live is_dir now clock
    name source agent seq sid path start s))"
| step_clear_authority: "app_step s (fst (handle_pane_clear_agent_authority label_of live is_dir now clock name source_opt seq s))"
| step_release_agent: "app_step s (fst (handle_pane_release_agent label_of live is_dir now clock name source agent seq s))"
| step_report_metadata: "app_step s (fst (handle_pane_report_metadata label_of live is_dir now clock request s))"
| step_event: "app_step s (handle_internal_event label_of live is_dir spawned now clock event s)"
| step_expire_metadata: "app_step s (fst (expire_due_metadata label_of live now s))"
| step_expire_toast: "app_step s (expire_toast now s)"
| step_notifications: "app_step s (deliver_due_notifications label_of live now clock s)"
| step_save: "app_step s (sync_session_save_schedule now s)"

text \<open>The application before any workspace.\<close>

definition app_started :: "app \<Rightarrow> bool" where
  "app_started s = (as_workspaces s = [] \<and> as_active s = None \<and> as_selected s = 0 \<and> as_terminals s = []
     \<and> 0 < as_next_workspace_id s \<and> as_popup_pane s = None)"

inductive app_reachable :: "app \<Rightarrow> bool" where
  app_start: "app_started s \<Longrightarrow> app_reachable s"
| app_next: "app_reachable s \<Longrightarrow> app_step s s' \<Longrightarrow> app_reachable s'"

lemma app_step_inv: "app_step s s' \<Longrightarrow> app_inv {} s \<Longrightarrow> app_inv {} s'"
proof (induction rule: app_step.induct)
  case (step_workspace_create s la now env focus label)
  then show ?case by (auto simp: can_start_def intro: handle_workspace_create_inv)
next
  case (step_tab_create s la now wid_opt env focus name_opt)
  then show ?case by (auto simp: can_start_def counters_ok_def intro: handle_tab_create_inv)
next
  case (step_pane_split s la now target wid_opt direction ratio env focus s' r0)
  have "as_next_pane_id s \<noteq> - 1" "fresh_terminal s (la_terminal_id la)"
    using step_pane_split(1) by (simp_all add: can_start_def counters_ok_def)
  from handle_pane_split_inv [OF step_pane_split(3) this, of now target wid_opt direction ratio env focus]
  show ?case using step_pane_split(2) by auto
next
  case (step_pane_rename name name_opt s s' r1)
  then show ?case using handle_pane_rename_inv [of s name name_opt] by fastforce
next
  case (step_pane_close now name s s' r2)
  then show ?case using handle_pane_close_inv [of s now name] by fastforce
next
  case (step_pane_move s dir now name destination focus s' r3)
  then show ?case using handle_pane_move_cases [of s dir now name destination focus s' r3] by (auto simp: pane_moved_def)
next
  case (step_save s now)
  then show ?case by (auto simp: sync_session_save_schedule_def app_inv_def app_panes_def app_terminals_def schedule_session_save_def)
qed (simp_all add: keeps_inv [OF keeps_focus_requests(1)] keeps_inv [OF keeps_focus_requests(2)]
    keeps_inv [OF keeps_focus_requests(3)] keeps_inv [OF keeps_focus_requests(4)]
    keeps_inv [OF keeps_handle_pane_focus] keeps_inv [OF keeps_handle_pane_focus_direction]
    keeps_inv [OF keeps_handle_pane_resize] keeps_inv [OF keeps_handle_pane_swap] keeps_inv [OF keeps_handle_pane_zoom]
    keeps_inv [OF keeps_expire_due_metadata] keeps_inv [OF keeps_deliver_due] keeps_inv [OF keeps_expire_toast]
    handle_workspace_move_inv handle_workspace_close_inv handle_workspace_report_metadata_inv handle_tab_move_inv
    handle_tab_close_inv agent_reports_inv handle_pane_report_metadata_inv handle_internal_event_inv)

lemma app_started_inv: "app_started s \<Longrightarrow> app_inv {} s"
  by (simp add: app_started_def app_inv_def workspaces_ok_def focus_ok_def app_panes_def app_terminals_def hm_ok_def is_none_or_def)

lemma app_reachable_inv: "app_reachable s \<Longrightarrow> app_inv {} s"
  by (induction rule: app_reachable.induct) (auto intro: app_started_inv app_step_inv)

end
