(* ===== verification/App_Status.thy ===== *)
theory App_Status
  imports App_Api_Panes
begin

text \<open>
  The state shown for a tab or workspace as a whole (\<open>src/src/workspace/aggregate.rs\<close>, and
  the navigator's of \<open>src/src/app/actions.rs\<close> and the API's of \<open>src/src/app/creation.rs\<close>).
  A pane counts with the state of its terminal and whether its completion was seen.
\<close>

datatype agent_status = StatusIdle | StatusWorking | StatusBlocked | StatusDone | StatusUnknown

definition pane_agent_status :: "agent_state \<Rightarrow> bool \<Rightarrow> agent_status" where
  "pane_agent_status st seen =
     (case st of
        Idle \<Rightarrow> if seen then StatusIdle else StatusDone
      | Working \<Rightarrow> StatusWorking | Blocked \<Rightarrow> StatusBlocked | Unknown \<Rightarrow> StatusUnknown)"

definition pane_attention_priority :: "agent_state \<Rightarrow> bool \<Rightarrow> nat" where
  "pane_attention_priority st seen =
     (case st of Blocked \<Rightarrow> 4 | Idle \<Rightarrow> if seen then 1 else 3 | Working \<Rightarrow> 2 | Unknown \<Rightarrow> 0)"

definition tab_attention_priority :: "agent_state \<Rightarrow> bool \<Rightarrow> nat" where
  "tab_attention_priority st seen =
     (case st of Blocked \<Rightarrow> 4 | Idle \<Rightarrow> if seen then 1 else 3 | Working \<Rightarrow> 2 | Unknown \<Rightarrow> 0)"

definition state_priority :: "agent_state \<Rightarrow> bool \<Rightarrow> nat" where
  "state_priority st seen =
     (case st of Blocked \<Rightarrow> 5 | Working \<Rightarrow> 4 | Idle \<Rightarrow> if seen then 2 else 3 | Unknown \<Rightarrow> 1)"

definition state_label_text :: "agent_state \<Rightarrow> bool \<Rightarrow> string" where
  "state_label_text st seen =
     (case st of
        Blocked \<Rightarrow> ''blocked'' | Working \<Rightarrow> ''working'' | Idle \<Rightarrow> if seen then ''idle'' else ''done''
      | Unknown \<Rightarrow> ''unknown'')"

text \<open>The panes with a terminal, in the iteration order of the maps.\<close>

definition pane_states :: "(string, terminal) hmap \<Rightarrow> pane_state list \<Rightarrow> (agent_state \<times> bool) list" where
  "pane_states terminals ps =
     List.map_filter (\<lambda>pane. map_option (\<lambda>t. (t_state t, pn_seen pane)) (hm_get terminals (pn_terminal pane))) ps"

definition workspace_panes :: "workspace \<Rightarrow> pane_state list" where
  "workspace_panes ws = concat (map (\<lambda>t. hm_values (tb_panes t)) (ws_tabs ws))"

definition aggregate_state :: "(string, terminal) hmap \<Rightarrow> workspace \<Rightarrow> agent_state \<times> bool" where
  "aggregate_state terminals ws =
     unwrap_or (max_by_key (\<lambda>(st, seen). pane_attention_priority st seen)
       (pane_states terminals (workspace_panes ws))) (Unknown, True)"

definition tab_info_state :: "(string, terminal) hmap \<Rightarrow> tab \<Rightarrow> agent_state \<times> bool" where
  "tab_info_state terminals t =
     unwrap_or (max_by_key (\<lambda>(st, seen). tab_attention_priority st seen)
       (pane_states terminals (hm_values (tb_panes t)))) (Unknown, True)"

definition tab_aggregate_state :: "(string, terminal) hmap \<Rightarrow> tab \<Rightarrow> agent_state \<times> bool" where
  "tab_aggregate_state terminals t =
     fold (\<lambda>(st, seen) (aggregate, aggregate_seen).
         if state_priority aggregate aggregate_seen < state_priority st seen then (st, seen)
         else (aggregate, aggregate_seen))
       (pane_states terminals (hm_values (tb_panes t))) (Unknown, True)"

definition tab_has_working_pane :: "(string, terminal) hmap \<Rightarrow> tab \<Rightarrow> bool" where
  "tab_has_working_pane terminals t =
     list_ex (\<lambda>pane. is_some_and (hm_get terminals (pn_terminal pane)) (\<lambda>t. t_state t = Working)) (hm_values (tb_panes t))"

definition has_working_pane :: "(string, terminal) hmap \<Rightarrow> workspace \<Rightarrow> bool" where
  "has_working_pane terminals ws = list_ex (tab_has_working_pane terminals) (ws_tabs ws)"

fun join_with :: "string \<Rightarrow> string list \<Rightarrow> string" where
  "join_with sep [] = ''''"
| "join_with sep [x] = x"
| "join_with sep (x # y # xs) = x @ sep @ join_with sep (y # xs)"

definition activity_summary_for_panes :: "(string, terminal) hmap \<Rightarrow> pane_state list \<Rightarrow> string" where
  "activity_summary_for_panes terminals ps =
     (let states = pane_states terminals ps;
          blocked = length (filter (\<lambda>(st, _). st = Blocked) states);
          working = length (filter (\<lambda>(st, _). st = Working) states);
          completed = length (filter (\<lambda>(st, seen). st = Idle \<and> \<not> seen) states);
          part = (\<lambda>n name. if 0 < n then [map char_of (decimal n) @ name] else [])
      in join_with ('' '' @ [CHR 0xB7] @ '' '')
           (part blocked '' blocked'' @ part working '' working'' @ part completed '' done''))"

definition tab_activity_summary :: "(string, terminal) hmap \<Rightarrow> tab \<Rightarrow> string" where
  "tab_activity_summary terminals t = activity_summary_for_panes terminals (hm_values (tb_panes t))"

definition workspace_activity_summary :: "(string, terminal) hmap \<Rightarrow> workspace \<Rightarrow> string" where
  "workspace_activity_summary terminals ws = activity_summary_for_panes terminals (workspace_panes ws)"

section \<open>Facts\<close>

text \<open>The statuses in the order of the attention they ask for.\<close>

definition status_rank :: "agent_status \<Rightarrow> nat" where
  "status_rank status =
     (case status of StatusUnknown \<Rightarrow> 0 | StatusIdle \<Rightarrow> 1 | StatusWorking \<Rightarrow> 2 | StatusDone \<Rightarrow> 3 | StatusBlocked \<Rightarrow> 4)"

lemma status_rank_priority: "status_rank (pane_agent_status st seen) = pane_attention_priority st seen"
  by (cases st) (simp_all add: status_rank_def pane_agent_status_def pane_attention_priority_def)

lemma status_rank_inj: "status_rank a = status_rank b \<longleftrightarrow> a = b"
  by (cases a; cases b) (simp_all add: status_rank_def)

text \<open>C23: The status of a workspace is the most urgent status of its panes: blocked before done before
  working before idle before unknown. It does not depend on the order in which the maps of
  panes are read.\<close>

theorem aggregate_status_most_urgent:
  "(let statuses = map (\<lambda>(st, seen). pane_agent_status st seen) (pane_states terminals (workspace_panes ws));
        (st, seen) = aggregate_state terminals ws
    in (if statuses = [] then pane_agent_status st seen = StatusUnknown
        else pane_agent_status st seen \<in> set statuses
          \<and> list_all (\<lambda>other. status_rank other \<le> status_rank (pane_agent_status st seen)) statuses))"
proof (cases "pane_states terminals (workspace_panes ws) = []")
  case True
  then show ?thesis by (simp add: aggregate_state_def unwrap_or_def pane_agent_status_def)
next
  case False
  obtain best where best: "max_by_key (\<lambda>(st, seen). pane_attention_priority st seen)
      (pane_states terminals (workspace_panes ws)) = Some best"
    using False by (cases "max_by_key (\<lambda>(st, seen). pane_attention_priority st seen)
      (pane_states terminals (workspace_panes ws))") auto
  then show ?thesis
    using False max_by_key_Some [OF best]
    by (cases best) (auto simp: aggregate_state_def unwrap_or_def status_rank_priority list_all_iff intro: rev_image_eqI)
qed

end
