(* ===== verification/Spec2Isabelle.thy ===== *)
theory Spec2Isabelle
  imports
    Layout_Properties Metadata_Tokens Byte_Trackers Cursor_Trackers Agent_Resume
    Terminal_Redetection Terminal_Display Detection_Properties Public_Ids
    Workspace_Registry App_Steps App_Status
begin

text \<open>
  A verification library for herdr, a terminal workspace manager for coding agents written in
  Rust (the sources are under \<open>src/src/\<close>).

  \<^bold>\<open>The program.\<close> herdr runs shells and coding agents in panes. A workspace arranges its panes
  in a binary split tree (\<open>layout.rs\<close>). Each pane has a terminal whose state
  (\<open>terminal/state.rs\<close>, \<open>terminal/metadata.rs\<close>, \<open>terminal/title.rs\<close>) records which agent runs
  in it and what the agent is doing. That state is arbitrated between two sources: detection,
  which reads the foreground processes (\<open>detect/mod.rs\<close>) and the screen, and the hooks that an
  agent's integration calls. Hooks name the agent's native session, which is remembered so that
  it can be resumed (\<open>agent_resume.rs\<close>). Tokens and display metadata expire
  (\<open>metadata_tokens.rs\<close>, \<open>terminal/metadata.rs\<close>). Trackers follow the pane's byte stream
  (\<open>pane/kitty_keyboard.rs\<close>, \<open>pane/cursor.rs\<close>).

  \<^bold>\<open>The theories.\<close>
  \<^item> Prelude, Std_Map, Std_Strings, F32: words with saturation, \<open>Option\<close>, \<open>Iterator\<close>,
    instants, \<open>HashMap\<close> (locale \<open>hash_map\<close>, provided by association lists with distinct
    keys), \<open>str\<close>, and binary32 numbers as exact multiples of the least positive one.
  \<^item> Layout_Tree models \<open>layout.rs\<close>; Layout_Facts, Layout_Geometry and Layout_Properties prove
    its invariant, the tiling of the screen, and the operations' effects.
  \<^item> Sequence_Gate is the contract of numbered reports (locale \<open>sequence_gate\<close>), provided by
    Metadata_Tokens (\<open>metadata_tokens.rs\<close>) and twice by Terminal_Properties.
  \<^item> Byte_Trackers and Cursor_Trackers model the two trackers; the locale \<open>byte_tracker\<close>
    states that the division of the stream into chunks does not matter.
  \<^item> Detect and Agent_Resume model \<open>detect/mod.rs\<close> and \<open>agent_resume.rs\<close>.
  \<^item> Terminal_Model (data and queries), Terminal_State (fields, arbitration, session identity),
    Terminal_Reports (detection, hooks, release), Terminal_Metadata (display metadata) model
    the terminal. Terminal_Invariants and Terminal_Steps give the step relation over all its
    operations and the invariant of reachable terminals; Terminal_Properties,
    Terminal_Lifecycle, Terminal_Redetection and Terminal_Display prove what it promises.

  \<^item> Agent_Publish (\<open>pane/agent_detection.rs\<close>), Process_Probe and Detection_Task (the state and
    the loop of the two detection tasks of \<open>pane.rs\<close>) model how one pane watches its agent: an
    iteration probes the foreground processes, reads the screen and publishes an update.
    Detection_Invariants and Detection_Properties prove what every run of it keeps and promises.
  \<^item> Workspace_Tab and Workspace model \<open>workspace/tab.rs\<close> and \<open>workspace.rs\<close>, Public_Ids its
    identifiers. Workspace_Invariants proves one lemma per operation, Workspace_Steps gives the
    step relation of a workspace with the panes on their way in or out, Workspace_Properties
    what reachable workspaces promise, and Workspace_Registry that they implement an abstract
    registry of public pane numbers.
  \<^item> Selection models \<open>selection.rs\<close>. App_State (\<open>app/state.rs\<close> and the operations on focus and
    workspaces of \<open>app/actions.rs\<close>), App_Notify (notifications) and App_Events (the handling of
    \<open>AppEvent\<close>s and of deadlines) model the state of the application, which holds the workspaces
    and the terminals. App_Loop is the handling of an event by the application with its toasts,
    popups and overlays, and its deadlines.
  \<^item> App_Ids (\<open>app/ids.rs\<close>: how requests name workspaces, tabs and panes), App_Api
    (\<open>app/api/workspaces.rs\<close>, \<open>tabs.rs\<close>), App_Api_Panes and App_Move (\<open>app/api/panes.rs\<close>),
    App_Reports (the reports of agents with their checks) model the requests of the API that
    change this state. App_Status (\<open>workspace/aggregate.rs\<close>) is the status of tabs and workspaces.
  \<^item> App_Invariants states what holds of the application between two events or requests
    (\<open>app_inv\<close>). App_Focus, App_Structure, App_Closing, App_Panes and App_Requests prove that
    every operation keeps it; App_Names that names made for workspaces, tabs and panes are
    resolved to what they were made for.

  \<^bold>\<open>Modelling decisions.\<close> Structs are records, with field prefixes where two structs share a
  name; enums are datatypes; machine integers are words, \<open>usize\<close> is \<open>nat\<close>. An operation on
  \<open>&mut self\<close> returns the new state; an operation returning \<open>Option\<close> returns the new state
  beside it, so that what a refusal leaves is visible. Every \<open>Instant::now()\<close> is an argument.
  Strings are lists of characters up to U+00FF except terminal titles, which are lists of
  Unicode scalar values. A map's iteration order is the order of its list, and no property
  depends on it. \<open>Rect::new\<close> (ratatui) and \<open>std::fs::canonicalize\<close> are parameters. Paths are
  those of Unix. Arithmetic that overflows wraps, as in a release build; where a panic would
  be reached in a debug build the text says so. All recursions are total: the byte scanner and
  the command text reader have a length measure, and no fuel is used.

  \<^bold>\<open>Not modelled.\<close> The screen manifests (\<open>detect/manifest.rs\<close>), the server, client and protocol, the
  answers and published events of the API, persistence, configuration, user interface, PTY and platform layers, integrations,
  remote and update: they are input and output, serialisation or glue around external
  libraries, or await a later extension. Test-only functions are left out.
\<close>

end
